(* ===== verification/Lance_Prelude.thy ===== *)
theory Lance_Prelude
  imports Main "HOL-Library.Word" "HOL-Library.State_Monad"
begin

text \<open>
  Shared vocabulary of the development: bytes and machine words, little-endian
  encoding (Go's \<^verbatim>\<open>encoding/binary\<close> and Rust's \<^verbatim>\<open>to_le_bytes\<close>), conversion between
  byte slices and strings, decimal and quoted rendering (the \<^verbatim>\<open>%d\<close> and \<^verbatim>\<open>%q\<close> verbs of
  \<^verbatim>\<open>fmt\<close>), the outcome of a call that may panic, and lemmas on lists and words that
  the components use.
\<close>

named_theorems le_simps "little-endian encoding and decoding"

type_synonym byte = "8 word"
type_synonym u32 = "32 word"
type_synonym u64 = "64 word"
type_synonym bytes = "byte list"

section \<open>Calls that may panic\<close>

text \<open>A Go function either returns or panics with a printable value.\<close>

datatype 'a outcome = Ret 'a | Panic string

section \<open>Bytes and strings\<close>

text \<open>Go strings are byte sequences, and HOL characters are bytes, so the conversions
  \<^verbatim>\<open>string(b)\<close> and \<^verbatim>\<open>[]byte(s)\<close> are exact inverses.\<close>

definition string_of_bytes :: "bytes \<Rightarrow> string" where
  "string_of_bytes bs = map (\<lambda>b. char_of (unat b)) bs"

definition bytes_of_string :: "string \<Rightarrow> bytes" where
  "bytes_of_string s = map (\<lambda>c. of_nat (of_char c)) s"

lemma unat_byte_less [simp]: "unat (b :: byte) < 256"
proof -
  have "unat b < 2 ^ LENGTH(8)" by (fact unsigned_less)
  then show ?thesis by simp
qed

lemma unat_u32_less [simp]: "unat (v :: u32) < 4294967296"
proof -
  have "unat v < 2 ^ LENGTH(32)" by (fact unsigned_less)
  then show ?thesis by simp
qed

lemma unat_u64_less [simp]: "unat (v :: u64) < 18446744073709551616"
proof -
  have "unat v < 2 ^ LENGTH(64)" by (fact unsigned_less)
  then show ?thesis by simp
qed

lemma of_char_nat_less [simp]: "(of_char c :: nat) < 256"
  by (fact nat_of_char_less_256)

lemma string_of_bytes_of_string [simp]: "string_of_bytes (bytes_of_string s) = s"
proof -
  have "char_of (unat (of_nat (of_char c) :: byte)) = c" for c
  proof -
    have "unat (of_nat (of_char c) :: byte) = (of_char c :: nat)"
      by (simp add: unat_of_nat)
    then show ?thesis by simp
  qed
  then show ?thesis
    by (simp add: string_of_bytes_def bytes_of_string_def o_def)
qed

lemma bytes_of_string_of_bytes [simp]: "bytes_of_string (string_of_bytes bs) = bs"
  by (simp add: string_of_bytes_def bytes_of_string_def o_def)

lemma length_bytes_of_string [simp]: "length (bytes_of_string s) = length s"
  by (simp add: bytes_of_string_def)

lemma length_string_of_bytes [simp]: "length (string_of_bytes bs) = length bs"
  by (simp add: string_of_bytes_def)

section \<open>Little-endian integers\<close>

fun le_bytes :: "nat \<Rightarrow> nat \<Rightarrow> bytes" where
  "le_bytes 0 n = []"
| "le_bytes (Suc k) n = of_nat (n mod 256) # le_bytes k (n div 256)"

fun le_nat :: "bytes \<Rightarrow> nat" where
  "le_nat [] = 0"
| "le_nat (b # bs) = unat b + 256 * le_nat bs"

lemma length_le_bytes [simp, le_simps]: "length (le_bytes k n) = k"
  by (induction k arbitrary: n) auto

lemma le_nat_le_bytes [le_simps]: "le_nat (le_bytes k n) = n mod 256 ^ k"
proof (induction k arbitrary: n)
  case 0
  show ?case by simp
next
  case (Suc k)
  have "unat (of_nat (n mod 256) :: byte) = n mod 256"
    by (simp add: unat_of_nat)
  with Suc show ?case
    by (simp add: mod_mult2_eq)
qed

text \<open>\<^verbatim>\<open>binary.LittleEndian.Uint32\<close> and \<^verbatim>\<open>Uint64\<close> read the first four or eight bytes;
  \<^verbatim>\<open>put_u32\<close> and \<^verbatim>\<open>put_u64\<close> are the writers of both languages.\<close>

definition get_u32 :: "bytes \<Rightarrow> u32" where
  "get_u32 bs = of_nat (le_nat (take 4 bs))"

definition get_u64 :: "bytes \<Rightarrow> u64" where
  "get_u64 bs = of_nat (le_nat (take 8 bs))"

definition put_u32 :: "u32 \<Rightarrow> bytes" where
  "put_u32 v = le_bytes 4 (unat v)"

definition put_u64 :: "u64 \<Rightarrow> bytes" where
  "put_u64 v = le_bytes 8 (unat v)"

lemma length_put_u32 [simp]: "length (put_u32 v) = 4"
  by (simp add: put_u32_def)

lemma length_put_u64 [simp]: "length (put_u64 v) = 8"
  by (simp add: put_u64_def)

lemma get_put_u32 [simp, le_simps]: "get_u32 (put_u32 v @ rest) = v"
proof -
  have "unat v < 256 ^ 4" by simp
  then show ?thesis
    by (simp add: get_u32_def put_u32_def le_nat_le_bytes del: le_bytes.simps)
qed

lemma get_put_u64 [simp, le_simps]: "get_u64 (put_u64 v @ rest) = v"
proof -
  have "unat v < 256 ^ 8" by simp
  then show ?thesis
    by (simp add: get_u64_def put_u64_def le_nat_le_bytes del: le_bytes.simps)
qed

section \<open>Rendering numbers and quoted strings\<close>

fun dec_nat :: "nat \<Rightarrow> string" where
  "dec_nat n = (if n < 10 then [char_of (48 + n)] else dec_nat (n div 10) @ [char_of (48 + n mod 10)])"

declare dec_nat.simps [simp del]

definition dec_int :: "int \<Rightarrow> string" where
  "dec_int i = (if i < 0 then ''-'' @ dec_nat (nat (- i)) else dec_nat (nat i))"

definition hex_digit :: "nat \<Rightarrow> char" where
  "hex_digit n = (if n < 10 then char_of (48 + n) else char_of (87 + n))"

text \<open>\<^verbatim>\<open>strconv.Quote\<close> on the ASCII range; bytes from 128 up are copied, as it does for
  the bytes of a printable UTF-8 rune.\<close>

definition quote_char :: "char \<Rightarrow> string" where
  "quote_char c =
     (let n = (of_char c :: nat); bs = CHR 0x5C in
      if n = 7 then [bs, CHR ''a''] else if n = 8 then [bs, CHR ''b'']
      else if n = 12 then [bs, CHR ''f''] else if n = 10 then [bs, CHR ''n'']
      else if n = 13 then [bs, CHR ''r''] else if n = 9 then [bs, CHR ''t'']
      else if n = 11 then [bs, CHR ''v''] else if n = 34 \<or> n = 92 then [bs, c]
      else if n < 32 \<or> n = 127 then [bs, CHR ''x'', hex_digit (n div 16), hex_digit (n mod 16)]
      else [c])"

definition go_quote :: "string \<Rightarrow> string" where
  "go_quote s = [CHR 0x22] @ concat (map quote_char s) @ [CHR 0x22]"

section \<open>Lists\<close>

lemma take_append_exact [simp]: "n = length xs \<Longrightarrow> take n (xs @ ys) = xs"
  by simp

lemma drop_append_exact [simp]: "n = length xs \<Longrightarrow> drop n (xs @ ys) = ys"
  by simp

lemma remove1_append_self: "x \<notin> set xs \<Longrightarrow> remove1 x (xs @ [x]) = xs"
  by (simp add: remove1_append)

end
