(* ===== verification/Lance_Errors.thy ===== *)
theory Lance_Errors
  imports Lance_Prelude
begin

text \<open>
  The error values of the package (\<^verbatim>\<open>lance/errors.go\<close>): the sentinel errors, the map from
  native error codes to sentinels, and Go's wrapped errors. An error built by
  \<^verbatim>\<open>fmt.Errorf\<close> is kept as the pieces of its format string around the error that \<^verbatim>\<open>%w\<close>
  wraps, so both the text (\<^verbatim>\<open>Error()\<close>) and the chain that \<^verbatim>\<open>errors.Is\<close> walks are exact.
\<close>

section \<open>Sentinels and Go errors\<close>

datatype sentinel =
    ErrInvalidArgument | ErrIO | ErrNotFound | ErrAlreadyExists | ErrIndex | ErrInternal
  | ErrNotImplemented | ErrConflict | ErrTimeout | ErrReentrantCall | ErrCanceled

fun sentinel_text :: "sentinel \<Rightarrow> string" where
  "sentinel_text ErrInvalidArgument = ''invalid argument''"
| "sentinel_text ErrIO = ''io error''"
| "sentinel_text ErrNotFound = ''not found''"
| "sentinel_text ErrAlreadyExists = ''already exists''"
| "sentinel_text ErrIndex = ''index error''"
| "sentinel_text ErrInternal = ''internal error''"
| "sentinel_text ErrNotImplemented = ''not implemented''"
| "sentinel_text ErrConflict = ''conflict''"
| "sentinel_text ErrTimeout = ''timeout''"
| "sentinel_text ErrReentrantCall = ''reentrant call from within a callback''"
| "sentinel_text ErrCanceled = ''operation canceled''"

text \<open>The two errors of Go's \<^verbatim>\<open>context\<close> package.\<close>

datatype ctxerr = Canceled | DeadlineExceeded

text \<open>The error values that are compared by identity with \<^verbatim>\<open>errors.Is\<close>: the sentinels,
  the context errors, the plugin-miss marker of \<^verbatim>\<open>callbacks.go\<close> and \<^verbatim>\<open>io.EOF\<close>.\<close>

datatype errleaf = SentinelErr sentinel | ContextErr ctxerr | PluginMiss | IoEOF

fun leaf_text :: "errleaf \<Rightarrow> string" where
  "leaf_text (SentinelErr s) = sentinel_text s"
| "leaf_text (ContextErr Canceled) = ''context canceled''"
| "leaf_text (ContextErr DeadlineExceeded) = ''context deadline exceeded''"
| "leaf_text PluginMiss = ''lance: plugin miss''"
| "leaf_text IoEOF = ''EOF''"

text \<open>A piece of a formatted message: literal text of the format string, or a value put
  in by \<^verbatim>\<open>%s\<close>, \<^verbatim>\<open>%q\<close> or \<^verbatim>\<open>%d\<close>.\<close>

datatype piece = Lit string | Str string | Quo string | Dec int

fun piece_text :: "piece \<Rightarrow> string" where
  "piece_text (Lit s) = s"
| "piece_text (Str s) = s"
| "piece_text (Quo s) = go_quote s"
| "piece_text (Dec i) = dec_int i"

text \<open>\<^verbatim>\<open>Foreign\<close> is an error made by code outside the package (a JSON decoder, the Arrow
  importer); \<^verbatim>\<open>Errorf\<close> wraps nothing, \<^verbatim>\<open>Wrapf\<close> wraps the error between its pieces.\<close>

datatype goerr =
    Leaf errleaf
  | Foreign string
  | Errorf "piece list"
  | Wrapf "piece list" goerr "piece list"

fun err_pieces :: "goerr \<Rightarrow> piece list" where
  "err_pieces (Leaf l) = [Str (leaf_text l)]"
| "err_pieces (Foreign s) = [Str s]"
| "err_pieces (Errorf ps) = ps"
| "err_pieces (Wrapf ps e qs) = ps @ err_pieces e @ qs"

text \<open>\<^verbatim>\<open>err.Error()\<close>.\<close>

definition err_text :: "goerr \<Rightarrow> string" where
  "err_text e = concat (map piece_text (err_pieces e))"

text \<open>\<^verbatim>\<open>errors.Is\<close>: walk the chain of wrapped errors.\<close>

fun errors_is :: "goerr \<Rightarrow> errleaf \<Rightarrow> bool" where
  "errors_is (Leaf l') l = (l' = l)"
| "errors_is (Foreign s) l = False"
| "errors_is (Errorf ps) l = False"
| "errors_is (Wrapf ps e qs) l = errors_is e l"

abbreviation sentinel_err :: "sentinel \<Rightarrow> goerr" where
  "sentinel_err s \<equiv> Leaf (SentinelErr s)"

abbreviation ctx_error :: "ctxerr \<Rightarrow> goerr" where
  "ctx_error c \<equiv> Leaf (ContextErr c)"

text \<open>The wrap layer counts: how often the package prefix occurs in a message.\<close>

definition is_prefix_piece :: "piece \<Rightarrow> bool" where
  "is_prefix_piece p = (case p of Lit s \<Rightarrow> take 7 s = ''lance: '' | _ \<Rightarrow> False)"

definition lance_prefixes :: "goerr \<Rightarrow> nat" where
  "lance_prefixes e = length (filter is_prefix_piece (err_pieces e))"

lemma lance_prefixes_Leaf [simp]: "lance_prefixes (Leaf l) = 0"
  by (simp add: lance_prefixes_def is_prefix_piece_def)

lemma lance_prefixes_Foreign [simp]: "lance_prefixes (Foreign s) = 0"
  by (simp add: lance_prefixes_def is_prefix_piece_def)

lemma lance_prefixes_Errorf [simp]:
  "lance_prefixes (Errorf ps) = length (filter is_prefix_piece ps)"
  by (simp add: lance_prefixes_def)

lemma lance_prefixes_Wrapf [simp]:
  "lance_prefixes (Wrapf ps e qs) =
     length (filter is_prefix_piece ps) + lance_prefixes e + length (filter is_prefix_piece qs)"
  by (simp add: lance_prefixes_def)

lemma is_prefix_piece_simps [simp]:
  "\<not> is_prefix_piece (Str s)" "\<not> is_prefix_piece (Quo s)" "\<not> is_prefix_piece (Dec i)"
  "is_prefix_piece (Lit s) = (take 7 s = ''lance: '')"
  by (simp_all add: is_prefix_piece_def)

lemma errors_is_unique: "errors_is e l \<Longrightarrow> errors_is e l' \<Longrightarrow> l = l'"
  by (induction e) auto

section \<open>Native error codes\<close>

text \<open>The \<^verbatim>\<open>ErrorCode\<close> enum of the native library, as \<^verbatim>\<open>include/lance_go.h\<close> numbers it.\<close>

definition ERROR_CODE_OK :: int where "ERROR_CODE_OK = 0"
definition ERROR_CODE_INVALID_ARGUMENT :: int where "ERROR_CODE_INVALID_ARGUMENT = 1"
definition ERROR_CODE_IO :: int where "ERROR_CODE_IO = 2"
definition ERROR_CODE_NOT_FOUND :: int where "ERROR_CODE_NOT_FOUND = 3"
definition ERROR_CODE_ALREADY_EXISTS :: int where "ERROR_CODE_ALREADY_EXISTS = 4"
definition ERROR_CODE_INDEX :: int where "ERROR_CODE_INDEX = 5"
definition ERROR_CODE_INTERNAL :: int where "ERROR_CODE_INTERNAL = 6"
definition ERROR_CODE_NOT_IMPLEMENTED :: int where "ERROR_CODE_NOT_IMPLEMENTED = 7"
definition ERROR_CODE_CONFLICT :: int where "ERROR_CODE_CONFLICT = 8"
definition ERROR_CODE_TIMEOUT :: int where "ERROR_CODE_TIMEOUT = 9"
definition ERROR_CODE_CANCELLED :: int where "ERROR_CODE_CANCELLED = 10"

lemmas error_code_defs =
  ERROR_CODE_OK_def ERROR_CODE_INVALID_ARGUMENT_def ERROR_CODE_IO_def ERROR_CODE_NOT_FOUND_def
  ERROR_CODE_ALREADY_EXISTS_def ERROR_CODE_INDEX_def ERROR_CODE_INTERNAL_def
  ERROR_CODE_NOT_IMPLEMENTED_def ERROR_CODE_CONFLICT_def ERROR_CODE_TIMEOUT_def
  ERROR_CODE_CANCELLED_def

definition codeToSentinel :: "int \<Rightarrow> sentinel" where
  "codeToSentinel code =
     (if code = ERROR_CODE_INVALID_ARGUMENT then ErrInvalidArgument
      else if code = ERROR_CODE_IO then ErrIO
      else if code = ERROR_CODE_NOT_FOUND then ErrNotFound
      else if code = ERROR_CODE_ALREADY_EXISTS then ErrAlreadyExists
      else if code = ERROR_CODE_INDEX then ErrIndex
      else if code = ERROR_CODE_NOT_IMPLEMENTED then ErrNotImplemented
      else if code = ERROR_CODE_CONFLICT then ErrConflict
      else if code = ERROR_CODE_TIMEOUT then ErrTimeout
      else if code = ERROR_CODE_CANCELLED then ErrCanceled
      else ErrInternal)"

end
