(* ===== verification/Lance_Callbacks.thy ===== *)
theory Lance_Callbacks
  imports Lance_Errors
begin

text \<open>
  The Go side of the callback bridge (\<^verbatim>\<open>lance/callbacks.go\<close>, \<^verbatim>\<open>lance/cbytes.go\<close>): the plugin
  registry, a map from handles to plugins with a counter that only grows, and the two
  functions that the native library calls through the vtable, \<^verbatim>\<open>go_callback_invoke\<close> and
  \<^verbatim>\<open>go_handle_release\<close>. A plugin is a value of an arbitrary type \<^verbatim>\<open>'p\<close>; its \<^verbatim>\<open>Invoke\<close> method
  is a parameter that may change a state \<^verbatim>\<open>'s\<close>, return an error, or panic.
\<close>

section \<open>The plugin registry\<close>

text \<open>Handles are \<^verbatim>\<open>uintptr\<close>, 64 bits wide on the supported platforms.\<close>

record 'p registry =
  reg_map :: "u64 \<Rightarrow> 'p option"
  reg_next :: u64

definition pluginRegistry :: "'p registry" where
  "pluginRegistry = \<lparr>reg_map = (\<lambda>_. None), reg_next = 0\<rparr>"

text \<open>The critical section of \<^verbatim>\<open>registerPlugin\<close>, and the function with its nil check.\<close>

definition register_locked :: "'p \<Rightarrow> 'p registry \<Rightarrow> u64 \<times> 'p registry" where
  "register_locked p r =
     (let h = reg_next r + 1
      in (h, r\<lparr>reg_next := h, reg_map := (reg_map r)(h \<mapsto> p)\<rparr>))"

definition registerPlugin :: "'p option \<Rightarrow> 'p registry \<Rightarrow> (u64 \<times> 'p registry) outcome" where
  "registerPlugin p r =
     (case p of None \<Rightarrow> Panic ''lance: registerPlugin called with a nil plugin''
      | Some q \<Rightarrow> Ret (register_locked q r))"

definition releasePlugin :: "u64 \<Rightarrow> 'p registry \<Rightarrow> 'p registry" where
  "releasePlugin h r = r\<lparr>reg_map := (reg_map r)(h := None)\<rparr>"

definition lookupPlugin :: "u64 \<Rightarrow> 'p registry \<Rightarrow> 'p option" where
  "lookupPlugin h r = reg_map r h"

section \<open>Copying native buffers\<close>

text \<open>A native buffer pointer is NULL or addresses readable memory; \<^verbatim>\<open>unsafe.Slice\<close> reads
  the first \<^verbatim>\<open>n\<close> bytes of it.\<close>

definition maxInt :: u64 where
  "maxInt = 9223372036854775807"

definition copyCBytes :: "bytes option \<Rightarrow> u64 \<Rightarrow> goerr + bytes option" where
  "copyCBytes ptr n =
     (if n = 0 then Inr None
      else if n > maxInt then
        Inl (Wrapf [Lit ''lance: native byte buffer length '', Dec (uint n),
                    Lit '' exceeds the Go address space: ''] (sentinel_err ErrInternal) [])
      else (case ptr of
              None \<Rightarrow> Inl (Wrapf [Lit ''lance: native byte buffer is NULL with length '', Dec (uint n),
                                  Lit '': ''] (sentinel_err ErrInternal) [])
            | Some mem \<Rightarrow> Inr (Some (take (unat n) mem))))"

section \<open>The vtable entry points\<close>

definition LANCE_GO_CALL_OK :: int where "LANCE_GO_CALL_OK = 0"
definition LANCE_GO_CALL_ERROR :: int where "LANCE_GO_CALL_ERROR = 1"
definition LANCE_GO_CALL_MISS :: int where "LANCE_GO_CALL_MISS = 2"

lemmas call_code_defs = LANCE_GO_CALL_OK_def LANCE_GO_CALL_ERROR_def LANCE_GO_CALL_MISS_def

text \<open>The two out parameters: whether each pointer is non-NULL, and the cells they
  address (a C-allocated buffer or NULL, and its length).\<close>

record out_params =
  outPtr_ok :: bool
  outLen_ok :: bool
  out_buf :: "bytes option"
  out_len :: u64

definition setCallbackOut :: "out_params \<Rightarrow> bytes \<Rightarrow> out_params" where
  "setCallbackOut out msg =
     (if \<not> outPtr_ok out \<or> \<not> outLen_ok out \<or> length msg = 0 then out
      else out\<lparr>out_buf := Some msg, out_len := of_nat (length msg)\<rparr>)"

text \<open>What a plugin's \<^verbatim>\<open>Invoke(method, payload)\<close> does: the payload is nil for an empty
  input, and the call returns \<^verbatim>\<open>(out, err)\<close> or panics.\<close>

type_synonym ('p, 's) invoke =
  "'p \<Rightarrow> int \<Rightarrow> bytes option \<Rightarrow> 's \<Rightarrow> (goerr + bytes option) outcome \<times> 's"

text \<open>A nil slice reads as an empty one.\<close>

fun nil_bytes :: "bytes option \<Rightarrow> bytes" where
  "nil_bytes None = []"
| "nil_bytes (Some b) = b"

definition err_bytes :: "goerr \<Rightarrow> bytes" where
  "err_bytes e = bytes_of_string (err_text e)"

definition go_callback_invoke ::
  "('p, 's) invoke \<Rightarrow> 'p registry \<Rightarrow> u64 \<Rightarrow> int \<Rightarrow> bytes option \<Rightarrow> u64 \<Rightarrow> out_params \<Rightarrow> 's
     \<Rightarrow> int \<times> out_params \<times> 's" where
  "go_callback_invoke invk r handle method inPtr inLen out s =
     (if \<not> outPtr_ok out \<or> \<not> outLen_ok out then (LANCE_GO_CALL_ERROR, out, s)
      else let out0 = out\<lparr>out_buf := None, out_len := 0\<rparr> in
      case lookupPlugin handle r of
        None \<Rightarrow>
          (LANCE_GO_CALL_ERROR,
           setCallbackOut out0 (bytes_of_string
             (''lance-go: no plugin registered for handle '' @ dec_int (uint handle))), s)
      | Some p \<Rightarrow>
          (case (if inLen > 0 then copyCBytes inPtr inLen else Inr None) of
             Inl e \<Rightarrow> (LANCE_GO_CALL_ERROR, setCallbackOut out0 (err_bytes e), s)
           | Inr payload \<Rightarrow>
               (case invk p method payload s of
                  (Panic v, s') \<Rightarrow>
                    (LANCE_GO_CALL_ERROR,
                     setCallbackOut out0 (bytes_of_string (''lance-go: plugin panic: '' @ v)), s')
                | (Ret (Inl e), s') \<Rightarrow>
                    (if errors_is e PluginMiss then (LANCE_GO_CALL_MISS, out0, s')
                     else (LANCE_GO_CALL_ERROR, setCallbackOut out0 (err_bytes e), s'))
                | (Ret (Inr res), s') \<Rightarrow>
                    (LANCE_GO_CALL_OK, setCallbackOut out0 (nil_bytes res), s'))))"

definition go_handle_release :: "u64 \<Rightarrow> 'p registry \<Rightarrow> 'p registry" where
  "go_handle_release handle r = releasePlugin handle r"

section \<open>Registry laws\<close>

text \<open>What the callers of the registry rely on, and what follows for them. The laws hold
  while the counter has not run through all \<^verbatim>\<open>2^64\<close> values.\<close>

locale plugin_store =
  fixes register :: "'p \<Rightarrow> 'r \<Rightarrow> 'h \<times> 'r"
    and release :: "'h \<Rightarrow> 'r \<Rightarrow> 'r"
    and lookup :: "'h \<Rightarrow> 'r \<Rightarrow> 'p option"
    and invar :: "'r \<Rightarrow> bool"
    and room :: "'r \<Rightarrow> bool"
  assumes register_lookup:
      "invar r \<Longrightarrow> room r \<Longrightarrow> lookup k (snd (register p r)) = (if k = fst (register p r) then Some p else lookup k r)"
    and register_fresh: "invar r \<Longrightarrow> room r \<Longrightarrow> lookup (fst (register p r)) r = None"
    and release_lookup: "lookup k (release h r) = (if k = h then None else lookup k r)"
    and register_invar: "invar r \<Longrightarrow> room r \<Longrightarrow> invar (snd (register p r))"
    and release_invar: "invar r \<Longrightarrow> invar (release h r)"
begin

lemma register_keeps: "invar r \<Longrightarrow> room r \<Longrightarrow> lookup k r = Some q \<Longrightarrow> lookup k (snd (register p r)) = Some q"
  using register_fresh [of r p] by (auto simp: register_lookup)

text \<open>A registration that is released when its operation ends leaves every lookup as it
  was (the pattern \<^verbatim>\<open>h := registerPlugin(p); defer releasePlugin(h)\<close>).\<close>

lemma scoped_registration:
  "invar r \<Longrightarrow> room r \<Longrightarrow> lookup k (release (fst (register p r)) (snd (register p r))) = lookup k r"
  using register_fresh [of r p] by (auto simp: release_lookup register_lookup)

lemma release_idem: "lookup k (release h (release h r)) = lookup k (release h r)"
  by (simp add: release_lookup)

end

definition registry_inv :: "'p registry \<Rightarrow> bool" where
  "registry_inv r = (\<forall>h. reg_map r h \<noteq> None \<longrightarrow> 0 < h \<and> h \<le> reg_next r)"

definition registry_room :: "'p registry \<Rightarrow> bool" where
  "registry_room r = (unat (reg_next r) < 18446744073709551615)"

lemma next_handle_gt: "unat n < 18446744073709551615 \<Longrightarrow> (n :: u64) < n + 1"
  by (simp add: word_less_nat_alt unat_plus_if')

lemma registry_inv_fresh: "registry_inv r \<Longrightarrow> registry_room r \<Longrightarrow> reg_map r (reg_next r + 1) = None"
proof (rule ccontr)
  assume inv: "registry_inv r" and room: "registry_room r"
    and live: "reg_map r (reg_next r + 1) \<noteq> None"
  from inv live have "reg_next r + 1 \<le> reg_next r"
    by (simp add: registry_inv_def)
  with next_handle_gt [of "reg_next r"] room show False
    by (simp add: registry_room_def)
qed

lemma registry_inv_register:
  assumes "registry_inv r" and "registry_room r"
  shows "registry_inv (snd (register_locked p r))"
proof -
  have gt: "reg_next r < reg_next r + 1"
    using assms(2) by (simp add: registry_room_def next_handle_gt)
  then have pos: "0 < reg_next r + 1"
    by (rule le_less_trans [rotated]) simp
  have "0 < h \<and> h \<le> reg_next r + 1" if "reg_map r h \<noteq> None" for h
    using that assms(1) gt by (auto simp: registry_inv_def)
  with pos show ?thesis
    by (auto simp: registry_inv_def register_locked_def Let_def)
qed

interpretation reg: plugin_store register_locked releasePlugin lookupPlugin registry_inv registry_room
proof unfold_locales
  fix r :: "'a registry" and k p h
  show "lookupPlugin k (releasePlugin h r) = (if k = h then None else lookupPlugin k r)"
    by (simp add: lookupPlugin_def releasePlugin_def)
  show "registry_inv r \<Longrightarrow> registry_inv (releasePlugin h r)"
    by (auto simp: registry_inv_def releasePlugin_def)
  assume inv: "registry_inv r" and room: "registry_room r"
  show "lookupPlugin k (snd (register_locked p r)) =
      (if k = fst (register_locked p r) then Some p else lookupPlugin k r)"
    by (simp add: lookupPlugin_def register_locked_def Let_def)
  show "lookupPlugin (fst (register_locked p r)) r = None"
    using registry_inv_fresh [OF inv room] by (simp add: lookupPlugin_def register_locked_def Let_def)
  show "registry_inv (snd (register_locked p r))"
    using inv room by (rule registry_inv_register)
qed

section \<open>Runs of the registry\<close>

text \<open>A history of the registry: registrations and releases in the order in which their
  critical sections run. \<^verbatim>\<open>reg_run\<close> collects the handles issued.\<close>

datatype 'p reg_event = Register 'p | Release u64

fun reg_run :: "'p reg_event list \<Rightarrow> 'p registry \<Rightarrow> u64 list \<times> 'p registry" where
  "reg_run [] r = ([], r)"
| "reg_run (Register p # es) r =
     (let (h, r1) = register_locked p r; (hs, r2) = reg_run es r1 in (h # hs, r2))"
| "reg_run (Release h # es) r = reg_run es (releasePlugin h r)"

fun registrations :: "'p reg_event list \<Rightarrow> nat" where
  "registrations [] = 0"
| "registrations (Register p # es) = Suc (registrations es)"
| "registrations (Release h # es) = registrations es"

lemma reg_run_handles:
  "fst (reg_run es r) = map (\<lambda>i. reg_next r + of_nat (Suc i)) [0..<registrations es]"
proof (induction es r rule: reg_run.induct)
  case (2 p es r)
  have step: "reg_next (snd (register_locked p r)) = reg_next r + 1"
    by (simp add: register_locked_def Let_def)
  have shift: "[0..<Suc n] = 0 # map Suc [0..<n]" for n
    by (simp add: upt_conv_Cons map_Suc_upt del: upt_Suc)
  show ?case
    using "2.IH" [OF refl, of "fst (register_locked p r)" "snd (register_locked p r)"]
    by (simp add: split_beta shift step o_def add.assoc register_locked_def Let_def del: upt_Suc)
qed (simp_all add: releasePlugin_def)

lemma setCallbackOut_ok:
  "outPtr_ok out \<Longrightarrow> outLen_ok out \<Longrightarrow> out_buf out = None \<Longrightarrow> out_len out = 0 \<Longrightarrow>
     nil_bytes (out_buf (setCallbackOut out msg)) = msg \<and>
     out_len (setCallbackOut out msg) = of_nat (length msg)"
  by (auto simp: setCallbackOut_def)

lemma copyCBytes_Inr:
  "copyCBytes ptr n = Inr pl \<Longrightarrow> n \<noteq> 0 \<Longrightarrow> \<exists>mem. ptr = Some mem \<and> pl = Some (take (unat n) mem)"
  by (auto simp: copyCBytes_def split: if_splits option.splits)

lemma unat_of_nat_Suc_u64: "i < n \<Longrightarrow> n < 2 ^ 64 \<Longrightarrow> unat (of_nat (Suc i) :: u64) = Suc i"
  by (simp add: unat_of_nat del: of_nat_Suc)

section \<open>Properties\<close>

text \<open>C17: handles are never reused and 0 is never issued. Over any history of registrations
  and releases that starts from the initial registry and registers fewer than \<^verbatim>\<open>2^64\<close>
  plugins, the handles issued are \<^verbatim>\<open>1, 2, 3, ...\<close> in order, so they are pairwise distinct and
  non-zero, whatever was released in between.\<close>

theorem handles_never_reused:
  assumes "registrations es < 2 ^ 64"
  shows "fst (reg_run es pluginRegistry) = map (\<lambda>i. of_nat (Suc i)) [0..<registrations es] \<and>
         distinct (fst (reg_run es pluginRegistry)) \<and> 0 \<notin> set (fst (reg_run es pluginRegistry))"
proof -
  have hs: "fst (reg_run es pluginRegistry) = map (\<lambda>i. of_nat (Suc i)) [0..<registrations es]"
    by (simp add: reg_run_handles pluginRegistry_def)
  note uS = unat_of_nat_Suc_u64 [OF _ assms]
  have "inj_on (\<lambda>i. of_nat (Suc i) :: u64) {0..<registrations es}"
    by (rule inj_onI) (metis atLeastLessThan_iff uS nat.inject)
  then have d: "distinct (map (\<lambda>i. of_nat (Suc i) :: u64) [0..<registrations es])"
    by (simp add: distinct_map del: of_nat_Suc)
  have "of_nat (Suc i) \<noteq> (0 :: u64)" if "i < registrations es" for i
    using uS [OF that] by (metis nat.distinct(1) unsigned_0)
  then have "0 \<notin> set (map (\<lambda>i. of_nat (Suc i) :: u64) [0..<registrations es])"
    by (auto simp del: of_nat_Suc)
  with hs d show ?thesis by simp
qed

theorem handles_never_reused_witness:
  "fst (reg_run [Register True, Release 1, Register False] pluginRegistry) = [1, 2]"
proof -
  have "registrations [Register True, Release 1, Register False] < 2 ^ 64" by simp
  from handles_never_reused [OF this] show ?thesis
    by (simp add: upt_rec)
qed

text \<open>A registration that an operation releases when it ends leaves the registry's
  lookups as they were, and until then it is visible under its handle while every other
  registration stays reachable.\<close>

theorem scoped_plugin_registration:
  assumes "registry_inv r" and "registry_room r" and "register_locked p r = (h, r1)"
  shows "lookupPlugin h r1 = Some p \<and>
         (\<forall>k q. lookupPlugin k r = Some q \<longrightarrow> lookupPlugin k r1 = Some q) \<and>
         (\<forall>k. lookupPlugin k (releasePlugin h r1) = lookupPlugin k r)"
  using reg.register_lookup [OF assms(1,2), of h p] reg.register_keeps [OF assms(1,2), of _ _ p]
    reg.scoped_registration [OF assms(1,2), of _ p] assms(3)
  by simp

theorem scoped_plugin_registration_witness:
  "lookupPlugin 7 (releasePlugin 1 (snd (register_locked True pluginRegistry))) =
     lookupPlugin 7 pluginRegistry"
proof -
  have inv: "registry_inv (pluginRegistry :: bool registry)"
    by (simp add: registry_inv_def pluginRegistry_def)
  have room: "registry_room (pluginRegistry :: bool registry)"
    by (simp add: registry_room_def pluginRegistry_def)
  have run: "register_locked True pluginRegistry = (1, snd (register_locked True pluginRegistry))"
    by (simp add: register_locked_def pluginRegistry_def Let_def)
  show ?thesis using scoped_plugin_registration [OF inv room run] by blast
qed

text \<open>C18: the callback shim contains every failure and its outputs are well formed. For
  every plugin (also one that panics), handle, input and output pointers, the return
  code is one of the three call codes; a miss returns no buffer; and the success code
  is returned only if a registered plugin was invoked and returned without error, in
  which case it saw a copy of exactly the input bytes, and the buffer and its length
  are exactly what it returned.\<close>

theorem callback_contained:
  assumes "go_callback_invoke invk r h m inPtr inLen out s = (rc, out', s')"
  shows "rc \<in> {LANCE_GO_CALL_OK, LANCE_GO_CALL_ERROR, LANCE_GO_CALL_MISS} \<and>
         (rc = LANCE_GO_CALL_MISS \<longrightarrow> out_buf out' = None \<and> out_len out' = 0) \<and>
         (rc = LANCE_GO_CALL_OK \<longrightarrow>
           (\<exists>p pl res. lookupPlugin h r = Some p \<and> invk p m pl s = (Ret (Inr res), s') \<and>
             (inLen = 0 \<and> pl = None \<or> (\<exists>mem. inPtr = Some mem \<and> pl = Some (take (unat inLen) mem))) \<and>
             nil_bytes (out_buf out') = nil_bytes res \<and>
             out_len out' = of_nat (length (nil_bytes res))))"
  using assms
  by (auto simp: go_callback_invoke_def call_code_defs Let_def setCallbackOut_ok word_greater_zero_iff
      dest: copyCBytes_Inr split: if_splits option.splits sum.splits outcome.splits prod.splits)
    blast

definition echo_plugin :: "(bool, nat) invoke" where
  "echo_plugin p m pl s = (if m = 0 then (Ret (Inr pl), Suc s) else (Panic ''boom'', s))"

theorem callback_contained_witness:
  "\<exists>out'. go_callback_invoke echo_plugin (snd (register_locked True pluginRegistry)) 1 0
      (Some [1, 2, 3]) 3 \<lparr>outPtr_ok = True, outLen_ok = True, out_buf = None, out_len = 0\<rparr> (0 :: nat)
      = (LANCE_GO_CALL_OK, out', 1) \<and> nil_bytes (out_buf out') = [1, 2, 3]"
proof -
  let ?r = "snd (register_locked True pluginRegistry)"
  let ?out = "\<lparr>outPtr_ok = True, outLen_ok = True, out_buf = None, out_len = 0\<rparr>"
  obtain rc out' s' where run:
      "go_callback_invoke echo_plugin ?r 1 0 (Some [1, 2, 3]) 3 ?out (0 :: nat) = (rc, out', s')"
    by (metis surj_pair)
  then have rc: "rc = LANCE_GO_CALL_OK" and s': "s' = 1" and
      out': "nil_bytes (out_buf out') = [1, 2, 3]"
    by (auto simp: go_callback_invoke_def register_locked_def pluginRegistry_def lookupPlugin_def
        copyCBytes_def maxInt_def echo_plugin_def setCallbackOut_def Let_def)
  from callback_contained [OF run] rc have "rc \<in> {LANCE_GO_CALL_OK, LANCE_GO_CALL_ERROR, LANCE_GO_CALL_MISS}"
    by blast
  with run rc s' out' show ?thesis by blast
qed

text \<open>Once a handle is released, a native call that races the release with the stale
  handle fails cleanly: it reports an error, no plugin code runs (the plugin state is
  unchanged), and other handles are unaffected.\<close>

theorem stale_handle_rejected:
  assumes "outPtr_ok out" and "outLen_ok out"
  shows "\<exists>msg. go_callback_invoke invk (go_handle_release h r) h m inPtr inLen out s =
           (LANCE_GO_CALL_ERROR, out\<lparr>out_buf := Some msg, out_len := of_nat (length msg)\<rparr>, s) \<and> msg \<noteq> [] \<and>
         (\<forall>k. k \<noteq> h \<longrightarrow> go_callback_invoke invk (go_handle_release h r) k m inPtr inLen out s =
                        go_callback_invoke invk r k m inPtr inLen out s)"
proof -
  let ?msg = "bytes_of_string (''lance-go: no plugin registered for handle '' @ dec_int (uint h))"
  have "go_callback_invoke invk (go_handle_release h r) h m inPtr inLen out s =
      (LANCE_GO_CALL_ERROR, out\<lparr>out_buf := Some ?msg, out_len := of_nat (length ?msg)\<rparr>, s)"
    using assms by (simp add: go_callback_invoke_def go_handle_release_def lookupPlugin_def
        releasePlugin_def setCallbackOut_def Let_def)
  moreover have "?msg \<noteq> []"
    by (simp add: bytes_of_string_def)
  moreover have "\<forall>k. k \<noteq> h \<longrightarrow> go_callback_invoke invk (go_handle_release h r) k m inPtr inLen out s =
      go_callback_invoke invk r k m inPtr inLen out s"
    by (simp add: go_callback_invoke_def go_handle_release_def lookupPlugin_def releasePlugin_def)
  ultimately show ?thesis by blast
qed

theorem stale_handle_rejected_witness:
  "\<exists>out'. go_callback_invoke echo_plugin (go_handle_release 1 (snd (register_locked True pluginRegistry))) 1 0
      None 0 \<lparr>outPtr_ok = True, outLen_ok = True, out_buf = None, out_len = 0\<rparr> (5 :: nat)
      = (LANCE_GO_CALL_ERROR, out', 5)"
  using stale_handle_rejected [of "\<lparr>outPtr_ok = True, outLen_ok = True, out_buf = None, out_len = 0\<rparr>"
      echo_plugin 1 "snd (register_locked True pluginRegistry)" 0 None 0 5]
  by auto

end
