(* ===== verification/Lance_World.thy ===== *)
theory Lance_World
  imports Lance_Callbacks
begin

text \<open>
  The state that the bindings act on and the primitive effects of the Go code, as a state
  monad. Besides the native library's own state (a parameter \<^verbatim>\<open>'n\<close>) the world records what
  the bindings must give back: pinned OS threads, cancel tokens and the thread's token
  slot, C allocations, Arrow structures exported to the native side, held mutexes, native
  handles that were closed, registered plugins, and the telemetry emitted. \<^verbatim>\<open>keeps\<close> says
  that an operation leaves one of these as it found it; its rules follow the structure of
  a program, so that the balance of a whole operation is proved by composing them.
\<close>

named_theorems keeps_rules "operations that leave an observation of the world unchanged"

section \<open>Contexts and telemetry events\<close>

text \<open>A \<^verbatim>\<open>context.Context\<close>: whether \<^verbatim>\<open>Done()\<close> is non-nil, and what \<^verbatim>\<open>Err()\<close> returns at each
  observation. Cancellation is asynchronous, so the answer is a function of the number of
  observations made so far; any interleaving of a cancellation with the code is one such
  function.\<close>

record ctx =
  ctx_cancellable :: bool
  ctx_err_at :: "nat \<Rightarrow> ctxerr option"

definition background :: ctx where
  "background = \<lparr>ctx_cancellable = False, ctx_err_at = (\<lambda>_. None)\<rparr>"

text \<open>The documented behaviour of contexts: once \<^verbatim>\<open>Err()\<close> is non-nil it stays the same, and
  a context without a \<^verbatim>\<open>Done\<close> channel is never done.\<close>

definition ctx_lawful :: "ctx \<Rightarrow> bool" where
  "ctx_lawful c =
     ((\<forall>t u e. t \<le> u \<longrightarrow> ctx_err_at c t = Some e \<longrightarrow> ctx_err_at c u = Some e) \<and>
      (\<not> ctx_cancellable c \<longrightarrow> (\<forall>t. ctx_err_at c t = None)))"

lemma background_lawful: "ctx_lawful background"
  by (simp add: ctx_lawful_def background_def)

datatype attrval = AStr string | AInt int

type_synonym attrs = "(string \<times> attrval) list"

datatype event =
    SpanStart string attrs
  | SpanError goerr
  | SpanAttrs attrs
  | SpanEnd string
  | OpCount string string
  | OpDuration string string
  | LogDebug string string
  | LogError string goerr
  | RowsAffected string string int
  | BytesWritten string int

section \<open>The world\<close>

datatype mutex = ReadLock nat | WriteLock nat

text \<open>A Go handle object (\<^verbatim>\<open>Dataset\<close>, \<^verbatim>\<open>Fragment\<close>, \<^verbatim>\<open>Session\<close>, ...): its native pointer, nil once
  closed, and the pointer that the garbage collector's cleanup would close, if it is still
  armed.\<close>

record handle =
  h_ptr :: "nat option"
  h_cleanup :: "nat option"

record ('n, 'p) world =
  native :: 'n
  tick :: nat
  pins :: nat
  cancel_slot :: "nat option"
  tokens :: "nat list"
  token_fault :: bool
  next_id :: nat
  c_live :: "nat list"
  c_fault :: bool
  exported :: "nat list"
  held :: "mutex list"
  closed :: "nat list"
  handles :: "nat \<Rightarrow> handle option"
  plugins :: "'p registry"
  telemetry :: "event list"

type_synonym ('n, 'p, 'a) go = "(('n, 'p) world, 'a) state"

abbreviation ret :: "'a \<Rightarrow> ('n, 'p, 'a) go" where
  "ret \<equiv> State_Monad.return"

definition reads :: "(('n, 'p) world \<Rightarrow> 'a) \<Rightarrow> ('n, 'p, 'a) go" where
  "reads f = State (\<lambda>w. (f w, w))"

definition modify :: "(('n, 'p) world \<Rightarrow> ('n, 'p) world) \<Rightarrow> ('n, 'p, unit) go" where
  "modify f = State (\<lambda>w. ((), f w))"

lemma run_reads [simp]: "run_state (reads f) w = (f w, w)"
  by (simp add: reads_def)

lemma run_modify [simp]: "run_state (modify f) w = ((), f w)"
  by (simp add: modify_def)

text \<open>Go's \<^verbatim>\<open>defer d\<close> followed by the rest of the function: the deferred call runs when the
  body returns, on every path, and the result stays.\<close>

definition deferring :: "('n, 'p, unit) go \<Rightarrow> ('n, 'p, 'a) go \<Rightarrow> ('n, 'p, 'a) go" where
  "deferring d m = do { r \<leftarrow> m; d; ret r }"

lemma run_deferring [simp]:
  "run_state (deferring d m) w =
     (case run_state m w of (r, w1) \<Rightarrow> (r, snd (run_state d w1)))"
  by (simp add: deferring_def split_beta)

text \<open>\<^verbatim>\<open>ctx.Err()\<close>.\<close>

definition ctx_Err :: "ctx \<Rightarrow> ('n, 'p, goerr option) go" where
  "ctx_Err c = State (\<lambda>w. (map_option ctx_error (ctx_err_at c (tick w)), w\<lparr>tick := Suc (tick w)\<rparr>))"

lemma run_ctx_Err [simp]:
  "run_state (ctx_Err c) w =
     (map_option ctx_error (ctx_err_at c (tick w)), w\<lparr>tick := Suc (tick w)\<rparr>)"
  by (simp add: ctx_Err_def)

text \<open>A call of a native function, a parameter that acts on the native state.\<close>

definition native_call :: "('n \<Rightarrow> 'a \<times> 'n) \<Rightarrow> ('n, 'p, 'a) go" where
  "native_call f = State (\<lambda>w. (fst (f (native w)), w\<lparr>native := snd (f (native w))\<rparr>))"

lemma run_native_call [simp]:
  "run_state (native_call f) w = (fst (f (native w)), w\<lparr>native := snd (f (native w))\<rparr>)"
  by (simp add: native_call_def)

section \<open>C memory\<close>

text \<open>C allocations are numbered; the newest is at the head of the list of live ones.
  Freeing an allocation that is not live (a double free) is recorded as a fault.\<close>

definition c_malloc :: "('n, 'p, nat) go" where
  "c_malloc = State (\<lambda>w. (next_id w, w\<lparr>next_id := Suc (next_id w), c_live := next_id w # c_live w\<rparr>))"

definition c_free :: "nat \<Rightarrow> ('n, 'p, unit) go" where
  "c_free a = modify (\<lambda>w. w\<lparr>c_live := remove1 a (c_live w),
                            c_fault := (c_fault w \<or> a \<notin> set (c_live w))\<rparr>)"

lemma run_c_malloc [simp]:
  "run_state c_malloc w = (next_id w, w\<lparr>next_id := Suc (next_id w), c_live := next_id w # c_live w\<rparr>)"
  by (simp add: c_malloc_def)

definition c_mem :: "('n, 'p) world \<Rightarrow> nat list \<times> bool" where
  "c_mem w = (c_live w, c_fault w)"

text \<open>A C pointer to a value of type \<^verbatim>\<open>'a\<close>: NULL, or an allocation with its contents.\<close>

type_synonym 'a cptr = "(nat \<times> 'a) option"

definition free_cptr :: "'a cptr \<Rightarrow> ('n, 'p, unit) go" where
  "free_cptr p = (case p of None \<Rightarrow> ret () | Some (a, _) \<Rightarrow> c_free a)"

definition c_alloc :: "'a \<Rightarrow> ('n, 'p, 'a cptr) go" where
  "c_alloc x = do { a \<leftarrow> c_malloc; ret (Some (a, x)) }"

section \<open>Arrow exports and mutexes\<close>

text \<open>\<^verbatim>\<open>cdata.ExportRecordReader\<close>, \<^verbatim>\<open>ExportArrowArray\<close> and \<^verbatim>\<open>ExportArrowSchema\<close> hand the consumer a
  structure whose release callback has to run exactly once; it stays exported until the
  consumer takes it over.\<close>

definition export_arrow :: "('n, 'p, nat) go" where
  "export_arrow = State (\<lambda>w. (next_id w, w\<lparr>next_id := Suc (next_id w), exported := next_id w # exported w\<rparr>))"

definition take_ownership :: "nat \<Rightarrow> ('n, 'p, unit) go" where
  "take_ownership x = modify (\<lambda>w. w\<lparr>exported := remove1 x (exported w)\<rparr>)"

lemma run_export_arrow [simp]:
  "run_state export_arrow w = (next_id w, w\<lparr>next_id := Suc (next_id w), exported := next_id w # exported w\<rparr>)"
  by (simp add: export_arrow_def)

definition lock :: "mutex \<Rightarrow> ('n, 'p, unit) go" where
  "lock m = modify (\<lambda>w. w\<lparr>held := m # held w\<rparr>)"

definition unlock :: "mutex \<Rightarrow> ('n, 'p, unit) go" where
  "unlock m = modify (\<lambda>w. w\<lparr>held := remove1 m (held w)\<rparr>)"

text \<open>\<^verbatim>\<open>mu.Lock(); defer mu.Unlock()\<close> around the rest of the function.\<close>

definition locked :: "mutex \<Rightarrow> ('n, 'p, 'a) go \<Rightarrow> ('n, 'p, 'a) go" where
  "locked m body = do { lock m; deferring (unlock m) body }"

lemma run_locked:
  "run_state (locked m body) w =
     (case run_state body (w\<lparr>held := m # held w\<rparr>) of
        (r, w1) \<Rightarrow> (r, w1\<lparr>held := remove1 m (held w1)\<rparr>))"
  by (simp add: locked_def lock_def unlock_def split_beta)

section \<open>Plugins and telemetry\<close>

definition register_plugin :: "'p \<Rightarrow> ('n, 'p, u64) go" where
  "register_plugin p = State (\<lambda>w. let (h, r) = register_locked p (plugins w) in (h, w\<lparr>plugins := r\<rparr>))"

definition release_plugin :: "u64 \<Rightarrow> ('n, 'p, unit) go" where
  "release_plugin h = modify (\<lambda>w. w\<lparr>plugins := releasePlugin h (plugins w)\<rparr>)"

definition emit :: "event list \<Rightarrow> ('n, 'p, unit) go" where
  "emit es = modify (\<lambda>w. w\<lparr>telemetry := telemetry w @ es\<rparr>)"

text \<open>\<^verbatim>\<open>C.lance_*_close(ptr)\<close>: the native object is released.\<close>

definition close_native :: "nat \<Rightarrow> ('n, 'p, unit) go" where
  "close_native p = modify (\<lambda>w. w\<lparr>closed := closed w @ [p]\<rparr>)"

text \<open>\<^verbatim>\<open>newDataset\<close> and its siblings: a fresh object with the cleanup armed on its pointer.\<close>

definition new_handle :: "nat option \<Rightarrow> ('n, 'p, nat) go" where
  "new_handle p = State (\<lambda>w. (next_id w,
     w\<lparr>next_id := Suc (next_id w), handles := (handles w)(next_id w \<mapsto> \<lparr>h_ptr = p, h_cleanup = p\<rparr>)\<rparr>))"

definition handle_ptr :: "nat \<Rightarrow> ('n, 'p) world \<Rightarrow> nat option" where
  "handle_ptr h w = (case handles w h of Some x \<Rightarrow> h_ptr x | None \<Rightarrow> None)"

section \<open>Leaving parts of the world unchanged\<close>

definition keeps :: "(('n, 'p) world \<Rightarrow> 'x) \<Rightarrow> ('n, 'p, 'a) go \<Rightarrow> bool" where
  "keeps f m = (\<forall>w. f (snd (run_state m w)) = f w)"

lemma keepsD: "keeps f m \<Longrightarrow> run_state m w = (r, w') \<Longrightarrow> f w' = f w"
  unfolding keeps_def by (metis snd_conv)

lemma keeps_return [keeps_rules]: "keeps f (ret x)"
  by (simp add: keeps_def)

lemma keeps_bind [keeps_rules]: "keeps f m \<Longrightarrow> (\<And>x. keeps f (g x)) \<Longrightarrow> keeps f (State_Monad.bind m g)"
  by (simp add: keeps_def split_beta)

lemma keeps_deferring [keeps_rules]: "keeps f m \<Longrightarrow> keeps f d \<Longrightarrow> keeps f (deferring d m)"
  by (simp add: keeps_def split_beta)

lemma keeps_if [keeps_rules]: "(b \<Longrightarrow> keeps f m) \<Longrightarrow> (\<not> b \<Longrightarrow> keeps f n) \<Longrightarrow> keeps f (if b then m else n)"
  by simp

lemma keeps_case_option [keeps_rules]:
  "keeps f m \<Longrightarrow> (\<And>x. keeps f (g x)) \<Longrightarrow> keeps f (case z of None \<Rightarrow> m | Some x \<Rightarrow> g x)"
  by (simp split: option.split)

lemma keeps_case_sum [keeps_rules]:
  "(\<And>x. keeps f (g x)) \<Longrightarrow> (\<And>x. keeps f (h x)) \<Longrightarrow> keeps f (case z of Inl x \<Rightarrow> g x | Inr x \<Rightarrow> h x)"
  by (simp split: sum.split)

lemma keeps_case_prod [keeps_rules]:
  "(\<And>x y. keeps f (g x y)) \<Longrightarrow> keeps f (case z of (x, y) \<Rightarrow> g x y)"
  by (simp split: prod.split)

lemma keeps_Let [keeps_rules]: "(\<And>x. keeps f (g x)) \<Longrightarrow> keeps f (let x = z in g x)"
  by simp

lemma keeps_reads [keeps_rules]: "keeps f (reads g)"
  by (simp add: keeps_def)

lemma keeps_modify: "(\<And>w. f (g w) = f w) \<Longrightarrow> keeps f (modify g)"
  by (simp add: keeps_def)

lemma keeps_locked_held [keeps_rules]: "keeps held body \<Longrightarrow> keeps held (locked m body)"
  by (simp add: keeps_def run_locked split_beta)

text \<open>An allocation that is freed by a deferred call.\<close>

lemma keeps_c_mem_scoped:
  assumes "\<And>p. keeps c_mem (body p)"
  shows "keeps c_mem (do { p \<leftarrow> c_alloc x; deferring (free_cptr p) (body p) })"
proof -
  have "c_mem (snd (run_state (body p) w)) = c_mem w" for p w
    using assms by (simp add: keeps_def)
  then show ?thesis
    by (auto simp: keeps_def c_mem_def c_alloc_def free_cptr_def c_free_def split_beta)
qed

text \<open>The observations that a primitive does not touch at all.\<close>

definition separate :: "(('n, 'p) world \<Rightarrow> 'x) \<Rightarrow> bool" where
  "separate f =
     ((\<forall>w v. f (w\<lparr>tick := v\<rparr>) = f w) \<and> (\<forall>w v. f (w\<lparr>native := v\<rparr>) = f w) \<and>
      (\<forall>w v. f (w\<lparr>next_id := v\<rparr>) = f w))"

lemma separate_simps [simp]:
  "separate pins" "separate cancel_slot" "separate tokens" "separate c_mem" "separate c_live"
  "separate exported" "separate held" "separate closed" "separate plugins" "separate token_fault"
  "separate handles" "separate c_fault" "separate telemetry"
  by (simp_all add: separate_def c_mem_def)

text \<open>Observations that emitting telemetry does not change.\<close>

definition silent :: "(('n, 'p) world \<Rightarrow> 'x) \<Rightarrow> bool" where
  "silent f = (\<forall>w v. f (w\<lparr>telemetry := v\<rparr>) = f w)"

lemma silent_simps [simp]:
  "silent pins" "silent cancel_slot" "silent tokens" "silent c_mem" "silent c_live"
  "silent exported" "silent held" "silent closed" "silent plugins" "silent token_fault"
  "silent handles" "silent c_fault" "silent native"
  by (simp_all add: silent_def c_mem_def)

lemma keeps_ctx_Err [keeps_rules]: "separate f \<Longrightarrow> keeps f (ctx_Err c)"
  by (simp add: keeps_def separate_def)

lemma keeps_native_call [keeps_rules]: "separate f \<Longrightarrow> keeps f (native_call g)"
  by (simp add: keeps_def separate_def)

lemma keeps_emit [keeps_rules]: "silent f \<Longrightarrow> keeps f (emit es)"
  by (simp add: keeps_def silent_def emit_def)

end
