(* ===== verification/Lance_Native.thy ===== *)
theory Lance_Native
  imports Lance_Prelude "HOL-Library.List_Lexorder" "HOL-Library.Char_ord"
begin

text \<open>
  What crosses the C boundary: JSON documents (\<^verbatim>\<open>encoding/json\<close>), C strings, and the
  arguments and out parameters of the \<^verbatim>\<open>lance_*\<close> functions. The native library is a
  parameter of the model: a function from the name of the C function and its arguments to
  an error code and the values written through its out parameters.
\<close>

section \<open>JSON\<close>

text \<open>Objects keep their members in order, as \<^verbatim>\<open>json.Marshal\<close> writes struct fields in
  declaration order. Floats are the IEEE bit patterns
  of their Go type.\<close>

datatype json =
    JNull
  | JBool bool
  | JInt int
  | JFloat u64
  | JStr string
  | JArr "json list"
  | JObj "(string \<times> json) list"

text \<open>The \<^verbatim>\<open>omitempty\<close> tag: a member is left out when its value is the zero value of its
  type (a false bool, a zero number, an empty string, a nil pointer, an empty slice or map).\<close>

type_synonym members = "(string \<times> json) list"

definition omit_str :: "string \<Rightarrow> string \<Rightarrow> members" where
  "omit_str k s = (if s = [] then [] else [(k, JStr s)])"

definition omit_u64 :: "string \<Rightarrow> u64 \<Rightarrow> members" where
  "omit_u64 k n = (if n = 0 then [] else [(k, JInt (uint n))])"

definition omit_u32 :: "string \<Rightarrow> u32 \<Rightarrow> members" where
  "omit_u32 k n = (if n = 0 then [] else [(k, JInt (uint n))])"

definition omit_int :: "string \<Rightarrow> int \<Rightarrow> members" where
  "omit_int k n = (if n = 0 then [] else [(k, JInt n)])"

definition omit_bool :: "string \<Rightarrow> bool \<Rightarrow> members" where
  "omit_bool k b = (if b then [(k, JBool True)] else [])"

definition omit_ptr :: "('a \<Rightarrow> json) \<Rightarrow> string \<Rightarrow> 'a option \<Rightarrow> members" where
  "omit_ptr f k p = (case p of None \<Rightarrow> [] | Some x \<Rightarrow> [(k, f x)])"

definition omit_list :: "('a \<Rightarrow> json) \<Rightarrow> string \<Rightarrow> 'a list \<Rightarrow> members" where
  "omit_list f k xs = (if xs = [] then [] else [(k, JArr (map f xs))])"

text \<open>A Go map is an association list with distinct keys in an arbitrary order;
  \<^verbatim>\<open>json.Marshal\<close> writes maps with their keys sorted.\<close>

type_synonym gomap = "(string \<times> string) list"

definition json_map :: "gomap \<Rightarrow> json" where
  "json_map m = JObj (map (\<lambda>(a, b). (a, JStr b)) (sort_key fst m))"

definition omit_map :: "string \<Rightarrow> gomap \<Rightarrow> members" where
  "omit_map k m = (if m = [] then [] else [(k, json_map m)])"

lemmas omit_defs = omit_str_def omit_u64_def omit_u32_def omit_int_def omit_bool_def omit_ptr_def
  omit_list_def omit_map_def

abbreviation json_u64 :: "u64 \<Rightarrow> json" where
  "json_u64 n \<equiv> JInt (uint n)"

text \<open>A slice without \<^verbatim>\<open>omitempty\<close>: nil is JSON null, an empty slice an empty array.\<close>

definition json_slice :: "('a \<Rightarrow> json) \<Rightarrow> 'a list option \<Rightarrow> json" where
  "json_slice f xs = (case xs of None \<Rightarrow> JNull | Some ys \<Rightarrow> JArr (map f ys))"

text \<open>The keys of an object, in order.\<close>

fun json_keys :: "json \<Rightarrow> string list" where
  "json_keys (JObj ms) = map fst ms"
| "json_keys _ = []"

fun json_get :: "string \<Rightarrow> json \<Rightarrow> json option" where
  "json_get k (JObj ms) = map_of ms k"
| "json_get k _ = None"

section \<open>UTF-8\<close>

text \<open>\<^verbatim>\<open>utf8_second\<close> gives the range of the second byte for a lead byte and the number of bytes that
  follow it; \<^verbatim>\<open>utf8_tail\<close> reads up to \<^verbatim>\<open>n\<close> continuation bytes: those read, the rest, and whether all
  were there.\<close>

definition utf8_second :: "nat \<Rightarrow> (nat \<times> nat \<times> nat) option" where
  "utf8_second b =
     (if 194 \<le> b \<and> b \<le> 223 then Some (128, 191, 0)
      else if b = 224 then Some (160, 191, 1)
      else if b = 237 then Some (128, 159, 1)
      else if 225 \<le> b \<and> b \<le> 239 then Some (128, 191, 1)
      else if b = 240 then Some (144, 191, 2)
      else if 241 \<le> b \<and> b \<le> 243 then Some (128, 191, 2)
      else if b = 244 then Some (128, 143, 2)
      else None)"

definition utf8_replacement :: bytes where
  "utf8_replacement = [0xEF, 0xBF, 0xBD]"

fun utf8_tail :: "nat \<Rightarrow> bytes \<Rightarrow> bytes \<times> bytes \<times> bool" where
  "utf8_tail 0 bs = ([], bs, True)"
| "utf8_tail (Suc n) [] = ([], [], False)"
| "utf8_tail (Suc n) (b # bs) =
     (if 128 \<le> unat b \<and> unat b \<le> 191 then (case utf8_tail n bs of (xs, rest, ok) \<Rightarrow> (b # xs, rest, ok))
      else ([], b # bs, False))"

lemma utf8_tail_length: "utf8_tail n bs = (xs, rest, ok) \<Longrightarrow> length rest \<le> length bs"
  by (induction n bs arbitrary: xs rest ok rule: utf8_tail.induct) (fastforce split: if_splits prod.splits)+

lemma utf8_tail_split: "utf8_tail n bs = (xs, rest, ok) \<Longrightarrow> bs = xs @ rest"
  by (induction n bs arbitrary: xs rest ok rule: utf8_tail.induct) (fastforce split: if_splits prod.splits)+

text \<open>\<^verbatim>\<open>utf8.DecodeRune\<close>: the bytes of the first character and the rest, or nothing when the bytes do not
  start with a well-formed character.\<close>

definition utf8_rune :: "byte \<Rightarrow> bytes \<Rightarrow> (bytes \<times> bytes) option" where
  "utf8_rune b bs =
     (if unat b < 128 then Some ([b], bs)
      else case (utf8_second (unat b), bs) of
        (Some (lo, hi, n), c # cs) \<Rightarrow>
          if lo \<le> unat c \<and> unat c \<le> hi then
            (case utf8_tail n cs of (xs, rest, ok) \<Rightarrow> if ok then Some (b # c # xs, rest) else None)
          else None
      | _ \<Rightarrow> None)"

lemma utf8_rune_split: "utf8_rune b bs = Some (r, rest) \<Longrightarrow> b # bs = r @ rest \<and> length rest \<le> length bs"
  by (auto simp: utf8_rune_def dest: utf8_tail_split split: if_splits option.splits list.splits prod.splits)

text \<open>\<^verbatim>\<open>json.Marshal\<close> of a Go string: a byte that does not belong to a well-formed character becomes
  U+FFFD. Two different strings that are not UTF-8 can become the same text.\<close>

function marshal_utf8 :: "bytes \<Rightarrow> bytes" where
  "marshal_utf8 [] = []"
| "marshal_utf8 (b # bs) =
     (case utf8_rune b bs of
        Some (r, rest) \<Rightarrow> r @ marshal_utf8 rest
      | None \<Rightarrow> utf8_replacement @ marshal_utf8 bs)"
  by pat_completeness auto
termination
  by (relation "measure length") (auto dest: utf8_rune_split)

function utf8_Valid :: "bytes \<Rightarrow> bool" where
  "utf8_Valid [] = True"
| "utf8_Valid (b # bs) = (case utf8_rune b bs of Some (r, rest) \<Rightarrow> utf8_Valid rest | None \<Rightarrow> False)"
  by pat_completeness auto
termination
  by (relation "measure length") (auto dest: utf8_rune_split)

lemma marshal_utf8_valid: "utf8_Valid bs \<Longrightarrow> marshal_utf8 bs = bs"
  by (induction bs rule: utf8_Valid.induct) (auto dest: utf8_rune_split split: option.splits)

definition ValidString :: "string \<Rightarrow> bool" where
  "ValidString s = utf8_Valid (bytes_of_string s)"

definition marshal_string :: "string \<Rightarrow> string" where
  "marshal_string s = string_of_bytes (marshal_utf8 (bytes_of_string s))"

lemma marshal_string_valid [simp]: "ValidString s \<Longrightarrow> marshal_string s = s"
  by (simp add: ValidString_def marshal_string_def marshal_utf8_valid)

section \<open>JSON text\<close>

text \<open>A document holds the Go strings that are marshalled. \<^verbatim>\<open>json_wire\<close> is the document that is read
  back from the text that \<^verbatim>\<open>json.Marshal\<close> writes: the same one, with every string and every key made
  valid UTF-8.\<close>

primrec json_wire :: "json \<Rightarrow> json" where
  "json_wire JNull = JNull"
| "json_wire (JBool b) = JBool b"
| "json_wire (JInt n) = JInt n"
| "json_wire (JFloat f) = JFloat f"
| "json_wire (JStr s) = JStr (marshal_string s)"
| "json_wire (JArr xs) = JArr (map json_wire xs)"
| "json_wire (JObj ms) = JObj (map (map_prod marshal_string id) (map (map_prod id json_wire) ms))"

section \<open>C strings and call arguments\<close>

text \<open>The contents of a C string: plain text, or the text that \<^verbatim>\<open>json.Marshal\<close> writes for a document.\<close>

datatype ctext = Text string | Json json

datatype cval =
    CNull
  | CHandle nat
  | CText ctext
  | CKV gomap
  | CU64 u64
  | CI64 int
  | CU32 u32
  | CI32 int
  | CF32 u32
  | CF64 u64
  | CBool bool
  | CBytes bytes
  | CU64s "u64 list"
  | CStrs "string list"
  | CByteArrays "bytes list"
  | CArrow nat
  | CSchema json

fun out_nth :: "cval list \<Rightarrow> nat \<Rightarrow> cval" where
  "out_nth [] i = CNull"
| "out_nth (x # xs) 0 = x"
| "out_nth (x # xs) (Suc i) = out_nth xs i"

fun as_u64 :: "cval \<Rightarrow> u64" where
  "as_u64 (CU64 n) = n"
| "as_u64 _ = 0"

fun as_handle :: "cval \<Rightarrow> nat option" where
  "as_handle (CHandle p) = Some p"
| "as_handle _ = None"

fun as_text :: "cval \<Rightarrow> ctext option" where
  "as_text (CText t) = Some t"
| "as_text _ = None"

text \<open>Arguments: a handle, and pointers that may be NULL.\<close>

fun c_text :: "ctext option \<Rightarrow> cval" where
  "c_text None = CNull"
| "c_text (Some t) = CText t"

fun c_handle :: "nat option \<Rightarrow> cval" where
  "c_handle None = CNull"
| "c_handle (Some p) = CHandle p"

lemma as_c_simps [simp]: "as_text (c_text t) = t" "as_handle (c_handle p) = p"
  by (cases t; simp) (cases p; simp)

end
