(* ===== verification/Lance_Ffi.thy ===== *)
theory Lance_Ffi
  imports Lance_World Lance_Native
begin

text \<open>
  \<^verbatim>\<open>ffiCall\<close> and \<^verbatim>\<open>lastError\<close> of \<^verbatim>\<open>lance/errors.go\<close>: the one gate through which every fallible
  native call goes. The native closure \<^verbatim>\<open>f\<close> returns the error code together with the values
  it wrote through its out parameters; \<^verbatim>\<open>z\<close> holds the zero values these have when \<^verbatim>\<open>f\<close> is not
  run. The interleaving with the watcher goroutine is in \<^verbatim>\<open>Lance_Cancel\<close>; here its effect
  is what the native closure returns.
\<close>

section \<open>Native error state\<close>

text \<open>The native library as parameters: the functions that \<^verbatim>\<open>ffiCall\<close> itself uses, the fallible
  functions, which return an error code and out values, and the infallible accessors.\<close>

record 'n lance_ffi =
  lance_in_tokio_runtime :: "'n \<Rightarrow> int"
  lance_last_error_code :: "'n \<Rightarrow> int"
  lance_last_error_message :: "'n \<Rightarrow> string option"
  ccall :: "string \<Rightarrow> cval list \<Rightarrow> 'n \<Rightarrow> (int \<times> cval list) \<times> 'n"
  cread :: "string \<Rightarrow> cval list \<Rightarrow> 'n \<Rightarrow> cval"

definition lastError :: "'n lance_ffi \<Rightarrow> 'n \<Rightarrow> goerr option" where
  "lastError F n =
     (let code = lance_last_error_code F n in
      if code = ERROR_CODE_OK then None
      else let msg = (case lance_last_error_message F n of None \<Rightarrow> ''unknown error'' | Some p \<Rightarrow> p)
           in Some (Wrapf [] (sentinel_err (codeToSentinel code)) [Lit '': '', Str msg]))"

section \<open>Thread pinning and cancel tokens\<close>

definition lockOSThread :: "('n, 'p, unit) go" where
  "lockOSThread = modify (\<lambda>w. w\<lparr>pins := Suc (pins w)\<rparr>)"

definition unlockOSThread :: "('n, 'p, unit) go" where
  "unlockOSThread = modify (\<lambda>w. w\<lparr>pins := pins w - 1\<rparr>)"

definition cancel_token_new :: "('n, 'p, nat) go" where
  "cancel_token_new = State (\<lambda>w. (next_id w, w\<lparr>next_id := Suc (next_id w), tokens := next_id w # tokens w\<rparr>))"

definition cancel_token_free :: "nat \<Rightarrow> ('n, 'p, unit) go" where
  "cancel_token_free t = modify (\<lambda>w. w\<lparr>tokens := remove1 t (tokens w),
                                       token_fault := (token_fault w \<or> t \<notin> set (tokens w))\<rparr>)"

definition thread_set_cancel_token :: "nat option \<Rightarrow> ('n, 'p, unit) go" where
  "thread_set_cancel_token t = modify (\<lambda>w. w\<lparr>cancel_slot := t\<rparr>)"

section \<open>ffiCall\<close>

text \<open>From \<^verbatim>\<open>rc := f()\<close> to the end of \<^verbatim>\<open>ffiCall\<close>.\<close>

definition ffi_result :: "'n lance_ffi \<Rightarrow> ctx \<Rightarrow> ('n, 'p, int \<times> 'o) go \<Rightarrow> ('n, 'p, goerr option \<times> 'o) go" where
  "ffi_result F c f = do {
     (rc, out) \<leftarrow> f;
     if rc = ERROR_CODE_OK then ret (None, out)
     else if rc = ERROR_CODE_CANCELLED then do {
       e \<leftarrow> ctx_Err c;
       ret (case e of Some err \<Rightarrow> (Some err, out)
            | None \<Rightarrow> (Some (Wrapf [] (sentinel_err ErrCanceled) []), out))
     }
     else do {
       n \<leftarrow> reads native;
       ret (case lastError F n of Some err \<Rightarrow> (Some err, out)
            | None \<Rightarrow> (Some (sentinel_err ErrInternal), out))
     }
   }"

definition ffiCall :: "'n lance_ffi \<Rightarrow> ctx \<Rightarrow> 'o \<Rightarrow> ('n, 'p, int \<times> 'o) go \<Rightarrow> ('n, 'p, goerr option \<times> 'o) go" where
  "ffiCall F c z f = do {
     lockOSThread;
     deferring unlockOSThread (do {
       inrt \<leftarrow> reads (\<lambda>w. lance_in_tokio_runtime F (native w));
       if inrt \<noteq> 0 then ret (Some (Wrapf [] (sentinel_err ErrReentrantCall) []), z)
       else do {
         e \<leftarrow> ctx_Err c;
         case e of
           Some err \<Rightarrow> ret (Some err, z)
         | None \<Rightarrow>
             if ctx_cancellable c then do {
               tok \<leftarrow> cancel_token_new;
               thread_set_cancel_token (Some tok);
               deferring (do { thread_set_cancel_token None; cancel_token_free tok })
                 (ffi_result F c f)
             }
             else ffi_result F c f
       }
     })
   }"

text \<open>The state in which \<^verbatim>\<open>f\<close> runs: the thread is pinned and, for a cancellable context, a
  fresh token sits in the thread's slot.\<close>

definition ffi_entry :: "ctx \<Rightarrow> ('n, 'p) world \<Rightarrow> ('n, 'p) world" where
  "ffi_entry c w =
     (let w1 = w\<lparr>pins := Suc (pins w), tick := Suc (tick w)\<rparr> in
      if ctx_cancellable c
      then w1\<lparr>next_id := Suc (next_id w), tokens := next_id w # tokens w, cancel_slot := Some (next_id w)\<rparr>
      else w1)"

text \<open>Whether \<^verbatim>\<open>ffiCall\<close> gets as far as running its closure.\<close>

definition ffi_admits :: "'n lance_ffi \<Rightarrow> ctx \<Rightarrow> ('n, 'p) world \<Rightarrow> bool" where
  "ffi_admits F c w = (lance_in_tokio_runtime F (native w) = 0 \<and> ctx_err_at c (tick w) = None)"

lemma run_ffi_result:
  "run_state (ffi_result F c f) w =
     (case run_state f w of ((rc, out), w1) \<Rightarrow>
        if rc = ERROR_CODE_OK then ((None, out), w1)
        else if rc = ERROR_CODE_CANCELLED then
          ((Some (case ctx_err_at c (tick w1) of Some e \<Rightarrow> ctx_error e
                  | None \<Rightarrow> Wrapf [] (sentinel_err ErrCanceled) []), out), w1\<lparr>tick := Suc (tick w1)\<rparr>)
        else ((Some (case lastError F (native w1) of Some e \<Rightarrow> e | None \<Rightarrow> sentinel_err ErrInternal), out), w1))"
  by (simp add: ffi_result_def split_beta split: option.split)

lemma run_ffiCall_rejected:
  "\<not> ffi_admits F c w \<Longrightarrow>
     run_state (ffiCall F c z f) w =
       (if lance_in_tokio_runtime F (native w) \<noteq> 0
        then ((Some (Wrapf [] (sentinel_err ErrReentrantCall) []), z), w)
        else ((map_option ctx_error (ctx_err_at c (tick w)), z), w\<lparr>tick := Suc (tick w)\<rparr>))"
  by (cases "ctx_err_at c (tick w)")
    (auto simp: ffiCall_def ffi_admits_def lockOSThread_def unlockOSThread_def)

lemma run_ffiCall_admitted:
  "ffi_admits F c w \<Longrightarrow>
     run_state (ffiCall F c z f) w =
       (case run_state (ffi_result F c f) (ffi_entry c w) of (r, w1) \<Rightarrow>
          (r, if ctx_cancellable c
              then w1\<lparr>cancel_slot := None, tokens := remove1 (next_id w) (tokens w1),
                      token_fault := (token_fault w1 \<or> next_id w \<notin> set (tokens w1)), pins := pins w1 - 1\<rparr>
              else w1\<lparr>pins := pins w1 - 1\<rparr>))"
  by (auto simp: ffiCall_def ffi_admits_def ffi_entry_def lockOSThread_def unlockOSThread_def
      cancel_token_new_def cancel_token_free_def thread_set_cancel_token_def split_beta Let_def)

section \<open>Balance of ffiCall\<close>

text \<open>The closures passed to \<^verbatim>\<open>ffiCall\<close> call native code only: they do not pin threads or
  touch the token machinery.\<close>

definition native_closure :: "('n, 'p, 'a) go \<Rightarrow> bool" where
  "native_closure f = (keeps pins f \<and> keeps cancel_slot f \<and> keeps tokens f \<and> keeps token_fault f)"

lemma native_closure_native_call [simp]: "native_closure (native_call g)"
  by (simp add: native_closure_def keeps_rules)

lemma native_closure_ffi_result: "native_closure f \<Longrightarrow> native_closure (ffi_result F c f)"
  unfolding native_closure_def ffi_result_def
  by (auto intro!: keeps_rules)

text \<open>What \<^verbatim>\<open>ffiCall\<close> leaves unchanged besides the token machinery is what its closure does.\<close>

lemma keeps_ffiCall [keeps_rules]:
  assumes "separate f" and "keeps f g"
    and "\<And>w v. f (w\<lparr>pins := v\<rparr>) = f w" and "\<And>w v. f (w\<lparr>cancel_slot := v\<rparr>) = f w"
    and "\<And>w v. f (w\<lparr>tokens := v\<rparr>) = f w" and "\<And>w v. f (w\<lparr>token_fault := v\<rparr>) = f w"
  shows "keeps f (ffiCall F c z g)"
proof -
  have upd: "f (w\<lparr>tick := v\<rparr>) = f w" "f (w\<lparr>next_id := v\<rparr>) = f w" for w v
    using assms(1) by (simp_all add: separate_def)
  have "keeps f (ffi_result F c g)"
    unfolding ffi_result_def using assms(1,2) by (auto intro!: keeps_rules)
  then show ?thesis
    unfolding ffiCall_def lockOSThread_def unlockOSThread_def cancel_token_new_def
      cancel_token_free_def thread_set_cancel_token_def
    by (auto simp: keeps_def split_beta upd assms(3-6) split: option.split)
qed

lemma ffiCall_error_leaf:
  assumes "run_state (ffiCall F c z f) w = ((Some e, out), w')"
  shows "\<exists>l. errors_is e l \<and> (\<exists>s. l = SentinelErr s) \<or> (\<exists>x. e = ctx_error x)"
proof (cases "ffi_admits F c w")
  case True
  with assms show ?thesis
    by (auto simp: run_ffiCall_admitted run_ffi_result lastError_def Let_def split_beta
        split: if_splits option.splits)
next
  case False
  with assms show ?thesis
    by (auto simp: run_ffiCall_rejected split: if_splits)
qed

lemma ffiCall_no_prefix:
  assumes "run_state (ffiCall F c z f) w = ((Some e, out), w')"
  shows "lance_prefixes e = 0"
proof (cases "ffi_admits F c w")
  case True
  with assms show ?thesis
    by (auto simp: run_ffiCall_admitted run_ffi_result lastError_def Let_def split_beta
        split: if_splits option.splits)
next
  case False
  with assms show ?thesis
    by (auto simp: run_ffiCall_rejected split: if_splits)
qed

section \<open>Properties\<close>

text \<open>C5: a failed call never looks like a success. \<^verbatim>\<open>ffiCall\<close> returns nil exactly when it
  was admitted (the thread is not inside the native runtime and the context is not done),
  ran the native closure, and the closure returned \<^verbatim>\<open>ERROR_CODE_OK\<close>.\<close>

theorem ffiCall_nil_iff:
  "fst (fst (run_state (ffiCall F c z f) w)) = None \<longleftrightarrow>
     ffi_admits F c w \<and> fst (fst (run_state f (ffi_entry c w))) = ERROR_CODE_OK"
proof (cases "ffi_admits F c w")
  case True
  then show ?thesis
    by (simp add: run_ffiCall_admitted run_ffi_result split_beta)
next
  case False
  then show ?thesis
    by (auto simp: run_ffiCall_rejected ffi_admits_def)
qed

text \<open>C12: teardown is complete on every path. When \<^verbatim>\<open>ffiCall\<close> returns, whether it rejected
  the call, succeeded, failed or was cancelled, the OS thread is unpinned as often as it
  was pinned, the set of live cancel tokens is what it was, no token was freed twice, and
  the thread's cancellation slot is empty again.\<close>

theorem ffiCall_teardown:
  assumes "native_closure f" and "cancel_slot w = None"
    and "run_state (ffiCall F c z f) w = (r, w')"
  shows "pins w' = pins w \<and> tokens w' = tokens w \<and> token_fault w' = token_fault w \<and> cancel_slot w' = None"
proof (cases "ffi_admits F c w")
  case True
  have "native_closure (ffi_result F c f)"
    using assms(1) by (rule native_closure_ffi_result)
  then have body: "pins (snd (run_state (ffi_result F c f) v)) = pins v"
      "cancel_slot (snd (run_state (ffi_result F c f) v)) = cancel_slot v"
      "tokens (snd (run_state (ffi_result F c f) v)) = tokens v"
      "token_fault (snd (run_state (ffi_result F c f) v)) = token_fault v" for v
    by (simp_all add: native_closure_def keeps_def)
  have "w' = snd (run_state (ffiCall F c z f) w)"
    using assms(3) by simp
  then show ?thesis
    using assms(2) by (simp add: run_ffiCall_admitted [OF True] split_beta body ffi_entry_def Let_def)
next
  case False
  with assms(2,3) show ?thesis
    by (auto simp: run_ffiCall_rejected split: if_splits)
qed

text \<open>A small world for witnesses: the native state is a number that the calls count.\<close>

definition world0 :: "(nat, bool) world" where
  "world0 = \<lparr>native = 0, tick = 0, pins = 0, cancel_slot = None, tokens = [], token_fault = False,
     next_id = 0, c_live = [], c_fault = False, exported = [], held = [], closed = [], handles = (\<lambda>_. None),
     plugins = pluginRegistry, telemetry = []\<rparr>"

definition ffi0 :: "nat lance_ffi" where
  "ffi0 = \<lparr>lance_in_tokio_runtime = (\<lambda>n. 0), lance_last_error_code = (\<lambda>n. int n),
     lance_last_error_message = (\<lambda>n. if n = 0 then None else Some ''no such table''),
     ccall = (\<lambda>_ _ n. ((0, []), n)), cread = (\<lambda>_ _ _. CNull)\<rparr>"

definition cancellable_ctx :: ctx where
  "cancellable_ctx = \<lparr>ctx_cancellable = True, ctx_err_at = (\<lambda>t. if t < 1 then None else Some Canceled)\<rparr>"

theorem ffiCall_teardown_witness:
  "tokens (snd (run_state (ffiCall ffi0 cancellable_ctx () (native_call (\<lambda>n. ((10, ()), n)))) world0)) = [] \<and>
   fst (fst (run_state (ffiCall ffi0 cancellable_ctx () (native_call (\<lambda>n. ((10, ()), n)))) world0)) =
     Some (ctx_error Canceled)"
proof -
  let ?f = "native_call (\<lambda>n. ((10, ()), n)) :: (nat, bool, int \<times> unit) go"
  obtain r w' where run: "run_state (ffiCall ffi0 cancellable_ctx () ?f) world0 = (r, w')"
    by fastforce
  have cl: "native_closure ?f" by simp
  have slot: "cancel_slot world0 = None" by (simp add: world0_def)
  have adm: "ffi_admits ffi0 cancellable_ctx world0"
    by (simp add: ffi_admits_def ffi0_def cancellable_ctx_def world0_def)
  have res: "fst (fst (run_state (ffiCall ffi0 cancellable_ctx () ?f) world0)) = Some (ctx_error Canceled)"
    unfolding run_ffiCall_admitted [OF adm] run_ffi_result
    by (simp add: error_code_defs ffi_entry_def cancellable_ctx_def world0_def)
  have "tokens w' = []"
    using ffiCall_teardown [OF cl slot run] by (simp add: world0_def)
  then show ?thesis
    using run res by simp
qed

text \<open>C16: every error of \<^verbatim>\<open>ffiCall\<close> is classifiable and unprefixed. It is a context error,
  or it wraps exactly one of the package's sentinels; its text carries no package
  prefix, so the wrap layer can add the single one. For a native failure the sentinel is
  the one of the recorded code, and a call rejected before it ran leaves the out values
  at zero.\<close>

theorem ffiCall_error_classified:
  assumes "run_state (ffiCall F c z f) w = ((Some e, out), w')"
  shows "((\<exists>x. e = ctx_error x) \<or> (\<exists>!s. errors_is e (SentinelErr s))) \<and> lance_prefixes e = 0 \<and>
         (\<not> ffi_admits F c w \<longrightarrow> out = z)"
proof -
  have "(\<exists>x. e = ctx_error x) \<or> (\<exists>!s. errors_is e (SentinelErr s))"
    using ffiCall_error_leaf [OF assms] errors_is_unique by blast
  moreover have "\<not> ffi_admits F c w \<longrightarrow> out = z"
    using assms by (auto simp: run_ffiCall_rejected split: if_splits)
  ultimately show ?thesis
    using ffiCall_no_prefix [OF assms] by blast
qed

theorem ffiCall_error_classified_witness:
  "\<exists>e out w'. run_state (ffiCall ffi0 background () (native_call (\<lambda>n. ((3, ()), 3)))) world0 = ((Some e, out), w') \<and>
     errors_is e (SentinelErr ErrNotFound) \<and> lance_prefixes e = 0"
proof -
  let ?f = "native_call (\<lambda>n. ((3, ()), 3)) :: (nat, bool, int \<times> unit) go"
  let ?e = "Wrapf [] (sentinel_err ErrNotFound) [Lit '': '', Str ''no such table'']"
  have adm: "ffi_admits ffi0 background world0"
    by (simp add: ffi_admits_def ffi0_def background_def world0_def)
  have "fst (run_state (ffiCall ffi0 background () ?f) world0) = (Some ?e, ())"
    unfolding run_ffiCall_admitted [OF adm] run_ffi_result
    by (simp add: error_code_defs ffi_entry_def background_def lastError_def ffi0_def codeToSentinel_def)
  then have run: "run_state (ffiCall ffi0 background () ?f) world0 =
      ((Some ?e, ()), snd (run_state (ffiCall ffi0 background () ?f) world0))"
    by (metis prod.collapse)
  show ?thesis
    using ffiCall_error_classified [OF run] run by (metis errors_is.simps(4) errors_is.simps(1))
qed

end
