(* ===== verification/Lance_Cancel.thy ===== *)
theory Lance_Cancel
  imports Lance_Ffi
begin

text \<open>
  The concurrent side of \<^verbatim>\<open>ffiCall\<close> (\<^verbatim>\<open>lance/errors.go\<close>): goroutines that make native calls
  on pinned OS threads, the watcher goroutine that each cancellable call spawns, and the
  contexts that fire at any moment. A step relation interleaves them; the invariant shows
  that the teardown order (close stop, join the watcher, clear the slot, free the token)
  is what makes the cancel token safe.
\<close>

section \<open>States\<close>

text \<open>Where a call is in \<^verbatim>\<open>ffiCall\<close>: outside it, past the re-entrancy and context checks, with
  a token, with the token installed, in the native function, back from it, and in the four
  stages of the deferred teardown.\<close>

datatype main_pc = Idle | Entered | HasToken | SlotSet | Running | Returned | Stopping | Joined | Cleared | Unpinning

text \<open>The watcher: not started, blocked in \<^verbatim>\<open>select\<close>, about to cancel the token, about to close
  \<^verbatim>\<open>watcherDone\<close>, and finished.\<close>

datatype watcher_pc = NotStarted | Selecting | Cancelling | Exiting | Finished

record call =
  pc :: main_pc
  wat :: watcher_pc
  thr :: nat
  watched :: bool
  tok :: nat
  stop_closed :: bool
  ctx_fired :: bool
  rcode :: int
  result :: "goerr option"

record sys =
  calls :: "nat \<Rightarrow> call"
  slots :: "nat \<Rightarrow> nat option"
  live_tokens :: "nat set"
  cancelled_tokens :: "nat set"
  next_token :: nat
  token_error :: bool

definition put_call :: "nat \<Rightarrow> call \<Rightarrow> sys \<Rightarrow> sys" where
  "put_call g c s = s\<lparr>calls := (calls s)(g := c)\<rparr>"

definition pinned :: "nat \<Rightarrow> sys \<Rightarrow> bool" where
  "pinned t s = (\<exists>g. pc (calls s g) \<noteq> Idle \<and> thr (calls s g) = t)"

text \<open>The native return value is turned into an error as in \<^verbatim>\<open>ffi_result\<close>; \<^verbatim>\<open>native_err\<close> is what
  \<^verbatim>\<open>lastError\<close> reads.\<close>

definition call_error :: "int \<Rightarrow> bool \<Rightarrow> ctxerr \<Rightarrow> goerr option \<Rightarrow> goerr option" where
  "call_error rc fired why native_err =
     (if rc = ERROR_CODE_OK then None
      else if rc = ERROR_CODE_CANCELLED then
        (if fired then Some (ctx_error why) else Some (Wrapf [] (sentinel_err ErrCanceled) []))
      else (case native_err of Some e \<Rightarrow> Some e | None \<Rightarrow> Some (sentinel_err ErrInternal)))"

section \<open>Steps\<close>

datatype actor = Main nat | Watcher nat | Context nat

text \<open>The native functions are outside the model: any return code may come back, except
  that \<^verbatim>\<open>ERROR_CODE_CANCELLED\<close> is reported only when the token in the thread's slot was
  cancelled, which is what the native library documents.\<close>

inductive step :: "actor \<Rightarrow> sys \<Rightarrow> sys \<Rightarrow> bool" where
  enter: "pc (calls s g) = Idle \<Longrightarrow> \<not> pinned t s \<Longrightarrow>
    step (Main g) s (put_call g \<lparr>pc = Entered, wat = NotStarted, thr = t, watched = cancellable, tok = 0,
      stop_closed = False, ctx_fired = False, rcode = 0, result = None\<rparr> s)"
| token_new: "calls s g = c \<Longrightarrow> pc c = Entered \<Longrightarrow> watched c \<Longrightarrow>
    step (Main g) s (put_call g (c\<lparr>pc := HasToken, tok := next_token s\<rparr>)
      (s\<lparr>next_token := Suc (next_token s), live_tokens := insert (next_token s) (live_tokens s)\<rparr>))"
| set_slot: "calls s g = c \<Longrightarrow> pc c = HasToken \<Longrightarrow>
    step (Main g) s (put_call g (c\<lparr>pc := SlotSet\<rparr>) (s\<lparr>slots := (slots s)(thr c := Some (tok c))\<rparr>))"
| spawn: "calls s g = c \<Longrightarrow> pc c = SlotSet \<Longrightarrow>
    step (Main g) s (put_call g (c\<lparr>pc := Running, wat := Selecting\<rparr>) s)"
| run_unwatched: "calls s g = c \<Longrightarrow> pc c = Entered \<Longrightarrow> \<not> watched c \<Longrightarrow>
    step (Main g) s (put_call g (c\<lparr>pc := Running\<rparr>) s)"
| native_return: "calls s g = c \<Longrightarrow> pc c = Running \<Longrightarrow>
    (rc = ERROR_CODE_CANCELLED \<Longrightarrow> \<exists>k. slots s (thr c) = Some k \<and> k \<in> cancelled_tokens s) \<Longrightarrow>
    step (Main g) s (put_call g (c\<lparr>pc := Returned, rcode := rc,
      result := call_error rc (ctx_fired c) why native_err\<rparr>) s)"
| close_stop: "calls s g = c \<Longrightarrow> pc c = Returned \<Longrightarrow> watched c \<Longrightarrow>
    step (Main g) s (put_call g (c\<lparr>pc := Stopping, stop_closed := True\<rparr>) s)"
| join: "calls s g = c \<Longrightarrow> pc c = Stopping \<Longrightarrow> wat c = Finished \<Longrightarrow>
    step (Main g) s (put_call g (c\<lparr>pc := Joined\<rparr>) s)"
| clear_slot: "calls s g = c \<Longrightarrow> pc c = Joined \<Longrightarrow>
    step (Main g) s (put_call g (c\<lparr>pc := Cleared\<rparr>) (s\<lparr>slots := (slots s)(thr c := None)\<rparr>))"
| token_free: "calls s g = c \<Longrightarrow> pc c = Cleared \<Longrightarrow>
    step (Main g) s (put_call g (c\<lparr>pc := Unpinning\<rparr>)
      (s\<lparr>live_tokens := live_tokens s - {tok c}, token_error := (token_error s \<or> tok c \<notin> live_tokens s)\<rparr>))"
| unpin: "calls s g = c \<Longrightarrow> pc c = Unpinning \<or> pc c = Returned \<and> \<not> watched c \<Longrightarrow>
    step (Main g) s (put_call g (c\<lparr>pc := Idle\<rparr>) s)"
| watch_done: "calls s g = c \<Longrightarrow> wat c = Selecting \<Longrightarrow> ctx_fired c \<Longrightarrow>
    step (Watcher g) s (put_call g (c\<lparr>wat := Cancelling\<rparr>) s)"
| watch_stop: "calls s g = c \<Longrightarrow> wat c = Selecting \<Longrightarrow> stop_closed c \<Longrightarrow>
    step (Watcher g) s (put_call g (c\<lparr>wat := Exiting\<rparr>) s)"
| token_cancel: "calls s g = c \<Longrightarrow> wat c = Cancelling \<Longrightarrow>
    step (Watcher g) s (put_call g (c\<lparr>wat := Exiting\<rparr>)
      (s\<lparr>cancelled_tokens := insert (tok c) (cancelled_tokens s),
         token_error := (token_error s \<or> tok c \<notin> live_tokens s)\<rparr>))"
| watch_exit: "calls s g = c \<Longrightarrow> wat c = Exiting \<Longrightarrow>
    step (Watcher g) s (put_call g (c\<lparr>wat := Finished\<rparr>) s)"
| ctx_done: "calls s g = c \<Longrightarrow> pc c \<noteq> Idle \<Longrightarrow>
    step (Context g) s (put_call g (c\<lparr>ctx_fired := True\<rparr>) s)"

inductive_cases main_stepE: "step (Main g) s s'"
inductive_cases watcher_stepE: "step (Watcher g) s s'"

definition sys_init :: "sys \<Rightarrow> bool" where
  "sys_init s = ((\<forall>g. pc (calls s g) = Idle \<and> wat (calls s g) = NotStarted) \<and> (\<forall>t. slots s t = None) \<and>
     live_tokens s = {} \<and> cancelled_tokens s = {} \<and> \<not> token_error s)"

inductive reachable :: "sys \<Rightarrow> bool" where
  start: "sys_init s \<Longrightarrow> reachable s"
| steps: "reachable s \<Longrightarrow> step a s s' \<Longrightarrow> reachable s'"

section \<open>The invariant\<close>

text \<open>A call owns its token from its creation to its release, and its thread's slot holds
  the token from \<^verbatim>\<open>set_slot\<close> to \<^verbatim>\<open>clear_slot\<close>.\<close>

definition owns_token :: "call \<Rightarrow> bool" where
  "owns_token c = (watched c \<and> pc c \<in> {HasToken, SlotSet, Running, Returned, Stopping, Joined, Cleared})"

definition expected_slot :: "call \<Rightarrow> nat option" where
  "expected_slot c = (if watched c \<and> pc c \<in> {SlotSet, Running, Returned, Stopping, Joined} then Some (tok c) else None)"

text \<open>What holds of one call by itself.\<close>

definition call_ok :: "call \<Rightarrow> bool" where
  "call_ok c =
     ((wat c \<in> {Selecting, Cancelling, Exiting} \<longrightarrow> pc c \<in> {Running, Returned, Stopping} \<and> watched c) \<and>
      (pc c \<in> {HasToken, SlotSet, Stopping, Joined, Cleared, Unpinning} \<longrightarrow> watched c) \<and>
      (pc c \<in> {Running, Returned, Stopping} \<and> watched c \<longrightarrow> wat c \<noteq> NotStarted) \<and>
      (wat c = Cancelling \<longrightarrow> ctx_fired c) \<and> (pc c = Stopping \<longrightarrow> stop_closed c) \<and>
      (pc c = Returned \<and> rcode c = ERROR_CODE_CANCELLED \<longrightarrow> (\<exists>why. result c = Some (ctx_error why))))"

definition sys_inv :: "sys \<Rightarrow> bool" where
  "sys_inv s =
     ((\<forall>g. call_ok (calls s g)) \<and>
      (\<forall>g h. pc (calls s g) \<noteq> Idle \<longrightarrow> pc (calls s h) \<noteq> Idle \<longrightarrow> thr (calls s g) = thr (calls s h) \<longrightarrow> g = h) \<and>
      (\<forall>g. pc (calls s g) \<noteq> Idle \<longrightarrow> slots s (thr (calls s g)) = expected_slot (calls s g)) \<and>
      (\<forall>t. \<not> pinned t s \<longrightarrow> slots s t = None) \<and>
      (\<forall>g. owns_token (calls s g) \<longrightarrow> tok (calls s g) \<in> live_tokens s \<and> tok (calls s g) < next_token s) \<and>
      (\<forall>g h. owns_token (calls s g) \<longrightarrow> owns_token (calls s h) \<longrightarrow> tok (calls s g) = tok (calls s h) \<longrightarrow> g = h) \<and>
      (\<forall>k \<in> cancelled_tokens s. k < next_token s) \<and>
      (\<forall>g. owns_token (calls s g) \<longrightarrow> tok (calls s g) \<in> cancelled_tokens s \<longrightarrow> ctx_fired (calls s g)) \<and>
      (\<forall>k \<in> live_tokens s. \<exists>g. owns_token (calls s g) \<and> tok (calls s g) = k) \<and>
      \<not> token_error s)"

lemmas call_state_defs = owns_token_def expected_slot_def

lemma sys_init_inv: "sys_init s \<Longrightarrow> sys_inv s"
  by (auto simp: sys_init_def sys_inv_def call_ok_def call_state_defs)

lemma put_call_simps [simp]:
  "calls (put_call g c s) = (calls s)(g := c)" "slots (put_call g c s) = slots s"
  "live_tokens (put_call g c s) = live_tokens s" "cancelled_tokens (put_call g c s) = cancelled_tokens s"
  "next_token (put_call g c s) = next_token s" "token_error (put_call g c s) = token_error s"
  by (simp_all add: put_call_def)

lemma sys_invD:
  assumes "sys_inv s"
  shows "call_ok (calls s g)"
    and "pc (calls s g) \<noteq> Idle \<Longrightarrow> pc (calls s h) \<noteq> Idle \<Longrightarrow> thr (calls s g) = thr (calls s h) \<Longrightarrow> g = h"
    and "pc (calls s g) \<noteq> Idle \<Longrightarrow> slots s (thr (calls s g)) = expected_slot (calls s g)"
    and "\<not> pinned t s \<Longrightarrow> slots s t = None"
    and "owns_token (calls s g) \<Longrightarrow> tok (calls s g) \<in> live_tokens s \<and> tok (calls s g) < next_token s"
    and "owns_token (calls s g) \<Longrightarrow> owns_token (calls s h) \<Longrightarrow> tok (calls s g) = tok (calls s h) \<Longrightarrow> g = h"
    and "k \<in> cancelled_tokens s \<Longrightarrow> k < next_token s"
    and "owns_token (calls s g) \<Longrightarrow> tok (calls s g) \<in> cancelled_tokens s \<Longrightarrow> ctx_fired (calls s g)"
    and "k \<in> live_tokens s \<Longrightarrow> \<exists>g. owns_token (calls s g) \<and> tok (calls s g) = k"
    and "\<not> token_error s"
  using assms unfolding sys_inv_def by blast+

text \<open>Every step moves one call; what it has to show for that call and for the others.\<close>

lemma call_step_inv:
  assumes "sys_inv s" and calls: "calls s' = (calls s)(g := c)" and "call_ok c"
    and thr: "pc c \<noteq> Idle \<Longrightarrow> slots s' (thr c) = expected_slot c \<and>
      (\<forall>h. h \<noteq> g \<longrightarrow> pc (calls s h) \<noteq> Idle \<longrightarrow> thr (calls s h) \<noteq> thr c)"
    and slots: "\<And>h. h \<noteq> g \<Longrightarrow> pc (calls s h) \<noteq> Idle \<Longrightarrow> slots s' (thr (calls s h)) = slots s (thr (calls s h))"
    and free: "\<And>t. (\<forall>h. h \<noteq> g \<longrightarrow> pc (calls s h) \<noteq> Idle \<longrightarrow> thr (calls s h) \<noteq> t) \<Longrightarrow>
      (pc c \<noteq> Idle \<Longrightarrow> thr c \<noteq> t) \<Longrightarrow> slots s' t = None"
    and nxt: "next_token s \<le> next_token s'"
    and own: "owns_token c \<Longrightarrow> tok c \<in> live_tokens s' \<and> tok c < next_token s' \<and>
      (tok c \<in> cancelled_tokens s' \<longrightarrow> ctx_fired c) \<and>
      (\<forall>h. h \<noteq> g \<longrightarrow> owns_token (calls s h) \<longrightarrow> tok (calls s h) \<noteq> tok c)"
    and others: "\<And>h. h \<noteq> g \<Longrightarrow> owns_token (calls s h) \<Longrightarrow> tok (calls s h) \<in> live_tokens s' \<and>
      (tok (calls s h) \<in> cancelled_tokens s' \<longrightarrow> tok (calls s h) \<in> cancelled_tokens s)"
    and canc: "\<And>k. k \<in> cancelled_tokens s' \<Longrightarrow> k < next_token s'"
    and live: "\<And>k. k \<in> live_tokens s' \<Longrightarrow> owns_token c \<and> tok c = k \<or>
      (\<exists>h. h \<noteq> g \<and> owns_token (calls s h) \<and> tok (calls s h) = k)"
    and "\<not> token_error s'"
  shows "sys_inv s'"
proof -
  note D = sys_invD [OF assms(1)]
  have at: "calls s' g = c" "h \<noteq> g \<Longrightarrow> calls s' h = calls s h" for h
    by (simp_all add: calls)
  have 1: "call_ok (calls s' h)" for h
    using D(1) assms(3) at by metis
  have 2: "pc (calls s' h) \<noteq> Idle \<Longrightarrow> pc (calls s' i) \<noteq> Idle \<Longrightarrow> thr (calls s' h) = thr (calls s' i) \<Longrightarrow> h = i" for h i
    using D(2) thr at by metis
  have 3: "pc (calls s' h) \<noteq> Idle \<Longrightarrow> slots s' (thr (calls s' h)) = expected_slot (calls s' h)" for h
    using D(3) thr slots at by metis
  have 4: "\<not> pinned t s' \<Longrightarrow> slots s' t = None" for t
    using free [of t] at unfolding pinned_def by metis
  have 5: "owns_token (calls s' h) \<Longrightarrow> tok (calls s' h) \<in> live_tokens s' \<and> tok (calls s' h) < next_token s'" for h
    using D(5) own others nxt at by (metis order_less_le_trans)
  have 6: "owns_token (calls s' h) \<Longrightarrow> owns_token (calls s' i) \<Longrightarrow> tok (calls s' h) = tok (calls s' i) \<Longrightarrow> h = i" for h i
    using D(6) own at by metis
  have 8: "owns_token (calls s' h) \<Longrightarrow> tok (calls s' h) \<in> cancelled_tokens s' \<Longrightarrow> ctx_fired (calls s' h)" for h
    using D(8) own others at by metis
  have 9: "k \<in> live_tokens s' \<Longrightarrow> \<exists>h. owns_token (calls s' h) \<and> tok (calls s' h) = k" for k
    using live at by metis
  show ?thesis
    unfolding sys_inv_def using 1 2 3 4 5 6 canc 8 9 assms(12) by blast
qed

lemma unpinned_slot:
  assumes "sys_inv s" and "\<forall>h. h \<noteq> g \<longrightarrow> pc (calls s h) \<noteq> Idle \<longrightarrow> thr (calls s h) \<noteq> u"
    and "pc (calls s g) \<noteq> Idle \<Longrightarrow> thr (calls s g) \<noteq> u"
  shows "slots s u = None"
  using sys_invD(4) [OF assms(1), of u] assms(2,3) unfolding pinned_def by metis

text \<open>Most steps keep the call's thread and token and what it owns, and touch nothing shared.\<close>

lemma local_step_inv:
  assumes "sys_inv s" and c: "calls s g = c" and "call_ok c'"
    and keep: "pc c' \<noteq> Idle" "pc c \<noteq> Idle" "thr c' = thr c" "tok c' = tok c"
      "owns_token c' = owns_token c" "expected_slot c' = expected_slot c" "ctx_fired c \<Longrightarrow> ctx_fired c'"
  shows "sys_inv (put_call g c' s)"
proof -
  note D = sys_invD [OF assms(1)]
  show ?thesis
  proof (rule call_step_inv [OF assms(1) put_call_simps(1) assms(3)])
    show "slots (put_call g c' s) t = None"
      if "\<forall>h. h \<noteq> g \<longrightarrow> pc (calls s h) \<noteq> Idle \<longrightarrow> thr (calls s h) \<noteq> t" and "pc c' \<noteq> Idle \<Longrightarrow> thr c' \<noteq> t" for t
      using that keep c unpinned_slot [OF assms(1), of g t] by simp
    show "owns_token c' \<and> tok c' = k \<or> (\<exists>h. h \<noteq> g \<and> owns_token (calls s h) \<and> tok (calls s h) = k)"
      if "k \<in> live_tokens (put_call g c' s)" for k
      using that D(9) [of k] keep c by auto
    show "slots (put_call g c' s) (thr c') = expected_slot c' \<and>
      (\<forall>h. h \<noteq> g \<longrightarrow> pc (calls s h) \<noteq> Idle \<longrightarrow> thr (calls s h) \<noteq> thr c')"
      using D(3) [of g] D(2) [of _ g] keep c by auto
    show "tok c' \<in> live_tokens (put_call g c' s) \<and> tok c' < next_token (put_call g c' s) \<and>
      (tok c' \<in> cancelled_tokens (put_call g c' s) \<longrightarrow> ctx_fired c') \<and>
      (\<forall>h. h \<noteq> g \<longrightarrow> owns_token (calls s h) \<longrightarrow> tok (calls s h) \<noteq> tok c')" if "owns_token c'"
      using that D(5) [of g] D(8) [of g] D(6) [of _ g] keep c by auto
  qed (use D in auto)
qed

lemma enter_inv:
  assumes "sys_inv s" and "pc (calls s g) = Idle" and "\<not> pinned t s"
    and c: "pc c = Entered" "wat c = NotStarted" "thr c = t"
  shows "sys_inv (put_call g c s)"
proof -
  note D = sys_invD [OF assms(1)]
  have own: "\<not> owns_token c" "\<not> owns_token (calls s g)" "call_ok c" "expected_slot c = None"
    using assms by (auto simp: owns_token_def call_ok_def expected_slot_def)
  show ?thesis
  proof (rule call_step_inv [OF assms(1) put_call_simps(1) own(3)])
    show "slots (put_call g c s) u = None"
      if "\<forall>h. h \<noteq> g \<longrightarrow> pc (calls s h) \<noteq> Idle \<longrightarrow> thr (calls s h) \<noteq> u" for u
      using that assms(2) unpinned_slot [OF assms(1), of g u] by simp
    show "slots (put_call g c s) (thr c) = expected_slot c \<and>
      (\<forall>h. h \<noteq> g \<longrightarrow> pc (calls s h) \<noteq> Idle \<longrightarrow> thr (calls s h) \<noteq> thr c)"
      using D(4) [of t] own assms(3) c by (auto simp: pinned_def)
    show "owns_token c \<and> tok c = k \<or> (\<exists>h. h \<noteq> g \<and> owns_token (calls s h) \<and> tok (calls s h) = k)"
      if "k \<in> live_tokens (put_call g c s)" for k
      using that D(9) [of k] own by auto
  qed (use D own in auto)
qed

lemma token_new_inv:
  assumes "sys_inv s" and c: "calls s g = c" "pc c = Entered" "watched c"
  shows "sys_inv (put_call g (c\<lparr>pc := HasToken, tok := next_token s\<rparr>)
      (s\<lparr>next_token := Suc (next_token s), live_tokens := insert (next_token s) (live_tokens s)\<rparr>))"
    (is "sys_inv (put_call g ?c ?s)")
proof -
  note D = sys_invD [OF assms(1)]
  have own: "call_ok ?c" "owns_token ?c" "\<not> owns_token c" "expected_slot ?c = None" "expected_slot c = None"
    using c D(1) [of g] by (auto simp: owns_token_def call_ok_def expected_slot_def)
  have fresh: "next_token s \<notin> cancelled_tokens s" "owns_token (calls s h) \<Longrightarrow> tok (calls s h) \<noteq> next_token s" for h
    using D(5) [of h] D(7) [of "next_token s"] by auto
  show ?thesis
  proof (rule call_step_inv [OF assms(1) _ own(1)])
    show "slots (put_call g ?c ?s) u = None"
      if "\<forall>h. h \<noteq> g \<longrightarrow> pc (calls s h) \<noteq> Idle \<longrightarrow> thr (calls s h) \<noteq> u" and "pc ?c \<noteq> Idle \<Longrightarrow> thr ?c \<noteq> u" for u
      using that c unpinned_slot [OF assms(1), of g u] by simp
    show "slots (put_call g ?c ?s) (thr ?c) = expected_slot ?c \<and>
      (\<forall>h. h \<noteq> g \<longrightarrow> pc (calls s h) \<noteq> Idle \<longrightarrow> thr (calls s h) \<noteq> thr ?c)"
      using D(3) [of g] D(2) [of _ g] own c by auto
    show "owns_token ?c \<and> tok ?c = k \<or> (\<exists>h. h \<noteq> g \<and> owns_token (calls s h) \<and> tok (calls s h) = k)"
      if "k \<in> live_tokens (put_call g ?c ?s)" for k
      using that D(9) [of k] own c by auto
    show "k < next_token (put_call g ?c ?s)" if "k \<in> cancelled_tokens (put_call g ?c ?s)" for k
      using that D(7) [of k] by simp
  qed (use D(5,10) own fresh in auto)
qed

lemma set_slot_inv:
  assumes "sys_inv s" and c: "calls s g = c" "pc c = HasToken"
  shows "sys_inv (put_call g (c\<lparr>pc := SlotSet\<rparr>) (s\<lparr>slots := (slots s)(thr c := Some (tok c))\<rparr>))"
    (is "sys_inv (put_call g ?c ?s)")
proof -
  note D = sys_invD [OF assms(1)]
  have own: "call_ok ?c" "owns_token ?c" "owns_token c" "expected_slot ?c = Some (tok c)"
    using c D(1) [of g] by (auto simp: owns_token_def call_ok_def expected_slot_def)
  show ?thesis
  proof (rule call_step_inv [OF assms(1) _ own(1)])
    show "slots (put_call g ?c ?s) u = None"
      if "\<forall>h. h \<noteq> g \<longrightarrow> pc (calls s h) \<noteq> Idle \<longrightarrow> thr (calls s h) \<noteq> u" and "pc ?c \<noteq> Idle \<Longrightarrow> thr ?c \<noteq> u" for u
      using that c unpinned_slot [OF assms(1), of g u] by simp
    show "slots (put_call g ?c ?s) (thr (calls s h)) = slots s (thr (calls s h))"
      if "h \<noteq> g" and "pc (calls s h) \<noteq> Idle" for h
      using that D(2) [of h g] c by auto
    show "slots (put_call g ?c ?s) (thr ?c) = expected_slot ?c \<and>
      (\<forall>h. h \<noteq> g \<longrightarrow> pc (calls s h) \<noteq> Idle \<longrightarrow> thr (calls s h) \<noteq> thr ?c)"
      using D(2) [of _ g] own c by auto
    show "owns_token ?c \<and> tok ?c = k \<or> (\<exists>h. h \<noteq> g \<and> owns_token (calls s h) \<and> tok (calls s h) = k)"
      if "k \<in> live_tokens (put_call g ?c ?s)" for k
      using that D(9) [of k] own c by auto
    show "tok ?c \<in> live_tokens (put_call g ?c ?s) \<and> tok ?c < next_token (put_call g ?c ?s) \<and>
      (tok ?c \<in> cancelled_tokens (put_call g ?c ?s) \<longrightarrow> ctx_fired ?c) \<and>
      (\<forall>h. h \<noteq> g \<longrightarrow> owns_token (calls s h) \<longrightarrow> tok (calls s h) \<noteq> tok ?c)"
      using D(5,8) [of g] D(6) [of _ g] own c by auto
  qed (use D(5,7,10) in auto)
qed

lemma clear_slot_inv:
  assumes "sys_inv s" and c: "calls s g = c" "pc c = Joined"
  shows "sys_inv (put_call g (c\<lparr>pc := Cleared\<rparr>) (s\<lparr>slots := (slots s)(thr c := None)\<rparr>))"
    (is "sys_inv (put_call g ?c ?s)")
proof -
  note D = sys_invD [OF assms(1)]
  have own: "call_ok ?c" "owns_token ?c" "owns_token c" "expected_slot ?c = None"
    using c D(1) [of g] by (auto simp: owns_token_def call_ok_def expected_slot_def)
  show ?thesis
  proof (rule call_step_inv [OF assms(1) _ own(1)])
    show "slots (put_call g ?c ?s) u = None"
      if "\<forall>h. h \<noteq> g \<longrightarrow> pc (calls s h) \<noteq> Idle \<longrightarrow> thr (calls s h) \<noteq> u" and "pc ?c \<noteq> Idle \<Longrightarrow> thr ?c \<noteq> u" for u
      using that c unpinned_slot [OF assms(1), of g u] by simp
    show "slots (put_call g ?c ?s) (thr (calls s h)) = slots s (thr (calls s h))"
      if "h \<noteq> g" and "pc (calls s h) \<noteq> Idle" for h
      using that D(2) [of h g] c by auto
    show "slots (put_call g ?c ?s) (thr ?c) = expected_slot ?c \<and>
      (\<forall>h. h \<noteq> g \<longrightarrow> pc (calls s h) \<noteq> Idle \<longrightarrow> thr (calls s h) \<noteq> thr ?c)"
      using D(2) [of _ g] own c by auto
    show "owns_token ?c \<and> tok ?c = k \<or> (\<exists>h. h \<noteq> g \<and> owns_token (calls s h) \<and> tok (calls s h) = k)"
      if "k \<in> live_tokens (put_call g ?c ?s)" for k
      using that D(9) [of k] own c by auto
    show "tok ?c \<in> live_tokens (put_call g ?c ?s) \<and> tok ?c < next_token (put_call g ?c ?s) \<and>
      (tok ?c \<in> cancelled_tokens (put_call g ?c ?s) \<longrightarrow> ctx_fired ?c) \<and>
      (\<forall>h. h \<noteq> g \<longrightarrow> owns_token (calls s h) \<longrightarrow> tok (calls s h) \<noteq> tok ?c)"
      using D(5,8) [of g] D(6) [of _ g] own c by auto
  qed (use D(5,7,10) in auto)
qed

lemma token_free_inv:
  assumes "sys_inv s" and c: "calls s g = c" "pc c = Cleared"
  shows "sys_inv (put_call g (c\<lparr>pc := Unpinning\<rparr>)
      (s\<lparr>live_tokens := live_tokens s - {tok c}, token_error := (token_error s \<or> tok c \<notin> live_tokens s)\<rparr>))"
    (is "sys_inv (put_call g ?c ?s)")
proof -
  note D = sys_invD [OF assms(1)]
  have own: "call_ok ?c" "\<not> owns_token ?c" "owns_token c" "expected_slot ?c = None" "expected_slot c = None"
    using c D(1) [of g] by (auto simp: owns_token_def call_ok_def expected_slot_def)
  have diff: "tok (calls s h) \<noteq> tok c" if "h \<noteq> g" "owns_token (calls s h)" for h
    using that D(6) [of h g] own c by auto
  show ?thesis
  proof (rule call_step_inv [OF assms(1) _ own(1)])
    show "slots (put_call g ?c ?s) u = None"
      if "\<forall>h. h \<noteq> g \<longrightarrow> pc (calls s h) \<noteq> Idle \<longrightarrow> thr (calls s h) \<noteq> u" and "pc ?c \<noteq> Idle \<Longrightarrow> thr ?c \<noteq> u" for u
      using that c unpinned_slot [OF assms(1), of g u] by simp
    show "slots (put_call g ?c ?s) (thr ?c) = expected_slot ?c \<and>
      (\<forall>h. h \<noteq> g \<longrightarrow> pc (calls s h) \<noteq> Idle \<longrightarrow> thr (calls s h) \<noteq> thr ?c)"
      using D(3) [of g] D(2) [of _ g] own c by auto
    show "owns_token ?c \<and> tok ?c = k \<or> (\<exists>h. h \<noteq> g \<and> owns_token (calls s h) \<and> tok (calls s h) = k)"
      if "k \<in> live_tokens (put_call g ?c ?s)" for k
      using that D(9) [of k] own c by auto
    show "\<not> token_error (put_call g ?c ?s)"
      using D(5) [of g] D(10) own c by simp
  qed (use D(5,7) own diff in auto)
qed

lemma unpin_inv:
  assumes "sys_inv s" and c: "calls s g = c" "pc c = Unpinning \<or> pc c = Returned \<and> \<not> watched c"
  shows "sys_inv (put_call g (c\<lparr>pc := Idle\<rparr>) s)" (is "sys_inv (put_call g ?c s)")
proof -
  note D = sys_invD [OF assms(1)]
  have "call_ok c" using D(1) [of g] c(1) by simp
  then have own: "call_ok ?c" "\<not> owns_token ?c" "\<not> owns_token c" "expected_slot c = None"
    using c(2) by (cases "pc c", simp_all add: call_ok_def call_state_defs)+
  have slot: "slots s (thr c) = None"
    using D(3) [of g] own c by auto
  show ?thesis
  proof (rule call_step_inv [OF assms(1) put_call_simps(1) own(1)])
    show "slots (put_call g ?c s) u = None"
      if "\<forall>h. h \<noteq> g \<longrightarrow> pc (calls s h) \<noteq> Idle \<longrightarrow> thr (calls s h) \<noteq> u" for u
      using unpinned_slot [OF assms(1) that] c(1) slot by (cases "u = thr c") simp_all
    show "owns_token ?c \<and> tok ?c = k \<or> (\<exists>h. h \<noteq> g \<and> owns_token (calls s h) \<and> tok (calls s h) = k)"
      if "k \<in> live_tokens (put_call g ?c s)" for k
      using that D(9) [of k] own c by auto
  qed (use D(5,7,10) own in auto)
qed

lemma token_cancel_inv:
  assumes "sys_inv s" and c: "calls s g = c" "wat c = Cancelling"
  shows "sys_inv (put_call g (c\<lparr>wat := Exiting\<rparr>)
      (s\<lparr>cancelled_tokens := insert (tok c) (cancelled_tokens s),
         token_error := (token_error s \<or> tok c \<notin> live_tokens s)\<rparr>))"
    (is "sys_inv (put_call g ?c ?s)")
proof -
  note D = sys_invD [OF assms(1)]
  have own: "call_ok ?c" "owns_token ?c" "owns_token c" "expected_slot ?c = expected_slot c" "pc c \<noteq> Idle" "ctx_fired c"
    using c D(1) [of g] by (auto simp: owns_token_def call_ok_def expected_slot_def)
  have diff: "tok (calls s h) \<noteq> tok c" if "h \<noteq> g" "owns_token (calls s h)" for h
    using that D(6) [of h g] own c by auto
  show ?thesis
  proof (rule call_step_inv [OF assms(1) _ own(1)])
    show "slots (put_call g ?c ?s) u = None"
      if "\<forall>h. h \<noteq> g \<longrightarrow> pc (calls s h) \<noteq> Idle \<longrightarrow> thr (calls s h) \<noteq> u" and "pc ?c \<noteq> Idle \<Longrightarrow> thr ?c \<noteq> u" for u
      using that c unpinned_slot [OF assms(1), of g u] by simp
    show "slots (put_call g ?c ?s) (thr ?c) = expected_slot ?c \<and>
      (\<forall>h. h \<noteq> g \<longrightarrow> pc (calls s h) \<noteq> Idle \<longrightarrow> thr (calls s h) \<noteq> thr ?c)"
      using D(3) [of g] D(2) [of _ g] own c by auto
    show "owns_token ?c \<and> tok ?c = k \<or> (\<exists>h. h \<noteq> g \<and> owns_token (calls s h) \<and> tok (calls s h) = k)"
      if "k \<in> live_tokens (put_call g ?c ?s)" for k
      using that D(9) [of k] own c by auto
    show "k < next_token (put_call g ?c ?s)" if "k \<in> cancelled_tokens (put_call g ?c ?s)" for k
      using that D(5) [of g] D(7) [of k] own c by auto
    show "\<not> token_error (put_call g ?c ?s)"
      using D(5) [of g] D(10) own c by simp
    show "tok ?c \<in> live_tokens (put_call g ?c ?s) \<and> tok ?c < next_token (put_call g ?c ?s) \<and>
      (tok ?c \<in> cancelled_tokens (put_call g ?c ?s) \<longrightarrow> ctx_fired ?c) \<and>
      (\<forall>h. h \<noteq> g \<longrightarrow> owns_token (calls s h) \<longrightarrow> tok (calls s h) \<noteq> tok ?c)"
      using D(5) [of g] own c diff by auto
  qed (use D(5) diff in auto)
qed

lemma native_return_call_ok:
  assumes "sys_inv s" and c: "calls s g = c" "pc c = Running"
    and "rc = ERROR_CODE_CANCELLED \<Longrightarrow> \<exists>k. slots s (thr c) = Some k \<and> k \<in> cancelled_tokens s"
  shows "call_ok (c\<lparr>pc := Returned, rcode := rc, result := call_error rc (ctx_fired c) why native_err\<rparr>)"
proof -
  note D = sys_invD [OF assms(1)]
  have "ctx_fired c" if "rc = ERROR_CODE_CANCELLED"
    using assms(4) [OF that] D(3,8) [of g] c by (auto simp: expected_slot_def owns_token_def split: if_splits)
  then show ?thesis
    using D(1) [of g] c by (auto simp: call_ok_def call_error_def error_code_defs)
qed

lemma local_call_inv:
  assumes "sys_inv s" and "calls s g = c"
    and "call_ok c \<Longrightarrow> call_ok c' \<and> pc c' \<noteq> Idle \<and> pc c \<noteq> Idle \<and> thr c' = thr c \<and> tok c' = tok c \<and>
      owns_token c' = owns_token c \<and> expected_slot c' = expected_slot c \<and> (ctx_fired c \<longrightarrow> ctx_fired c')"
  shows "sys_inv (put_call g c' s)"
  using assms(3) sys_invD(1) [OF assms(1), of g] assms(2) by (intro local_step_inv [OF assms(1,2)]) auto

lemmas stage_defs = call_ok_def call_state_defs

lemma step_inv: "step a s s' \<Longrightarrow> sys_inv s \<Longrightarrow> sys_inv s'"
proof (induction rule: step.induct)
  case (native_return s g c rc why native_err)
  have "call_ok (c\<lparr>pc := Returned, rcode := rc, result := call_error rc (ctx_fired c) why native_err\<rparr>)"
    using native_return.prems native_return.hyps by (rule native_return_call_ok)
  then show ?case
    using native_return.hyps by (intro local_call_inv [OF native_return.prems]) (auto simp: call_state_defs)
next
  case (watch_done s g c)
  then show ?case
    by (intro local_call_inv [OF watch_done.prems watch_done.hyps(1)]) (cases "pc c"; simp add: stage_defs)
next
  case (watch_stop s g c)
  then show ?case
    by (intro local_call_inv [OF watch_stop.prems watch_stop.hyps(1)]) (cases "pc c"; simp add: stage_defs)
next
  case (watch_exit s g c)
  then show ?case
    by (intro local_call_inv [OF watch_exit.prems watch_exit.hyps(1)]) (cases "pc c"; simp add: stage_defs)
next
  case (ctx_done s g c)
  then show ?case
    by (intro local_call_inv [OF ctx_done.prems ctx_done.hyps(1)]) (cases "pc c"; simp add: stage_defs)
next
  case (enter s g t cancellable)
  then show ?case by (intro enter_inv) auto
qed ((rule unpin_inv token_new_inv set_slot_inv clear_slot_inv token_free_inv token_cancel_inv; assumption)
    | (rule local_call_inv, assumption, assumption, simp add: stage_defs))+

lemma reachable_inv: "reachable s \<Longrightarrow> sys_inv s"
  by (induction rule: reachable.induct) (auto intro: sys_init_inv step_inv)

section \<open>Progress of the teardown\<close>

definition tearing_down :: "call \<Rightarrow> bool" where
  "tearing_down c = (pc c \<in> {Returned, Stopping, Joined, Cleared, Unpinning})"

fun main_rank :: "main_pc \<Rightarrow> nat" where
  "main_rank Returned = 5"
| "main_rank Stopping = 4"
| "main_rank Joined = 3"
| "main_rank Cleared = 2"
| "main_rank Unpinning = 1"
| "main_rank _ = 0"

fun watcher_rank :: "watcher_pc \<Rightarrow> nat" where
  "watcher_rank Selecting = 3"
| "watcher_rank Cancelling = 2"
| "watcher_rank Exiting = 1"
| "watcher_rank _ = 0"

definition teardown_rank :: "call \<Rightarrow> nat" where
  "teardown_rank c = main_rank (pc c) + watcher_rank (wat c)"

lemma teardown_enabled:
  assumes "sys_inv s" and "tearing_down (calls s g)"
  shows "\<exists>a s'. a \<in> {Main g, Watcher g} \<and> step a s s'"
proof -
  have ok: "call_ok (calls s g)" using assms(1) by (rule sys_invD(1))
  have "\<exists>s'. step (Watcher g) s s'" if "pc (calls s g) = Stopping" "wat (calls s g) \<noteq> Finished"
    using that ok step.watch_stop [OF refl] step.token_cancel [OF refl] step.watch_exit [OF refl]
    by (cases "wat (calls s g)") (fastforce simp: call_ok_def)+
  moreover have "\<exists>s'. step (Main g) s s'" if "pc (calls s g) = Stopping \<longrightarrow> wat (calls s g) = Finished"
    using that assms(2) step.close_stop [OF refl] step.join [OF refl] step.clear_slot [OF refl]
      step.token_free [OF refl] step.unpin [OF refl]
    unfolding tearing_down_def by blast
  ultimately show ?thesis by blast
qed

lemma own_step_rank:
  assumes "step a s s'" and "tearing_down (calls s g)" and "a \<in> {Main g, Watcher g}"
  shows "teardown_rank (calls s' g) < teardown_rank (calls s g)"
  using assms by (induction rule: step.induct) (auto simp: tearing_down_def teardown_rank_def)

lemma other_step_rank:
  assumes "step a s s'" and "a \<notin> {Main g, Watcher g}"
  shows "teardown_rank (calls s' g) = teardown_rank (calls s g)"
  using assms by (induction rule: step.induct) (auto simp: teardown_rank_def)

text \<open>A run for the witnesses: goroutine 0 makes a cancellable call on thread 7, the context
  fires while the native function runs, the watcher cancels the token, and the native side
  reports the cancellation.\<close>

definition sys0 :: sys where
  "sys0 = \<lparr>calls = (\<lambda>_. \<lparr>pc = Idle, wat = NotStarted, thr = 0, watched = False, tok = 0, stop_closed = False,
     ctx_fired = False, rcode = 0, result = None\<rparr>), slots = (\<lambda>_. None), live_tokens = {},
     cancelled_tokens = {}, next_token = 0, token_error = False\<rparr>"

lemma reach_cancelling:
  "\<exists>s. reachable s \<and> pc (calls s 0) = Running \<and> wat (calls s 0) = Cancelling \<and> watched (calls s 0) \<and>
     thr (calls s 0) = 7 \<and> tok (calls s 0) = 0 \<and> slots s 7 = Some 0 \<and> ctx_fired (calls s 0)"
proof -
  have "reachable sys0" by (rule reachable.start) (simp add: sys_init_def sys0_def)
  note r1 = reachable.steps [OF this step.enter [of _ 0 7 True]]
  note r2 = reachable.steps [OF r1 step.token_new [OF refl, of _ 0]]
  note r3 = reachable.steps [OF r2 step.set_slot [OF refl, of _ 0]]
  note r4 = reachable.steps [OF r3 step.spawn [OF refl, of _ 0]]
  note r5 = reachable.steps [OF r4 step.ctx_done [OF refl, of _ 0]]
  note r6 = reachable.steps [OF r5 step.watch_done [OF refl, of _ 0]]
  show ?thesis
    by (rule exI, rule conjI, rule r6) (simp_all add: sys0_def pinned_def)
qed

lemma reach_returned:
  "\<exists>s. reachable s \<and> pc (calls s 0) = Returned \<and> rcode (calls s 0) = ERROR_CODE_CANCELLED"
proof -
  obtain s where s: "reachable s" "pc (calls s 0) = Running" "wat (calls s 0) = Cancelling"
    "thr (calls s 0) = 7" "tok (calls s 0) = 0" "slots s 7 = Some 0"
    using reach_cancelling by blast
  note r1 = reachable.steps [OF s(1) step.token_cancel [OF refl s(3)]]
  note r2 = reachable.steps [OF r1 step.native_return [OF refl, of _ 0 ERROR_CODE_CANCELLED Canceled None]]
  show ?thesis
    by (rule exI, rule conjI, rule r2) (use s in simp_all)
qed

section \<open>Properties\<close>

text \<open>C1: the cancel token is safe under every interleaving. In every reachable state no
  token was cancelled or freed after being freed, a watcher that is about to fire a token
  holds a live one, every token in a thread's slot is live (so the native side never reads
  a freed token), and once no call is in progress no token is left and every slot is empty.\<close>

theorem cancel_token_safety:
  assumes "reachable s"
  shows "\<not> token_error s \<and>
    (\<forall>g. wat (calls s g) = Cancelling \<longrightarrow> tok (calls s g) \<in> live_tokens s) \<and>
    (\<forall>t k. slots s t = Some k \<longrightarrow> k \<in> live_tokens s) \<and>
    ((\<forall>g. pc (calls s g) = Idle) \<longrightarrow> live_tokens s = {} \<and> (\<forall>t. slots s t = None))"
proof -
  note D = sys_invD [OF reachable_inv [OF assms]]
  have wat: "tok (calls s g) \<in> live_tokens s" if "wat (calls s g) = Cancelling" for g
    using D(1) [of g] D(5) [of g] that by (auto simp: call_ok_def owns_token_def)
  have slot: "k \<in> live_tokens s" if sl: "slots s t = Some k" for t k
  proof -
    obtain g where "pc (calls s g) \<noteq> Idle" "thr (calls s g) = t"
      using sl D(4) [of t] unfolding pinned_def by auto
    then show ?thesis
      using sl D(3) [of g] D(5) [of g] by (auto simp: call_state_defs split: if_splits)
  qed
  have idle: "live_tokens s = {} \<and> (\<forall>t. slots s t = None)" if "\<forall>g. pc (calls s g) = Idle"
    using that D(4,9) by (fastforce simp: pinned_def owns_token_def)
  show ?thesis using D(10) wat slot idle by blast
qed

theorem cancel_token_safety_witness:
  "\<exists>s. reachable s \<and> wat (calls s 0) = Cancelling \<and> tok (calls s 0) \<in> live_tokens s"
  using reach_cancelling cancel_token_safety by blast

text \<open>C13: calls are isolated from each other. While a call runs its native function, its
  thread's slot holds exactly its own token when its context can be cancelled, and is empty
  when it cannot, whatever calls used the thread before; and no other call in progress runs
  on the same thread.\<close>

theorem cancel_slot_isolation:
  assumes "reachable s" and "pc (calls s g) = Running"
  shows "slots s (thr (calls s g)) = (if watched (calls s g) then Some (tok (calls s g)) else None) \<and>
    (\<forall>h. h \<noteq> g \<longrightarrow> pc (calls s h) \<noteq> Idle \<longrightarrow> thr (calls s h) \<noteq> thr (calls s g))"
proof -
  note D = sys_invD [OF reachable_inv [OF assms(1)]]
  show ?thesis
    using D(3) [of g] D(2) [of _ g] assms(2) by (auto simp: expected_slot_def)
qed

theorem cancel_slot_isolation_witness:
  "\<exists>s. reachable s \<and> pc (calls s 0) = Running \<and> slots s 7 = Some (tok (calls s 0))"
proof -
  obtain s where s: "reachable s" "pc (calls s 0) = Running" "watched (calls s 0)" "thr (calls s 0) = 7"
    using reach_cancelling by blast
  show ?thesis
    using cancel_slot_isolation [OF s(1,2)] s by auto
qed

text \<open>C15: cancellation surfaces as the context's own error. Whenever the native side reports
  \<^verbatim>\<open>ERROR_CODE_CANCELLED\<close>, the call returns \<^verbatim>\<open>context.Canceled\<close> or \<^verbatim>\<open>context.DeadlineExceeded\<close>:
  the fallback to \<^verbatim>\<open>ErrCanceled\<close> is not reached, because a token is cancelled only by the
  watcher that saw the context done.\<close>

theorem cancellation_is_ctx_error:
  assumes "reachable s" and "pc (calls s g) = Returned" and "rcode (calls s g) = ERROR_CODE_CANCELLED"
  shows "\<exists>why. result (calls s g) = Some (ctx_error why)"
  using sys_invD(1) [OF reachable_inv [OF assms(1)], of g] assms(2,3) by (simp add: call_ok_def)

theorem cancellation_is_ctx_error_witness:
  "\<exists>s why. reachable s \<and> rcode (calls s 0) = ERROR_CODE_CANCELLED \<and> result (calls s 0) = Some (ctx_error why)"
  using reach_returned cancellation_is_ctx_error by blast

text \<open>C14: the teardown always finishes. Once the native function has returned, the call or
  its watcher can take a step until the call is over (joining the watcher never
  deadlocks), each of their steps decreases a rank, and nothing else increases it.\<close>

theorem teardown_terminates:
  assumes "reachable s" and "tearing_down (calls s g)"
  shows "(\<exists>a s'. a \<in> {Main g, Watcher g} \<and> step a s s') \<and>
    (\<forall>a s'. step a s s' \<longrightarrow>
       (if a \<in> {Main g, Watcher g} then teardown_rank (calls s' g) < teardown_rank (calls s g)
        else teardown_rank (calls s' g) = teardown_rank (calls s g)))"
  using teardown_enabled [OF reachable_inv [OF assms(1)] assms(2)] own_step_rank [OF _ assms(2)] other_step_rank
  by simp

theorem teardown_terminates_witness:
  "\<exists>s a s'. reachable s \<and> pc (calls s 0) = Returned \<and> a \<in> {Main 0, Watcher 0} \<and> step a s s'"
proof -
  obtain s where s: "reachable s" "pc (calls s 0) = Returned"
    using reach_returned by blast
  have "tearing_down (calls s 0)" using s(2) by (simp add: tearing_down_def)
  from conjunct1 [OF teardown_terminates [OF s(1) this]] s show ?thesis
    by (elim exE conjE) (intro exI conjI)
qed

end
