(* ===== verification/Lance_Wire.thy ===== *)
theory Lance_Wire
  imports Lance_Callbacks "HOL-Library.Sublist"
begin

text \<open>
  The byte formats that cross the callback bridge: the Go decoders of \<^verbatim>\<open>lance/cache.go\<close>
  (cache keys, object-store ranges, little-endian counters) against the encoders of
  \<^verbatim>\<open>rust/src/cache.rs\<close>, \<^verbatim>\<open>rust/src/hooks.rs\<close> and \<^verbatim>\<open>rust/src/session.rs\<close>. Slicing out of range
  panics in Go, so the decoders return an outcome; lengths are compared at 32 bits as the
  code does.
\<close>

named_theorems wire_simps "decoding what the native side encodes"

section \<open>Slices\<close>

text \<open>\<^verbatim>\<open>b[n:]\<close> and \<^verbatim>\<open>b[:n]\<close>, with the run-time check.\<close>

definition slice_panic :: string where
  "slice_panic = ''runtime error: slice bounds out of range''"

definition slice_from :: "nat \<Rightarrow> bytes \<Rightarrow> bytes outcome" where
  "slice_from n b = (if n \<le> length b then Ret (drop n b) else Panic slice_panic)"

definition slice_to :: "nat \<Rightarrow> bytes \<Rightarrow> bytes outcome" where
  "slice_to n b = (if n \<le> length b then Ret (take n b) else Panic slice_panic)"

text \<open>Sequencing of calls that may panic and of calls that may fail as well.\<close>

definition obind :: "'a outcome \<Rightarrow> ('a \<Rightarrow> 'b outcome) \<Rightarrow> 'b outcome" where
  "obind m f = (case m of Ret x \<Rightarrow> f x | Panic v \<Rightarrow> Panic v)"

definition ebind :: "(goerr + 'a) outcome \<Rightarrow> ('a \<Rightarrow> (goerr + 'b) outcome) \<Rightarrow> (goerr + 'b) outcome" where
  "ebind m f = obind m (\<lambda>r. case r of Inl e \<Rightarrow> Ret (Inl e) | Inr x \<Rightarrow> f x)"

lemma obind_Ret [simp]: "obind (Ret x) f = f x" and obind_Panic [simp]: "obind (Panic v) f = Panic v"
  by (simp_all add: obind_def)

lemma ebind_simps [simp]:
  "ebind (Ret (Inr x)) f = f x" "ebind (Ret (Inl e)) f = Ret (Inl e)" "ebind (Panic v) f = Panic v"
  by (simp_all add: ebind_def)

lemma slice_simps [simp]:
  "n \<le> length b \<Longrightarrow> slice_from n b = Ret (drop n b)" "n \<le> length b \<Longrightarrow> slice_to n b = Ret (take n b)"
  by (simp_all add: slice_from_def slice_to_def)

section \<open>Decoders\<close>

record cache_key =
  Prefix :: string
  Key :: string
  TypeName :: string

text \<open>The closure \<^verbatim>\<open>readStr\<close> of \<^verbatim>\<open>decodeCacheKey\<close>: it returns the string and moves \<^verbatim>\<open>rd\<close> on.
  \<^verbatim>\<open>uint32(len(rd))\<close> keeps only the low 32 bits of the length.\<close>

definition readStr :: "bytes \<Rightarrow> (goerr + string \<times> bytes) outcome" where
  "readStr rd =
     (if length rd < 4 then Ret (Inl (Errorf [Lit ''lance: truncated cache key'']))
      else let n = get_u32 rd in
        obind (slice_from 4 rd) (\<lambda>rd.
          if (of_nat (length rd) :: u32) < n then Ret (Inl (Errorf [Lit ''lance: truncated cache key string'']))
          else obind (slice_to (unat n) rd) (\<lambda>s. obind (slice_from (unat n) rd) (\<lambda>rest.
            Ret (Inr (string_of_bytes s, rest))))))"

definition decodeCacheKey :: "bytes \<Rightarrow> (goerr + cache_key \<times> bytes) outcome" where
  "decodeCacheKey payload =
     ebind (readStr payload) (\<lambda>(prefix, rd).
     ebind (readStr rd) (\<lambda>(key, rd).
     ebind (readStr rd) (\<lambda>(typeName, rd).
       Ret (Inr (\<lparr>Prefix = prefix, Key = key, TypeName = typeName\<rparr>, rd)))))"

definition decodeRangeKey :: "bytes \<Rightarrow> (goerr + string \<times> u64 \<times> u64 \<times> bytes) outcome" where
  "decodeRangeKey payload =
     (if length payload < 4 then Ret (Inl (Errorf [Lit ''lance: truncated range key'']))
      else let n = get_u32 payload in
        obind (slice_from 4 payload) (\<lambda>rd.
          if (of_nat (length rd) :: u32) < n then Ret (Inl (Errorf [Lit ''lance: truncated range key path'']))
          else obind (slice_to (unat n) rd) (\<lambda>p. obind (slice_from (unat n) rd) (\<lambda>rd.
            if length rd < 16 then Ret (Inl (Errorf [Lit ''lance: truncated range key bounds'']))
            else obind (slice_to 8 rd) (\<lambda>a. obind (slice_from 8 rd) (\<lambda>rd8. obind (slice_to 8 rd8) (\<lambda>b.
              obind (slice_from 16 rd) (\<lambda>data.
                Ret (Inr (string_of_bytes p, get_u64 a, get_u64 b, data))))))))))"

definition u64le :: "u64 \<Rightarrow> bytes" where
  "u64le v = put_u64 v"

section \<open>The native encoders\<close>

definition put_str :: "string \<Rightarrow> bytes" where
  "put_str s = put_u32 (of_nat (length s)) @ bytes_of_string s"

definition encode_cache_key :: "cache_key \<Rightarrow> bytes" where
  "encode_cache_key k = put_str (Prefix k) @ put_str (Key k) @ put_str (TypeName k)"

definition encode_range_key :: "string \<Rightarrow> u64 \<Rightarrow> u64 \<Rightarrow> bytes" where
  "encode_range_key path start end = put_str path @ put_u64 start @ put_u64 end"

text \<open>\<^verbatim>\<open>decode_u64\<close> pads a short response with zeros and ignores what follows eight bytes.\<close>

definition decode_u64 :: "bytes \<Rightarrow> u64" where
  "decode_u64 b = get_u64 (take 8 b @ replicate (8 - min (length b) 8) 0)"

section \<open>Reading one string\<close>

lemma unat_u32_le: "\<not> (of_nat L :: u32) < n \<Longrightarrow> unat n \<le> L"
proof -
  assume "\<not> (of_nat L :: u32) < n"
  then have "unat n \<le> unat (of_nat L :: u32)"
    by (simp add: word_le_nat_alt not_less)
  also have "\<dots> = L mod 4294967296"
    by (simp add: unat_of_nat)
  also have "\<dots> \<le> L" by simp
  finally show ?thesis .
qed

lemma of_nat_u32_not_less:
  assumes "n \<le> L" and "L < 4294967296"
  shows "\<not> (of_nat L :: u32) < of_nat n"
proof -
  have "unat (of_nat n :: u32) = n" "unat (of_nat L :: u32) = L"
    using assms by (simp_all add: unat_of_nat)
  with assms(1) show ?thesis by (simp add: word_less_nat_alt)
qed

lemma readStr_put_str [wire_simps]:
  assumes "length s + length rest < 4294967296"
  shows "readStr (put_str s @ rest) = Ret (Inr (s, rest))"
proof -
  have n: "unat (of_nat (length s) :: u32) = length s"
    using assms by (simp add: unat_of_nat)
  have "\<not> (of_nat (length s + length rest) :: u32) < of_nat (length s)"
    using assms by (intro of_nat_u32_not_less) auto
  then show ?thesis
    by (simp add: readStr_def put_str_def n Let_def)
qed

lemma readStr_Ret: "\<exists>r. readStr rd = Ret r"
proof (cases "length rd < 4 \<or> (of_nat (length rd - 4) :: u32) < get_u32 rd")
  case True
  then show ?thesis by (auto simp: readStr_def Let_def)
next
  case False
  then have "unat (get_u32 rd) \<le> length rd - 4" using unat_u32_le by blast
  with False show ?thesis by (simp add: readStr_def Let_def)
qed

lemma le_bytes_le_nat: "le_bytes (length c) (le_nat c) = c"
  by (induction c) (auto simp: unat_of_nat)

lemma le_nat_bound: "le_nat c < 256 ^ length c"
proof (induction c)
  case (Cons x c)
  have "unat x < 256" by simp
  with Cons have "unat x + 256 * le_nat c < 256 + 256 * (256 ^ length c - 1)"
    by (intro add_less_le_mono) auto
  also have "\<dots> \<le> 256 ^ length (x # c)"
    by (simp add: algebra_simps)
  finally show ?case by simp
qed simp

lemma put_get_u32: "4 \<le> length b \<Longrightarrow> put_u32 (get_u32 b) = take 4 b"
proof -
  assume "4 \<le> length b"
  then have len: "length (take 4 b) = 4" by simp
  have "unat (get_u32 b) = le_nat (take 4 b)"
    using le_nat_bound [of "take 4 b"] len by (simp add: get_u32_def unat_of_nat)
  then show ?thesis
    using le_bytes_le_nat [of "take 4 b"] len by (simp add: put_u32_def)
qed

lemma get_put_u64_exact [simp]: "get_u64 (put_u64 v) = v"
  using get_put_u64 [of v "[]"] by simp

lemma put_str_length [simp]: "length (put_str s) = 4 + length s"
  by (simp add: put_str_def)

lemma readStr_sound:
  assumes "readStr rd = Ret (Inr (s, rest))"
  shows "rd = put_str s @ rest"
proof -
  have g1: "\<not> length rd < 4"
    using assms by (auto simp: readStr_def)
  with assms have "\<not> (of_nat (length rd - 4) :: u32) < get_u32 rd"
    by (auto simp: readStr_def Let_def)
  note g = g1 this
  from unat_u32_le [OF g(2)] have n: "unat (get_u32 rd) \<le> length rd - 4" .
  from assms g n have s: "s = string_of_bytes (take (unat (get_u32 rd)) (drop 4 rd))"
    "rest = drop (unat (get_u32 rd)) (drop 4 rd)"
    by (simp_all add: readStr_def Let_def)
  have "length s = unat (get_u32 rd)" using s(1) n by simp
  then have "put_u32 (of_nat (length s)) = take 4 rd"
    using put_get_u32 [of rd] g(1) by simp
  then show ?thesis
    unfolding put_str_def s by (simp add: drop_drop [symmetric] del: drop_drop)
qed

lemma put_get_u64: "length b = 8 \<Longrightarrow> put_u64 (get_u64 b) = b"
proof -
  assume len: "length b = 8"
  have "unat (get_u64 b) = le_nat b"
    using le_nat_bound [of b] len by (simp add: get_u64_def unat_of_nat)
  then show ?thesis
    using le_bytes_le_nat [of b] len by (simp add: put_u64_def)
qed

lemma decodeCacheKey_Ret: "\<exists>r. decodeCacheKey p = Ret r"
proof -
  have "\<exists>r. ebind (readStr b) f = Ret r" if "\<And>x. \<exists>r. f x = Ret r" for b and f :: "string \<times> bytes \<Rightarrow> (goerr + 'b) outcome"
    using readStr_Ret [of b] that by (auto simp: ebind_def split: sum.split)
  then show ?thesis
    unfolding decodeCacheKey_def by (metis (no_types, lifting) case_prod_beta')
qed

lemma decodeCacheKey_sound:
  assumes "decodeCacheKey p = Ret (Inr (k, v))"
  shows "p = encode_cache_key k @ v"
proof -
  have step: "\<exists>s rd. readStr b = Ret (Inr (s, rd)) \<and> f (s, rd) = Ret (Inr r)"
    if "ebind (readStr b) f = Ret (Inr r)" for b r and f :: "string \<times> bytes \<Rightarrow> (goerr + cache_key \<times> bytes) outcome"
    using readStr_Ret [of b] that by (auto simp: ebind_def split: sum.splits)
  obtain s1 r1 s2 r2 s3 where
    "readStr p = Ret (Inr (s1, r1))" "readStr r1 = Ret (Inr (s2, r2))" "readStr r2 = Ret (Inr (s3, v))"
    "k = \<lparr>Prefix = s1, Key = s2, TypeName = s3\<rparr>"
    using assms unfolding decodeCacheKey_def by (auto dest!: step)
  then show ?thesis
    by (simp add: encode_cache_key_def readStr_sound)
qed

lemma decodeCacheKey_encode [wire_simps]:
  "length (encode_cache_key k @ v) < 4294967296 \<Longrightarrow> decodeCacheKey (encode_cache_key k @ v) = Ret (Inr (k, v))"
  by (simp add: decodeCacheKey_def encode_cache_key_def readStr_put_str put_str_length)

text \<open>\<^verbatim>\<open>decodeRangeKey\<close> reads its path as \<^verbatim>\<open>readStr\<close> does, with its own error texts.\<close>

lemma decodeRangeKey_cases:
  "(\<exists>e. decodeRangeKey p = Ret (Inl e)) \<and> \<not> (\<exists>s rd. readStr p = Ret (Inr (s, rd)) \<and> 16 \<le> length rd) \<or>
   (\<exists>s rd. readStr p = Ret (Inr (s, rd)) \<and> 16 \<le> length rd \<and>
      decodeRangeKey p = Ret (Inr (s, get_u64 (take 8 rd), get_u64 (take 8 (drop 8 rd)), drop 16 rd)))"
proof (cases "length p < 4 \<or> (of_nat (length p - 4) :: u32) < get_u32 p")
  case True
  then show ?thesis by (auto simp: decodeRangeKey_def readStr_def Let_def)
next
  case False
  then have n: "unat (get_u32 p) \<le> length p - 4" using unat_u32_le by blast
  then show ?thesis using False
    by (cases "length p - (4 + unat (get_u32 p)) < 16")
      (auto simp: decodeRangeKey_def readStr_def Let_def)
qed

lemma decodeRangeKey_encode [wire_simps]:
  assumes "length (encode_range_key path a b @ d) < 4294967296"
  shows "decodeRangeKey (encode_range_key path a b @ d) = Ret (Inr (path, a, b, d))"
proof -
  have "readStr (encode_range_key path a b @ d) = Ret (Inr (path, put_u64 a @ put_u64 b @ d))"
    using assms by (simp add: encode_range_key_def readStr_put_str put_str_length)
  then show ?thesis
    using decodeRangeKey_cases [of "encode_range_key path a b @ d"] by (auto simp: get_put_u64_exact)
qed

lemma decodeRangeKey_sound:
  assumes "decodeRangeKey p = Ret (Inr (path, a, b, d))"
  shows "p = encode_range_key path a b @ d"
proof -
  obtain rd where rd: "readStr p = Ret (Inr (path, rd))" "16 \<le> length rd"
    "a = get_u64 (take 8 rd)" "b = get_u64 (take 8 (drop 8 rd))" "d = drop 16 rd"
    using decodeRangeKey_cases [of p] assms by auto
  have "put_u64 a = take 8 rd" "put_u64 b = take 8 (drop 8 rd)"
    using rd by (simp_all add: put_get_u64)
  moreover have "take 8 rd @ take 8 (drop 8 rd) @ drop 8 (drop 8 rd) = rd"
    by (metis append_take_drop_id)
  ultimately have "put_u64 a @ put_u64 b @ d = rd"
    using rd(5) by simp
  then show ?thesis
    using readStr_sound [OF rd(1)] by (simp add: encode_range_key_def)
qed

section \<open>Properties\<close>

text \<open>C20: the decoders never panic. Whatever bytes the native side hands over, every slice
  expression of \<^verbatim>\<open>decodeCacheKey\<close> and \<^verbatim>\<open>decodeRangeKey\<close> is in range: both return a value
  or an error.\<close>

theorem decoders_never_panic:
  "(\<exists>r. decodeCacheKey p = Ret r) \<and> (\<exists>r. decodeRangeKey p = Ret r)"
  using decodeCacheKey_Ret decodeRangeKey_cases [of p] by blast

text \<open>C6: \<^verbatim>\<open>decodeCacheKey\<close> is the exact inverse of the native \<^verbatim>\<open>encode_cache_key\<close> on payloads
  below 4 GiB: it accepts a payload with a key and a value exactly when the payload is the
  encoding of that key followed by that value. In particular two keys never share an
  encoding, and no malformed payload is accepted.\<close>

theorem cache_key_wire_exact:
  assumes "length p < 4294967296"
  shows "decodeCacheKey p = Ret (Inr (k, v)) \<longleftrightarrow> p = encode_cache_key k @ v"
  using assms decodeCacheKey_sound decodeCacheKey_encode by blast

theorem cache_key_wire_exact_witness:
  "decodeCacheKey (encode_cache_key \<lparr>Prefix = ''p'', Key = ''k'', TypeName = []\<rparr> @ [9, 8]) =
     Ret (Inr (\<lparr>Prefix = ''p'', Key = ''k'', TypeName = []\<rparr>, [9, 8]))"
proof -
  have "length (encode_cache_key \<lparr>Prefix = ''p'', Key = ''k'', TypeName = []\<rparr> @ [9, 8]) < 4294967296"
    by (simp add: encode_cache_key_def)
  then show ?thesis
    using cache_key_wire_exact by blast
qed

text \<open>\<^verbatim>\<open>decodeRangeKey\<close> is the exact inverse of the native \<^verbatim>\<open>encode_range_key\<close> on payloads
  below 4 GiB, for every path, every 64-bit start and end and any trailing data.\<close>

theorem range_key_wire_exact:
  assumes "length p < 4294967296"
  shows "decodeRangeKey p = Ret (Inr (path, a, b, d)) \<longleftrightarrow> p = encode_range_key path a b @ d"
  using assms decodeRangeKey_sound decodeRangeKey_encode by blast

theorem range_key_wire_exact_witness:
  "decodeRangeKey (encode_range_key ''f.lance'' 5 (- 1) @ [42]) = Ret (Inr (''f.lance'', 5, - 1, [42]))"
proof -
  have "length (encode_range_key ''f.lance'' 5 (- 1) @ [42]) < 4294967296"
    by (simp add: encode_range_key_def)
  then show ?thesis using range_key_wire_exact by blast
qed

text \<open>The 32-bit length comparison rejects valid payloads of 4 GiB and more. When what
  follows the first length field is exactly \<^verbatim>\<open>2^32\<close> bytes long, its length reads as zero
  and a correctly encoded key with a non-empty prefix is refused as truncated.\<close>

theorem cache_key_rejects_4GiB:
  assumes "length (Prefix k) < 4294967296" and "Prefix k \<noteq> []"
    and "length (encode_cache_key k @ v) = 4294967296 + 4"
  shows "decodeCacheKey (encode_cache_key k @ v) = Ret (Inl (Errorf [Lit ''lance: truncated cache key string'']))"
proof -
  obtain rest where p: "encode_cache_key k @ v = put_u32 (of_nat (length (Prefix k))) @ rest"
    by (simp add: encode_cache_key_def put_str_def)
  then have len: "length rest = 4294967296"
    using assms(3) by (metis add.commute add_left_cancel length_append length_put_u32)
  have zero: "(of_nat (length rest) :: u32) = 0"
    unfolding len by simp
  have "unat (of_nat (length (Prefix k)) :: u32) \<noteq> 0"
    using assms(1,2) by (simp add: unat_of_nat)
  then have "(0 :: u32) < of_nat (length (Prefix k))"
    by (simp add: word_less_nat_alt)
  then show ?thesis
    unfolding p decodeCacheKey_def by (simp add: readStr_def Let_def zero)
qed

theorem cache_key_rejects_4GiB_witness:
  "decodeCacheKey (encode_cache_key \<lparr>Prefix = ''p'', Key = [], TypeName = []\<rparr> @ replicate 4294967287 0) =
     Ret (Inl (Errorf [Lit ''lance: truncated cache key string'']))"
  by (rule cache_key_rejects_4GiB) (simp_all add: encode_cache_key_def)

end
