(* ===== verification/Lance_Cache.thy ===== *)
theory Lance_Cache
  imports Lance_Wire "HOL-Library.AList"
begin

text \<open>
  The cache plugins of \<^verbatim>\<open>lance/cache.go\<close>: the adapters that turn native calls into calls of
  a \<^verbatim>\<open>CacheBackend\<close> or an \<^verbatim>\<open>ObjectStoreCache\<close>, and the in-memory backend of
  \<^verbatim>\<open>examples/plugincache\<close>. What a backend promises is the locale \<^verbatim>\<open>cache_backend\<close>; the
  behaviour of the adapter is proved in it and instantiated for the in-memory backend.
\<close>

section \<open>The interfaces\<close>

text \<open>A method of a user-supplied Go object: it changes the object and returns or panics.\<close>

type_synonym ('b, 'a) meth = "'b \<Rightarrow> 'a outcome \<times> 'b"

definition mbind :: "('b, 'a) meth \<Rightarrow> ('a \<Rightarrow> ('b, 'c) meth) \<Rightarrow> ('b, 'c) meth" where
  "mbind m f = (\<lambda>b. case m b of (Ret x, b') \<Rightarrow> f x b' | (Panic v, b') \<Rightarrow> (Panic v, b'))"

definition mret :: "'a \<Rightarrow> ('b, 'a) meth" where
  "mret x = (\<lambda>b. (Ret x, b))"

text \<open>A call that does not touch the object, such as a decoder.\<close>

definition mpure :: "'a outcome \<Rightarrow> ('b, 'a) meth" where
  "mpure r = (\<lambda>b. (r, b))"

lemma mbind_simps [simp]:
  "m b = (Ret x, b') \<Longrightarrow> mbind m f b = f x b'"
  "m b = (Panic v, b') \<Longrightarrow> mbind m f b = (Panic v, b')"
  by (simp_all add: mbind_def)

lemma mpure_mret [simp]: "mpure r b = (r, b)" "mret x b = (Ret x, b)"
  by (simp_all add: mpure_def mret_def)

record 'b CacheBackend =
  cb_Get :: "cache_key \<Rightarrow> ('b, bytes option \<times> bool) meth"
  cb_Put :: "cache_key \<Rightarrow> bytes \<Rightarrow> int \<Rightarrow> ('b, unit) meth"
  cb_InvalidatePrefix :: "string \<Rightarrow> ('b, unit) meth"
  cb_Clear :: "('b, unit) meth"
  cb_Len :: "('b, int) meth"
  cb_SizeBytes :: "('b, int) meth"

record 'b ObjectStoreCache =
  osc_Get :: "string \<Rightarrow> u64 \<Rightarrow> u64 \<Rightarrow> ('b, bytes option \<times> bool) meth"
  osc_Put :: "string \<Rightarrow> u64 \<Rightarrow> u64 \<Rightarrow> bytes \<Rightarrow> ('b, unit) meth"

section \<open>The adapters\<close>

definition cacheGet :: int where "cacheGet = 0"
definition cachePut :: int where "cachePut = 1"
definition cacheInvalidatePrefix :: int where "cacheInvalidatePrefix = 2"
definition cacheClear :: int where "cacheClear = 3"
definition cacheLen :: int where "cacheLen = 4"
definition cacheSizeBytes :: int where "cacheSizeBytes = 5"

lemmas cache_method_defs = cacheGet_def cachePut_def cacheInvalidatePrefix_def cacheClear_def
  cacheLen_def cacheSizeBytes_def

abbreviation errPluginMiss :: goerr where
  "errPluginMiss \<equiv> Leaf PluginMiss"

definition cacheBackendAdapter_Invoke ::
  "'b CacheBackend \<Rightarrow> int \<Rightarrow> bytes option \<Rightarrow> ('b, goerr + bytes option) meth" where
  "cacheBackendAdapter_Invoke B method payload =
     (if method = cacheGet then
        mbind (mpure (decodeCacheKey (nil_bytes payload))) (\<lambda>r. case r of
          Inl err \<Rightarrow> mret (Inl err)
        | Inr (key, _) \<Rightarrow> mbind (cb_Get B key) (\<lambda>(val, found).
            if \<not> found then mret (Inl errPluginMiss) else mret (Inr val)))
      else if method = cachePut then
        mbind (mpure (decodeCacheKey (nil_bytes payload))) (\<lambda>r. case r of
          Inl err \<Rightarrow> mret (Inl err)
        | Inr (key, val) \<Rightarrow> mbind (cb_Put B key val (int (length val))) (\<lambda>_. mret (Inr None)))
      else if method = cacheInvalidatePrefix then
        mbind (cb_InvalidatePrefix B (string_of_bytes (nil_bytes payload))) (\<lambda>_. mret (Inr None))
      else if method = cacheClear then mbind (cb_Clear B) (\<lambda>_. mret (Inr None))
      else if method = cacheLen then mbind (cb_Len B) (\<lambda>n. mret (Inr (Some (u64le (of_int n)))))
      else if method = cacheSizeBytes then mbind (cb_SizeBytes B) (\<lambda>n. mret (Inr (Some (u64le (of_int n)))))
      else mret (Inl (Errorf [Lit ''lance: unknown cache backend method '', Dec method])))"

definition oscGet :: int where "oscGet = 0"
definition oscPut :: int where "oscPut = 1"

definition objectStoreCacheAdapter_Invoke ::
  "'b ObjectStoreCache \<Rightarrow> int \<Rightarrow> bytes option \<Rightarrow> ('b, goerr + bytes option) meth" where
  "objectStoreCacheAdapter_Invoke C method payload =
     mbind (mpure (decodeRangeKey (nil_bytes payload))) (\<lambda>r. case r of
       Inl err \<Rightarrow> mret (Inl err)
     | Inr (path, start, end, data) \<Rightarrow>
         (if method = oscGet then mbind (osc_Get C path start end) (\<lambda>(d, found).
            if \<not> found then mret (Inl errPluginMiss) else mret (Inr d))
          else if method = oscPut then mbind (osc_Put C path start end data) (\<lambda>_. mret (Inr None))
          else mret (Inl (Errorf [Lit ''lance: unknown object-store cache method '', Dec method]))))"

section \<open>What a backend promises\<close>

text \<open>The documented contract of \<^verbatim>\<open>CacheBackend\<close>, for the keys and prefixes it supports:
  \<^verbatim>\<open>look\<close> is the content as a map and \<^verbatim>\<open>invar\<close> the backend's own invariant.\<close>

locale cache_backend =
  fixes B :: "'b CacheBackend"
    and look :: "'b \<Rightarrow> cache_key \<Rightarrow> bytes option"
    and invar :: "'b \<Rightarrow> bool"
    and key_ok :: "cache_key \<Rightarrow> bool"
    and prefix_ok :: "string \<Rightarrow> bool"
  assumes get: "invar b \<Longrightarrow> key_ok k \<Longrightarrow> \<exists>b'. invar b' \<and> look b' = look b \<and>
      (case look b k of Some v \<Rightarrow> cb_Get B k b = (Ret (Some v, True), b')
       | None \<Rightarrow> (\<exists>v. cb_Get B k b = (Ret (v, False), b')))"
    and put: "invar b \<Longrightarrow> key_ok k \<Longrightarrow> \<exists>b'. invar b' \<and> cb_Put B k v n b = (Ret (), b') \<and>
      look b' k = Some v \<and> (\<forall>k'. key_ok k' \<longrightarrow> k' \<noteq> k \<longrightarrow> look b' k' = look b k')"
    and invalidate: "invar b \<Longrightarrow> prefix_ok p \<Longrightarrow> \<exists>b'. invar b' \<and> cb_InvalidatePrefix B p b = (Ret (), b') \<and>
      (\<forall>k. key_ok k \<longrightarrow> look b' k = (if prefix p (Prefix k) then None else look b k))"
    and clear: "invar b \<Longrightarrow> \<exists>b'. invar b' \<and> cb_Clear B b = (Ret (), b') \<and> (\<forall>k. look b' k = None)"
begin

lemma adapter_get:
  assumes "invar b" and "key_ok k" and "length (encode_cache_key k) < 4294967296"
  shows "\<exists>b'. invar b' \<and> look b' = look b \<and>
    cacheBackendAdapter_Invoke B cacheGet (Some (encode_cache_key k)) b =
      (case look b k of Some v \<Rightarrow> (Ret (Inr (Some v)), b') | None \<Rightarrow> (Ret (Inl errPluginMiss), b'))"
proof -
  have d: "decodeCacheKey (encode_cache_key k) = Ret (Inr (k, []))"
    using decodeCacheKey_encode [of k "[]"] assms(3) by simp
  show ?thesis
    using get [OF assms(1,2)] by (cases "look b k") (auto simp: cacheBackendAdapter_Invoke_def d cacheGet_def)
qed

lemma adapter_put:
  assumes "invar b" and "key_ok k" and "length (encode_cache_key k @ v) < 4294967296"
  shows "\<exists>b'. invar b' \<and> look b' k = Some v \<and> (\<forall>k'. key_ok k' \<longrightarrow> k' \<noteq> k \<longrightarrow> look b' k' = look b k') \<and>
    cacheBackendAdapter_Invoke B cachePut (Some (encode_cache_key k @ v)) b = (Ret (Inr None), b')"
proof -
  obtain b' where b': "invar b'" "cb_Put B k v (int (length v)) b = (Ret (), b')"
    "look b' k = Some v" "\<forall>k'. key_ok k' \<longrightarrow> k' \<noteq> k \<longrightarrow> look b' k' = look b k'"
    using put [OF assms(1,2)] by blast
  have "cacheBackendAdapter_Invoke B cachePut (Some (encode_cache_key k @ v)) b = (Ret (Inr None), b')"
    using b'(2) by (simp add: cacheBackendAdapter_Invoke_def decodeCacheKey_encode [OF assms(3)] cache_method_defs)
  with b' show ?thesis by blast
qed

lemma adapter_invalidate:
  assumes "invar b" and "prefix_ok p"
  shows "\<exists>b'. invar b' \<and> (\<forall>k. key_ok k \<longrightarrow> look b' k = (if prefix p (Prefix k) then None else look b k)) \<and>
    cacheBackendAdapter_Invoke B cacheInvalidatePrefix (Some (bytes_of_string p)) b = (Ret (Inr None), b')"
proof -
  obtain b' where "invar b'" "cb_InvalidatePrefix B p b = (Ret (), b')"
    "\<forall>k. key_ok k \<longrightarrow> look b' k = (if prefix p (Prefix k) then None else look b k)"
    using invalidate [OF assms] by blast
  then show ?thesis
    by (auto simp: cacheBackendAdapter_Invoke_def cache_method_defs)
qed

text \<open>A value stored through the adapter is served by it.\<close>

lemma adapter_put_get:
  assumes "invar b" and "key_ok k" and "length (encode_cache_key k @ v) < 4294967296"
  shows "\<exists>b' b''. cacheBackendAdapter_Invoke B cachePut (Some (encode_cache_key k @ v)) b = (Ret (Inr None), b') \<and>
    cacheBackendAdapter_Invoke B cacheGet (Some (encode_cache_key k)) b' = (Ret (Inr (Some v)), b'')"
proof -
  obtain b' where b': "invar b'" "look b' k = Some v"
    "cacheBackendAdapter_Invoke B cachePut (Some (encode_cache_key k @ v)) b = (Ret (Inr None), b')"
    using adapter_put [OF assms] by blast
  have "length (encode_cache_key k) < 4294967296" using assms(3) by simp
  from adapter_get [OF b'(1) assms(2) this] b' show ?thesis by auto
qed

end

section \<open>The in-memory backend\<close>

text \<open>\<^verbatim>\<open>memCacheBackend\<close>: the map is an association list with distinct keys; the order of
  iteration, which Go leaves open, does not matter to any operation.\<close>

record memCacheBackend =
  mem_m :: "(string \<times> bytes) list"
  mem_gets :: int
  mem_puts :: int
  mem_hits :: int

definition newMemCacheBackend :: memCacheBackend where
  "newMemCacheBackend = \<lparr>mem_m = [], mem_gets = 0, mem_puts = 0, mem_hits = 0\<rparr>"

abbreviation NUL :: char where
  "NUL \<equiv> CHR 0x00"

definition mem_key :: "cache_key \<Rightarrow> string" where
  "mem_key k = Prefix k @ [NUL] @ Key k @ [NUL] @ TypeName k"

definition mem_Get :: "cache_key \<Rightarrow> memCacheBackend \<Rightarrow> (bytes option \<times> bool) outcome \<times> memCacheBackend" where
  "mem_Get k b =
     (let b1 = b\<lparr>mem_gets := mem_gets b + 1\<rparr> in
      case map_of (mem_m b1) (mem_key k) of
        Some v \<Rightarrow> (Ret (Some v, True), b1\<lparr>mem_hits := mem_hits b1 + 1\<rparr>)
      | None \<Rightarrow> (Ret (None, False), b1))"

definition mem_Put :: "cache_key \<Rightarrow> bytes \<Rightarrow> int \<Rightarrow> memCacheBackend \<Rightarrow> unit outcome \<times> memCacheBackend" where
  "mem_Put k v sizeHint b = (Ret (), b\<lparr>mem_puts := mem_puts b + 1, mem_m := AList.update (mem_key k) v (mem_m b)\<rparr>)"

definition mem_InvalidatePrefix :: "string \<Rightarrow> memCacheBackend \<Rightarrow> unit outcome \<times> memCacheBackend" where
  "mem_InvalidatePrefix p b =
     (Ret (), b\<lparr>mem_m := filter (\<lambda>(k, _). \<not> (length k \<ge> length p \<and> take (length p) k = p)) (mem_m b)\<rparr>)"

definition mem_Clear :: "memCacheBackend \<Rightarrow> unit outcome \<times> memCacheBackend" where
  "mem_Clear b = (Ret (), b\<lparr>mem_m := []\<rparr>)"

definition mem_Len :: "memCacheBackend \<Rightarrow> int outcome \<times> memCacheBackend" where
  "mem_Len b = (Ret (int (length (mem_m b))), b)"

definition mem_SizeBytes :: "memCacheBackend \<Rightarrow> int outcome \<times> memCacheBackend" where
  "mem_SizeBytes b = (Ret (\<Sum>(_, v) \<leftarrow> mem_m b. int (length v)), b)"

definition memBackend :: "memCacheBackend CacheBackend" where
  "memBackend = \<lparr>cb_Get = mem_Get, cb_Put = mem_Put, cb_InvalidatePrefix = mem_InvalidatePrefix,
     cb_Clear = mem_Clear, cb_Len = mem_Len, cb_SizeBytes = mem_SizeBytes\<rparr>"

definition mem_look :: "memCacheBackend \<Rightarrow> cache_key \<Rightarrow> bytes option" where
  "mem_look b k = map_of (mem_m b) (mem_key k)"

definition mem_inv :: "memCacheBackend \<Rightarrow> bool" where
  "mem_inv b = distinct (map fst (mem_m b))"

text \<open>The joined key separates the parts with a NUL, so parts without a NUL are told apart.\<close>

definition nul_free :: "cache_key \<Rightarrow> bool" where
  "nul_free k = (NUL \<notin> set (Prefix k) \<and> NUL \<notin> set (Key k))"

lemma split_at_NUL:
  assumes "NUL \<notin> set a" and "NUL \<notin> set c" and "a @ NUL # b = c @ NUL # d"
  shows "a = c \<and> b = d"
proof -
  have "takeWhile (\<lambda>x. x \<noteq> NUL) (a @ NUL # b) = a" "takeWhile (\<lambda>x. x \<noteq> NUL) (c @ NUL # d) = c"
    using assms(1,2) by (auto simp: takeWhile_append)
  with assms(3) show ?thesis by auto
qed

lemma mem_key_inj: "nul_free j \<Longrightarrow> nul_free k \<Longrightarrow> mem_key j = mem_key k \<longleftrightarrow> j = k"
proof
  assume f: "nul_free j" "nul_free k" and eq: "mem_key j = mem_key k"
  then have "Prefix j = Prefix k \<and> Key j @ NUL # TypeName j = Key k @ NUL # TypeName k"
    by (intro split_at_NUL) (auto simp: nul_free_def mem_key_def)
  moreover from this f have "Key j = Key k \<and> TypeName j = TypeName k"
    by (intro split_at_NUL) (auto simp: nul_free_def)
  ultimately show "j = k" by simp
qed simp

lemma prefix_mem_key: "NUL \<notin> set p \<Longrightarrow> prefix p (mem_key k) \<longleftrightarrow> prefix p (Prefix k)"
  by (auto simp: mem_key_def prefix_append prefix_Cons dest: set_mono_prefix)

lemma take_prefix: "(length p \<le> length k \<and> take (length p) k = p) = prefix p k"
  by (metis append_take_drop_id linorder_not_less not_less_iff_gr_or_eq prefixI prefix_length_le take_is_prefix
      append_eq_conv_conj prefixE)

lemma map_of_filter_key: "map_of (filter (\<lambda>(k, _). P k) m) x = (if P x then map_of m x else None)"
  by (induction m) auto

lemma distinct_filter_fst: "distinct (map fst m) \<Longrightarrow> distinct (map fst (filter P m))"
  by (induction m) auto

interpretation mem: cache_backend memBackend mem_look mem_inv nul_free "\<lambda>p. NUL \<notin> set p"
proof unfold_locales
  fix b :: memCacheBackend and k :: cache_key and v :: bytes and n :: int and p :: string
  assume inv: "mem_inv b"
  show "\<exists>b'. mem_inv b' \<and> mem_look b' = mem_look b \<and>
      (case mem_look b k of Some v \<Rightarrow> cb_Get memBackend k b = (Ret (Some v, True), b')
       | None \<Rightarrow> (\<exists>v. cb_Get memBackend k b = (Ret (v, False), b')))"
    using inv by (cases "mem_look b k") (auto simp: memBackend_def mem_Get_def mem_look_def mem_inv_def Let_def fun_eq_iff)
  show "\<exists>b'. mem_inv b' \<and> cb_Clear memBackend b = (Ret (), b') \<and> (\<forall>k. mem_look b' k = None)"
    by (simp add: memBackend_def mem_Clear_def mem_inv_def mem_look_def)
  show "\<exists>b'. mem_inv b' \<and> cb_InvalidatePrefix memBackend p b = (Ret (), b') \<and>
      (\<forall>k. nul_free k \<longrightarrow> mem_look b' k = (if prefix p (Prefix k) then None else mem_look b k))"
    if "NUL \<notin> set p"
    using that inv
    by (simp add: memBackend_def mem_InvalidatePrefix_def mem_inv_def mem_look_def take_prefix
        map_of_filter_key distinct_filter_fst prefix_mem_key)
  show "\<exists>b'. mem_inv b' \<and> cb_Put memBackend k v n b = (Ret (), b') \<and> mem_look b' k = Some v \<and>
      (\<forall>k'. nul_free k' \<longrightarrow> k' \<noteq> k \<longrightarrow> mem_look b' k' = mem_look b k')" if "nul_free k"
    using that inv
    by (auto simp: memBackend_def mem_Put_def mem_inv_def mem_look_def update_conv distinct_update mem_key_inj)
qed

section \<open>Through the bridge\<close>

text \<open>A native call with a payload, on a registered plugin and valid out parameters.\<close>

lemma go_callback_invoke_payload:
  assumes "lookupPlugin h r = Some p" and "outPtr_ok out" "outLen_ok out"
    and "0 < length pl" and "length pl < 9223372036854775808"
  shows "go_callback_invoke invk r h m (Some pl) (of_nat (length pl)) out s =
    (let out0 = out\<lparr>out_buf := None, out_len := 0\<rparr> in
     case invk p m (Some pl) s of
       (Panic v, s') \<Rightarrow> (LANCE_GO_CALL_ERROR, setCallbackOut out0 (bytes_of_string (''lance-go: plugin panic: '' @ v)), s')
     | (Ret (Inl e), s') \<Rightarrow> (if errors_is e PluginMiss then (LANCE_GO_CALL_MISS, out0, s')
          else (LANCE_GO_CALL_ERROR, setCallbackOut out0 (err_bytes e), s'))
     | (Ret (Inr res), s') \<Rightarrow> (LANCE_GO_CALL_OK, setCallbackOut out0 (nil_bytes res), s'))"
proof -
  have n: "unat (of_nat (length pl) :: u64) = length pl"
    using assms(5) by (simp add: unat_of_nat)
  then have "0 < (of_nat (length pl) :: u64)" "\<not> maxInt < of_nat (length pl)"
    using assms(4,5) by (auto simp: word_less_nat_alt maxInt_def)
  then show ?thesis
    using assms(1-3) n by (auto simp: go_callback_invoke_def copyCBytes_def Let_def)
qed

definition cache_invoke :: "'b CacheBackend \<Rightarrow> ('p, 'b) invoke" where
  "cache_invoke B = (\<lambda>_. cacheBackendAdapter_Invoke B)"

section \<open>Refinement of a map\<close>

text \<open>The requests of the native side, as it encodes them, and the map they are meant to
  implement.\<close>

datatype cache_op = OpGet cache_key | OpPut cache_key bytes | OpInvalidate string | OpClear

fun adapter_op :: "'b CacheBackend \<Rightarrow> cache_op \<Rightarrow> ('b, goerr + bytes option) meth" where
  "adapter_op B (OpGet k) = cacheBackendAdapter_Invoke B cacheGet (Some (encode_cache_key k))"
| "adapter_op B (OpPut k v) = cacheBackendAdapter_Invoke B cachePut (Some (encode_cache_key k @ v))"
| "adapter_op B (OpInvalidate p) = cacheBackendAdapter_Invoke B cacheInvalidatePrefix (Some (bytes_of_string p))"
| "adapter_op B OpClear = cacheBackendAdapter_Invoke B cacheClear None"

fun adapter_run :: "'b CacheBackend \<Rightarrow> cache_op list \<Rightarrow> 'b \<Rightarrow> (goerr + bytes option) outcome list \<times> 'b" where
  "adapter_run B [] b = ([], b)"
| "adapter_run B (x # xs) b =
     (let (r, b1) = adapter_op B x b; (rs, b2) = adapter_run B xs b1 in (r # rs, b2))"

fun spec_op :: "cache_op \<Rightarrow> (cache_key \<Rightarrow> bytes option) \<Rightarrow> (goerr + bytes option) \<times> (cache_key \<Rightarrow> bytes option)" where
  "spec_op (OpGet k) M = ((case M k of Some v \<Rightarrow> Inr (Some v) | None \<Rightarrow> Inl errPluginMiss), M)"
| "spec_op (OpPut k v) M = (Inr None, M(k \<mapsto> v))"
| "spec_op (OpInvalidate p) M = (Inr None, (\<lambda>k. if prefix p (Prefix k) then None else M k))"
| "spec_op OpClear M = (Inr None, (\<lambda>_. None))"

fun spec_run :: "cache_op list \<Rightarrow> (cache_key \<Rightarrow> bytes option) \<Rightarrow> (goerr + bytes option) list \<times> (cache_key \<Rightarrow> bytes option)" where
  "spec_run [] M = ([], M)"
| "spec_run (x # xs) M = (let (r, M1) = spec_op x M; (rs, M2) = spec_run xs M1 in (r # rs, M2))"

fun op_ok :: "(cache_key \<Rightarrow> bool) \<Rightarrow> (string \<Rightarrow> bool) \<Rightarrow> cache_op \<Rightarrow> bool" where
  "op_ok kok pok (OpGet k) = (kok k \<and> length (encode_cache_key k) < 4294967296)"
| "op_ok kok pok (OpPut k v) = (kok k \<and> length (encode_cache_key k @ v) < 4294967296)"
| "op_ok kok pok (OpInvalidate p) = pok p"
| "op_ok kok pok OpClear = True"

context cache_backend
begin

lemma adapter_op_refines:
  assumes "invar b" and "op_ok key_ok prefix_ok x" and "\<forall>k. key_ok k \<longrightarrow> look b k = M k"
  shows "\<exists>b'. adapter_op B x b = (Ret (fst (spec_op x M)), b') \<and> invar b' \<and>
    (\<forall>k. key_ok k \<longrightarrow> look b' k = snd (spec_op x M) k)"
proof (cases x)
  case (OpGet k)
  have "invar b" "key_ok k" "length (encode_cache_key k) < 4294967296"
    using assms OpGet by auto
  from adapter_get [OF this] show ?thesis
    using assms OpGet by (auto split: option.splits)
next
  case (OpPut k v)
  have "invar b" "key_ok k" "length (encode_cache_key k @ v) < 4294967296"
    using assms OpPut by auto
  from adapter_put [OF this] show ?thesis
    using assms OpPut by auto
next
  case (OpInvalidate p)
  have "invar b" "prefix_ok p" using assms OpInvalidate by auto
  from adapter_invalidate [OF this] show ?thesis
    using assms OpInvalidate by auto
next
  case OpClear
  from clear [OF assms(1)] show ?thesis
    using OpClear by (auto simp: cacheBackendAdapter_Invoke_def cache_method_defs)
qed

lemma adapter_run_refines:
  assumes "invar b" and "list_all (op_ok key_ok prefix_ok) xs" and "\<forall>k. key_ok k \<longrightarrow> look b k = M k"
  shows "fst (adapter_run B xs b) = map Ret (fst (spec_run xs M))"
  using assms
proof (induction xs arbitrary: b M)
  case (Cons x xs)
  obtain b' where b': "adapter_op B x b = (Ret (fst (spec_op x M)), b')" "invar b'"
    "\<forall>k. key_ok k \<longrightarrow> look b' k = snd (spec_op x M) k"
    using adapter_op_refines [of b x M] Cons.prems by auto
  from Cons.IH [OF b'(2) _ b'(3)] Cons.prems b'(1) show ?case
    by (simp add: split_beta)
qed simp

end

section \<open>Properties\<close>

text \<open>C7: the cache adapter over the in-memory backend is a map. For every sequence of
  requests encoded as the native side encodes them (lookups, stores, prefix invalidations,
  clears; keys and prefixes without NUL bytes, payloads below 4 GiB), the answers that
  \<^verbatim>\<open>cacheBackendAdapter.Invoke\<close> returns are those of a map from cache keys to byte strings:
  a stored value is served until it is overwritten, invalidated or cleared, a missing entry
  is reported as a miss, distinct keys never interfere, and nothing panics.\<close>

theorem mem_cache_refines_map:
  assumes "list_all (op_ok nul_free (\<lambda>p. NUL \<notin> set p)) xs"
  shows "fst (adapter_run memBackend xs newMemCacheBackend) = map Ret (fst (spec_run xs (\<lambda>_. None)))"
  by (rule mem.adapter_run_refines [OF _ assms]) (simp_all add: mem_inv_def mem_look_def newMemCacheBackend_def)

theorem mem_cache_refines_map_witness:
  "fst (adapter_run memBackend
      [OpPut \<lparr>Prefix = ''a'', Key = ''k'', TypeName = ''T''\<rparr> [1], OpGet \<lparr>Prefix = ''a'', Key = ''k'', TypeName = ''T''\<rparr>,
       OpInvalidate ''a'', OpGet \<lparr>Prefix = ''a'', Key = ''k'', TypeName = ''T''\<rparr>] newMemCacheBackend) =
   [Ret (Inr None), Ret (Inr (Some [1])), Ret (Inr None), Ret (Inl errPluginMiss)]"
  by (subst mem_cache_refines_map) (simp_all add: nul_free_def encode_cache_key_def)

text \<open>A value stored through the vtable is served through the vtable. With the in-memory
  backend registered under a handle, a native PUT of a non-empty value returns
  \<^verbatim>\<open>LANCE_GO_CALL_OK\<close> and a following native GET of the same key returns
  \<^verbatim>\<open>LANCE_GO_CALL_OK\<close> with an allocated buffer that holds exactly the value and its length.\<close>

theorem cache_put_get_bridge:
  assumes "lookupPlugin h r = Some p" and "outPtr_ok out" and "outLen_ok out"
    and "mem_inv b" and "nul_free k" and "length (encode_cache_key k @ v) < 4294967296" and "v \<noteq> []"
  shows "\<exists>out1 b' out2 b''.
    go_callback_invoke (cache_invoke memBackend) r h cachePut (Some (encode_cache_key k @ v))
      (of_nat (length (encode_cache_key k @ v))) out b = (LANCE_GO_CALL_OK, out1, b') \<and>
    go_callback_invoke (cache_invoke memBackend) r h cacheGet (Some (encode_cache_key k))
      (of_nat (length (encode_cache_key k))) out b' = (LANCE_GO_CALL_OK, out2, b'') \<and>
    out_buf out2 = Some v \<and> unat (out_len out2) = length v"
proof -
  obtain b' b'' where put: "cacheBackendAdapter_Invoke memBackend cachePut (Some (encode_cache_key k @ v)) b = (Ret (Inr None), b')"
    and get: "cacheBackendAdapter_Invoke memBackend cacheGet (Some (encode_cache_key k)) b' = (Ret (Inr (Some v)), b'')"
    using mem.adapter_put_get [OF assms(4-6)] by blast
  have pos: "0 < length (encode_cache_key k)" and pos': "0 < length (encode_cache_key k @ v)"
    by (simp_all add: encode_cache_key_def)
  have len: "length (encode_cache_key k @ v) < 9223372036854775808" "length (encode_cache_key k) < 9223372036854775808"
    "length v < 18446744073709551616"
    using assms(6) by simp_all
  let ?o = "out\<lparr>out_buf := None, out_len := 0\<rparr>"
  have 1: "go_callback_invoke (cache_invoke memBackend) r h cachePut (Some (encode_cache_key k @ v))
      (of_nat (length (encode_cache_key k @ v))) out b = (LANCE_GO_CALL_OK, ?o, b')"
    unfolding go_callback_invoke_payload [OF assms(1-3) pos' len(1)]
    using put by (simp add: cache_invoke_def setCallbackOut_def)
  have 2: "go_callback_invoke (cache_invoke memBackend) r h cacheGet (Some (encode_cache_key k))
      (of_nat (length (encode_cache_key k))) out b' =
        (LANCE_GO_CALL_OK, ?o\<lparr>out_buf := Some v, out_len := of_nat (length v)\<rparr>, b'')"
    unfolding go_callback_invoke_payload [OF assms(1-3) pos len(2)]
    using get assms(2,3,7) by (simp add: cache_invoke_def setCallbackOut_def)
  have "unat (of_nat (length v) :: u64) = length v"
    using len(3) by (simp add: unat_of_nat)
  with 1 2 show ?thesis
    by (metis (no_types, lifting) out_params.select_convs(3,4) out_params.surjective out_params.update_convs(3,4))
qed

theorem cache_put_get_bridge_witness:
  "\<exists>out2 b''. go_callback_invoke (cache_invoke memBackend) (snd (register_locked True pluginRegistry)) 1 cacheGet
      (Some (encode_cache_key \<lparr>Prefix = ''a'', Key = ''k'', TypeName = ''T''\<rparr>))
      (of_nat (length (encode_cache_key \<lparr>Prefix = ''a'', Key = ''k'', TypeName = ''T''\<rparr>)))
      \<lparr>outPtr_ok = True, outLen_ok = True, out_buf = None, out_len = 0\<rparr>
      (snd (snd (go_callback_invoke (cache_invoke memBackend) (snd (register_locked True pluginRegistry)) 1 cachePut
        (Some (encode_cache_key \<lparr>Prefix = ''a'', Key = ''k'', TypeName = ''T''\<rparr> @ [7]))
        (of_nat (length (encode_cache_key \<lparr>Prefix = ''a'', Key = ''k'', TypeName = ''T''\<rparr> @ [7])))
        \<lparr>outPtr_ok = True, outLen_ok = True, out_buf = None, out_len = 0\<rparr> newMemCacheBackend)))
    = (LANCE_GO_CALL_OK, out2, b'') \<and> out_buf out2 = Some [7]"
proof -
  let ?k = "\<lparr>Prefix = ''a'', Key = ''k'', TypeName = ''T''\<rparr>"
  let ?r = "snd (register_locked True pluginRegistry)"
  let ?o = "\<lparr>outPtr_ok = True, outLen_ok = True, out_buf = None, out_len = 0\<rparr>"
  have 1: "lookupPlugin 1 ?r = Some True"
    by (simp add: lookupPlugin_def register_locked_def pluginRegistry_def Let_def)
  have 2: "outPtr_ok ?o" "outLen_ok ?o" by simp_all
  have 3: "mem_inv newMemCacheBackend" "nul_free ?k" "length (encode_cache_key ?k @ [7]) < 4294967296" "[7] \<noteq> ([] :: bytes)"
    by (simp_all add: mem_inv_def newMemCacheBackend_def nul_free_def encode_cache_key_def)
  show ?thesis
    using cache_put_get_bridge [OF 1 2 3] by auto
qed

lemma decode_u64_u64le [wire_simps]: "decode_u64 (u64le v) = v"
  by (simp add: decode_u64_def u64le_def)

lemma mem_inv_adapter_op: "mem_inv b \<Longrightarrow> mem_inv (snd (adapter_op memBackend x b))"
proof -
  assume inv: "mem_inv b"
  have dec: "\<exists>r. decodeCacheKey q = Ret r" for q by (rule decodeCacheKey_Ret)
  show ?thesis
  proof (cases x)
    case (OpGet k)
    obtain r where r: "decodeCacheKey (encode_cache_key k) = Ret r" using dec by blast
    with OpGet inv show ?thesis
      by (auto simp: cacheBackendAdapter_Invoke_def cache_method_defs mbind_def memBackend_def mem_Get_def
          mem_inv_def Let_def split: sum.split option.split prod.split)
  next
    case (OpPut k v)
    obtain r where r: "decodeCacheKey (encode_cache_key k @ v) = Ret r" using dec by blast
    with OpPut inv show ?thesis
      by (auto simp: cacheBackendAdapter_Invoke_def cache_method_defs mbind_def memBackend_def mem_Put_def
          mem_inv_def distinct_update split: sum.split prod.split)
  qed (use inv in \<open>auto simp: cacheBackendAdapter_Invoke_def cache_method_defs mbind_def memBackend_def
      mem_InvalidatePrefix_def mem_Clear_def mem_inv_def distinct_filter_fst\<close>)
qed

lemma mem_inv_adapter_run: "mem_inv b \<Longrightarrow> mem_inv (snd (adapter_run memBackend xs b))"
  by (induction xs arbitrary: b) (auto simp: split_beta mem_inv_adapter_op)

lemma sum_lengths_map_of:
  "distinct (map fst m) \<Longrightarrow>
    (\<Sum>key \<in> dom (map_of m). length (the (map_of m key))) = (\<Sum>(_, v) \<leftarrow> m. length v)"
proof (induction m)
  case (Cons a m)
  obtain k v where a: "a = (k, v)" by fastforce
  have k: "k \<notin> dom (map_of m)"
    using Cons.prems a by (auto simp: dom_map_of_conv_image_fst)
  then have "(\<Sum>key \<in> dom (map_of m). length (the (((map_of m)(k \<mapsto> v)) key))) =
      (\<Sum>key \<in> dom (map_of m). length (the (map_of m key)))"
    by (intro sum.cong) auto
  with Cons k have "(\<Sum>key \<in> insert k (dom (map_of m)). length (the (((map_of m)(k \<mapsto> v)) key))) =
      length v + (\<Sum>(_, v) \<leftarrow> m. length v)"
    by (subst sum.insert) (simp_all add: finite_dom_map_of)
  moreover have "dom (map_of (a # m)) = insert k (dom (map_of m))" "map_of (a # m) = (map_of m)(k \<mapsto> v)"
    by (auto simp: a)
  ultimately show ?case unfolding a by (simp only: list.map sum_list.Cons prod.case)
qed simp

lemma sum_int_lengths: "(\<Sum>(_, v) \<leftarrow> m. int (length v)) = int (\<Sum>(_, v) \<leftarrow> m. length v)"
  by (induction m) auto

text \<open>The size counters of the in-memory backend are exact and survive the wire. After any
  sequence of requests, the responses to \<^verbatim>\<open>cacheLen\<close> and \<^verbatim>\<open>cacheSizeBytes\<close> decode on the
  native side to the number of distinct stored keys and to the total length of the stored
  values (modulo \<^verbatim>\<open>2^64\<close>, the width of the response).\<close>

theorem mem_cache_counters:
  "let b = snd (adapter_run memBackend xs newMemCacheBackend) in
   (\<exists>resp. cacheBackendAdapter_Invoke memBackend cacheLen None b = (Ret (Inr (Some resp)), b) \<and>
      decode_u64 resp = of_nat (card (dom (map_of (mem_m b))))) \<and>
   (\<exists>resp. cacheBackendAdapter_Invoke memBackend cacheSizeBytes None b = (Ret (Inr (Some resp)), b) \<and>
      decode_u64 resp = of_nat (\<Sum>key \<in> dom (map_of (mem_m b)). length (the (map_of (mem_m b) key))))"
proof -
  define b where "b = snd (adapter_run memBackend xs newMemCacheBackend)"
  have d: "distinct (map fst (mem_m b))"
    using mem_inv_adapter_run [of newMemCacheBackend xs] by (simp add: b_def mem_inv_def newMemCacheBackend_def)
  have len: "card (dom (map_of (mem_m b))) = length (mem_m b)"
    using distinct_card [OF d] by (simp add: dom_map_of_conv_image_fst)
  note size = sum_lengths_map_of [OF d]
  show ?thesis
    unfolding b_def [symmetric] Let_def len size
    by (simp add: sum_int_lengths cacheBackendAdapter_Invoke_def cache_method_defs memBackend_def mem_Len_def mem_SizeBytes_def
        mbind_def decode_u64_u64le)
qed

end
