(* ===== verification/Lance_Json.thy ===== *)
theory Lance_Json
  imports Lance_Native Lance_Errors "HOL-Library.AList"
begin

text \<open>
  The parts of Go's standard library that the bindings use to talk to the native side:
  \<^verbatim>\<open>json.Unmarshal\<close> into structs, slices, maps and pointers, \<^verbatim>\<open>json.Marshal\<close> of maps, the RFC 3339
  time format of \<^verbatim>\<open>time\<close>, and \<^verbatim>\<open>base64.StdEncoding\<close>. A decoder gets the document and the value
  that the destination already has, since \<^verbatim>\<open>null\<close> and absent members leave it alone.
\<close>

named_theorems decoder_rules "decoders whose errors carry no package prefix"

section \<open>json.Unmarshal\<close>

type_synonym 'a decoder = "json \<Rightarrow> 'a \<Rightarrow> goerr + 'a"

definition type_error :: goerr where
  "type_error = Foreign ''json: cannot unmarshal''"

definition un_word :: "('w :: len) word decoder" where
  "un_word j old = (case j of
      JNull \<Rightarrow> Inr old
    | JInt n \<Rightarrow> (if 0 \<le> n \<and> n < 2 ^ LENGTH('w) then Inr (word_of_int n) else Inl type_error)
    | _ \<Rightarrow> Inl type_error)"

text \<open>Signed integers of \<^verbatim>\<open>w\<close> bits are kept as integers within their range.\<close>

definition un_sint :: "nat \<Rightarrow> int decoder" where
  "un_sint w j old = (case j of
      JNull \<Rightarrow> Inr old
    | JInt n \<Rightarrow> (if - (2 ^ (w - 1)) \<le> n \<and> n < 2 ^ (w - 1) then Inr n else Inl type_error)
    | _ \<Rightarrow> Inl type_error)"

definition un_str :: "string decoder" where
  "un_str j old = (case j of JNull \<Rightarrow> Inr old | JStr s \<Rightarrow> Inr s | _ \<Rightarrow> Inl type_error)"

definition un_bool :: "bool decoder" where
  "un_bool j old = (case j of JNull \<Rightarrow> Inr old | JBool b \<Rightarrow> Inr b | _ \<Rightarrow> Inl type_error)"

text \<open>Floating-point fields keep the number as it was written.\<close>

definition un_number :: "json decoder" where
  "un_number j old = (case j of JNull \<Rightarrow> Inr old | JInt n \<Rightarrow> Inr j | JFloat b \<Rightarrow> Inr j | _ \<Rightarrow> Inl type_error)"

definition un_ptr :: "'a decoder \<Rightarrow> 'a \<Rightarrow> 'a option decoder" where
  "un_ptr d z j old = (case j of
      JNull \<Rightarrow> Inr None
    | _ \<Rightarrow> map_sum id Some (d j (case old of None \<Rightarrow> z | Some x \<Rightarrow> x)))"

fun un_elems :: "'a decoder \<Rightarrow> 'a \<Rightarrow> json list \<Rightarrow> goerr + 'a list" where
  "un_elems d z [] = Inr []"
| "un_elems d z (j # js) = (case d j z of
      Inl e \<Rightarrow> Inl e
    | Inr x \<Rightarrow> (case un_elems d z js of Inl e \<Rightarrow> Inl e | Inr xs \<Rightarrow> Inr (x # xs)))"

text \<open>A decoded nil slice and an empty one are both the empty list.\<close>

definition un_slice :: "'a decoder \<Rightarrow> 'a \<Rightarrow> 'a list decoder" where
  "un_slice d z j old = (case j of JNull \<Rightarrow> Inr [] | JArr js \<Rightarrow> un_elems d z js | _ \<Rightarrow> Inl type_error)"

fun un_entries :: "'a decoder \<Rightarrow> 'a \<Rightarrow> members \<Rightarrow> (string \<times> 'a) list \<Rightarrow> goerr + (string \<times> 'a) list" where
  "un_entries d z [] m = Inr m"
| "un_entries d z ((k, j) # ms) m = (case d j z of
      Inl e \<Rightarrow> Inl e
    | Inr x \<Rightarrow> un_entries d z ms (AList.update k x m))"

definition un_map :: "'a decoder \<Rightarrow> 'a \<Rightarrow> (string \<times> 'a) list decoder" where
  "un_map d z j old = (case j of JNull \<Rightarrow> Inr [] | JObj ms \<Rightarrow> un_entries d z ms old | _ \<Rightarrow> Inl type_error)"

abbreviation un_strmap :: "gomap decoder" where
  "un_strmap \<equiv> un_map un_str []"

text \<open>Members are matched to fields by name, ignoring case; unknown members are skipped, and of
  several members for one field the last wins.\<close>

definition lower :: "char \<Rightarrow> char" where
  "lower c = (let n = of_char c :: nat in if 65 \<le> n \<and> n \<le> 90 then char_of (n + 32) else c)"

definition key_match :: "string \<Rightarrow> string \<Rightarrow> bool" where
  "key_match a b = (map lower a = map lower b)"

type_synonym 'r field = "string \<times> (json \<Rightarrow> 'r \<Rightarrow> goerr + 'r)"

definition fld :: "string \<Rightarrow> ('r \<Rightarrow> 'f) \<Rightarrow> (('f \<Rightarrow> 'f) \<Rightarrow> 'r \<Rightarrow> 'r) \<Rightarrow> 'f decoder \<Rightarrow> 'r field" where
  "fld k get upd d = (k, \<lambda>j r. map_sum id (\<lambda>x. upd (\<lambda>_. x) r) (d j (get r)))"

fun un_members :: "'r field list \<Rightarrow> members \<Rightarrow> 'r \<Rightarrow> goerr + 'r" where
  "un_members fs [] r = Inr r"
| "un_members fs ((k, j) # ms) r = (case find (\<lambda>f. key_match (fst f) k) fs of
      None \<Rightarrow> un_members fs ms r
    | Some f \<Rightarrow> (case snd f j r of Inl e \<Rightarrow> Inl e | Inr r' \<Rightarrow> un_members fs ms r'))"

definition un_struct :: "'r field list \<Rightarrow> 'r decoder" where
  "un_struct fs j r = (case j of JNull \<Rightarrow> Inr r | JObj ms \<Rightarrow> un_members fs ms r | _ \<Rightarrow> Inl type_error)"

text \<open>Errors of decoders are plain texts, without a package prefix.\<close>

definition raw_decoder :: "'a decoder \<Rightarrow> bool" where
  "raw_decoder d = (\<forall>j x e. d j x = Inl e \<longrightarrow> lance_prefixes e = 0)"

lemma raw_decoder_basic [decoder_rules]:
  "raw_decoder un_word" "raw_decoder (un_sint k)" "raw_decoder un_str" "raw_decoder un_bool" "raw_decoder un_number"
  by (auto simp: raw_decoder_def un_word_def un_sint_def un_str_def un_bool_def un_number_def type_error_def
      split: json.splits if_splits)

lemma map_sum_Inl: "map_sum id f x = Inl e \<longleftrightarrow> x = Inl e"
  by (cases x) auto

lemma raw_decoder_ptr [decoder_rules]: "raw_decoder d \<Longrightarrow> raw_decoder (un_ptr d z)"
  unfolding raw_decoder_def un_ptr_def
  by (auto split: json.splits option.splits simp: map_sum_Inl)

lemma raw_decoder_slice [decoder_rules]:
  assumes "raw_decoder d"
  shows "raw_decoder (un_slice d z)"
proof -
  have "un_elems d z js = Inl e \<Longrightarrow> lance_prefixes e = 0" for js e
    using assms by (induction js) (auto simp: raw_decoder_def split: sum.splits)
  then show ?thesis by (auto simp: raw_decoder_def un_slice_def type_error_def split: json.splits)
qed

lemma raw_decoder_map [decoder_rules]:
  assumes "raw_decoder d"
  shows "raw_decoder (un_map d z)"
proof -
  have "un_entries d z ms m = Inl e \<Longrightarrow> lance_prefixes e = 0" for ms m e
    using assms by (induction d z ms m rule: un_entries.induct) (auto simp: raw_decoder_def split: sum.splits)
  then show ?thesis by (auto simp: raw_decoder_def un_map_def type_error_def split: json.splits)
qed

lemma raw_decoder_fld [decoder_rules]: "raw_decoder d \<Longrightarrow> raw_decoder (snd (fld k get upd d))"
  by (auto simp: raw_decoder_def fld_def map_sum_Inl)

lemma raw_decoder_via [decoder_rules]: "raw_decoder d \<Longrightarrow> raw_decoder (\<lambda>j r. map_sum id (g r) (d j (h r)))"
  by (auto simp: raw_decoder_def map_sum_Inl)

lemma raw_decoder_struct [decoder_rules]:
  assumes "list_all (\<lambda>f. raw_decoder (snd f)) fs"
  shows "raw_decoder (un_struct fs)"
proof -
  have "un_members fs ms r = Inl e \<Longrightarrow> lance_prefixes e = 0" for ms r e
  proof (induction ms arbitrary: r)
    case (Cons m ms)
    obtain k j where m: "m = (k, j)" by fastforce
    show ?case
    proof (cases "find (\<lambda>f. key_match (fst f) k) fs")
      case None
      with Cons m show ?thesis by simp
    next
      case (Some f)
      then have "f \<in> set fs" by (auto simp: find_Some_iff)
      then have "raw_decoder (snd f)" using assms by (auto simp: list_all_iff)
      with Some Cons m show ?thesis by (auto simp: raw_decoder_def split: sum.splits)
    qed
  qed simp
  then show ?thesis by (auto simp: raw_decoder_def un_struct_def type_error_def split: json.splits)
qed

lemmas un_defs = un_word_def un_sint_def un_str_def un_bool_def un_number_def un_ptr_def un_slice_def
  un_map_def un_struct_def fld_def key_match_def lower_def

section \<open>json.Marshal of maps\<close>

text \<open>\<^verbatim>\<open>map[string]any\<close> is written with sorted keys.\<close>

definition json_any :: "members \<Rightarrow> json" where
  "json_any m = JObj (sort_key fst m)"

lemma map_of_sort_key:
  assumes "distinct (map fst m)"
  shows "map_of (sort_key fst m) k = map_of m k"
proof -
  have "distinct (map fst (sort_key fst m))"
    using assms by (simp add: distinct_map)
  then show ?thesis
    using assms by (intro map_of_inject_set [THEN iffD2, THEN fun_cong]) simp_all
qed

lemma json_any_get: "distinct (map fst m) \<Longrightarrow> json_get k (json_any m) = map_of m k"
  by (simp add: json_any_def map_of_sort_key)

section \<open>Times\<close>

record gotime =
  unix_sec :: int
  nsec :: nat

definition time_IsZero :: "gotime \<Rightarrow> bool" where
  "time_IsZero t = (unix_sec t = -62135596800 \<and> nsec t = 0)"

text \<open>The proleptic Gregorian date of a day number counted from 1970-01-01.\<close>

definition civil :: "int \<Rightarrow> int \<times> int \<times> int" where
  "civil days =
     (let z = days + 719468;
          era = z div 146097;
          doe = z mod 146097;
          yoe = (doe - doe div 1460 + doe div 36524 - doe div 146096) div 365;
          doy = doe - (365 * yoe + yoe div 4 - yoe div 100);
          mp = (5 * doy + 2) div 153;
          d = doy - (153 * mp + 2) div 5 + 1;
          m = (if mp < 10 then mp + 3 else mp - 9);
          y = yoe + era * 400 + (if m \<le> 2 then 1 else 0)
      in (y, m, d))"

definition pad :: "nat \<Rightarrow> int \<Rightarrow> string" where
  "pad w n = (let s = dec_int n in replicate (w - length s) (CHR ''0'') @ s)"

definition strip_zeros :: "string \<Rightarrow> string" where
  "strip_zeros s = rev (dropWhile (\<lambda>c. c = CHR ''0'') (rev s))"

text \<open>\<^verbatim>\<open>t.UTC().Format(time.RFC3339Nano)\<close>, for years of at most four digits.\<close>

definition RFC3339Nano :: "gotime \<Rightarrow> string" where
  "RFC3339Nano t =
     (let days = unix_sec t div 86400; s = unix_sec t mod 86400;
          (y, m, d) = civil days;
          frac = strip_zeros (pad 9 (int (nsec t)))
      in pad 4 y @ ''-'' @ pad 2 m @ ''-'' @ pad 2 d @ ''T'' @ pad 2 (s div 3600) @ '':'' @
         pad 2 (s div 60 mod 60) @ '':'' @ pad 2 (s mod 60) @ (if frac = [] then [] else ''.'' @ frac) @ ''Z'')"

text \<open>What \<^verbatim>\<open>Time.UnmarshalJSON\<close> accepts: digits in the RFC 3339 layout, in range.\<close>

definition digit :: "char \<Rightarrow> bool" where
  "digit c = (let n = of_char c :: nat in 48 \<le> n \<and> n \<le> 57)"

fun digits_val :: "string \<Rightarrow> nat \<Rightarrow> nat" where
  "digits_val [] acc = acc"
| "digits_val (c # cs) acc = digits_val cs (10 * acc + (of_char c - 48))"

definition num_at :: "string \<Rightarrow> nat \<Rightarrow> nat \<Rightarrow> nat option" where
  "num_at s i n = (let cs = take n (drop i s) in
     if length cs = n \<and> list_all digit cs then Some (digits_val cs 0) else None)"

definition leap :: "nat \<Rightarrow> bool" where
  "leap y = (y mod 4 = 0 \<and> (y mod 100 \<noteq> 0 \<or> y mod 400 = 0))"

definition days_in :: "nat \<Rightarrow> nat \<Rightarrow> nat" where
  "days_in y m = (if m = 2 then (if leap y then 29 else 28) else if m \<in> {4, 6, 9, 11} then 30 else 31)"

definition in_range :: "nat option \<Rightarrow> nat \<Rightarrow> nat \<Rightarrow> bool" where
  "in_range n lo hi = (case n of None \<Rightarrow> False | Some v \<Rightarrow> lo \<le> v \<and> v \<le> hi)"

definition zone_ok :: "string \<Rightarrow> bool" where
  "zone_ok s = (s = ''Z'' \<or>
     (length s = 6 \<and> (s ! 0 = CHR ''+'' \<or> s ! 0 = CHR ''-'') \<and> s ! 3 = CHR '':'' \<and>
      in_range (num_at s 1 2) 0 23 \<and> in_range (num_at s 4 2) 0 59))"

definition rfc3339 :: "string \<Rightarrow> bool" where
  "rfc3339 s =
     (case (num_at s 0 4, num_at s 5 2) of
        (Some y, Some m) \<Rightarrow>
          20 \<le> length s \<and> s ! 4 = CHR ''-'' \<and> s ! 7 = CHR ''-'' \<and> s ! 10 = CHR ''T'' \<and>
          s ! 13 = CHR '':'' \<and> s ! 16 = CHR '':'' \<and>
          in_range (Some m) 1 12 \<and> in_range (num_at s 8 2) 1 (days_in y m) \<and>
          in_range (num_at s 11 2) 0 23 \<and> in_range (num_at s 14 2) 0 59 \<and> in_range (num_at s 17 2) 0 59 \<and>
          (let rest = drop 19 s; ds = takeWhile digit (tl rest) in
           if hd rest = CHR ''.'' then ds \<noteq> [] \<and> zone_ok (drop (Suc (length ds)) rest) else zone_ok rest)
      | _ \<Rightarrow> False)"

text \<open>A decoded time is kept in its text form.\<close>

definition un_time :: "string decoder" where
  "un_time j old = (case j of JNull \<Rightarrow> Inr old | JStr s \<Rightarrow> (if rfc3339 s then Inr s else Inl (Foreign ''parsing time''))
     | _ \<Rightarrow> Inl (Foreign ''Time.UnmarshalJSON: input is not a JSON string''))"

lemma raw_decoder_time [decoder_rules]: "raw_decoder un_time"
  by (auto simp: raw_decoder_def un_time_def split: json.splits if_splits)

section \<open>base64\<close>

definition b64_alphabet :: string where
  "b64_alphabet = ''ABCDEFGHIJKLMNOPQRSTUVWXYZabcdefghijklmnopqrstuvwxyz0123456789+/''"

definition b64 :: "nat \<Rightarrow> char" where
  "b64 n = b64_alphabet ! (n mod 64)"

fun base64_encode :: "bytes \<Rightarrow> string" where
  "base64_encode (a # b # c # rest) =
     (let n = unat a * 65536 + unat b * 256 + unat c in
      b64 (n div 262144) # b64 (n div 4096) # b64 (n div 64) # b64 n # base64_encode rest)"
| "base64_encode [a, b] =
     (let n = unat a * 65536 + unat b * 256 in
      [b64 (n div 262144), b64 (n div 4096), b64 (n div 64), CHR ''='' ])"
| "base64_encode [a] =
     (let n = unat a * 65536 in [b64 (n div 262144), b64 (n div 4096), CHR ''='', CHR ''=''])"
| "base64_encode [] = []"

end
