(* ===== verification/Lance_Hooks.thy ===== *)
theory Lance_Hooks
  imports Lance_Cache Lance_Json "HOL-Library.Multiset"
begin

text \<open>
  The other plugin adapters of the bridge (\<^verbatim>\<open>lance/hooks.go\<close>, \<^verbatim>\<open>lance/callbacks.go\<close>): write
  progress, the record-batch mapper of \<^verbatim>\<open>AddColumnsUDF\<close>, its checkpoint store, and scan
  statistics. Arrow batches cross as addresses of C structures; importing one and
  returning one from user code give the adapter a reference that it has to release.
\<close>

section \<open>Write progress\<close>

record WriteStats =
  BytesWritten :: u64
  RowsWritten :: u64
  FilesWritten :: u32

definition writeProgressAdapter_Invoke ::
  "(WriteStats \<Rightarrow> ('s, unit) meth) \<Rightarrow> int \<Rightarrow> bytes option \<Rightarrow> ('s, goerr + bytes option) meth" where
  "writeProgressAdapter_Invoke fn method payload =
     (let p = nil_bytes payload in
      if method = 0 \<and> length p \<ge> 20 then
        mbind (fn \<lparr>BytesWritten = get_u64 (take 8 p), RowsWritten = get_u64 (take 8 (drop 8 p)),
                   FilesWritten = get_u32 (take 4 (drop 16 p))\<rparr>) (\<lambda>_. mret (Inr None))
      else mret (Inr None))"

text \<open>The payload as \<^verbatim>\<open>rust/src/session.rs\<close> writes it.\<close>

definition encode_write_stats :: "WriteStats \<Rightarrow> bytes" where
  "encode_write_stats s = put_u64 (BytesWritten s) @ put_u64 (RowsWritten s) @ put_u32 (FilesWritten s)"

section \<open>Arrow batches held by the Go side\<close>

text \<open>References to record batches that the Go side still has to release, and the batches
  exported into C structures (array address, schema address, batch).\<close>

record 'r arrow_mem =
  live_recs :: "'r list"
  c_exports :: "(u64 \<times> u64 \<times> 'r) list"

definition rec_acquire :: "'r \<Rightarrow> 'r arrow_mem \<Rightarrow> 'r arrow_mem" where
  "rec_acquire r m = m\<lparr>live_recs := r # live_recs m\<rparr>"

definition rec_Release :: "'r \<Rightarrow> 'r arrow_mem \<Rightarrow> 'r arrow_mem" where
  "rec_Release r m = m\<lparr>live_recs := remove1 r (live_recs m)\<rparr>"

definition ExportArrowRecordBatch :: "'r \<Rightarrow> u64 \<Rightarrow> u64 \<Rightarrow> 'r arrow_mem \<Rightarrow> 'r arrow_mem" where
  "ExportArrowRecordBatch r arr sch m = m\<lparr>c_exports := c_exports m @ [(arr, sch, r)]\<rparr>"

text \<open>\<^verbatim>\<open>cdata.ImportCRecordBatch\<close> reads two C structures; which batch they hold, or why they
  cannot be imported, is a parameter.\<close>

type_synonym 'r importer = "u64 \<Rightarrow> u64 \<Rightarrow> goerr + 'r"

definition nil_deref :: string where
  "nil_deref = ''runtime error: invalid memory address or nil pointer dereference''"

definition addrToPtr :: "bytes \<Rightarrow> u64" where
  "addrToPtr b = get_u64 b"

section \<open>The UDF mapper\<close>

definition udfAdapter_Invoke ::
  "'r importer \<Rightarrow> ('r \<Rightarrow> ('r arrow_mem, goerr + 'r option) meth) \<Rightarrow> int \<Rightarrow> bytes option
     \<Rightarrow> ('r arrow_mem, goerr + bytes option) meth" where
  "udfAdapter_Invoke imp fn method payload m =
     (let p = nil_bytes payload in
      if method \<noteq> 0 then (Ret (Inl (Errorf [Lit ''lance: unknown udf method '', Dec method])), m)
      else if length p < 32 then
        (Ret (Inl (Errorf [Lit ''lance: short udf payload ('', Dec (int (length p)), Lit '' bytes)''])), m)
      else
        let inArr = addrToPtr (take 8 p); inSch = addrToPtr (take 8 (drop 8 p));
            outArr = addrToPtr (take 8 (drop 16 p)); outSch = addrToPtr (take 8 (drop 24 p)) in
        case imp inArr inSch of
          Inl err \<Rightarrow> (Ret (Inl (Wrapf [Lit ''lance: import udf input: ''] err [])), m)
        | Inr rec \<Rightarrow>
            (case fn rec (rec_acquire rec m) of
               (Panic v, m1) \<Rightarrow> (Panic v, rec_Release rec m1)
             | (Ret (Inl err), m1) \<Rightarrow> (Ret (Inl err), rec_Release rec m1)
             | (Ret (Inr None), m1) \<Rightarrow> (Panic nil_deref, rec_Release rec m1)
             | (Ret (Inr (Some out)), m1) \<Rightarrow>
                 (Ret (Inr None), rec_Release rec (rec_Release out (ExportArrowRecordBatch out outArr outSch m1)))))"

text \<open>The payload as \<^verbatim>\<open>rust/src/hooks.rs\<close> packs it.\<close>

definition pack_ptrs :: "u64 \<Rightarrow> u64 \<Rightarrow> u64 \<Rightarrow> u64 \<Rightarrow> bytes" where
  "pack_ptrs inArr inSch outArr outSch = put_u64 inArr @ put_u64 inSch @ put_u64 outArr @ put_u64 outSch"

section \<open>The checkpoint store\<close>

text \<open>\<^verbatim>\<open>UDFCheckpointStore\<close>; batch indices arrive as 64-bit words and are converted to \<^verbatim>\<open>int\<close>.\<close>

record 'r UDFCheckpointStore =
  GetBatch :: "u32 \<Rightarrow> int \<Rightarrow> ('r arrow_mem, goerr + 'r option \<times> bool) meth"
  InsertBatch :: "u32 \<Rightarrow> int \<Rightarrow> 'r \<Rightarrow> ('r arrow_mem, goerr option) meth"
  GetFragment :: "u32 \<Rightarrow> ('r arrow_mem, goerr + bytes option \<times> bool) meth"
  InsertFragment :: "bytes \<Rightarrow> ('r arrow_mem, goerr option) meth"

definition ckptGetBatch :: int where "ckptGetBatch = 0"
definition ckptInsertBatch :: int where "ckptInsertBatch = 1"
definition ckptGetFragment :: int where "ckptGetFragment = 2"
definition ckptInsertFragment :: int where "ckptInsertFragment = 3"

lemmas ckpt_method_defs = ckptGetBatch_def ckptInsertBatch_def ckptGetFragment_def ckptInsertFragment_def

text \<open>\<^verbatim>\<open>return nil, err\<close> with an error that may be nil.\<close>

fun nil_err :: "goerr option \<Rightarrow> goerr + bytes option" where
  "nil_err None = Inr None"
| "nil_err (Some e) = Inl e"

definition ckpt_get_batch :: "'r UDFCheckpointStore \<Rightarrow> bytes \<Rightarrow> ('r arrow_mem, goerr + bytes option) meth" where
  "ckpt_get_batch store p m =
     (if length p < 28 then (Ret (Inl (Errorf [Lit ''lance: short checkpoint get_batch payload''])), m)
      else
        let frag = get_u32 (take 4 p); batchIdx = sint (get_u64 (take 8 (drop 4 p)));
            outArr = addrToPtr (take 8 (drop 12 p)); outSch = addrToPtr (take 8 (drop 20 p)) in
        case GetBatch store frag batchIdx m of
          (Panic v, m1) \<Rightarrow> (Panic v, m1)
        | (Ret (Inl err), m1) \<Rightarrow> (Ret (Inl err), m1)
        | (Ret (Inr (batch, found)), m1) \<Rightarrow>
            (if \<not> found then (Ret (Inl errPluginMiss), m1)
             else (case batch of
                     None \<Rightarrow> (Panic nil_deref, m1)
                   | Some b \<Rightarrow> (Ret (Inr None), rec_Release b (ExportArrowRecordBatch b outArr outSch m1)))))"

definition ckpt_insert_batch ::
  "'r importer \<Rightarrow> 'r UDFCheckpointStore \<Rightarrow> bytes \<Rightarrow> ('r arrow_mem, goerr + bytes option) meth" where
  "ckpt_insert_batch imp store p m =
     (if length p < 28 then (Ret (Inl (Errorf [Lit ''lance: short checkpoint insert_batch payload''])), m)
      else
        let frag = get_u32 (take 4 p); batchIdx = sint (get_u64 (take 8 (drop 4 p)));
            inArr = addrToPtr (take 8 (drop 12 p)); inSch = addrToPtr (take 8 (drop 20 p)) in
        case imp inArr inSch of
          Inl err \<Rightarrow> (Ret (Inl (Wrapf [Lit ''lance: import checkpoint batch: ''] err [])), m)
        | Inr rec \<Rightarrow>
            (case InsertBatch store frag batchIdx rec (rec_acquire rec m) of
               (Panic v, m1) \<Rightarrow> (Panic v, rec_Release rec m1)
             | (Ret e, m1) \<Rightarrow> (Ret (nil_err e), rec_Release rec m1)))"

definition checkpointAdapter_Invoke ::
  "'r importer \<Rightarrow> 'r UDFCheckpointStore \<Rightarrow> int \<Rightarrow> bytes option \<Rightarrow> ('r arrow_mem, goerr + bytes option) meth" where
  "checkpointAdapter_Invoke imp store method payload =
     (let p = nil_bytes payload in
      if method = ckptGetBatch then ckpt_get_batch store p
      else if method = ckptInsertBatch then ckpt_insert_batch imp store p
      else if method = ckptGetFragment then
        (if length p < 4 then mret (Inl (Errorf [Lit ''lance: short checkpoint get_fragment payload'']))
         else mbind (GetFragment store (get_u32 (take 4 p))) (\<lambda>r. case r of
           Inl err \<Rightarrow> mret (Inl err)
         | Inr (j, found) \<Rightarrow> if \<not> found then mret (Inl errPluginMiss) else mret (Inr j)))
      else if method = ckptInsertFragment then mbind (InsertFragment store p) (\<lambda>e. mret (nil_err e))
      else mret (Inl (Errorf [Lit ''lance: unknown checkpoint method '', Dec method])))"

definition pack_batch_ckpt :: "u32 \<Rightarrow> u64 \<Rightarrow> u64 \<Rightarrow> u64 \<Rightarrow> bytes" where
  "pack_batch_ckpt frag idx arr sch = put_u32 frag @ put_u64 idx @ put_u64 arr @ put_u64 sch"

section \<open>Scan statistics\<close>

definition scanStatsReport :: int where "scanStatsReport = 0"

record ScanStats =
  IOPS :: u64
  Requests :: u64
  BytesRead :: u64
  IndicesLoaded :: u64
  PartsLoaded :: u64
  IndexComparisons :: u64
  AllCounts :: "(string \<times> u64) list"
  AllTimes :: "(string \<times> u64) list"

definition un_ScanStats :: "ScanStats decoder" where
  "un_ScanStats = un_struct
     [fld ''iops'' IOPS IOPS_update un_word, fld ''requests'' Requests Requests_update un_word,
      fld ''bytes_read'' BytesRead BytesRead_update un_word, fld ''indices_loaded'' IndicesLoaded IndicesLoaded_update un_word,
      fld ''parts_loaded'' PartsLoaded PartsLoaded_update un_word,
      fld ''index_comparisons'' IndexComparisons IndexComparisons_update un_word,
      fld ''all_counts'' AllCounts AllCounts_update (un_map un_word 0), fld ''all_times'' AllTimes AllTimes_update (un_map un_word 0)]"

definition ScanStats0 :: ScanStats where
  "ScanStats0 = \<lparr>IOPS = 0, Requests = 0, BytesRead = 0, IndicesLoaded = 0, PartsLoaded = 0, IndexComparisons = 0,
     AllCounts = [], AllTimes = []\<rparr>"

text \<open>The payload is JSON text; \<^verbatim>\<open>parse\<close> reads the document from it.\<close>

definition scanStatsAdapter_Invoke ::
  "(bytes \<Rightarrow> goerr + json) \<Rightarrow> (ScanStats \<Rightarrow> ('s, unit) meth) \<Rightarrow> int \<Rightarrow> bytes option \<Rightarrow> ('s, goerr + bytes option) meth" where
  "scanStatsAdapter_Invoke parse fn method payload =
     (if method \<noteq> scanStatsReport then mret (Inl (Errorf [Lit ''lance: unknown scan stats method '', Dec method]))
      else (case (case parse (nil_bytes payload) of Inl err \<Rightarrow> Inl err | Inr j \<Rightarrow> un_ScanStats j ScanStats0) of
              Inl err \<Rightarrow> mret (Inl (Wrapf [Lit ''lance: decode scan stats: ''] err []))
            | Inr stats \<Rightarrow> mbind (fn stats) (\<lambda>_. mret (Inr None))))"

section \<open>Ownership contracts\<close>

text \<open>What the documentation asks of user code: a mapper or a store hands over one reference
  to the batch it returns and otherwise releases what it acquires; it exports nothing.\<close>

definition refs :: "'r arrow_mem \<Rightarrow> 'r multiset" where
  "refs m = mset (live_recs m)"

definition returns_owned :: "('r arrow_mem \<Rightarrow> 'a outcome \<times> 'r arrow_mem) \<Rightarrow> ('a \<Rightarrow> 'r option) \<Rightarrow> bool" where
  "returns_owned f res =
     (\<forall>m. c_exports (snd (f m)) = c_exports m \<and>
          refs (snd (f m)) = (case fst (f m) of
             Ret x \<Rightarrow> (case res x of Some r \<Rightarrow> add_mset r (refs m) | None \<Rightarrow> refs m)
           | Panic _ \<Rightarrow> refs m))"

definition mapper_contract :: "('r \<Rightarrow> ('r arrow_mem, goerr + 'r option) meth) \<Rightarrow> bool" where
  "mapper_contract fn = (\<forall>r. returns_owned (fn r) (\<lambda>x. case x of Inr out \<Rightarrow> out | Inl _ \<Rightarrow> None))"

definition store_contract :: "'r UDFCheckpointStore \<Rightarrow> bool" where
  "store_contract S =
     ((\<forall>f i. returns_owned (GetBatch S f i) (\<lambda>x. case x of Inr (b, True) \<Rightarrow> b | _ \<Rightarrow> None)) \<and>
      (\<forall>f i r. returns_owned (InsertBatch S f i r) (\<lambda>_. None)) \<and>
      (\<forall>f. returns_owned (GetFragment S f) (\<lambda>_. None)) \<and>
      (\<forall>j. returns_owned (InsertFragment S j) (\<lambda>_. None)))"

lemma refs_simps [simp]:
  "refs (rec_acquire r m) = add_mset r (refs m)" "refs (rec_Release r m) = refs m - {#r#}"
  "refs (ExportArrowRecordBatch r a s m) = refs m"
  "c_exports (rec_acquire r m) = c_exports m" "c_exports (rec_Release r m) = c_exports m"
  "c_exports (ExportArrowRecordBatch r a s m) = c_exports m @ [(a, s, r)]"
  by (simp_all add: refs_def rec_acquire_def rec_Release_def ExportArrowRecordBatch_def)

lemma returns_ownedD:
  assumes "returns_owned f res" and "f m = (x, m1)"
  shows "c_exports m1 = c_exports m"
    and "refs m1 = (case x of Ret y \<Rightarrow> (case res y of Some r \<Rightarrow> add_mset r (refs m) | None \<Rightarrow> refs m) | Panic _ \<Rightarrow> refs m)"
  using assms unfolding returns_owned_def by (metis fst_conv snd_conv)+

lemma udf_refs:
  assumes "mapper_contract fn"
  shows "refs (snd (udfAdapter_Invoke imp fn me p m)) = refs m"
proof (cases "me \<noteq> 0 \<or> length (nil_bytes p) < 32")
  case False
  have own: "returns_owned (fn r) (\<lambda>x. case x of Inr out \<Rightarrow> out | Inl _ \<Rightarrow> None)" for r
    using assms by (simp add: mapper_contract_def)
  have "refs (snd (case fn r (rec_acquire r m) of
               (Panic v, m1) \<Rightarrow> (Panic v, rec_Release r m1)
             | (Ret (Inl err), m1) \<Rightarrow> (Ret (Inl err), rec_Release r m1)
             | (Ret (Inr None), m1) \<Rightarrow> (Panic nil_deref, rec_Release r m1)
             | (Ret (Inr (Some out)), m1) \<Rightarrow>
                 (Ret (Inr None), rec_Release r (rec_Release out (ExportArrowRecordBatch out a b m1))))) = refs m"
    for r a b and m :: "'a arrow_mem"
    using returns_ownedD(2) [OF own, of r "rec_acquire r m"]
    by (auto split: prod.split outcome.split sum.split option.split)
  with False show ?thesis
    by (auto simp: udfAdapter_Invoke_def Let_def split: sum.split)
qed (auto simp: udfAdapter_Invoke_def Let_def)

lemma ckpt_get_batch_refs:
  assumes "store_contract S"
  shows "refs (snd (ckpt_get_batch S p m)) = refs m"
proof -
  have own: "returns_owned (GetBatch S f i) (\<lambda>x. case x of Inr (b, True) \<Rightarrow> b | _ \<Rightarrow> None)" for f i
    using assms by (simp add: store_contract_def)
  show ?thesis
    using returns_ownedD(2) [OF own]
    by (fastforce simp: ckpt_get_batch_def Let_def split: prod.split outcome.split sum.split option.split)
qed

lemma ckpt_insert_batch_refs:
  assumes "store_contract S"
  shows "refs (snd (ckpt_insert_batch imp S p m)) = refs m"
proof -
  have own: "returns_owned (InsertBatch S f i r) (\<lambda>_. None)" for f i r
    using assms by (simp add: store_contract_def)
  show ?thesis
    using returns_ownedD(2) [OF own]
    by (fastforce simp: ckpt_insert_batch_def Let_def split: prod.split outcome.split sum.split option.split)
qed

section \<open>Properties\<close>

text \<open>Write progress is decoded exactly. From the payload that the native side writes (and
  any bytes appended to it) the adapter calls the user's function with the same counters;
  from a truncated payload it makes no call and reports no error.\<close>

theorem write_progress_exact:
  "writeProgressAdapter_Invoke fn 0 (Some (encode_write_stats st @ extra)) = mbind (fn st) (\<lambda>_. mret (Inr None)) \<and>
   writeProgressAdapter_Invoke fn 0 (Some (take n (encode_write_stats st))) =
     (if 20 \<le> n then mbind (fn st) (\<lambda>_. mret (Inr None)) else mret (Inr None))"
proof -
  have len: "length (encode_write_stats st) = 20" by (simp add: encode_write_stats_def)
  have full: "writeProgressAdapter_Invoke fn 0 (Some (encode_write_stats st @ q)) = mbind (fn st) (\<lambda>_. mret (Inr None))" for q
    using get_put_u32 [of "FilesWritten st" "[]"]
    by (cases st) (simp add: writeProgressAdapter_Invoke_def encode_write_stats_def)
  have "take n (encode_write_stats st) = encode_write_stats st @ []" if "20 \<le> n"
    using that len by simp
  with full [of "[]"] have "20 \<le> n \<Longrightarrow> writeProgressAdapter_Invoke fn 0 (Some (take n (encode_write_stats st))) = mbind (fn st) (\<lambda>_. mret (Inr None))"
    by simp
  then show ?thesis
    using full [of extra] len by (auto simp: writeProgressAdapter_Invoke_def)
qed

text \<open>C21: the UDF bridge neither leaks nor double-releases batches, and exports a batch exactly
  when it succeeds. For a mapper that follows the ownership contract, after every call of
  \<^verbatim>\<open>udfAdapter.Invoke\<close> (rejected, failed, panicking or successful) the references held are those
  held before; a call that does not succeed has exported nothing and a call that succeeds has
  exported one batch. With the addresses that the native side packed, an input that cannot be
  imported and an error of the mapper are errors, a panic or a missing batch is a panic, and the
  mapper's batch is exported into exactly the two output structures.\<close>

theorem udf_batches_balanced:
  assumes "mapper_contract fn"
  shows "(case udfAdapter_Invoke imp fn me p m of (r, m') \<Rightarrow>
      refs m' = refs m \<and>
      (if r = Ret (Inr None) then \<exists>arr sch out. c_exports m' = c_exports m @ [(arr, sch, out)]
       else c_exports m' = c_exports m)) \<and>
    (case udfAdapter_Invoke imp fn 0 (Some (pack_ptrs a b c d)) m of (r, m') \<Rightarrow>
      case imp a b of
        Inl err \<Rightarrow> r = Ret (Inl (Wrapf [Lit ''lance: import udf input: ''] err [])) \<and> c_exports m' = c_exports m
      | Inr rec \<Rightarrow>
          (case fst (fn rec (rec_acquire rec m)) of
             Ret (Inr (Some out)) \<Rightarrow> r = Ret (Inr None) \<and> c_exports m' = c_exports m @ [(c, d, out)]
           | Ret (Inr None) \<Rightarrow> r = Panic nil_deref \<and> c_exports m' = c_exports m
           | Ret (Inl err) \<Rightarrow> r = Ret (Inl err) \<and> c_exports m' = c_exports m
           | Panic v \<Rightarrow> r = Panic v \<and> c_exports m' = c_exports m))"
proof -
  have own: "returns_owned (fn r) (\<lambda>x. case x of Inr out \<Rightarrow> out | Inl _ \<Rightarrow> None)" for r
    using assms by (simp add: mapper_contract_def)
  note ex = returns_ownedD(1) [OF own, of _ "rec_acquire _ m", simplified refs_simps]
  have "case udfAdapter_Invoke imp fn me p m of (r, m') \<Rightarrow>
      if r = Ret (Inr None) then \<exists>arr sch out. c_exports m' = c_exports m @ [(arr, sch, out)]
      else c_exports m' = c_exports m"
    by (auto simp: udfAdapter_Invoke_def Let_def ex split: sum.split prod.split outcome.split option.split)
  moreover have "case udfAdapter_Invoke imp fn me p m of (r, m') \<Rightarrow> refs m' = refs m"
    using udf_refs [OF assms] by (simp add: split_beta)
  moreover have "udfAdapter_Invoke imp fn 0 (Some (pack_ptrs a b c d)) m =
    (case imp a b of
       Inl err \<Rightarrow> (Ret (Inl (Wrapf [Lit ''lance: import udf input: ''] err [])), m)
     | Inr rec \<Rightarrow>
         (case fn rec (rec_acquire rec m) of
            (Panic v, m1) \<Rightarrow> (Panic v, rec_Release rec m1)
          | (Ret (Inl err), m1) \<Rightarrow> (Ret (Inl err), rec_Release rec m1)
          | (Ret (Inr None), m1) \<Rightarrow> (Panic nil_deref, rec_Release rec m1)
          | (Ret (Inr (Some out)), m1) \<Rightarrow>
              (Ret (Inr None), rec_Release rec (rec_Release out (ExportArrowRecordBatch out c d m1)))))"
    by (simp add: udfAdapter_Invoke_def pack_ptrs_def addrToPtr_def)
  ultimately show ?thesis
    by (auto simp: ex split: sum.split prod.split outcome.split option.split)
qed

theorem udf_batches_balanced_witness:
  "(let fn = (\<lambda>r m. (Ret (Inr (Some (r + 1))), rec_acquire (r + 1) m)); m0 = \<lparr>live_recs = [8 :: nat], c_exports = []\<rparr>
    in case udfAdapter_Invoke (\<lambda>_ _. Inr 5) fn 0 (Some (pack_ptrs 1 2 3 4)) m0 of
      (r, m') \<Rightarrow> refs m' = {#8#} \<and> c_exports m' = [(3, 4, 6)])"
proof -
  let ?fn = "\<lambda>r m. (Ret (Inr (Some (r + 1))), rec_acquire (r + 1) m) :: (goerr + nat option) outcome \<times> nat arrow_mem"
  have c: "mapper_contract ?fn" by (simp add: mapper_contract_def returns_owned_def)
  show ?thesis
    using udf_batches_balanced [OF c, where imp = "\<lambda>_ _. Inr 5" and me = 0 and p = "Some (pack_ptrs 1 2 3 4)"
        and m = "\<lparr>live_recs = [8], c_exports = []\<rparr>" and a = 1 and b = 2 and c = 3 and d = 4]
    by (auto simp: split_beta refs_def)
qed

text \<open>The checkpoint bridge neither leaks nor double-releases batches, whatever the method,
  the payload and the answer of the store, panics included.\<close>

theorem checkpoint_batches_balanced:
  assumes "store_contract S"
  shows "refs (snd (checkpointAdapter_Invoke imp S me p m)) = refs m"
proof -
  have own: "returns_owned (GetFragment S f) (\<lambda>_. None)" "returns_owned (InsertFragment S j) (\<lambda>_. None)" for f j
    using assms by (simp_all add: store_contract_def)
  show ?thesis
    using ckpt_get_batch_refs [OF assms] ckpt_insert_batch_refs [OF assms]
      returns_ownedD(2) [OF own(1)] returns_ownedD(2) [OF own(2)]
    by (fastforce simp: checkpointAdapter_Invoke_def Let_def mbind_def split: prod.split outcome.split sum.split)
qed

theorem checkpoint_batches_balanced_witness:
  "refs (snd (checkpointAdapter_Invoke (\<lambda>_ _. Inr (5 :: nat))
      \<lparr>GetBatch = (\<lambda>_ _. mret (Inr (None, False))), InsertBatch = (\<lambda>_ _ _. mret None),
       GetFragment = (\<lambda>_. mret (Inr (None, False))), InsertFragment = (\<lambda>_. mret None)\<rparr>
      ckptInsertBatch (Some (pack_batch_ckpt 1 2 3 4)) \<lparr>live_recs = [8], c_exports = []\<rparr>)) = {#8#}"
proof -
  have "store_contract (\<lparr>GetBatch = (\<lambda>_ _. mret (Inr (None, False))), InsertBatch = (\<lambda>_ _ _. mret None),
       GetFragment = (\<lambda>_. mret (Inr (None, False))), InsertFragment = (\<lambda>_. mret None)\<rparr> :: nat UDFCheckpointStore)"
    by (simp add: store_contract_def returns_owned_def)
  moreover have "refs \<lparr>live_recs = [8 :: nat], c_exports = []\<rparr> = {#8#}"
    by (simp add: refs_def)
  ultimately show ?thesis
    by (simp only: checkpoint_batches_balanced)
qed

end
