(* ===== verification/Lance_Obs.thy ===== *)
theory Lance_Obs
  imports Lance_Ffi "HOL-Library.Sublist"
begin

text \<open>
  \<^verbatim>\<open>lance/observability.go\<close>: provider resolution, the start/end pair around every operation,
  the row and byte counters, and the attributes derived from user data (dataset URIs and
  SQL expressions). Telemetry is the list of events in the world; the OpenTelemetry SDK
  behind the providers is outside the repository.
\<close>

section \<open>Providers\<close>

text \<open>Providers are opaque; the OpenTelemetry globals and whether a logger provider has debug
  logging enabled are parameters.\<close>

record otel =
  GetTracerProvider :: nat
  GetMeterProvider :: nat
  GetLoggerProvider :: nat
  debug_logging :: "nat \<Rightarrow> bool"

record obsConfig =
  tracerProvider :: "nat option"
  meterProvider :: "nat option"
  loggerProvider :: "nat option"

record obs =
  tracer :: nat
  meter :: nat
  logger :: nat
  debug_enabled :: bool

type_synonym ObsOption = "obsConfig \<Rightarrow> obsConfig"

definition WithTracerProvider :: "nat option \<Rightarrow> ObsOption" where
  "WithTracerProvider tp c = c\<lparr>tracerProvider := tp\<rparr>"

definition WithMeterProvider :: "nat option \<Rightarrow> ObsOption" where
  "WithMeterProvider mp c = c\<lparr>meterProvider := mp\<rparr>"

definition WithLoggerProvider :: "nat option \<Rightarrow> ObsOption" where
  "WithLoggerProvider lp c = c\<lparr>loggerProvider := lp\<rparr>"

definition no_obsConfig :: obsConfig where
  "no_obsConfig = \<lparr>tracerProvider = None, meterProvider = None, loggerProvider = None\<rparr>"

definition newObs :: "otel \<Rightarrow> obsConfig \<Rightarrow> obs" where
  "newObs G cfg =
     (let tp = (case tracerProvider cfg of None \<Rightarrow> GetTracerProvider G | Some p \<Rightarrow> p);
          mp = (case meterProvider cfg of None \<Rightarrow> GetMeterProvider G | Some p \<Rightarrow> p);
          lp = (case loggerProvider cfg of None \<Rightarrow> GetLoggerProvider G | Some p \<Rightarrow> p)
      in \<lparr>tracer = tp, meter = mp, logger = lp, debug_enabled = debug_logging G lp\<rparr>)"

text \<open>Options are applied in order, each to the result of the ones before.\<close>

fun apply_opts :: "('c \<Rightarrow> 'c) list \<Rightarrow> 'c \<Rightarrow> 'c" where
  "apply_opts [] cfg = cfg"
| "apply_opts (opt # opts) cfg = apply_opts opts (opt cfg)"

lemma apply_opts_append [simp]: "apply_opts (xs @ ys) c = apply_opts ys (apply_opts xs c)"
  by (induction xs arbitrary: c) auto

definition newObsFromOptions :: "otel \<Rightarrow> ObsOption list \<Rightarrow> obs" where
  "newObsFromOptions G opts = newObs G (apply_opts opts no_obsConfig)"

section \<open>Spans\<close>

definition spanPrefix :: string where
  "spanPrefix = ''lance.''"

text \<open>\<^verbatim>\<open>o.start\<close> up to the return of the closer, and the closer. A nil \<^verbatim>\<open>*obs\<close> does nothing.\<close>

definition start_events :: "obs option \<Rightarrow> string \<Rightarrow> attrs \<Rightarrow> event list" where
  "start_events ob op attrs =
     (case ob of None \<Rightarrow> []
      | Some os \<Rightarrow>
          SpanStart (spanPrefix @ op)
            ([(''db.system'', AStr ''lance''), (''db.operation.name'', AStr op)] @ attrs) #
          (if debug_enabled os then [LogDebug ''lance operation start'' op] else []))"

definition end_events :: "obs option \<Rightarrow> string \<Rightarrow> goerr option \<Rightarrow> attrs \<Rightarrow> event list" where
  "end_events ob op err extra =
     (case ob of None \<Rightarrow> []
      | Some os \<Rightarrow>
          let status = (case err of Some _ \<Rightarrow> ''error'' | None \<Rightarrow> ''ok'') in
          (case err of Some e \<Rightarrow> [SpanError e] | None \<Rightarrow> []) @
          (if length extra > 0 then [SpanAttrs extra] else []) @
          [SpanEnd (spanPrefix @ op), OpCount op status, OpDuration op status] @
          (case err of Some e \<Rightarrow> [LogError op e]
           | None \<Rightarrow> if debug_enabled os then [LogDebug ''lance operation finish'' op] else []))"

definition obs_start :: "obs option \<Rightarrow> string \<Rightarrow> attrs \<Rightarrow> ('n, 'p, unit) go" where
  "obs_start ob op attrs = emit (start_events ob op attrs)"

definition obs_end :: "obs option \<Rightarrow> string \<Rightarrow> goerr option \<Rightarrow> attrs \<Rightarrow> ('n, 'p, unit) go" where
  "obs_end ob op err extra = emit (end_events ob op err extra)"

definition recordRows :: "obs option \<Rightarrow> string \<Rightarrow> string \<Rightarrow> int \<Rightarrow> ('n, 'p, unit) go" where
  "recordRows ob op kind n =
     (if ob = None \<or> n = 0 then ret () else emit [RowsAffected op kind n])"

definition recordBytes :: "obs option \<Rightarrow> string \<Rightarrow> int \<Rightarrow> ('n, 'p, unit) go" where
  "recordBytes ob op n = (if ob = None \<or> n = 0 then ret () else emit [BytesWritten op n])"

text \<open>A Go result \<^verbatim>\<open>(T, error)\<close> whose value is meaningful only without an error.\<close>

fun err_of :: "goerr + 'a \<Rightarrow> goerr option" where
  "err_of (Inl e) = Some e"
| "err_of (Inr _) = None"

text \<open>\<^verbatim>\<open>ctx, end := o.start(ctx, name, attrs...); defer func() { end(&err, extra...) }()\<close> around
  the rest of the function.\<close>

definition observed ::
  "obs option \<Rightarrow> string \<Rightarrow> attrs \<Rightarrow> (goerr + 'a \<Rightarrow> attrs) \<Rightarrow> ('n, 'p, goerr + 'a) go \<Rightarrow> ('n, 'p, goerr + 'a) go" where
  "observed ob name attrs extra body = do {
     obs_start ob name attrs;
     r \<leftarrow> body;
     obs_end ob name (err_of r) (extra r);
     ret r
   }"

lemma run_emit [simp]: "run_state (emit es) w = ((), w\<lparr>telemetry := telemetry w @ es\<rparr>)"
  by (simp add: emit_def)

lemma run_observed:
  "run_state (observed ob name attrs extra body) w =
     (case run_state body (w\<lparr>telemetry := telemetry w @ start_events ob name attrs\<rparr>) of
        (r, w1) \<Rightarrow> (r, w1\<lparr>telemetry := telemetry w1 @ end_events ob name (err_of r) (extra r)\<rparr>))"
  by (simp add: observed_def obs_start_def obs_end_def split_beta)

lemma keeps_observed [keeps_rules]: "silent f \<Longrightarrow> keeps f body \<Longrightarrow> keeps f (observed ob name attrs extra body)"
  unfolding observed_def obs_start_def obs_end_def by (intro keeps_rules)

lemma keeps_recordRows [keeps_rules]: "silent f \<Longrightarrow> keeps f (recordRows ob op kind n)"
  unfolding recordRows_def by (intro keeps_rules)

lemma keeps_recordBytes [keeps_rules]: "silent f \<Longrightarrow> keeps f (recordBytes ob op n)"
  unfolding recordBytes_def by (intro keeps_rules)

section \<open>Attributes from user data\<close>

definition expressionAttribute :: "string \<Rightarrow> string \<Rightarrow> string \<times> attrval" where
  "expressionAttribute kind expression = (''lance.'' @ kind @ ''.length'', AInt (int (length expression)))"

text \<open>\<^verbatim>\<open>url.URL\<close>. The parser and the escaping functions of \<^verbatim>\<open>net/url\<close> (\<^verbatim>\<open>escape\<close>, \<^verbatim>\<open>unescape\<close> and
  \<^verbatim>\<open>validEncoded\<close> with their modes) are parameters; \<^verbatim>\<open>String\<close> and \<^verbatim>\<open>EscapedPath\<close> are written out,
  since which parts they print is what the sanitizer relies on.\<close>

record url =
  Scheme :: string
  Opaque :: string
  User :: "string option"
  Host :: string
  Path :: string
  RawPath :: string
  OmitHost :: bool
  ForceQuery :: bool
  RawQuery :: string
  Fragment :: string
  RawFragment :: string

record url_lib =
  url_Parse :: "string \<Rightarrow> goerr + url"
  escape_host :: "string \<Rightarrow> string"
  escape_path :: "string \<Rightarrow> string"
  unescape_path :: "string \<Rightarrow> goerr + string"
  validEncoded_path :: "string \<Rightarrow> bool"
  escape_fragment :: "string \<Rightarrow> string"
  unescape_fragment :: "string \<Rightarrow> goerr + string"
  validEncoded_fragment :: "string \<Rightarrow> bool"

definition EscapedPath :: "url_lib \<Rightarrow> url \<Rightarrow> string" where
  "EscapedPath L u =
     (if RawPath u \<noteq> [] \<and> validEncoded_path L (RawPath u) \<and> unescape_path L (RawPath u) = Inr (Path u) then RawPath u
      else if Path u = ''*'' then ''*''
      else escape_path L (Path u))"

definition EscapedFragment :: "url_lib \<Rightarrow> url \<Rightarrow> string" where
  "EscapedFragment L u =
     (if RawFragment u \<noteq> [] \<and> validEncoded_fragment L (RawFragment u) \<and> unescape_fragment L (RawFragment u) = Inr (Fragment u)
      then RawFragment u
      else escape_fragment L (Fragment u))"

definition url_authority :: "url_lib \<Rightarrow> url \<Rightarrow> string" where
  "url_authority L u =
     (if Scheme u \<noteq> [] \<or> Host u \<noteq> [] \<or> User u \<noteq> None then
        (if OmitHost u \<and> Host u = [] \<and> User u = None then []
         else (if Host u \<noteq> [] \<or> Path u \<noteq> [] \<or> User u \<noteq> None then ''//'' else []) @
              (case User u of Some ui \<Rightarrow> ui @ ''@'' | None \<Rightarrow> []) @
              (if Host u \<noteq> [] then escape_host L (Host u) else []))
      else [])"

definition url_String :: "url_lib \<Rightarrow> url \<Rightarrow> string" where
  "url_String L u =
     (let front = (if Scheme u \<noteq> [] then Scheme u @ '':'' else []);
          mid = (if Opaque u \<noteq> [] then front @ Opaque u
                 else
                   let front = front @ url_authority L u;
                       path = EscapedPath L u;
                       slash = (if path \<noteq> [] \<and> hd path \<noteq> CHR ''/'' \<and> Host u \<noteq> [] then ''/'' else []);
                       dot = (if front @ slash = [] \<and> CHR '':'' \<in> set (takeWhile (\<lambda>c. c \<noteq> CHR ''/'') path)
                              then ''./'' else [])
                   in front @ slash @ dot @ path)
      in mid @ (if ForceQuery u \<or> RawQuery u \<noteq> [] then ''?'' @ RawQuery u else []) @
         (if Fragment u \<noteq> [] then ''#'' @ EscapedFragment L u else []))"

definition sanitizeDatasetURI :: "url_lib \<Rightarrow> string \<Rightarrow> string" where
  "sanitizeDatasetURI L raw =
     (case url_Parse L raw of
        Inl _ \<Rightarrow> ''<invalid>''
      | Inr u \<Rightarrow>
          (if Opaque u \<noteq> [] then
             (if Scheme u = [] then ''<redacted>'' else Scheme u @ '':<redacted>'')
           else url_String L (u\<lparr>User := None, RawQuery := [], ForceQuery := False, Fragment := []\<rparr>)))"

definition datasetURIAttribute :: "url_lib \<Rightarrow> string \<Rightarrow> string \<times> attrval" where
  "datasetURIAttribute L raw = (''lance.dataset.uri'', AStr (sanitizeDatasetURI L raw))"

section \<open>What the attribute shows\<close>

text \<open>Two parsed URIs that differ at most in their user info, query and fragment, or, when they are
  opaque, in the opaque part.\<close>

definition same_location :: "url \<Rightarrow> url \<Rightarrow> bool" where
  "same_location u v =
     (Scheme u = Scheme v \<and> (Opaque u = [] \<longleftrightarrow> Opaque v = []) \<and>
      (Opaque u = [] \<longrightarrow> Host u = Host v \<and> Path u = Path v \<and> RawPath u = RawPath v \<and> OmitHost u = OmitHost v))"

lemma datasetURIAttribute_location:
  assumes "url_Parse L raw1 = Inr u" and "url_Parse L raw2 = Inr v" and "same_location u v"
  shows "datasetURIAttribute L raw1 = datasetURIAttribute L raw2"
  using assms
  by (cases "Opaque u = []")
    (simp_all add: same_location_def datasetURIAttribute_def sanitizeDatasetURI_def url_String_def url_authority_def
      EscapedPath_def)

text \<open>The events that do not carry an error.\<close>

definition shown :: "event list \<Rightarrow> event list" where
  "shown es = filter (\<lambda>e. case e of SpanError _ \<Rightarrow> False | LogError _ _ \<Rightarrow> False | _ \<Rightarrow> True) es"

lemma shown_append [simp]: "shown (es @ fs) = shown es @ shown fs"
  by (simp add: shown_def)

lemma end_events_shown:
  "shown (end_events ob op (Some e1) extra) = shown (end_events ob op (Some e2) extra)"
  by (simp add: end_events_def shown_def Let_def split: option.split)

text \<open>A parser whose result carries its input in the parts that must not be shown, and the identity
  for every escaping function.\<close>

definition url0 :: "string \<Rightarrow> url" where
  "url0 s = \<lparr>Scheme = ''s3'', Opaque = [], User = Some s, Host = ''bucket'', Path = ''/t'', RawPath = [],
     OmitHost = False, ForceQuery = False, RawQuery = s, Fragment = s, RawFragment = s\<rparr>"

definition url_lib0 :: url_lib where
  "url_lib0 = \<lparr>url_Parse = (\<lambda>s. Inr (url0 s)), escape_host = id, escape_path = id, unescape_path = Inr,
     validEncoded_path = (\<lambda>_. True), escape_fragment = id, unescape_fragment = Inr, validEncoded_fragment = (\<lambda>_. True)\<rparr>"

end
