(* ===== verification/Lance_Ops.thy ===== *)
theory Lance_Ops
  imports Lance_Obs Lance_Json
begin

text \<open>
  The standard plumbing of every operation: C strings and their release (\<^verbatim>\<open>cString\<close>,
  \<^verbatim>\<open>cStorageKV\<close>, \<^verbatim>\<open>marshalOptions\<close> of \<^verbatim>\<open>lance/dataset.go\<close>), native handles with their
  cleanup, \<^verbatim>\<open>checkOpen\<close> and \<^verbatim>\<open>Close\<close>, and the entry points \<^verbatim>\<open>datasetOp\<close>, \<^verbatim>\<open>datasetDo\<close> and
  \<^verbatim>\<open>fragmentOp\<close> of \<^verbatim>\<open>lance/ops.go\<close>. The balance of an operation (C memory, locks, telemetry)
  is proved by composing the rules of this theory.
\<close>

named_theorems ends_rules "contracts that relate an observation of the world before and after"

named_theorems yields_rules "facts about the results of operations"

section \<open>C strings\<close>

definition cString :: "ctext \<Rightarrow> ('n, 'p, ctext cptr) go" where
  "cString t = (if t = Text [] then ret None else c_alloc t)"

definition with_cString :: "ctext \<Rightarrow> (cval \<Rightarrow> ('n, 'p, 'a) go) \<Rightarrow> ('n, 'p, 'a) go" where
  "with_cString t body = do {
     p \<leftarrow> cString t;
     deferring (free_cptr p) (body (c_text (map_option snd p)))
   }"

text \<open>\<^verbatim>\<open>cStorageKV\<close>: an array with two strings per entry, all in C memory; its cleanup frees
  the strings in slot order and then the array. An empty map is NULL.\<close>

fun c_mallocs :: "nat \<Rightarrow> ('n, 'p, nat list) go" where
  "c_mallocs 0 = ret []"
| "c_mallocs (Suc n) = do { a \<leftarrow> c_malloc; as \<leftarrow> c_mallocs n; ret (a # as) }"

fun c_frees :: "nat list \<Rightarrow> ('n, 'p, unit) go" where
  "c_frees [] = ret ()"
| "c_frees (a # as) = do { c_free a; c_frees as }"

definition cStorageKV :: "gomap \<Rightarrow> ('n, 'p, (nat \<times> nat list) option) go" where
  "cStorageKV m =
     (if length m = 0 then ret None
      else do { arr \<leftarrow> c_malloc; slots \<leftarrow> c_mallocs (2 * length m); ret (Some (arr, slots)) })"

definition freeKV :: "(nat \<times> nat list) option \<Rightarrow> ('n, 'p, unit) go" where
  "freeKV kv = (case kv of None \<Rightarrow> ret () | Some (arr, slots) \<Rightarrow> do { c_frees slots; c_free arr })"

definition with_storageKV :: "gomap \<Rightarrow> (cval \<Rightarrow> ('n, 'p, 'a) go) \<Rightarrow> ('n, 'p, 'a) go" where
  "with_storageKV m body = do {
     kv \<leftarrow> cStorageKV m;
     deferring (freeKV kv) (body (case kv of None \<Rightarrow> CNull | Some _ \<Rightarrow> CKV m))
   }"

text \<open>An array of C strings in C memory, freed with its strings at the end.\<close>

definition with_cStrings :: "string list \<Rightarrow> (cval \<Rightarrow> ('n, 'p, 'a) go) \<Rightarrow> ('n, 'p, 'a) go" where
  "with_cStrings xs body = do {
     arr \<leftarrow> c_malloc;
     slots \<leftarrow> c_mallocs (length xs);
     deferring (freeKV (Some (arr, slots))) (body (CStrs xs))
   }"

text \<open>\<^verbatim>\<open>json.Marshal\<close> of a value that cannot be encoded (an unsupported type, a NaN) is an error:
  the value to encode is a document or the reason why it is not one.\<close>

definition with_options ::
  "goerr + json \<Rightarrow> (cval \<Rightarrow> ('n, 'p, goerr + 'a) go) \<Rightarrow> ('n, 'p, goerr + 'a) go" where
  "with_options v body =
     (case v of
        Inl err \<Rightarrow> ret (Inl (Wrapf [Lit ''lance: marshal options: ''] err []))
      | Inr j \<Rightarrow> with_cString (Json j) body)"

section \<open>Native calls\<close>

text \<open>\<^verbatim>\<open>ffiCall(ctx, func() C.int32_t { return C.name(args..., &out...) })\<close>.\<close>

definition call :: "'n lance_ffi \<Rightarrow> ctx \<Rightarrow> string \<Rightarrow> cval list \<Rightarrow> ('n, 'p, goerr option \<times> cval list) go" where
  "call F c f args = ffiCall F c [] (native_call (ccall F f args))"

text \<open>A call whose first out parameter is a \<^verbatim>\<open>char **\<close>: the returned string belongs to the
  caller, who frees it with \<^verbatim>\<open>lance_string_free\<close> (NULL is tolerated).\<close>

definition recv_text :: "int \<times> cval list \<Rightarrow> ('n, 'p, int \<times> ctext cptr) go" where
  "recv_text r = (case as_text (out_nth (snd r) 0) of
      None \<Rightarrow> ret (fst r, None) | Some t \<Rightarrow> do { p \<leftarrow> c_alloc t; ret (fst r, p) })"

definition call_text :: "'n lance_ffi \<Rightarrow> ctx \<Rightarrow> string \<Rightarrow> cval list \<Rightarrow> ('n, 'p, goerr option \<times> ctext cptr) go" where
  "call_text F c f args = ffiCall F c None (do { r \<leftarrow> native_call (ccall F f args); recv_text r })"

definition lance_string_free :: "ctext cptr \<Rightarrow> ('n, 'p, unit) go" where
  "lance_string_free p = free_cptr p"

text \<open>\<^verbatim>\<open>json.Unmarshal([]byte(C.GoString(p)), &v)\<close>: NULL reads as the empty string; text that is not
  a JSON document is a syntax error; \<^verbatim>\<open>dec\<close> stores the document into the Go value.\<close>

definition json_syntax_error :: goerr where
  "json_syntax_error = Foreign ''unexpected end of JSON input''"

definition unmarshal :: "(json \<Rightarrow> goerr + 'a) \<Rightarrow> ctext cptr \<Rightarrow> goerr + 'a" where
  "unmarshal dec p = (case p of Some (_, Json j) \<Rightarrow> dec j | _ \<Rightarrow> Inl json_syntax_error)"

text \<open>The common body of the operations that return a JSON document: call, free the string at
  the end, decode.\<close>

definition json_call ::
  "'n lance_ffi \<Rightarrow> ctx \<Rightarrow> string \<Rightarrow> cval list \<Rightarrow> string \<Rightarrow> (json \<Rightarrow> goerr + 'a) \<Rightarrow> ('n, 'p, goerr + 'a) go" where
  "json_call F c f args what dec = do {
     (e, cJSON) \<leftarrow> call_text F c f args;
     case e of
       Some err \<Rightarrow> ret (Inl err)
     | None \<Rightarrow> deferring (lance_string_free cJSON)
         (ret (case unmarshal dec cJSON of
                 Inl err \<Rightarrow> Inl (Wrapf [Lit ''decode '', Lit what, Lit '': ''] err [])
               | Inr x \<Rightarrow> Inr x))
   }"

section \<open>Handles\<close>

record dataset =
  ds_h :: nat
  ds_obs :: "obs option"

record fragment =
  fr_h :: nat
  fr_obs :: "obs option"

definition newDataset :: "nat option \<Rightarrow> obs option \<Rightarrow> ('n, 'p, dataset) go" where
  "newDataset ptr ob = do { h \<leftarrow> new_handle ptr; ret \<lparr>ds_h = h, ds_obs = ob\<rparr> }"

definition newFragment :: "nat option \<Rightarrow> obs option \<Rightarrow> ('n, 'p, fragment) go" where
  "newFragment ptr ob = do { h \<leftarrow> new_handle ptr; ret \<lparr>fr_h = h, fr_obs = ob\<rparr> }"

text \<open>\<^verbatim>\<open>if p != nil { C.lance_*_close(p); cleanup.Stop(); p = nil }\<close>, the critical section of
  every \<^verbatim>\<open>Close\<close>.\<close>

definition handle_close :: "nat \<Rightarrow> ('n, 'p, unit) go" where
  "handle_close h = do {
     p \<leftarrow> reads (handle_ptr h);
     case p of
       None \<Rightarrow> ret ()
     | Some q \<Rightarrow> do {
         close_native q;
         modify (\<lambda>w. w\<lparr>handles := (handles w)(h \<mapsto> \<lparr>h_ptr = None, h_cleanup = None\<rparr>)\<rparr>)
       }
   }"

definition Dataset_Close :: "dataset \<Rightarrow> ('n, 'p, unit) go" where
  "Dataset_Close d = locked (WriteLock (ds_h d)) (handle_close (ds_h d))"

definition Fragment_Close :: "fragment \<Rightarrow> ('n, 'p, unit) go" where
  "Fragment_Close f = locked (WriteLock (fr_h f)) (handle_close (fr_h f))"

definition check_handle :: "string \<Rightarrow> nat \<Rightarrow> ctx \<Rightarrow> ('n, 'p, goerr + nat) go" where
  "check_handle what h c = do {
     e \<leftarrow> ctx_Err c;
     case e of
       Some err \<Rightarrow> ret (Inl err)
     | None \<Rightarrow> do {
         p \<leftarrow> reads (handle_ptr h);
         ret (case p of
                None \<Rightarrow> Inl (Wrapf [Lit ''lance: '', Lit what, Lit '' is closed: ''] (sentinel_err ErrInvalidArgument) [])
              | Some q \<Rightarrow> Inr q)
       }
   }"

definition Dataset_checkOpen :: "dataset \<Rightarrow> ctx \<Rightarrow> ('n, 'p, goerr + nat) go" where
  "Dataset_checkOpen d c = check_handle ''dataset'' (ds_h d) c"

definition Fragment_checkOpen :: "fragment \<Rightarrow> ctx \<Rightarrow> ('n, 'p, goerr + nat) go" where
  "Fragment_checkOpen f c = check_handle ''fragment'' (fr_h f) c"

section \<open>The entry points\<close>

text \<open>\<^verbatim>\<open>fmt.Errorf("lance: %s: %w", verb, err)\<close>.\<close>

definition wrap_verb :: "string \<Rightarrow> goerr \<Rightarrow> goerr" where
  "wrap_verb verb err = Wrapf [Lit ''lance: '', Str verb, Lit '': ''] err []"

definition run_checked ::
  "string \<Rightarrow> ('n, 'p, goerr + nat) go \<Rightarrow> (nat \<Rightarrow> ('n, 'p, goerr + 'a) go) \<Rightarrow> ('n, 'p, goerr + 'a) go" where
  "run_checked verb check fn = do {
     p \<leftarrow> check;
     case p of
       Inl err \<Rightarrow> ret (Inl err)
     | Inr ptr \<Rightarrow> do {
         out \<leftarrow> fn ptr;
         ret (case out of Inl err \<Rightarrow> Inl (wrap_verb verb err) | Inr x \<Rightarrow> Inr x)
       }
   }"

definition datasetOp ::
  "ctx \<Rightarrow> dataset \<Rightarrow> string \<Rightarrow> string \<Rightarrow> (ctx \<Rightarrow> nat \<Rightarrow> ('n, 'p, goerr + 'a) go) \<Rightarrow> attrs \<Rightarrow> ('n, 'p, goerr + 'a) go" where
  "datasetOp c d name verb fn attrs =
     observed (ds_obs d) name attrs (\<lambda>_. [])
       (locked (ReadLock (ds_h d)) (run_checked verb (Dataset_checkOpen d c) (fn c)))"

definition datasetDo ::
  "ctx \<Rightarrow> dataset \<Rightarrow> string \<Rightarrow> string \<Rightarrow> (ctx \<Rightarrow> nat \<Rightarrow> ('n, 'p, goerr option) go) \<Rightarrow> attrs \<Rightarrow> ('n, 'p, goerr option) go" where
  "datasetDo c d name verb fn attrs = do {
     r \<leftarrow> datasetOp c d name verb
       (\<lambda>c ptr. do { e \<leftarrow> fn c ptr; ret (case e of Some err \<Rightarrow> Inl err | None \<Rightarrow> Inr ()) }) attrs;
     ret (err_of r)
   }"

definition fragmentOp ::
  "ctx \<Rightarrow> fragment \<Rightarrow> string \<Rightarrow> string \<Rightarrow> (ctx \<Rightarrow> nat \<Rightarrow> ('n, 'p, goerr + 'a) go) \<Rightarrow> attrs \<Rightarrow> ('n, 'p, goerr + 'a) go" where
  "fragmentOp c f name verb fn attrs =
     observed (fr_obs f) name attrs (\<lambda>_. [])
       (locked (WriteLock (fr_h f)) (run_checked verb (Fragment_checkOpen f c) (fn c)))"

text \<open>The hand-written methods take the lock and check the handle themselves, and return the
  errors of the body as they are.\<close>

definition dataset_locked ::
  "ctx \<Rightarrow> dataset \<Rightarrow> (nat \<Rightarrow> ('n, 'p, goerr + 'a) go) \<Rightarrow> ('n, 'p, goerr + 'a) go" where
  "dataset_locked c d body = locked (ReadLock (ds_h d)) (do {
     p \<leftarrow> Dataset_checkOpen d c;
     case p of Inl err \<Rightarrow> ret (Inl err) | Inr ptr \<Rightarrow> body ptr
   })"

definition fragment_locked ::
  "ctx \<Rightarrow> fragment \<Rightarrow> (nat \<Rightarrow> ('n, 'p, goerr + 'a) go) \<Rightarrow> ('n, 'p, goerr + 'a) go" where
  "fragment_locked c f body = locked (WriteLock (fr_h f)) (do {
     p \<leftarrow> Fragment_checkOpen f c;
     case p of Inl err \<Rightarrow> ret (Inl err) | Inr ptr \<Rightarrow> body ptr
   })"

section \<open>Balance of C memory\<close>

text \<open>Observations that do not look at C memory.\<close>

definition c_separate :: "(('n, 'p) world \<Rightarrow> 'x) \<Rightarrow> bool" where
  "c_separate f = ((\<forall>w v. f (w\<lparr>c_live := v\<rparr>) = f w) \<and> (\<forall>w v. f (w\<lparr>c_fault := v\<rparr>) = f w))"

lemma c_separate_simps [simp]:
  "c_separate pins" "c_separate cancel_slot" "c_separate tokens" "c_separate token_fault" "c_separate exported"
  "c_separate held" "c_separate closed" "c_separate plugins" "c_separate handles" "c_separate telemetry"
  by (simp_all add: c_separate_def)

lemma keeps_c_malloc: "separate f \<Longrightarrow> c_separate f \<Longrightarrow> keeps f c_malloc"
  by (simp add: keeps_def separate_def c_separate_def)

lemma keeps_c_free: "c_separate f \<Longrightarrow> keeps f (c_free a)"
  by (simp add: keeps_def c_separate_def c_free_def)

lemma keeps_c_alloc: "separate f \<Longrightarrow> c_separate f \<Longrightarrow> keeps f (c_alloc x)"
  unfolding c_alloc_def by (intro keeps_rules keeps_c_malloc)

lemma keeps_free_cptr: "c_separate f \<Longrightarrow> keeps f (free_cptr p)"
  unfolding free_cptr_def by (cases p) (auto intro: keeps_rules keeps_c_free)

lemma keeps_c_mallocs: "separate f \<Longrightarrow> c_separate f \<Longrightarrow> keeps f (c_mallocs n)"
  by (induction n) (auto intro: keeps_rules keeps_c_malloc)

lemma keeps_c_frees: "c_separate f \<Longrightarrow> keeps f (c_frees as)"
  by (induction as) (auto intro: keeps_rules keeps_c_free)

lemma keeps_with_cString [keeps_rules]:
  assumes "separate f" "c_separate f" "\<And>x. keeps f (body x)"
  shows "keeps f (with_cString t body)"
  unfolding with_cString_def cString_def
  using assms by (auto intro!: keeps_rules keeps_c_alloc keeps_free_cptr)

lemma keeps_with_storageKV [keeps_rules]:
  assumes "separate f" "c_separate f" "\<And>x. keeps f (body x)"
  shows "keeps f (with_storageKV m body)"
  unfolding with_storageKV_def cStorageKV_def freeKV_def
  using assms by (auto intro!: keeps_rules keeps_c_malloc keeps_c_mallocs keeps_c_free keeps_c_frees)

lemma keeps_with_cStrings [keeps_rules]:
  assumes "separate f" "c_separate f" "\<And>x. keeps f (body x)"
  shows "keeps f (with_cStrings xs body)"
  unfolding with_cStrings_def freeKV_def
  using assms by (auto intro!: keeps_rules keeps_c_malloc keeps_c_mallocs keeps_c_free keeps_c_frees)

lemma keeps_with_options [keeps_rules]:
  assumes "separate f" "c_separate f" "\<And>x. keeps f (body x)"
  shows "keeps f (with_options v body)"
  unfolding with_options_def using assms by (auto intro!: keeps_rules split: sum.split)

lemma keeps_c_mem_with_cString [keeps_rules]:
  assumes "\<And>x. keeps c_mem (body x)"
  shows "keeps c_mem (with_cString t body)"
proof (cases "t = Text []")
  case True
  with assms show ?thesis
    by (auto simp: with_cString_def cString_def free_cptr_def intro!: keeps_rules)
next
  case False
  have "keeps c_mem (do { p \<leftarrow> c_alloc t; deferring (free_cptr p) (body (c_text (map_option snd p))) })"
    using assms by (rule keeps_c_mem_scoped)
  with False show ?thesis by (simp add: with_cString_def cString_def)
qed

lemma keeps_c_mem_with_options [keeps_rules]:
  "(\<And>x. keeps c_mem (body x)) \<Longrightarrow> keeps c_mem (with_options v body)"
  unfolding with_options_def by (auto intro!: keeps_rules split: sum.split)

lemma run_c_mallocs:
  "run_state (c_mallocs n) w =
     ([next_id w..<next_id w + n],
      w\<lparr>next_id := next_id w + n, c_live := rev [next_id w..<next_id w + n] @ c_live w\<rparr>)"
proof (induction n arbitrary: w)
  case (Suc n)
  have "[next_id w..<next_id w + Suc n] = next_id w # [Suc (next_id w)..<Suc (next_id w) + n]"
    by (simp add: upt_conv_Cons)
  with Suc show ?case by simp
qed simp

lemma run_c_frees:
  assumes "distinct as"
  shows "run_state (c_frees as) (w\<lparr>c_live := rev as @ rest\<rparr>) = ((), w\<lparr>c_live := rest\<rparr>)"
  using assms
proof (induction as arbitrary: w rest)
  case (Cons a as)
  have "remove1 a (rev as @ a # rest) = rev as @ rest"
    using Cons.prems by (simp add: remove1_append)
  then show ?case
    using Cons.IH Cons.prems by (simp add: c_free_def)
qed simp

lemma keeps_c_mem_slots [keeps_rules]:
  fixes body :: "('n, 'p, 'a) go"
  assumes "keeps c_mem body"
  shows "keeps c_mem (do { arr \<leftarrow> c_malloc; slots \<leftarrow> c_mallocs n; deferring (freeKV (Some (arr, slots))) body })"
  unfolding keeps_def
proof
  fix w :: "('n, 'p) world"
  define ids where "ids = [Suc (next_id w)..<Suc (next_id w) + n]"
  let ?w1 = "w\<lparr>next_id := Suc (next_id w) + n, c_live := rev ids @ next_id w # c_live w\<rparr>"
  define w2 where "w2 = snd (run_state body ?w1)"
  have "c_mem w2 = c_mem ?w1"
    using assms by (simp add: keeps_def w2_def)
  then have live: "c_live w2 = rev ids @ next_id w # c_live w" and fault: "c_fault w2 = c_fault w"
    by (simp_all add: c_mem_def)
  have "run_state (c_frees ids) (w2\<lparr>c_live := rev ids @ next_id w # c_live w\<rparr>) = ((), w2\<lparr>c_live := next_id w # c_live w\<rparr>)"
    by (rule run_c_frees) (simp add: ids_def)
  then have frees: "run_state (c_frees ids) w2 = ((), w2\<lparr>c_live := next_id w # c_live w\<rparr>)"
    by (simp add: live [symmetric])
  have "run_state (c_mallocs n) (w\<lparr>next_id := Suc (next_id w), c_live := next_id w # c_live w\<rparr>) = (ids, ?w1)"
    by (simp add: run_c_mallocs ids_def del: upt_Suc)
  then show "c_mem (snd (run_state (do { arr \<leftarrow> c_malloc; slots \<leftarrow> c_mallocs n;
      deferring (freeKV (Some (arr, slots))) body }) w)) = c_mem w"
    using frees fault by (simp add: w2_def freeKV_def c_free_def c_mem_def split_beta)
qed

lemma keeps_c_mem_with_storageKV [keeps_rules]:
  assumes "\<And>x. keeps c_mem (body x)"
  shows "keeps c_mem (with_storageKV m body)"
proof (cases "m = []")
  case True
  with assms show ?thesis
    by (auto simp: with_storageKV_def cStorageKV_def freeKV_def intro!: keeps_rules)
next
  case False
  have "keeps c_mem (do { arr \<leftarrow> c_malloc; slots \<leftarrow> c_mallocs (2 * length m); deferring (freeKV (Some (arr, slots))) (body (CKV m)) })"
    using assms by (rule keeps_c_mem_slots)
  with False show ?thesis
    by (simp add: with_storageKV_def cStorageKV_def keeps_def split_beta)
qed

lemma keeps_c_mem_with_cStrings [keeps_rules]:
  "(\<And>x. keeps c_mem (body x)) \<Longrightarrow> keeps c_mem (with_cStrings xs body)"
  unfolding with_cStrings_def by (rule keeps_c_mem_slots)

text \<open>The native functions write a string out parameter only when they succeed.\<close>

definition quiet :: "'n lance_ffi \<Rightarrow> bool" where
  "quiet F = (\<forall>f args n. fst (fst (ccall F f args n)) \<noteq> ERROR_CODE_OK \<longrightarrow>
     as_text (out_nth (snd (fst (ccall F f args n))) 0) = None)"

lemma call_text_mem:
  assumes "quiet F" and "run_state (call_text F c f args) w = ((e, p), w')"
  shows "if e = None then c_mem (snd (run_state (free_cptr p) w')) = c_mem w else c_mem w' = c_mem w"
proof (cases "ffi_admits F c w")
  case True
  obtain rc outs n' where cc: "ccall F f args (native w) = ((rc, outs), n')"
    by (metis surj_pair)
  have q: "rc \<noteq> ERROR_CODE_OK \<Longrightarrow> as_text (out_nth outs 0) = None"
    using assms(1) cc unfolding quiet_def by (metis fst_conv snd_conv)
  have nat: "native (ffi_entry c w) = native w" and mem: "c_mem (ffi_entry c w) = c_mem w"
    by (simp_all add: ffi_entry_def Let_def c_mem_def)
  from assms(2) show ?thesis
    unfolding call_text_def run_ffiCall_admitted [OF True] run_ffi_result
    using q mem
    by (auto simp: cc nat recv_text_def c_alloc_def free_cptr_def c_free_def c_mem_def
        split: option.splits if_splits)
next
  case False
  with assms(2) show ?thesis
    by (auto simp: call_text_def run_ffiCall_rejected free_cptr_def c_mem_def split: if_splits)
qed

lemma keeps_c_mem_json_call [keeps_rules]:
  assumes "quiet F"
  shows "keeps c_mem (json_call F c f args what dec)"
  unfolding keeps_def
proof
  fix w
  obtain e p w' where r: "run_state (call_text F c f args) w = ((e, p), w')"
    by (metis surj_pair)
  show "c_mem (snd (run_state (json_call F c f args what dec) w)) = c_mem w"
    using call_text_mem [OF assms r]
    by (cases e) (simp_all add: json_call_def r lance_string_free_def)
qed

text \<open>Parts of the world that \<^verbatim>\<open>ffiCall\<close> does not touch.\<close>

definition ffi_separate :: "(('n, 'p) world \<Rightarrow> 'x) \<Rightarrow> bool" where
  "ffi_separate f = (separate f \<and> (\<forall>w v. f (w\<lparr>pins := v\<rparr>) = f w) \<and> (\<forall>w v. f (w\<lparr>cancel_slot := v\<rparr>) = f w) \<and>
     (\<forall>w v. f (w\<lparr>tokens := v\<rparr>) = f w) \<and> (\<forall>w v. f (w\<lparr>token_fault := v\<rparr>) = f w))"

lemma ffi_separate_simps [simp]:
  "ffi_separate c_mem" "ffi_separate exported" "ffi_separate held" "ffi_separate closed"
  "ffi_separate plugins" "ffi_separate handles" "ffi_separate telemetry"
  by (simp_all add: ffi_separate_def c_mem_def)

lemma ffi_separate_ffiCall:
  assumes "ffi_separate g" and "ffi_admits F c w"
  shows "g (snd (run_state (ffiCall F c z f) w)) = g (snd (run_state f (ffi_entry c w)))"
  using assms(1)
  by (simp add: run_ffiCall_admitted [OF assms(2)] run_ffi_result split_beta ffi_separate_def separate_def)

lemma ffi_separate_entry: "ffi_separate g \<Longrightarrow> g (ffi_entry c w) = g w"
  by (simp add: ffi_entry_def Let_def ffi_separate_def separate_def)

lemma keeps_call [keeps_rules]: "ffi_separate f \<Longrightarrow> keeps f (call F c g args)"
  unfolding call_def by (rule keeps_ffiCall) (auto simp: ffi_separate_def intro: keeps_rules)

lemma keeps_call_text: "ffi_separate f \<Longrightarrow> c_separate f \<Longrightarrow> keeps f (call_text F c g args)"
  unfolding call_text_def recv_text_def
  by (rule keeps_ffiCall) (auto simp: ffi_separate_def intro!: keeps_rules keeps_c_alloc)

lemma keeps_json_call [keeps_rules]: "ffi_separate f \<Longrightarrow> c_separate f \<Longrightarrow> keeps f (json_call F c g args what dec)"
  unfolding json_call_def lance_string_free_def
  by (auto intro!: keeps_rules keeps_call_text keeps_free_cptr)

lemma keeps_check_handle [keeps_rules]: "separate f \<Longrightarrow> keeps f (check_handle what h c)"
  unfolding check_handle_def by (auto intro!: keeps_rules)

lemma keeps_run_checked [keeps_rules]:
  "keeps f check \<Longrightarrow> (\<And>p. keeps f (fn p)) \<Longrightarrow> keeps f (run_checked verb check fn)"
  unfolding run_checked_def by (auto intro!: keeps_rules)

text \<open>Observations other than the held mutexes are not touched by taking one.\<close>

definition lock_separate :: "(('n, 'p) world \<Rightarrow> 'x) \<Rightarrow> bool" where
  "lock_separate f = (\<forall>w v. f (w\<lparr>held := v\<rparr>) = f w)"

lemma lock_separate_simps [simp]:
  "lock_separate c_mem" "lock_separate exported" "lock_separate closed" "lock_separate plugins"
  "lock_separate handles" "lock_separate telemetry" "lock_separate pins" "lock_separate tokens" "lock_separate cancel_slot"
  by (simp_all add: lock_separate_def c_mem_def)

lemma keeps_locked [keeps_rules]: "lock_separate f \<Longrightarrow> keeps f body \<Longrightarrow> keeps f (locked m body)"
  by (simp add: keeps_def run_locked split_beta lock_separate_def)

lemma keeps_datasetOp [keeps_rules]:
  "separate f \<Longrightarrow> silent f \<Longrightarrow> lock_separate f \<Longrightarrow> (\<And>p. keeps f (fn c p)) \<Longrightarrow> keeps f (datasetOp c d name verb fn attrs)"
  unfolding datasetOp_def Dataset_checkOpen_def by (auto intro!: keeps_rules)

lemma keeps_held_datasetOp [keeps_rules]:
  "(\<And>p. keeps held (fn c p)) \<Longrightarrow> keeps held (datasetOp c d name verb fn attrs)"
  unfolding datasetOp_def Dataset_checkOpen_def by (auto intro!: keeps_rules)

lemma keeps_datasetDo [keeps_rules]:
  "separate f \<Longrightarrow> silent f \<Longrightarrow> lock_separate f \<Longrightarrow> (\<And>p. keeps f (fn c p)) \<Longrightarrow> keeps f (datasetDo c d name verb fn attrs)"
  unfolding datasetDo_def by (auto intro!: keeps_rules)

lemma keeps_held_datasetDo [keeps_rules]:
  "(\<And>p. keeps held (fn c p)) \<Longrightarrow> keeps held (datasetDo c d name verb fn attrs)"
  unfolding datasetDo_def by (auto intro!: keeps_rules)

lemma keeps_fragmentOp [keeps_rules]:
  "separate f \<Longrightarrow> silent f \<Longrightarrow> lock_separate f \<Longrightarrow> (\<And>p. keeps f (fn c p)) \<Longrightarrow> keeps f (fragmentOp c fr name verb fn attrs)"
  unfolding fragmentOp_def Fragment_checkOpen_def by (auto intro!: keeps_rules)

lemma keeps_held_fragmentOp [keeps_rules]:
  "(\<And>p. keeps held (fn c p)) \<Longrightarrow> keeps held (fragmentOp c fr name verb fn attrs)"
  unfolding fragmentOp_def Fragment_checkOpen_def by (auto intro!: keeps_rules)

lemma keeps_dataset_locked [keeps_rules]:
  "separate f \<Longrightarrow> lock_separate f \<Longrightarrow> (\<And>p. keeps f (body p)) \<Longrightarrow> keeps f (dataset_locked c d body)"
  "(\<And>p. keeps held (body p)) \<Longrightarrow> keeps held (dataset_locked c d body)"
  unfolding dataset_locked_def Dataset_checkOpen_def by (auto intro!: keeps_rules)

lemma keeps_fragment_locked [keeps_rules]:
  "separate f \<Longrightarrow> lock_separate f \<Longrightarrow> (\<And>p. keeps f (body p)) \<Longrightarrow> keeps f (fragment_locked c fr body)"
  "(\<And>p. keeps held (body p)) \<Longrightarrow> keeps held (fragment_locked c fr body)"
  unfolding fragment_locked_def Fragment_checkOpen_def by (auto intro!: keeps_rules)

section \<open>Relating an observation before and after\<close>

text \<open>\<^verbatim>\<open>ends f Q m\<close>: \<^verbatim>\<open>Q\<close> relates the observation \<^verbatim>\<open>f\<close> before \<^verbatim>\<open>m\<close>, the result of \<^verbatim>\<open>m\<close> and the observation
  after it. The rules pass such a contract through everything that leaves \<^verbatim>\<open>f\<close> alone.\<close>

definition ends :: "(('n, 'p) world \<Rightarrow> 'x) \<Rightarrow> ('x \<Rightarrow> 'r \<Rightarrow> 'x \<Rightarrow> bool) \<Rightarrow> ('n, 'p, 'r) go \<Rightarrow> bool" where
  "ends f Q m = (\<forall>w. Q (f w) (fst (run_state m w)) (f (snd (run_state m w))))"

lemma endsD: "ends f Q m \<Longrightarrow> run_state m w = (r, w') \<Longrightarrow> Q (f w) r (f w')"
  unfolding ends_def by (metis fst_conv snd_conv)

lemma endsI: "(\<And>w r w'. run_state m w = (r, w') \<Longrightarrow> Q (f w) r (f w')) \<Longrightarrow> ends f Q m"
  unfolding ends_def by (metis prod.collapse)

lemma ends_return [ends_rules]: "(\<And>x. Q x y x) \<Longrightarrow> ends f Q (ret y)"
  by (simp add: ends_def)

lemma ends_bind [ends_rules]: "keeps f m \<Longrightarrow> (\<And>x. ends f Q (g x)) \<Longrightarrow> ends f Q (State_Monad.bind m g)"
  unfolding ends_def keeps_def by (simp add: split_beta) metis

lemma ends_deferring [ends_rules]: "ends f Q m \<Longrightarrow> keeps f d \<Longrightarrow> ends f Q (deferring d m)"
  unfolding ends_def keeps_def by (auto simp: split_beta)

lemma ends_locked [ends_rules]: "lock_separate f \<Longrightarrow> ends f Q m \<Longrightarrow> ends f Q (locked l m)"
  unfolding locked_def lock_def unlock_def
  by (auto intro!: ends_rules keeps_modify simp: lock_separate_def)

lemma ends_if [ends_rules]: "(b \<Longrightarrow> ends f Q m) \<Longrightarrow> (\<not> b \<Longrightarrow> ends f Q n) \<Longrightarrow> ends f Q (if b then m else n)"
  by simp

lemma ends_case_option [ends_rules]:
  "ends f Q m \<Longrightarrow> (\<And>x. ends f Q (g x)) \<Longrightarrow> ends f Q (case z of None \<Rightarrow> m | Some x \<Rightarrow> g x)"
  by (simp split: option.split)

lemma ends_case_sum [ends_rules]:
  "(\<And>x. ends f Q (g x)) \<Longrightarrow> (\<And>x. ends f Q (h x)) \<Longrightarrow> ends f Q (case z of Inl x \<Rightarrow> g x | Inr x \<Rightarrow> h x)"
  by (simp split: sum.split)

lemma ends_case_prod [ends_rules]:
  "(\<And>x y. ends f Q (g x y)) \<Longrightarrow> ends f Q (case z of (x, y) \<Rightarrow> g x y)"
  by (simp split: prod.split)

lemma ends_observed [ends_rules]:
  "silent f \<Longrightarrow> ends f Q m \<Longrightarrow> ends f Q (observed ob name attrs extra m)"
  unfolding ends_def silent_def run_observed by (simp add: split_beta) metis

lemma ends_with_cString [ends_rules]:
  "separate f \<Longrightarrow> c_separate f \<Longrightarrow> (\<And>x. ends f Q (body x)) \<Longrightarrow> ends f Q (with_cString t body)"
  unfolding with_cString_def cString_def
  by (auto intro!: ends_rules keeps_rules keeps_c_alloc keeps_free_cptr)

lemma ends_with_storageKV [ends_rules]:
  "separate f \<Longrightarrow> c_separate f \<Longrightarrow> (\<And>x. ends f Q (body x)) \<Longrightarrow> ends f Q (with_storageKV m body)"
  unfolding with_storageKV_def cStorageKV_def freeKV_def
  by (auto intro!: ends_rules keeps_rules keeps_c_malloc keeps_c_mallocs keeps_c_free keeps_c_frees)

lemma ends_with_cStrings [ends_rules]:
  "separate f \<Longrightarrow> c_separate f \<Longrightarrow> (\<And>x. ends f Q (body x)) \<Longrightarrow> ends f Q (with_cStrings xs body)"
  unfolding with_cStrings_def freeKV_def
  by (auto intro!: ends_rules keeps_rules keeps_c_malloc keeps_c_mallocs keeps_c_free keeps_c_frees)

lemma ends_with_options [ends_rules]:
  "separate f \<Longrightarrow> c_separate f \<Longrightarrow> (\<And>x e. Q x (Inl e) x) \<Longrightarrow> (\<And>x. ends f Q (body x)) \<Longrightarrow> ends f Q (with_options v body)"
  unfolding with_options_def by (auto intro!: ends_rules)

lemma ends_run_checked [ends_rules]:
  assumes "keeps f check" "\<And>p. ends f Q (fn p)" "\<And>x e. Q x (Inl e) x"
    and "\<And>x e y. Q x (Inl e) y \<Longrightarrow> Q x (Inl (wrap_verb verb e)) y"
  shows "ends f Q (run_checked verb check fn)"
proof -
  have "ends f Q (do { out \<leftarrow> fn p; ret (case out of Inl err \<Rightarrow> Inl (wrap_verb verb err) | Inr x \<Rightarrow> Inr x) })" for p
    using assms(2) [of p] assms(4) unfolding ends_def by (auto simp: split_beta split: sum.split) metis+
  with assms(1,3) show ?thesis
    unfolding run_checked_def
    by - (rule ends_bind, assumption, rule ends_case_sum, rule ends_return, blast+)
qed

lemma ends_datasetOp [ends_rules]:
  assumes "separate f" "silent f" "lock_separate f" "\<And>p. ends f Q (fn c p)" "\<And>x e. Q x (Inl e) x"
    and "\<And>x e y. Q x (Inl e) y \<Longrightarrow> Q x (Inl (wrap_verb verb e)) y"
  shows "ends f Q (datasetOp c d name verb fn attrs)"
  unfolding datasetOp_def Dataset_checkOpen_def
  using assms by (intro ends_rules keeps_rules) auto

lemma ends_dataset_locked [ends_rules]:
  assumes "separate f" "lock_separate f" "\<And>p. ends f Q (body p)" "\<And>x e. Q x (Inl e) x"
  shows "ends f Q (dataset_locked c d body)"
  unfolding dataset_locked_def Dataset_checkOpen_def
  using assms by (intro ends_rules keeps_rules) auto

lemma ends_datasetDo [ends_rules]:
  assumes "separate f" "silent f" "lock_separate f" "\<And>p. ends f Q (fn c p)" "\<And>x e. Q x (Some e) x"
    and "\<And>x e y. Q x (Some e) y \<Longrightarrow> Q x (Some (wrap_verb verb e)) y"
  shows "ends f Q (datasetDo c d name verb fn attrs)"
proof -
  let ?fn = "\<lambda>c ptr. do { e \<leftarrow> fn c ptr; ret (case e of Some err \<Rightarrow> Inl err | None \<Rightarrow> Inr ()) }"
  let ?Q = "\<lambda>x r y. Q x (err_of r) y"
  have "ends f ?Q (?fn c p)" for p
    using assms(4) [of p] unfolding ends_def by (auto simp: split_beta split: option.split) metis+
  then have "ends f ?Q (datasetOp c d name verb ?fn attrs)"
    using assms by (intro ends_datasetOp) auto
  then show ?thesis
    unfolding datasetDo_def ends_def by (simp add: split_beta)
qed

section \<open>Facts about results\<close>

text \<open>\<^verbatim>\<open>yields P m\<close>: the result of \<^verbatim>\<open>m\<close> satisfies \<^verbatim>\<open>P\<close>, in whatever world it runs.\<close>

definition yields :: "('a \<Rightarrow> bool) \<Rightarrow> ('n, 'p, 'a) go \<Rightarrow> bool" where
  "yields P m = (\<forall>w. P (fst (run_state m w)))"

lemma yieldsD: "yields P m \<Longrightarrow> run_state m w = (r, w') \<Longrightarrow> P r"
  unfolding yields_def by (metis fst_conv)

lemma yields_return [yields_rules]: "P x \<Longrightarrow> yields P (ret x)"
  by (simp add: yields_def)

lemma yields_bind: "(\<And>x. yields P (g x)) \<Longrightarrow> yields P (State_Monad.bind m g)"
  by (simp add: yields_def split_beta)

lemma yields_bind_from: "yields Q m \<Longrightarrow> (\<And>x. Q x \<Longrightarrow> yields P (g x)) \<Longrightarrow> yields P (State_Monad.bind m g)"
  by (simp add: yields_def split_beta)

lemma yields_deferring [yields_rules]: "yields P m \<Longrightarrow> yields P (deferring d m)"
  by (simp add: yields_def split_beta)

lemma yields_locked [yields_rules]: "yields P m \<Longrightarrow> yields P (locked l m)"
  by (simp add: yields_def run_locked split_beta)

lemma yields_observed [yields_rules]: "yields P m \<Longrightarrow> yields P (observed ob name attrs extra m)"
  by (simp add: yields_def run_observed split_beta)

lemma yields_if [yields_rules]: "(b \<Longrightarrow> yields P m) \<Longrightarrow> (\<not> b \<Longrightarrow> yields P n) \<Longrightarrow> yields P (if b then m else n)"
  by simp

lemma yields_case_option [yields_rules]:
  "yields P m \<Longrightarrow> (\<And>x. yields P (g x)) \<Longrightarrow> yields P (case z of None \<Rightarrow> m | Some x \<Rightarrow> g x)"
  by (simp split: option.split)

lemma yields_case_sum [yields_rules]:
  "(\<And>x. yields P (g x)) \<Longrightarrow> (\<And>x. yields P (h x)) \<Longrightarrow> yields P (case z of Inl x \<Rightarrow> g x | Inr x \<Rightarrow> h x)"
  by (simp split: sum.split)

lemma yields_case_prod [yields_rules]:
  "(\<And>x y. yields P (g x y)) \<Longrightarrow> yields P (case z of (x, y) \<Rightarrow> g x y)"
  by (simp split: prod.split)

lemma yields_with_cString [yields_rules]: "(\<And>x. yields P (body x)) \<Longrightarrow> yields P (with_cString t body)"
  unfolding with_cString_def by (intro yields_rules yields_bind)

lemma yields_with_storageKV [yields_rules]: "(\<And>x. yields P (body x)) \<Longrightarrow> yields P (with_storageKV m body)"
  unfolding with_storageKV_def by (intro yields_rules yields_bind)

lemma yields_with_cStrings [yields_rules]: "(\<And>x. yields P (body x)) \<Longrightarrow> yields P (with_cStrings xs body)"
  unfolding with_cStrings_def by (intro yields_rules yields_bind)

lemma yields_with_options [yields_rules]:
  "(\<And>x. yields P (body x)) \<Longrightarrow> yields P (with_options (Inr v) body)"
  unfolding with_options_def by (auto intro!: yields_rules)

section \<open>Errors and telemetry of the entry points\<close>

text \<open>The contract of the closures: errors come back raw, and spans are left to the helper.\<close>

definition raw_errors :: "('n, 'p, goerr + 'a) go \<Rightarrow> bool" where
  "raw_errors m = (\<forall>w e. fst (run_state m w) = Inl e \<longrightarrow> lance_prefixes e = 0)"

lemma run_check_handle:
  "run_state (check_handle what h c) w =
     (case ctx_err_at c (tick w) of
        Some x \<Rightarrow> (Inl (ctx_error x), w\<lparr>tick := Suc (tick w)\<rparr>)
      | None \<Rightarrow> ((case handle_ptr h w of
                   None \<Rightarrow> Inl (Wrapf [Lit ''lance: '', Lit what, Lit '' is closed: ''] (sentinel_err ErrInvalidArgument) [])
                 | Some q \<Rightarrow> Inr q), w\<lparr>tick := Suc (tick w)\<rparr>))"
  by (simp add: check_handle_def handle_ptr_def split: option.split)

lemma run_datasetOp:
  "run_state (datasetOp c d name verb fn attrs) w =
     (let w0 = w\<lparr>telemetry := telemetry w @ start_events (ds_obs d) name attrs, held := ReadLock (ds_h d) # held w,
                 tick := Suc (tick w)\<rparr>;
          (r, w1) = (case ctx_err_at c (tick w) of
              Some x \<Rightarrow> (Inl (ctx_error x), w0)
            | None \<Rightarrow> (case handle_ptr (ds_h d) w of
                None \<Rightarrow> (Inl (Wrapf [Lit ''lance: '', Lit ''dataset'', Lit '' is closed: ''] (sentinel_err ErrInvalidArgument) []), w0)
              | Some q \<Rightarrow> (case run_state (fn c q) w0 of
                  (Inl e, w1) \<Rightarrow> (Inl (wrap_verb verb e), w1) | (Inr x, w1) \<Rightarrow> (Inr x, w1))))
      in (r, w1\<lparr>held := remove1 (ReadLock (ds_h d)) (held w1),
                telemetry := telemetry w1 @ end_events (ds_obs d) name (err_of r) []\<rparr>))"
  by (simp add: datasetOp_def run_observed run_locked run_checked_def Dataset_checkOpen_def run_check_handle
      handle_ptr_def Let_def split_beta split: option.split sum.split)

section \<open>The single prefix\<close>

text \<open>Raw results carry no package prefix; a result of the public interface is a success, a
  context error, or an error with exactly one.\<close>

definition raw :: "goerr + 'a \<Rightarrow> bool" where
  "raw r = (\<forall>e. r = Inl e \<longrightarrow> lance_prefixes e = 0)"

definition raw_opt :: "goerr option \<Rightarrow> bool" where
  "raw_opt e = (\<forall>err. e = Some err \<longrightarrow> lance_prefixes err = 0)"

definition once :: "goerr \<Rightarrow> bool" where
  "once e = ((\<exists>x. e = ctx_error x) \<or> lance_prefixes e = 1)"

definition prefixed :: "goerr + 'a \<Rightarrow> bool" where
  "prefixed r = (\<forall>e. r = Inl e \<longrightarrow> once e)"

definition prefixed_opt :: "goerr option \<Rightarrow> bool" where
  "prefixed_opt e = (\<forall>err. e = Some err \<longrightarrow> once err)"

lemma raw_simps [simp]:
  "raw (Inr x)" "raw (Inl e) = (lance_prefixes e = 0)" "raw_opt None" "raw_opt (Some e) = (lance_prefixes e = 0)"
  by (simp_all add: raw_def raw_opt_def)

lemma prefixed_simps [simp]:
  "prefixed (Inr x)" "prefixed (Inl e) = once e" "prefixed_opt None" "prefixed_opt (Some e) = once e"
  "once (ctx_error ce)" "lance_prefixes e = 1 \<Longrightarrow> once e"
  by (auto simp: prefixed_def prefixed_opt_def once_def)

lemma yields_call [yields_rules]: "yields (\<lambda>(e, outs). raw_opt e) (call F c f args)"
  unfolding yields_def call_def raw_opt_def
  by (auto simp: split_beta) (metis ffiCall_no_prefix prod.collapse)

lemma yields_call_text: "yields (\<lambda>(e, p). raw_opt e) (call_text F c f args)"
  unfolding yields_def call_text_def raw_opt_def
  by (auto simp: split_beta) (metis ffiCall_no_prefix prod.collapse)

lemma yields_after_call [yields_rules]:
  assumes "\<And>err outs. lance_prefixes err = 0 \<Longrightarrow> yields P (g (Some err, outs))" and "\<And>outs. yields P (g (None, outs))"
  shows "yields P (State_Monad.bind (call F c f args) g)"
proof (rule yields_bind_from [OF yields_call])
  fix x :: "goerr option \<times> cval list" assume "case x of (e, outs) \<Rightarrow> raw_opt e"
  then show "yields P (g x)" using assms by (cases x; cases "fst x") auto
qed

lemma yields_call_then:
  assumes "\<And>err. lance_prefixes err = 0 \<Longrightarrow> yields P (bad err)" and "\<And>outs. yields P (ok outs)"
  shows "yields P (do { (e, outs) \<leftarrow> call F c f args; case e of Some err \<Rightarrow> bad err | None \<Rightarrow> ok outs })"
  by (rule yields_after_call) (use assms in auto)

lemma yields_json_call [yields_rules]:
  assumes "\<And>j. raw (dec j)" and "take 7 what \<noteq> ''lance: ''"
  shows "yields raw (json_call F c f args what dec)"
  unfolding json_call_def
proof (rule yields_bind_from [OF yields_call_text])
  fix x :: "goerr option \<times> ctext cptr" assume "case x of (e, p) \<Rightarrow> raw_opt e"
  moreover have "raw (unmarshal dec p)" for p
    using assms(1) by (auto simp: unmarshal_def json_syntax_error_def split: option.split prod.split ctext.split)
  ultimately show "yields raw (case x of (Some err, cJSON) \<Rightarrow> ret (Inl err)
      | (None, cJSON) \<Rightarrow> deferring (lance_string_free cJSON) (ret (case unmarshal dec cJSON of
            Inl err \<Rightarrow> Inl (Wrapf [Lit ''decode '', Lit what, Lit '': ''] err []) | Inr x \<Rightarrow> Inr x)))"
    using assms(2) by (cases x; cases "fst x")
      (auto intro!: yields_rules split: sum.split simp: raw_def)
qed

lemma check_handle_prefixed:
  "take 7 what \<noteq> ''lance: '' \<Longrightarrow> yields prefixed (check_handle what h c)"
  unfolding yields_def by (simp add: run_check_handle split: option.split)

lemma yields_checked:
  assumes "take 7 what \<noteq> ''lance: ''" "\<And>e. once e \<Longrightarrow> P (Inl e)" "\<And>p. yields P (body p)"
  shows "yields P (do { p \<leftarrow> check_handle what h c; case p of Inl err \<Rightarrow> ret (Inl err) | Inr ptr \<Rightarrow> body ptr })"
  by (rule yields_bind_from [OF check_handle_prefixed [OF assms(1)]])
    (use assms(2,3) in \<open>auto intro!: yields_return split: sum.split simp: prefixed_def\<close>)

lemma yields_dataset_locked [yields_rules]:
  "(\<And>e. once e \<Longrightarrow> P (Inl e)) \<Longrightarrow> (\<And>p. yields P (body p)) \<Longrightarrow> yields P (dataset_locked c d body)"
  unfolding dataset_locked_def Dataset_checkOpen_def by (intro yields_locked yields_checked) simp_all

lemma yields_fragment_locked [yields_rules]:
  "(\<And>e. once e \<Longrightarrow> P (Inl e)) \<Longrightarrow> (\<And>p. yields P (body p)) \<Longrightarrow> yields P (fragment_locked c f body)"
  unfolding fragment_locked_def Fragment_checkOpen_def by (intro yields_locked yields_checked) simp_all

lemma prefixed_run_checked [yields_rules]:
  assumes "yields prefixed check" and "\<And>q. yields raw (fn q)"
  shows "yields prefixed (run_checked verb check fn)"
  unfolding run_checked_def
proof (rule yields_bind_from [OF assms(1)])
  fix x :: "goerr + nat" assume "prefixed x"
  moreover have "yields prefixed (do { out \<leftarrow> fn q; ret (case out of Inl err \<Rightarrow> Inl (wrap_verb verb err) | Inr x \<Rightarrow> Inr x) })" for q
    by (rule yields_bind_from [OF assms(2)]) (auto intro!: yields_return simp: wrap_verb_def split: sum.split)
  ultimately show "yields prefixed (case x of Inl err \<Rightarrow> ret (Inl err) | Inr ptr \<Rightarrow> do {
         out \<leftarrow> fn ptr; ret (case out of Inl err \<Rightarrow> Inl (wrap_verb verb err) | Inr x \<Rightarrow> Inr x) })"
    by (cases x) (auto intro: yields_return)
qed

lemma prefixed_datasetOp [yields_rules]:
  "(\<And>q. yields raw (fn c q)) \<Longrightarrow> yields prefixed (datasetOp c d name verb fn attrs)"
  unfolding datasetOp_def Dataset_checkOpen_def by (intro yields_rules check_handle_prefixed) simp_all

lemma prefixed_fragmentOp [yields_rules]:
  "(\<And>q. yields raw (fn c q)) \<Longrightarrow> yields prefixed (fragmentOp c f name verb fn attrs)"
  unfolding fragmentOp_def Fragment_checkOpen_def by (intro yields_rules check_handle_prefixed) simp_all

lemma prefixed_datasetDo [yields_rules]:
  assumes "\<And>q. yields raw_opt (fn c q)"
  shows "yields prefixed_opt (datasetDo c d name verb fn attrs)"
proof -
  have "yields raw (do { e \<leftarrow> fn c q; ret (case e of Some err \<Rightarrow> Inl err | None \<Rightarrow> Inr ()) })" for q
    by (rule yields_bind_from [OF assms]) (auto intro!: yields_return split: option.split)
  then have p: "yields prefixed (datasetOp c d name verb
      (\<lambda>c ptr. do { e \<leftarrow> fn c ptr; ret (case e of Some err \<Rightarrow> Inl err | None \<Rightarrow> Inr ()) }) attrs)"
    by (rule prefixed_datasetOp)
  show ?thesis
    unfolding datasetDo_def
  proof (rule yields_bind_from [OF p])
    fix x :: "goerr + unit" assume "prefixed x"
    then show "yields prefixed_opt (ret (err_of x))" by (cases x) (auto intro: yields_return)
  qed
qed

lemma yields_with_options_prefixed [yields_rules]:
  "raw v \<Longrightarrow> (\<And>x. yields prefixed (body x)) \<Longrightarrow> yields prefixed (with_options v body)"
  unfolding with_options_def by (cases v) (auto intro!: yields_rules)

lemma yields_err_of [yields_rules]: "yields prefixed m \<Longrightarrow> yields prefixed_opt (do { r \<leftarrow> m; ret (err_of r) })"
proof (erule yields_bind_from)
  fix x :: "goerr + 'a" assume "prefixed x"
  then show "yields prefixed_opt (ret (err_of x))" by (cases x) (auto intro: yields_return)
qed

lemma yields_ctx_Err [yields_rules]:
  assumes "\<And>x. yields P (bad (ctx_error x))" "yields P ok"
  shows "yields P (do { e \<leftarrow> ctx_Err c; case e of Some err \<Rightarrow> bad err | None \<Rightarrow> ok })"
  using assms unfolding yields_def by (simp add: split_beta split: option.split)

lemma yields_newDataset [yields_rules]:
  "(\<And>d. yields P (g d)) \<Longrightarrow> yields P (State_Monad.bind (newDataset p ob) g)"
  by (rule yields_bind)

text \<open>What every operation that neither exports nor registers anything promises, on every path
  and for every answer of the native library: C memory, locks, exports and plugins are as
  before, and an error is a context error or has the package prefix exactly once.\<close>

definition balanced_op :: "('n, 'p, 'a) go \<Rightarrow> bool" where
  "balanced_op m = (keeps c_mem m \<and> keeps held m \<and> keeps exported m \<and> keeps plugins m)"

definition op_contract :: "('n, 'p, goerr + 'a) go \<Rightarrow> bool" where
  "op_contract m = (balanced_op m \<and> yields prefixed m)"

definition do_contract :: "('n, 'p, goerr option) go \<Rightarrow> bool" where
  "do_contract m = (balanced_op m \<and> yields prefixed_opt m)"

lemmas contract_defs = op_contract_def do_contract_def balanced_op_def

section \<open>Properties\<close>


text \<open>A closed dataset is never passed to the native library. On a closed handle (and a
  context that is not done) \<^verbatim>\<open>datasetOp\<close> returns an error that is \<^verbatim>\<open>ErrInvalidArgument\<close>
  without running its closure: the native state, C memory, plugins and exports are
  untouched, whatever the closure is.\<close>

theorem datasetOp_closed:
  assumes "handle_ptr (ds_h d) w = None" and "ctx_err_at c (tick w) = None"
    and "run_state (datasetOp c d name verb fn attrs) w = (r, w')"
  shows "(\<exists>e. r = Inl e \<and> errors_is e (SentinelErr ErrInvalidArgument)) \<and> native w' = native w \<and>
    c_mem w' = c_mem w \<and> plugins w' = plugins w \<and> exported w' = exported w \<and> handles w' = handles w"
  using assms by (auto simp: run_datasetOp Let_def c_mem_def)

theorem datasetOp_closed_witness:
  "\<exists>e. fst (run_state (datasetOp background \<lparr>ds_h = 4, ds_obs = None\<rparr> ''Dataset.CountRows'' ''count rows''
        (\<lambda>c p. ret (Inr p)) []) world0) = Inl e \<and> errors_is e (SentinelErr ErrInvalidArgument)"
proof -
  let ?m = "datasetOp background \<lparr>ds_h = 4, ds_obs = None\<rparr> ''Dataset.CountRows'' ''count rows''
        (\<lambda>c p. ret (Inr p)) [] :: (nat, bool, goerr + nat) go"
  obtain r w' where run: "run_state ?m world0 = (r, w')" by fastforce
  have 1: "handle_ptr (ds_h \<lparr>ds_h = 4, ds_obs = None\<rparr>) world0 = None" "ctx_err_at background (tick world0) = None"
    by (simp_all add: handle_ptr_def world0_def background_def)
  from datasetOp_closed [OF 1 run] run show ?thesis by auto
qed


end
