(* ===== verification/Lance_Handle.thy ===== *)
theory Lance_Handle
  imports Lance_Ops
begin

text \<open>
  The life of one native handle under concurrency (\<^verbatim>\<open>Dataset\<close> in \<^verbatim>\<open>lance/dataset.go\<close>; the
  other handle types follow the same pattern): goroutines that run operations under the
  read lock, goroutines that call \<^verbatim>\<open>Close\<close> under the write lock, and the garbage collector,
  which runs the armed cleanup once no goroutine can reach the object. The native pointer
  is used only while it is open and is closed exactly once.
\<close>

section \<open>States\<close>

text \<open>A goroutine: outside any method; an operation waiting for the read lock, holding it
  before \<^verbatim>\<open>checkOpen\<close>, in the native call with the pointer it read, about to unlock; a
  \<^verbatim>\<open>Close\<close> waiting for the write lock, holding it, about to unlock.\<close>

datatype hpc = Outside | WantRead | Checking | Calling nat | ReadDone | WantWrite | Closing | WriteDone

record hsys =
  hp :: "nat \<Rightarrow> hpc"
  cell :: "nat option"
  armed :: "nat option"
  dropped :: bool
  close_count :: nat
  bad_use :: bool

definition reading :: "hpc \<Rightarrow> bool" where
  "reading p = (case p of Checking \<Rightarrow> True | Calling _ \<Rightarrow> True | ReadDone \<Rightarrow> True | _ \<Rightarrow> False)"

definition writing :: "hpc \<Rightarrow> bool" where
  "writing p = (case p of Closing \<Rightarrow> True | WriteDone \<Rightarrow> True | _ \<Rightarrow> False)"

definition at :: "nat \<Rightarrow> hpc \<Rightarrow> hsys \<Rightarrow> hsys" where
  "at g p s = s\<lparr>hp := (hp s)(g := p)\<rparr>"

text \<open>The native library gets pointer \<^verbatim>\<open>q\<close>: a fault when it was closed before. There is one
  pointer per handle, so \<^verbatim>\<open>close_count\<close> tells whether it is closed.\<close>

definition native_use :: "nat \<Rightarrow> hsys \<Rightarrow> hsys" where
  "native_use q s = s\<lparr>bad_use := (bad_use s \<or> close_count s > 0)\<rparr>"

definition native_close :: "nat \<Rightarrow> hsys \<Rightarrow> hsys" where
  "native_close q s = s\<lparr>bad_use := (bad_use s \<or> close_count s > 0), close_count := Suc (close_count s)\<rparr>"

section \<open>Steps\<close>

inductive hstep :: "hsys \<Rightarrow> hsys \<Rightarrow> bool" where
  op_begin: "hp s g = Outside \<Longrightarrow> \<not> dropped s \<Longrightarrow> hstep s (at g WantRead s)"
| read_lock: "hp s g = WantRead \<Longrightarrow> \<forall>h. \<not> writing (hp s h) \<Longrightarrow> hstep s (at g Checking s)"
| check_closed: "hp s g = Checking \<Longrightarrow> cell s = None \<Longrightarrow> hstep s (at g ReadDone s)"
| check_open: "hp s g = Checking \<Longrightarrow> cell s = Some q \<Longrightarrow> hstep s (at g (Calling q) s)"
| native_op: "hp s g = Calling q \<Longrightarrow> hstep s (native_use q s)"
| op_return: "hp s g = Calling q \<Longrightarrow> hstep s (at g ReadDone s)"
| read_unlock: "hp s g = ReadDone \<Longrightarrow> hstep s (at g Outside s)"
| close_begin: "hp s g = Outside \<Longrightarrow> \<not> dropped s \<Longrightarrow> hstep s (at g WantWrite s)"
| write_lock: "hp s g = WantWrite \<Longrightarrow> \<forall>h. \<not> writing (hp s h) \<and> \<not> reading (hp s h) \<Longrightarrow> hstep s (at g Closing s)"
| close_nil: "hp s g = Closing \<Longrightarrow> cell s = None \<Longrightarrow> hstep s (at g WriteDone s)"
| close_ptr: "hp s g = Closing \<Longrightarrow> cell s = Some q \<Longrightarrow>
    hstep s (at g WriteDone ((native_close q s)\<lparr>armed := None, cell := None\<rparr>))"
| write_unlock: "hp s g = WriteDone \<Longrightarrow> hstep s (at g Outside s)"
| drop: "\<forall>g. hp s g = Outside \<Longrightarrow> hstep s (s\<lparr>dropped := True\<rparr>)"
| collect: "dropped s \<Longrightarrow> armed s = Some q \<Longrightarrow> hstep s ((native_close q s)\<lparr>armed := None\<rparr>)"

inductive_cases hstepE: "hstep s s'"

text \<open>A handle as \<^verbatim>\<open>newDataset\<close> makes it.\<close>

definition hinit :: "nat \<Rightarrow> hsys" where
  "hinit q = \<lparr>hp = (\<lambda>_. Outside), cell = Some q, armed = Some q, dropped = False, close_count = 0, bad_use = False\<rparr>"

inductive hreach :: "nat \<Rightarrow> hsys \<Rightarrow> bool" for q where
  init: "hreach q (hinit q)"
| more: "hreach q s \<Longrightarrow> hstep s s' \<Longrightarrow> hreach q s'"

section \<open>The invariant\<close>

definition hinv :: "nat \<Rightarrow> hsys \<Rightarrow> bool" where
  "hinv q s =
     ((\<forall>g h. writing (hp s g) \<longrightarrow> reading (hp s h) \<longrightarrow> False) \<and>
      (\<forall>g h. writing (hp s g) \<longrightarrow> writing (hp s h) \<longrightarrow> g = h) \<and>
      (\<forall>g r. hp s g = Calling r \<longrightarrow> cell s = Some r) \<and>
      (cell s = None \<or> cell s = Some q) \<and> (armed s = None \<or> armed s = Some q) \<and>
      (dropped s \<longrightarrow> (\<forall>g. hp s g = Outside)) \<and>
      (armed s = None \<longleftrightarrow> close_count s = 1) \<and> (armed s \<noteq> None \<longleftrightarrow> close_count s = 0) \<and>
      (cell s = None \<longrightarrow> armed s = None) \<and> (\<not> dropped s \<longrightarrow> armed s = cell s) \<and>
      \<not> bad_use s)"

lemma hinvD:
  assumes "hinv q s"
  shows "writing (hp s g) \<Longrightarrow> \<not> reading (hp s h)" and "writing (hp s g) \<Longrightarrow> writing (hp s h) \<Longrightarrow> g = h"
    and "hp s g = Calling r \<Longrightarrow> cell s = Some r" and "cell s = None \<or> cell s = Some q" and "armed s = None \<or> armed s = Some q"
    and "dropped s \<Longrightarrow> hp s g = Outside" and "armed s = None \<longleftrightarrow> close_count s = 1" and "armed s \<noteq> None \<longleftrightarrow> close_count s = 0"
    and "cell s = None \<Longrightarrow> armed s = None" and "\<not> dropped s \<Longrightarrow> armed s = cell s" and "\<not> bad_use s"
  using assms unfolding hinv_def by blast+

lemma at_simps [simp]:
  "hp (at g p s) = (hp s)(g := p)" "cell (at g p s) = cell s" "armed (at g p s) = armed s"
  "dropped (at g p s) = dropped s" "close_count (at g p s) = close_count s" "bad_use (at g p s) = bad_use s"
  by (simp_all add: at_def)

lemma lock_simps [simp]:
  "\<not> reading Outside" "\<not> reading WantRead" "reading Checking" "reading (Calling r)" "reading ReadDone"
  "\<not> reading WantWrite" "\<not> reading Closing" "\<not> reading WriteDone"
  "\<not> writing Outside" "\<not> writing WantRead" "\<not> writing Checking" "\<not> writing (Calling r)" "\<not> writing ReadDone"
  "\<not> writing WantWrite" "writing Closing" "writing WriteDone"
  by (simp_all add: reading_def writing_def)

lemma hinv_init: "hinv q (hinit q)"
  by (simp add: hinv_def hinit_def)

text \<open>A step that only moves one goroutine.\<close>

lemma at_inv:
  assumes "hinv q s"
    and "\<And>h. writing p \<Longrightarrow> h \<noteq> g \<Longrightarrow> \<not> writing (hp s h) \<and> \<not> reading (hp s h)"
    and "\<And>h. reading p \<Longrightarrow> h \<noteq> g \<Longrightarrow> \<not> writing (hp s h)"
    and "\<And>r. p = Calling r \<Longrightarrow> cell s = Some r"
    and "dropped s \<Longrightarrow> p = Outside"
  shows "hinv q (at g p s)"
proof -
  note D = hinvD [OF assms(1)]
  have np: "\<not> (writing p \<and> reading p)" by (cases p) auto
  have 1: "writing (((hp s)(g := p)) x) \<Longrightarrow> reading (((hp s)(g := p)) y) \<Longrightarrow> False" for x y
    using np assms(2,3) D(1) by (metis fun_upd_apply)
  have 2: "writing (((hp s)(g := p)) x) \<Longrightarrow> writing (((hp s)(g := p)) y) \<Longrightarrow> x = y" for x y
    using assms(2) D(2) by (metis fun_upd_apply)
  have 3: "((hp s)(g := p)) x = Calling r \<Longrightarrow> cell s = Some r" for x r
    using assms(4) D(3) by (metis fun_upd_apply)
  have 4: "dropped s \<Longrightarrow> ((hp s)(g := p)) x = Outside" for x
    using assms(5) D(6) by (metis fun_upd_apply)
  show ?thesis
    unfolding hinv_def at_simps
    using 1 2 3 4 D(4,5,7-11) by blast
qed

lemma close_inv:
  assumes "hinv q s" and "hp s g = Closing" and "cell s = Some r"
  shows "hinv q ((native_close r s)\<lparr>armed := None, cell := None\<rparr>)"
proof -
  note D = hinvD [OF assms(1)]
  have "\<not> reading (hp s h)" for h using D(1) [of g h] assms(2) by simp
  then have no: "hp s h \<noteq> Calling x" for h x by (metis lock_simps(4))
  have "\<not> dropped s" using D(6) [of g] assms(2) by auto
  then have cnt: "close_count s = 0" using D(8,10) assms(3) by simp
  show ?thesis
    unfolding hinv_def native_close_def
    using D(1,2,6,11) no cnt by auto
qed

text \<open>A goroutine that only moves on keeps the invariant when a lock it gets is free or was its own.\<close>

lemma move_inv:
  assumes "hinv q s"
    and "writing p \<Longrightarrow> writing (hp s g) \<or> (\<forall>h. \<not> writing (hp s h) \<and> \<not> reading (hp s h))"
    and "reading p \<Longrightarrow> reading (hp s g) \<or> (\<forall>h. \<not> writing (hp s h))"
    and "\<And>r. p = Calling r \<Longrightarrow> cell s = Some r"
    and "p = Outside \<or> \<not> dropped s \<or> hp s g \<noteq> Outside"
  shows "hinv q (at g p s)"
  using assms(2-5) hinvD(1,2,6) [OF assms(1)] by (intro at_inv [OF assms(1)]) metis+

lemma hinv_step: "hstep s s' \<Longrightarrow> hinv q s \<Longrightarrow> hinv q s'"
proof (induction rule: hstep.induct)
  case (close_ptr s g r)
  have "hinv q ((native_close r s)\<lparr>armed := None, cell := None\<rparr>)"
    using close_ptr by (intro close_inv)
  then show ?case
    using close_ptr.hyps by (intro move_inv) (auto simp: native_close_def)
next
  case (native_op s g r)
  then have "cell s = Some r" "\<not> dropped s"
    using hinvD(3,6) [OF native_op.prems, of g] by auto
  then have "close_count s = 0"
    using hinvD(8,10) [OF native_op.prems] by simp
  then show ?case
    using native_op.prems by (simp add: native_use_def hinv_def)
next
  case (collect s r)
  then show ?case
    using hinvD [OF collect.prems] by (auto simp: hinv_def native_close_def)
next
  case (drop s)
  then show ?case
    using hinvD [OF drop.prems] by (simp add: hinv_def)
qed (auto intro: move_inv)

lemma hreach_inv: "hreach q s \<Longrightarrow> hinv q s"
  by (induction rule: hreach.induct) (auto intro: hinv_init hinv_step)

section \<open>Properties\<close>

text \<open>C2: a native handle is never used after it is closed and never closed twice, in any
  interleaving of operations, calls of \<^verbatim>\<open>Close\<close> and the garbage collector's cleanup. A
  goroutine that is in a native call holds the pointer of an open handle, and no \<^verbatim>\<open>Close\<close> is
  in its critical section meanwhile.\<close>

theorem handle_safety:
  assumes "hreach q s"
  shows "\<not> bad_use s \<and> close_count s \<le> 1 \<and>
    (\<forall>g r. hp s g = Calling r \<longrightarrow> r = q \<and> close_count s = 0 \<and> (\<forall>h. \<not> writing (hp s h)))"
proof -
  note D = hinvD [OF hreach_inv [OF assms]]
  have "r = q \<and> close_count s = 0 \<and> (\<forall>h. \<not> writing (hp s h))" if "hp s g = Calling r" for g r
  proof -
    have "cell s = Some r" "\<not> dropped s" using D(3,6) [of g] that by auto
    moreover have "\<not> writing (hp s h)" for h using D(1) [of h g] that by auto
    ultimately show ?thesis using D(4,8,10) by auto
  qed
  moreover have "close_count s \<le> 1" using D(7,8) by (cases "armed s") auto
  ultimately show ?thesis using D(11) by blast
qed

text \<open>C19: native handles do not leak. Once a handle was closed, or was dropped and collected
  (its cleanup is no longer armed), the native object has been closed exactly once; and as
  long as the handle is dropped with its cleanup armed, the collector can run.\<close>

theorem handle_no_leak:
  assumes "hreach q s"
  shows "(cell s = None \<longrightarrow> close_count s = 1) \<and>
    (dropped s \<longrightarrow> close_count s = 1 \<or> (\<exists>s'. hstep s s' \<and> close_count s' = 1))"
proof -
  note D = hinvD [OF hreach_inv [OF assms]]
  have "close_count s = 1 \<or> (\<exists>s'. hstep s s' \<and> close_count s' = 1)" if "dropped s"
  proof (cases "armed s")
    case None
    then show ?thesis using D(7) by simp
  next
    case (Some r)
    then have "close_count s = 0" using D(8) by simp
    then have "close_count ((native_close r s)\<lparr>armed := None\<rparr>) = 1" by (simp add: native_close_def)
    then show ?thesis using hstep.collect [OF that Some] by blast
  qed
  then show ?thesis using D(7,9) by simp
qed

lemma hreach_calling: "\<exists>s. hreach 5 s \<and> hp s 0 = Calling 5"
proof -
  note r1 = hreach.more [OF hreach.init hstep.op_begin [of _ 0]]
  note r2 = hreach.more [OF r1 hstep.read_lock [of _ 0]]
  note r3 = hreach.more [OF r2 hstep.check_open [of _ 0 5]]
  show ?thesis by (rule exI, rule conjI, rule r3) (simp_all add: hinit_def)
qed

lemma hreach_closed: "\<exists>s. hreach 5 s \<and> cell s = None"
proof -
  note r1 = hreach.more [OF hreach.init hstep.close_begin [of _ 0]]
  note r2 = hreach.more [OF r1 hstep.write_lock [of _ 0]]
  note r3 = hreach.more [OF r2 hstep.close_ptr [of _ 0 5]]
  show ?thesis by (rule exI, rule conjI, rule r3) (simp_all add: hinit_def native_close_def)
qed

theorem handle_safety_witness: "\<exists>s. hreach 5 s \<and> hp s 0 = Calling 5 \<and> close_count s = 0"
  using hreach_calling handle_safety by blast

theorem handle_no_leak_witness: "\<exists>s. hreach 5 s \<and> cell s = None \<and> close_count s = 1"
  using hreach_closed handle_no_leak by blast

end
