(* ===== verification/Lance_Encoding.thy ===== *)
theory Lance_Encoding
  imports Lance_Ops
begin

text \<open>
  Column encoding hints: \<^verbatim>\<open>lance/encoding.go\<close>. They are entries of the Arrow metadata of a field;
  Arrow's type \<^verbatim>\<open>Metadata\<close> and \<^verbatim>\<open>strconv.FormatFloat\<close> are parameters.
\<close>

section \<open>Model\<close>

definition CompressionMetaKey :: string where "CompressionMetaKey = ''lance-encoding:compression''"

definition CompressionLevelMetaKey :: string where "CompressionLevelMetaKey = ''lance-encoding:compression-level''"

definition RLEThresholdMetaKey :: string where "RLEThresholdMetaKey = ''lance-encoding:rle-threshold''"

definition StructuralEncodingMetaKey :: string where "StructuralEncodingMetaKey = ''lance-encoding:structural-encoding''"

definition BlobMetaKey :: string where "BlobMetaKey = ''lance-encoding:blob''"

lemmas meta_key_defs = CompressionMetaKey_def CompressionLevelMetaKey_def RLEThresholdMetaKey_def
  StructuralEncodingMetaKey_def BlobMetaKey_def

record 'm metadata_lib =
  Keys :: "'m \<Rightarrow> string list"
  Values :: "'m \<Rightarrow> string list"
  MetadataFrom :: "gomap \<Rightarrow> 'm"

record ('m, 't) arrow_field =
  fd_Name :: string
  fd_Type :: 't
  fd_Nullable :: bool
  fd_Metadata :: 'm

type_synonym CompressionOption = "gomap \<Rightarrow> gomap"

definition WithCompressionLevel :: "int \<Rightarrow> CompressionOption" where
  "WithCompressionLevel level m = AList.update CompressionLevelMetaKey (dec_int level) m"

definition WithRLEThreshold :: "(u64 \<Rightarrow> string) \<Rightarrow> u64 \<Rightarrow> CompressionOption" where
  "WithRLEThreshold formatFloat threshold m = AList.update RLEThresholdMetaKey (formatFloat threshold) m"

text \<open>The loop over the keys reads the value at the same index.\<close>

definition copy_metadata :: "string list \<Rightarrow> string list \<Rightarrow> gomap outcome" where
  "copy_metadata ks vs = (if length vs < length ks then Panic ''index out of range''
     else Ret (fold (\<lambda>(k, v). AList.update k v) (zip ks vs) []))"

definition SetFieldMetadata :: "'m metadata_lib \<Rightarrow> ('m, 't) arrow_field \<Rightarrow> gomap \<Rightarrow> ('m, 't) arrow_field outcome" where
  "SetFieldMetadata L fd kv = (case copy_metadata (Keys L (fd_Metadata fd)) (Values L (fd_Metadata fd)) of
      Panic p \<Rightarrow> Panic p
    | Ret merged \<Rightarrow> Ret (fd\<lparr>fd_Metadata := MetadataFrom L (fold (\<lambda>(k, v). AList.update k v) kv merged)\<rparr>))"

definition SetFieldCompression ::
  "'m metadata_lib \<Rightarrow> ('m, 't) arrow_field \<Rightarrow> string \<Rightarrow> CompressionOption list \<Rightarrow> ('m, 't) arrow_field outcome" where
  "SetFieldCompression L fd codec opts = SetFieldMetadata L fd (apply_opts opts [(CompressionMetaKey, codec)])"

definition SetFieldStructuralEncoding ::
  "'m metadata_lib \<Rightarrow> ('m, 't) arrow_field \<Rightarrow> string \<Rightarrow> ('m, 't) arrow_field outcome" where
  "SetFieldStructuralEncoding L fd encoding = SetFieldMetadata L fd [(StructuralEncodingMetaKey, encoding)]"

definition MarkBlobColumn :: "'m metadata_lib \<Rightarrow> ('m, 't) arrow_field \<Rightarrow> ('m, 't) arrow_field outcome" where
  "MarkBlobColumn L fd = SetFieldMetadata L fd [(BlobMetaKey, ''true'')]"

section \<open>Merging\<close>

text \<open>What the code relies on: keys and values come in pairs, and metadata made from a map has the
  entries of the map.\<close>

definition meta_look :: "'m metadata_lib \<Rightarrow> 'm \<Rightarrow> string \<Rightarrow> string option" where
  "meta_look L m = map_of (zip (Keys L m) (Values L m))"

definition metadata_lawful :: "'m metadata_lib \<Rightarrow> bool" where
  "metadata_lawful L = ((\<forall>m. length (Keys L m) = length (Values L m)) \<and>
     (\<forall>g. distinct (map fst g) \<longrightarrow> distinct (Keys L (MetadataFrom L g)) \<and> meta_look L (MetadataFrom L g) = map_of g))"

lemma map_of_fold_update:
  "map_of (fold (\<lambda>(k, v). AList.update k v) kv m) = map_of m ++ map_of (rev kv)"
  by (induction kv arbitrary: m) (auto simp: update_conv' fun_eq_iff map_add_def split: option.splits)

lemma distinct_fold_update:
  "distinct (map fst m) \<Longrightarrow> distinct (map fst (fold (\<lambda>(k, v). AList.update k v) kv m))"
  by (induction kv arbitrary: m) (auto simp: distinct_update)

lemma map_of_rev: "distinct (map fst xs) \<Longrightarrow> map_of (rev xs) = map_of xs"
  by (simp add: map_of_inject_set rev_map [symmetric])

text \<open>\<^verbatim>\<open>SetFieldMetadata\<close> is the override of maps; everything else of the field stays.\<close>

lemma SetFieldMetadata_merges:
  assumes "metadata_lawful L" and "distinct (Keys L (fd_Metadata fd))" and "distinct (map fst kv)"
  shows "\<exists>m. SetFieldMetadata L fd kv = Ret (fd\<lparr>fd_Metadata := m\<rparr>) \<and> distinct (Keys L m) \<and>
           meta_look L m = meta_look L (fd_Metadata fd) ++ map_of kv"
proof -
  let ?ks = "Keys L (fd_Metadata fd)" and ?vs = "Values L (fd_Metadata fd)"
  let ?old = "fold (\<lambda>(k, v). AList.update k v) (zip ?ks ?vs) []"
  let ?new = "fold (\<lambda>(k, v). AList.update k v) kv ?old"
  have len: "length ?ks = length ?vs"
    using assms(1) by (simp add: metadata_lawful_def)
  then have "map_of ?old = meta_look L (fd_Metadata fd)"
    using assms(2) by (simp add: map_of_fold_update map_of_rev meta_look_def)
  then have "map_of ?new = meta_look L (fd_Metadata fd) ++ map_of kv"
    using assms(3) by (simp add: map_of_fold_update map_of_rev)
  moreover have "distinct (map fst ?new)"
    by (intro distinct_fold_update) simp
  ultimately show ?thesis
    using assms(1) len by (auto simp: metadata_lawful_def SetFieldMetadata_def copy_metadata_def)
qed

text \<open>Marking a column with a compression codec and level, a structural encoding and as a blob column, one after
  the other, never panics, keeps the field's name, type and nullability, sets exactly these four metadata
  entries, overwriting earlier ones, and leaves every other entry as it was.\<close>

theorem field_encodings_merge:
  assumes "metadata_lawful L" and "distinct (Keys L (fd_Metadata fd))"
  shows "\<exists>f1 f2 m. SetFieldCompression L fd codec [WithCompressionLevel level] = Ret f1 \<and>
           SetFieldStructuralEncoding L f1 encoding = Ret f2 \<and> MarkBlobColumn L f2 = Ret (fd\<lparr>fd_Metadata := m\<rparr>) \<and>
           meta_look L m = (meta_look L (fd_Metadata fd))(CompressionMetaKey \<mapsto> codec,
             CompressionLevelMetaKey \<mapsto> dec_int level, StructuralEncodingMetaKey \<mapsto> encoding, BlobMetaKey \<mapsto> ''true'')"
proof -
  let ?kv = "apply_opts [WithCompressionLevel level] [(CompressionMetaKey, codec)]"
  have kv: "?kv = [(CompressionMetaKey, codec), (CompressionLevelMetaKey, dec_int level)]"
    by (simp add: WithCompressionLevel_def meta_key_defs)
  obtain m1 where 1: "SetFieldCompression L fd codec [WithCompressionLevel level] = Ret (fd\<lparr>fd_Metadata := m1\<rparr>)"
    "distinct (Keys L m1)" "meta_look L m1 = meta_look L (fd_Metadata fd) ++ map_of ?kv"
    using SetFieldMetadata_merges [OF assms, of ?kv] unfolding SetFieldCompression_def kv by (auto simp: meta_key_defs)
  obtain m2 where 2: "SetFieldStructuralEncoding L (fd\<lparr>fd_Metadata := m1\<rparr>) encoding = Ret (fd\<lparr>fd_Metadata := m2\<rparr>)"
    "distinct (Keys L m2)" "meta_look L m2 = meta_look L m1 ++ [StructuralEncodingMetaKey \<mapsto> encoding]"
    using SetFieldMetadata_merges [OF assms(1), of "fd\<lparr>fd_Metadata := m1\<rparr>" "[(StructuralEncodingMetaKey, encoding)]"] 1(2)
    by (auto simp: SetFieldStructuralEncoding_def)
  obtain m3 where 3: "MarkBlobColumn L (fd\<lparr>fd_Metadata := m2\<rparr>) = Ret (fd\<lparr>fd_Metadata := m3\<rparr>)"
    "meta_look L m3 = meta_look L m2 ++ [BlobMetaKey \<mapsto> ''true'']"
    using SetFieldMetadata_merges [OF assms(1), of "fd\<lparr>fd_Metadata := m2\<rparr>" "[(BlobMetaKey, ''true'')]"] 2(2)
    by (auto simp: MarkBlobColumn_def)
  have "meta_look L m3 = (meta_look L (fd_Metadata fd))(CompressionMetaKey \<mapsto> codec,
      CompressionLevelMetaKey \<mapsto> dec_int level, StructuralEncodingMetaKey \<mapsto> encoding, BlobMetaKey \<mapsto> ''true'')"
    unfolding 3(2) 2(3) 1(3) kv by (auto simp: fun_eq_iff map_add_def meta_key_defs)
  with 1(1) 2(1) 3(1) show ?thesis by blast
qed

theorem field_encodings_merge_witness:
  "\<exists>f1 f2 m. SetFieldCompression \<lparr>Keys = map fst, Values = map snd, MetadataFrom = \<lambda>g. g\<rparr>
       \<lparr>fd_Name = ''v'', fd_Type = (), fd_Nullable = True, fd_Metadata = [(CompressionMetaKey, ''lz4''), (''k'', ''x'')]\<rparr>
       ''zstd'' [WithCompressionLevel 3] = Ret f1 \<and>
     SetFieldStructuralEncoding \<lparr>Keys = map fst, Values = map snd, MetadataFrom = \<lambda>g. g\<rparr> f1 ''fullzip'' = Ret f2 \<and>
     MarkBlobColumn \<lparr>Keys = map fst, Values = map snd, MetadataFrom = \<lambda>g. g\<rparr> f2 =
       Ret \<lparr>fd_Name = ''v'', fd_Type = (), fd_Nullable = True, fd_Metadata = m\<rparr> \<and>
     map_of m ''k'' = Some ''x'' \<and> map_of m CompressionMetaKey = Some ''zstd'' \<and> map_of m CompressionLevelMetaKey = Some ''3''"
proof -
  let ?L = "\<lparr>Keys = map fst, Values = map snd, MetadataFrom = \<lambda>g. g\<rparr> :: gomap metadata_lib"
  let ?fd = "\<lparr>fd_Name = ''v'', fd_Type = (), fd_Nullable = True, fd_Metadata = [(CompressionMetaKey, ''lz4''), (''k'', ''x'')]\<rparr>"
  have "metadata_lawful ?L" and "distinct (Keys ?L (fd_Metadata ?fd))"
    by (simp_all add: metadata_lawful_def meta_look_def zip_map_fst_snd CompressionMetaKey_def)
  moreover have three: "dec_int 3 = ''3''"
    by code_simp
  ultimately show ?thesis
    using field_encodings_merge [of ?L ?fd "''zstd''" 3 "''fullzip''"]
    by (auto simp: meta_look_def zip_map_fst_snd meta_key_defs three)
qed

end
