(* ===== verification/Lance_Export.thy ===== *)
theory Lance_Export
  imports Lance_Ops
begin

text \<open>
  Calls that hand Arrow structures to the native side (\<^verbatim>\<open>cdata.ExportRecordReader\<close>,
  \<^verbatim>\<open>cdata.ExportArrowSchema\<close>, \<^verbatim>\<open>cdata.ExportArrowArray\<close> before \<^verbatim>\<open>ffiCall\<close>). The native function takes
  the structures over as soon as it runs; a call that \<^verbatim>\<open>ffiCall\<close> rejects does not take them.
\<close>

section \<open>Exporting calls\<close>

fun export_arrows :: "nat \<Rightarrow> ('n, 'p, nat list) go" where
  "export_arrows 0 = ret []"
| "export_arrows (Suc n) = do { x \<leftarrow> export_arrow; xs \<leftarrow> export_arrows n; ret (x # xs) }"

fun take_all :: "nat list \<Rightarrow> ('n, 'p, unit) go" where
  "take_all [] = ret ()"
| "take_all (x # xs) = do { take_ownership x; take_all xs }"

text \<open>\<^verbatim>\<open>n\<close> structures are exported and passed; \<^verbatim>\<open>recv\<close> receives the out parameters, \<^verbatim>\<open>z\<close> is what they
  hold when the call is rejected.\<close>

definition export_call ::
  "'n lance_ffi \<Rightarrow> ctx \<Rightarrow> 'z \<Rightarrow> (int \<times> cval list \<Rightarrow> ('n, 'p, int \<times> 'z) go) \<Rightarrow> nat \<Rightarrow> string \<Rightarrow> (nat list \<Rightarrow> cval list) \<Rightarrow>
     ('n, 'p, goerr option \<times> 'z) go" where
  "export_call F c z recv n f args = do {
     xs \<leftarrow> export_arrows n;
     ffiCall F c z (do { take_all xs; r \<leftarrow> native_call (ccall F f (args xs)); recv r })
   }"

text \<open>One stream, with plain out parameters or with a string.\<close>

definition write_call ::
  "'n lance_ffi \<Rightarrow> ctx \<Rightarrow> string \<Rightarrow> (nat \<Rightarrow> cval list) \<Rightarrow> ('n, 'p, goerr option \<times> cval list) go" where
  "write_call F c f args = export_call F c [] ret (Suc 0) f (\<lambda>xs. args (hd xs))"

definition write_call_text ::
  "'n lance_ffi \<Rightarrow> ctx \<Rightarrow> string \<Rightarrow> (nat \<Rightarrow> cval list) \<Rightarrow> ('n, 'p, goerr option \<times> ctext cptr) go" where
  "write_call_text F c f args = export_call F c None recv_text (Suc 0) f (\<lambda>xs. args (hd xs))"

section \<open>Effects of exporting\<close>

lemma run_export_arrows:
  "run_state (export_arrows n) w =
     ([next_id w..<next_id w + n],
      w\<lparr>next_id := next_id w + n, exported := rev [next_id w..<next_id w + n] @ exported w\<rparr>)"
proof (induction n arbitrary: w)
  case (Suc n)
  have "[next_id w..<next_id w + Suc n] = next_id w # [Suc (next_id w)..<Suc (next_id w) + n]"
    by (simp add: upt_conv_Cons)
  with Suc show ?case by simp
qed simp

lemma run_take_all:
  assumes "distinct xs"
  shows "run_state (take_all xs) (w\<lparr>exported := rev xs @ rest\<rparr>) = ((), w\<lparr>exported := rest\<rparr>)"
  using assms
proof (induction xs arbitrary: w rest)
  case (Cons x xs)
  have "remove1 x (rev xs @ x # rest) = rev xs @ rest"
    using Cons.prems by (simp add: remove1_append)
  then show ?case
    using Cons.IH Cons.prems by (simp add: take_ownership_def)
qed simp

definition export_separate :: "(('n, 'p) world \<Rightarrow> 'x) \<Rightarrow> bool" where
  "export_separate f = (\<forall>w v. f (w\<lparr>exported := v\<rparr>) = f w)"

lemma export_separate_simps [simp]:
  "export_separate c_mem" "export_separate held" "export_separate plugins" "export_separate telemetry"
  "export_separate handles" "export_separate closed" "export_separate pins" "export_separate tokens"
  by (simp_all add: export_separate_def c_mem_def)

lemma keeps_take_all [keeps_rules]: "export_separate f \<Longrightarrow> keeps f (take_all xs)"
  by (induction xs) (auto intro!: keeps_rules keeps_modify simp: export_separate_def take_ownership_def)

lemma keeps_export_arrows [keeps_rules]: "separate f \<Longrightarrow> export_separate f \<Longrightarrow> keeps f (export_arrows n)"
  unfolding keeps_def by (simp add: run_export_arrows separate_def export_separate_def)

lemma keeps_export_call [keeps_rules]:
  "ffi_separate f \<Longrightarrow> export_separate f \<Longrightarrow> (\<And>r. keeps f (recv r)) \<Longrightarrow> keeps f (export_call F c z recv n g args)"
  unfolding export_call_def
  by (auto intro!: keeps_rules keeps_ffiCall simp: ffi_separate_def)

lemma keeps_write_call [keeps_rules]:
  "ffi_separate f \<Longrightarrow> export_separate f \<Longrightarrow> keeps f (write_call F c g args)"
  unfolding write_call_def by (intro keeps_rules)

section \<open>Ownership of exported structures\<close>

text \<open>The errors with which \<^verbatim>\<open>ffiCall\<close> may reject a call before its closure runs.\<close>

definition rejection :: "goerr \<Rightarrow> bool" where
  "rejection e = (errors_is e (SentinelErr ErrReentrantCall) \<or> errors_is e (ContextErr Canceled) \<or> errors_is e (ContextErr DeadlineExceeded))"

lemma rejection_simps [simp]:
  "rejection (Wrapf ps e qs) = rejection e" "rejection (ctx_error x)" "rejection (sentinel_err ErrReentrantCall)"
  using ctxerr.exhaust [of x] by (auto simp: rejection_def)

text \<open>An operation hands over the \<^verbatim>\<open>n\<close> structures it exports: afterwards the exported structures are
  those from before, or the operation failed with a rejection and \<^verbatim>\<open>n\<close> more are outstanding.\<close>

definition handed :: "nat \<Rightarrow> nat list \<Rightarrow> goerr option \<Rightarrow> nat list \<Rightarrow> bool" where
  "handed n xs e ys = (ys = xs \<or> (\<exists>err zs. e = Some err \<and> rejection err \<and> length zs = n \<and> ys = zs @ xs))"

definition handed_over :: "nat \<Rightarrow> nat list \<Rightarrow> goerr + 'a \<Rightarrow> nat list \<Rightarrow> bool" where
  "handed_over n xs r ys = handed n xs (err_of r) ys"

lemma handed_refl [simp]: "handed n xs e xs" "handed_over n xs r xs"
  by (simp_all add: handed_def handed_over_def)

lemma handed_wrap [simp]:
  "handed_over n xs (Inl (wrap_verb verb e) :: goerr + 'a) ys = handed_over n xs (Inl e :: goerr + 'a) ys"
  "handed n xs (Some (wrap_verb verb e)) ys = handed n xs (Some e) ys"
  by (simp_all add: handed_over_def handed_def wrap_verb_def)

lemma handed_err_of:
  "ends f (handed_over n) m \<Longrightarrow> ends f (handed n) (do { r \<leftarrow> m; ret (err_of r) })"
  unfolding ends_def handed_over_def by (simp add: split_beta)

text \<open>The step that exports: what the native function is handed is no longer exported when it
  ran, and it did not run only on a rejection.\<close>

lemma export_call_exported:
  fixes F :: "'n lance_ffi" and recv :: "int \<times> cval list \<Rightarrow> ('n, 'p, int \<times> 'z) go"
  assumes "\<And>r. keeps exported (recv r)"
  shows "ends exported (\<lambda>xs (e, z). handed n xs e) (export_call F c z recv n f args)"
  unfolding ends_def
proof
  fix w :: "('n, 'p) world"
  let ?xs = "[next_id w..<next_id w + n]"
  let ?w = "w\<lparr>next_id := next_id w + n, exported := rev ?xs @ exported w\<rparr>"
  let ?body = "do { take_all ?xs; r \<leftarrow> native_call (ccall F f (args ?xs)); recv r }"
  have run: "run_state (export_call F c z recv n f args) w = run_state (ffiCall F c z ?body) ?w"
    by (simp add: export_call_def run_export_arrows)
  have "handed n (exported w) (fst (fst (run_state (ffiCall F c z ?body) ?w))) (exported (snd (run_state (ffiCall F c z ?body) ?w)))"
  proof (cases "ffi_admits F c ?w")
    case True
    let ?v = "ffi_entry c ?w"
    have v: "?v = ?v\<lparr>exported := rev ?xs @ exported w\<rparr>"
      by (simp add: ffi_entry_def Let_def)
    have "run_state (take_all ?xs) ?v = ((), ?v\<lparr>exported := exported w\<rparr>)"
      by (subst v, subst run_take_all) simp_all
    moreover have "keeps exported (do { r \<leftarrow> native_call (ccall F f (args ?xs)); recv r })"
      using assms by (auto intro!: keeps_rules)
    then have "exported (snd (run_state (do { r \<leftarrow> native_call (ccall F f (args ?xs)); recv r }) (?v\<lparr>exported := exported w\<rparr>))) =
        exported (?v\<lparr>exported := exported w\<rparr>)"
      unfolding keeps_def by blast
    ultimately have "exported (snd (run_state ?body ?v)) = exported w"
      by simp
    then show ?thesis
      by (simp add: ffi_separate_ffiCall [of exported, OF _ True] handed_def)
  next
    case False
    have "length (rev ?xs) = n" by simp
    with False show ?thesis
      by (auto simp: run_ffiCall_rejected [OF False] ffi_admits_def handed_def split: if_splits)
  qed
  then show "(case fst (run_state (export_call F c z recv n f args) w) of (e, z) \<Rightarrow> handed n (exported w) e)
      (exported (snd (run_state (export_call F c z recv n f args) w)))"
    by (simp add: run split_beta)
qed

lemma handed_export_call:
  assumes "\<And>r. keeps exported (recv r)" "\<And>z. keeps exported (ok z)" "\<And>err. rejection (wrap err) = rejection err"
  shows "ends exported (handed_over n) (do {
     (e, z) \<leftarrow> export_call F c z0 recv n f args;
     case e of Some err \<Rightarrow> ret (Inl (wrap err)) | None \<Rightarrow> ok z })"
proof (rule endsI)
  fix w r w'
  assume run: "run_state (do { (e, z) \<leftarrow> export_call F c z0 recv n f args;
     case e of Some err \<Rightarrow> ret (Inl (wrap err)) | None \<Rightarrow> ok z }) w = (r, w')"
  obtain e z w1 where call: "run_state (export_call F c z0 recv n f args) w = ((e, z), w1)"
    by (metis surj_pair)
  have h: "handed n (exported w) e (exported w1)"
    using endsD [OF export_call_exported [OF assms(1)] call] by simp
  show "handed_over n (exported w) r (exported w')"
  proof (cases e)
    case None
    then have "run_state (ok z) w1 = (r, w')" "exported w1 = exported w"
      using run call h by (auto simp: handed_def)
    then show ?thesis
      using keepsD [OF assms(2)] by fastforce
  next
    case (Some err)
    then show ?thesis
      using run call h assms(3) by (auto simp: handed_def handed_over_def)
  qed
qed

lemma handed_write_call:
  assumes "\<And>outs. keeps exported (ok outs)" "\<And>err. rejection (wrap err) = rejection err"
  shows "ends exported (handed_over (Suc 0)) (do {
     (e, outs) \<leftarrow> write_call F c f args;
     case e of Some err \<Rightarrow> ret (Inl (wrap err)) | None \<Rightarrow> ok outs })"
  unfolding write_call_def using assms by (intro handed_export_call keeps_rules)

section \<open>Calls that return a string\<close>

lemma export_text_mem:
  assumes "quiet F" and "run_state (export_call F c None recv_text n f args) w = ((e, p), w')"
  shows "if e = None then c_mem (snd (run_state (free_cptr p) w')) = c_mem w else c_mem w' = c_mem w"
proof -
  let ?xs = "[next_id w..<next_id w + n]"
  define w0 where "w0 = w\<lparr>next_id := next_id w + n, exported := rev ?xs @ exported w\<rparr>"
  have w0: "c_mem w0 = c_mem w"
    by (simp add: w0_def c_mem_def)
  have run: "run_state (ffiCall F c None (do { take_all ?xs; r \<leftarrow> native_call (ccall F f (args ?xs)); recv_text r })) w0 = ((e, p), w')"
    using assms(2) by (simp add: export_call_def run_export_arrows w0_def)
  show ?thesis
  proof (cases "ffi_admits F c w0")
    case True
    define w1 where "w1 = snd (run_state (take_all ?xs) (ffi_entry c w0))"
    have take: "run_state (take_all ?xs) (ffi_entry c w0) = ((), w1)"
      by (simp add: w1_def prod_eq_iff)
    have mem: "c_mem w1 = c_mem w"
      using keepsD [OF keeps_take_all [of c_mem] take] w0 by (simp add: ffi_separate_entry)
    obtain rc outs n' where cc: "ccall F f (args ?xs) (native w1) = ((rc, outs), n')"
      by (metis surj_pair)
    have q: "rc \<noteq> ERROR_CODE_OK \<Longrightarrow> as_text (out_nth outs 0) = None"
      using assms(1) cc unfolding quiet_def by (metis fst_conv snd_conv)
    from run show ?thesis
      unfolding run_ffiCall_admitted [OF True] run_ffi_result
      using q mem
      by (auto simp: cc take recv_text_def c_alloc_def free_cptr_def c_free_def c_mem_def
          split: option.splits if_splits)
  next
    case False
    with run w0 show ?thesis
      by (auto simp: run_ffiCall_rejected free_cptr_def c_mem_def split: if_splits)
  qed
qed

text \<open>The rest of the methods that wrap and decode themselves.\<close>

definition decoded :: "string \<Rightarrow> (json \<Rightarrow> goerr + 'a) \<Rightarrow> ctext cptr \<Rightarrow> ('n, 'p, goerr + 'a) go" where
  "decoded what dec cJSON = deferring (lance_string_free cJSON) (ret (case unmarshal dec cJSON of
      Inl err \<Rightarrow> Inl (Wrapf [Lit ''lance: decode '', Lit what, Lit '': ''] err [])
    | Inr x \<Rightarrow> Inr x))"

definition export_json ::
  "'n lance_ffi \<Rightarrow> ctx \<Rightarrow> nat \<Rightarrow> string \<Rightarrow> (nat list \<Rightarrow> cval list) \<Rightarrow> string \<Rightarrow> string \<Rightarrow> (json \<Rightarrow> goerr + 'a) \<Rightarrow>
     ('n, 'p, goerr + 'a) go" where
  "export_json F c n f args verb what dec = do {
     (e, cJSON) \<leftarrow> export_call F c None recv_text n f args;
     case e of
       Some err \<Rightarrow> ret (Inl (Wrapf [Lit ''lance: '', Lit verb, Lit '': ''] err []))
     | None \<Rightarrow> decoded what dec cJSON
   }"

lemma keeps_recv_text [keeps_rules]: "separate f \<Longrightarrow> c_separate f \<Longrightarrow> keeps f (recv_text r)"
  unfolding recv_text_def by (auto intro!: keeps_rules keeps_c_alloc)

lemma keeps_decoded [keeps_rules]: "c_separate f \<Longrightarrow> keeps f (decoded what dec p)"
  unfolding decoded_def lance_string_free_def by (auto intro!: keeps_rules keeps_free_cptr)

lemma keeps_export_json [keeps_rules]:
  "ffi_separate f \<Longrightarrow> c_separate f \<Longrightarrow> export_separate f \<Longrightarrow> keeps f (export_json F c n g args verb what dec)"
  unfolding export_json_def by (auto intro!: keeps_rules simp: ffi_separate_def)

lemma keeps_c_mem_export_json [keeps_rules]:
  assumes "quiet F"
  shows "keeps c_mem (export_json F c n f args verb what dec)"
  unfolding keeps_def
proof
  fix w
  obtain e p w' where r: "run_state (export_call F c None recv_text n f args) w = ((e, p), w')"
    by (metis surj_pair)
  show "c_mem (snd (run_state (export_json F c n f args verb what dec) w)) = c_mem w"
    using export_text_mem [OF assms r]
    by (cases e) (simp_all add: export_json_def decoded_def r lance_string_free_def)
qed

lemma handed_export_json [ends_rules]:
  "ends exported (handed_over n) (export_json F c n f args verb what dec)"
  unfolding export_json_def by (auto intro!: handed_export_call keeps_rules)

lemma yields_export_call: "yields (\<lambda>(e, z). raw_opt e) (export_call F c z recv n f args)"
proof -
  have "yields (\<lambda>(e, z). raw_opt e) (ffiCall F c z g)" for g
    unfolding yields_def raw_opt_def by (auto simp: split_beta) (metis ffiCall_no_prefix prod.collapse)
  then show ?thesis
    unfolding export_call_def by (intro yields_bind)
qed

lemma prefixed_decoded [yields_rules]:
  assumes "\<And>j. raw (dec j)" and "take 7 what \<noteq> ''lance: ''"
  shows "yields prefixed (decoded what dec p)"
proof -
  have "raw (unmarshal dec p)"
    using assms(1) by (auto simp: unmarshal_def json_syntax_error_def split: option.split prod.split ctext.split)
  then show ?thesis
    unfolding decoded_def using assms(2) by (auto intro!: yields_rules split: sum.split)
qed

lemma yields_after_export:
  assumes "\<And>err z. lance_prefixes err = 0 \<Longrightarrow> yields P (g (Some err, z))" and "\<And>z. yields P (g (None, z))"
  shows "yields P (State_Monad.bind (export_call F c z0 recv n f args) g)"
proof (rule yields_bind_from [OF yields_export_call])
  fix x :: "goerr option \<times> 'a" assume "case x of (e, z) \<Rightarrow> raw_opt e"
  then show "yields P (g x)" using assms by (cases x; cases "fst x") auto
qed

lemma prefixed_export_json [yields_rules]:
  assumes "\<And>j. raw (dec j)" and "take 7 what \<noteq> ''lance: ''" and "take 7 verb \<noteq> ''lance: ''"
  shows "yields prefixed (export_json F c n f args verb what dec)"
  unfolding export_json_def
  by (rule yields_after_export) (use assms in \<open>auto intro!: yields_rules\<close>)

lemma handed_export_err [ends_rules]:
  assumes "\<And>r. keeps exported (recv r)"
  shows "ends exported (handed n) (do { (e, z) \<leftarrow> export_call F c z0 recv n f args; ret e })"
proof -
  have "ends exported (\<lambda>xs (e, z). handed n xs e) (export_call F c z0 recv n f args)"
    using assms by (rule export_call_exported)
  then show ?thesis unfolding ends_def by (simp add: split_beta)
qed

lemma handed_write_err [ends_rules]:
  "ends exported (handed (Suc 0)) (do { (e, z) \<leftarrow> write_call F c f args; ret e })"
  unfolding write_call_def by (intro handed_export_err keeps_rules)

lemma raw_export_err [yields_rules]: "yields raw_opt (do { (e, z) \<leftarrow> export_call F c z0 recv n f args; ret e })"
  by (rule yields_after_export) (auto intro: yields_return)

lemma raw_write_err [yields_rules]: "yields raw_opt (do { (e, z) \<leftarrow> write_call F c f args; ret e })"
  unfolding write_call_def by (rule raw_export_err)

text \<open>The same with nothing to export.\<close>

definition own_json ::
  "'n lance_ffi \<Rightarrow> ctx \<Rightarrow> string \<Rightarrow> cval list \<Rightarrow> string \<Rightarrow> string \<Rightarrow> (json \<Rightarrow> goerr + 'a) \<Rightarrow> ('n, 'p, goerr + 'a) go" where
  "own_json F c f args verb what dec = export_json F c 0 f (\<lambda>_. args) verb what dec"

lemma keeps_own_json [keeps_rules]:
  "quiet F \<Longrightarrow> keeps c_mem (own_json F c f args verb what dec)" "keeps held (own_json F c f args verb what dec)"
  "keeps plugins (own_json F c f args verb what dec)" "keeps telemetry (own_json F c f args verb what dec)"
  "keeps exported (own_json F c f args verb what dec)"
proof -
  have "ends exported (handed_over 0) (own_json F c f args verb what dec)"
    unfolding own_json_def by (rule handed_export_json)
  then show "keeps exported (own_json F c f args verb what dec)"
    unfolding ends_def keeps_def handed_over_def handed_def by auto
qed (auto simp: own_json_def intro!: keeps_rules)

lemma prefixed_own_json [yields_rules]:
  "(\<And>j. raw (dec j)) \<Longrightarrow> take 7 what \<noteq> ''lance: '' \<Longrightarrow> take 7 verb \<noteq> ''lance: '' \<Longrightarrow>
     yields prefixed (own_json F c f args verb what dec)"
  unfolding own_json_def by (rule prefixed_export_json)

section \<open>Contracts of the exporting operations\<close>

text \<open>What an operation that exports \<^verbatim>\<open>n\<close> structures promises: C memory and locks are as before,
  the structures were handed over or the call was rejected, and an error is a context error
  or has the package prefix exactly once.\<close>

definition hands_op :: "nat \<Rightarrow> ('n, 'p, goerr + 'a) go \<Rightarrow> bool" where
  "hands_op n m = (keeps c_mem m \<and> keeps held m \<and> ends exported (handed_over n) m \<and> yields prefixed m)"

definition hands_do :: "nat \<Rightarrow> ('n, 'p, goerr option) go \<Rightarrow> bool" where
  "hands_do n m = (keeps c_mem m \<and> keeps held m \<and> ends exported (handed n) m \<and> yields prefixed_opt m)"

lemmas hands_defs = hands_op_def hands_do_def

end
