(* ===== verification/Lance_Sends.thy ===== *)
theory Lance_Sends
  imports Lance_Export
begin

text \<open>
  What an operation passes to the native library. \<^verbatim>\<open>meets v m Q\<close> is a specification of an
  operation by what it leaves of the native state, the handle table and the exported Arrow
  structures; its rules follow the plumbing of \<^verbatim>\<open>Lance_Ops\<close>, so that a caller's specification
  comes down to the one native call it makes, with its exact arguments.
\<close>

named_theorems meets_rules "specifications by the native state, the handles and the exported structures"

section \<open>Specifications\<close>

type_synonym 'n view = "'n \<times> (nat \<Rightarrow> handle option) \<times> nat list"

definition view :: "('n, 'p) world \<Rightarrow> 'n view" where
  "view w = (native w, handles w, exported w)"

definition meets :: "'n view \<Rightarrow> ('n, 'p, 'a) go \<Rightarrow> ('a \<Rightarrow> 'n view \<Rightarrow> bool) \<Rightarrow> bool" where
  "meets v m Q = (\<forall>w. view w = v \<longrightarrow> Q (fst (run_state m w)) (view (snd (run_state m w))))"

definition view_ptr :: "nat \<Rightarrow> 'n view \<Rightarrow> nat option" where
  "view_ptr h v = (case fst (snd v) h of None \<Rightarrow> None | Some x \<Rightarrow> h_ptr x)"

lemma view_ptr [simp]: "view_ptr h (view w) = handle_ptr h w" "fst (view w) = native w" "snd (snd (view w)) = exported w"
  by (simp_all add: view_ptr_def view_def handle_ptr_def)

text \<open>A context that is not done at any observation.\<close>

definition never_done :: "ctx \<Rightarrow> bool" where
  "never_done c = (\<forall>t. ctx_err_at c t = None)"

lemma meetsD: "meets v m Q \<Longrightarrow> view w = v \<Longrightarrow> run_state m w = (r, w') \<Longrightarrow> Q r (view w')"
  by (auto simp: meets_def)

lemma meets_ret [meets_rules]: "Q x v \<Longrightarrow> meets v (ret x) Q"
  by (simp add: meets_def)

lemma meets_mono: "meets v m Q \<Longrightarrow> (\<And>x u. Q x u \<Longrightarrow> R x u) \<Longrightarrow> meets v m R"
  by (simp add: meets_def)

lemma meets_bind:
  assumes "meets v m R" and "\<And>x u. R x u \<Longrightarrow> meets u (g x) Q"
  shows "meets v (State_Monad.bind m g) Q"
proof -
  have "meets (view (snd (run_state m w))) (g (fst (run_state m w))) Q" if "view w = v" for w
    using assms that by (simp add: meets_def [of v m])
  then show ?thesis
    by (simp add: meets_def split_beta)
qed

lemma meets_before: "keeps view m \<Longrightarrow> (\<And>x. meets v (g x) Q) \<Longrightarrow> meets v (State_Monad.bind m g) Q"
  by (simp add: meets_def keeps_def split_beta)

lemma meets_deferring: "keeps view d \<Longrightarrow> meets v m Q \<Longrightarrow> meets v (deferring d m) Q"
  by (simp add: meets_def keeps_def split_beta)

lemma meets_if [meets_rules]: "(b \<Longrightarrow> meets v m Q) \<Longrightarrow> (\<not> b \<Longrightarrow> meets v n Q) \<Longrightarrow> meets v (if b then m else n) Q"
  by simp

section \<open>Plumbing\<close>

lemma view_updates [simp]:
  "view (w\<lparr>tick := a\<rparr>) = view w" "view (w\<lparr>c_live := l\<rparr>) = view w" "view (w\<lparr>c_fault := f\<rparr>) = view w"
  "view (w\<lparr>next_id := a\<rparr>) = view w" "view (w\<lparr>held := h\<rparr>) = view w" "view (w\<lparr>telemetry := t\<rparr>) = view w"
  "view (w\<lparr>plugins := p\<rparr>) = view w" "view (w\<lparr>pins := a\<rparr>) = view w" "view (w\<lparr>cancel_slot := s\<rparr>) = view w"
  "view (w\<lparr>tokens := l\<rparr>) = view w" "view (w\<lparr>token_fault := f\<rparr>) = view w" "view (w\<lparr>closed := l\<rparr>) = view w"
  by (simp_all add: view_def)

lemma keeps_view_memory:
  "keeps view c_malloc" "keeps view (c_free a)" "keeps view (free_cptr p)" "keeps view (c_alloc x)"
  "keeps view (c_mallocs n)" "keeps view (c_frees as)" "keeps view (freeKV kv)" "keeps view (cString t)"
proof -
  show m: "keeps view c_malloc" and f: "keeps view (c_free a)" for a
    by (simp_all add: keeps_def c_free_def)
  show "keeps view (c_mallocs n)" by (induction n) (auto intro!: keeps_rules m)
  have fs: "keeps view (c_frees as)" for as by (induction as) (auto intro!: keeps_rules f)
  then show "keeps view (c_frees as)" .
  show "keeps view (freeKV kv)" by (auto simp: freeKV_def intro!: keeps_rules f fs)
  show "keeps view (free_cptr p)" by (auto simp: free_cptr_def intro!: keeps_rules f)
  show "keeps view (c_alloc x)" by (auto simp: c_alloc_def intro!: keeps_rules m)
  show "keeps view (cString t)" by (auto simp: cString_def c_alloc_def intro!: keeps_rules m)
qed

text \<open>The argument that a C string and a storage map become.\<close>

definition text_arg :: "ctext \<Rightarrow> cval" where
  "text_arg t = (if t = Text [] then CNull else CText t)"

definition kv_arg :: "gomap \<Rightarrow> cval" where
  "kv_arg m = (if m = [] then CNull else CKV m)"

lemma text_arg_simps [simp]: "text_arg (Json j) = CText (Json j)"
  by (simp add: text_arg_def)

lemma meets_with_cString [meets_rules]:
  assumes "meets v (body (text_arg t)) Q"
  shows "meets v (with_cString t body) Q"
proof -
  have "meets v (cString t) (\<lambda>p u. c_text (map_option snd p) = text_arg t \<and> u = v)"
    by (simp add: meets_def cString_def c_alloc_def text_arg_def)
  then show ?thesis
    unfolding with_cString_def
    by (rule meets_bind) (use assms in \<open>auto intro!: meets_deferring keeps_view_memory\<close>)
qed

lemma meets_with_storageKV [meets_rules]:
  assumes "meets v (body (kv_arg m)) Q"
  shows "meets v (with_storageKV m body) Q"
proof -
  have "keeps view (cStorageKV m)"
    by (auto simp: cStorageKV_def intro!: keeps_rules keeps_view_memory)
  then have "meets v (cStorageKV m) (\<lambda>kv u. (case kv of None \<Rightarrow> CNull | Some _ \<Rightarrow> CKV m) = kv_arg m \<and> u = v)"
    by (auto simp: meets_def keeps_def cStorageKV_def kv_arg_def split_beta)
  then show ?thesis
    unfolding with_storageKV_def
    by (rule meets_bind) (use assms in \<open>auto intro!: meets_deferring keeps_view_memory\<close>)
qed

lemma meets_with_options [meets_rules]:
  "meets v (body (CText (Json j))) Q \<Longrightarrow> meets v (with_options (Inr j) body) Q"
  by (simp add: with_options_def meets_with_cString)

lemma meets_locked [meets_rules]: "meets v body Q \<Longrightarrow> meets v (locked l body) Q"
  by (simp add: meets_def run_locked split_beta)

lemma meets_observed [meets_rules]: "meets v body Q \<Longrightarrow> meets v (observed ob name attrs extra body) Q"
  by (simp add: meets_def run_observed split_beta)

lemma meets_ctx_Err [meets_rules]:
  "never_done c \<Longrightarrow> meets v (g None) Q \<Longrightarrow> meets v (State_Monad.bind (ctx_Err c) g) Q"
  by (simp add: meets_def never_done_def)

lemma meets_handle [meets_rules]:
  "meets v (g (view_ptr h v)) Q \<Longrightarrow> meets v (State_Monad.bind (reads (handle_ptr h)) g) Q"
  by (auto simp: meets_def)

lemma meets_newDataset:
  "(\<And>h u. fst u = fst v \<Longrightarrow> snd (snd u) = snd (snd v) \<Longrightarrow> meets u (g \<lparr>ds_h = h, ds_obs = ob\<rparr>) Q) \<Longrightarrow>
     meets v (State_Monad.bind (newDataset p ob) g) Q"
  by (auto simp: meets_def newDataset_def new_handle_def view_def)

section \<open>Native calls\<close>

lemma meets_ffiCall_rejected:
  "lance_in_tokio_runtime F (fst v) \<noteq> 0 \<Longrightarrow>
     meets v (ffiCall F c z f) (\<lambda>r u. r = (Some (Wrapf [] (sentinel_err ErrReentrantCall) []), z) \<and> u = v)"
proof -
  assume "lance_in_tokio_runtime F (fst v) \<noteq> 0"
  then have "view w = v \<Longrightarrow> \<not> ffi_admits F c w \<and> lance_in_tokio_runtime F (native w) \<noteq> 0" for w :: "('a, 'b) world"
    by (auto simp: ffi_admits_def view_def)
  then show ?thesis
    by (auto simp: meets_def run_ffiCall_rejected)
qed

text \<open>An admitted call runs its closure once, from the view that the caller had.\<close>

lemma meets_ffiCall:
  assumes "lance_in_tokio_runtime F (fst v) = 0" and "never_done c"
    and "meets v f (\<lambda>(rc, out) u. (if rc = ERROR_CODE_OK then Q (None, out) u else \<forall>err. Q (Some err, out) u))"
  shows "meets v (ffiCall F c z f) Q"
  unfolding meets_def
proof (intro allI impI)
  fix w :: "('a, 'b) world"
  assume v: "view w = v"
  then have adm: "ffi_admits F c w"
    using assms(1,2) by (auto simp: ffi_admits_def never_done_def view_def)
  have "view (ffi_entry c w) = v"
    using v by (simp add: ffi_entry_def Let_def view_def)
  with assms(3) have "case fst (run_state f (ffi_entry c w)) of
      (rc, out) \<Rightarrow> if rc = ERROR_CODE_OK then Q (None, out) (view (snd (run_state f (ffi_entry c w))))
        else \<forall>err. Q (Some err, out) (view (snd (run_state f (ffi_entry c w))))"
    by (simp add: meets_def split_beta)
  then show "Q (fst (run_state (ffiCall F c z f) w)) (view (snd (run_state (ffiCall F c z f) w)))"
    by (auto simp: run_ffiCall_admitted [OF adm] run_ffi_result split_beta split: if_splits)
qed

text \<open>A call with plain out parameters, and one whose out parameter is a string.\<close>

lemma meets_call:
  assumes "lance_in_tokio_runtime F (fst v) = 0" and "never_done c"
    and "ccall F f args (fst v) = ((rc, out), n')"
    and "\<And>e. (rc = ERROR_CODE_OK \<longleftrightarrow> e = None) \<Longrightarrow> meets (n', snd v) (g (e, out)) Q"
  shows "meets v (State_Monad.bind (call F c f args) g) Q"
proof -
  have "meets v (call F c f args) (\<lambda>(e, o') u. (rc = ERROR_CODE_OK \<longleftrightarrow> e = None) \<and> o' = out \<and> u = (n', snd v))"
    unfolding call_def
    by (rule meets_ffiCall [OF assms(1,2)]) (use assms(3) in \<open>auto simp: meets_def view_def\<close>)
  then show ?thesis
    by (rule meets_bind) (use assms(4) in auto)
qed

lemma meets_call_text:
  assumes "lance_in_tokio_runtime F (fst v) = 0" and "never_done c"
    and "ccall F f args (fst v) = ((rc, out), n')"
    and "\<And>e p. (rc = ERROR_CODE_OK \<longleftrightarrow> e = None) \<Longrightarrow> as_text (out_nth out 0) = map_option snd p \<Longrightarrow> meets (n', snd v) (g (e, p)) Q"
  shows "meets v (State_Monad.bind (call_text F c f args) g) Q"
proof -
  have "meets v (do { r \<leftarrow> native_call (ccall F f args); recv_text r })
      (\<lambda>(k, p) u. k = rc \<and> as_text (out_nth out 0) = map_option snd p \<and> u = (n', snd v))"
    using assms(3) by (auto simp: meets_def view_def recv_text_def c_alloc_def split: option.split)
  then have "meets v (call_text F c f args)
      (\<lambda>(e, p) u. (rc = ERROR_CODE_OK \<longleftrightarrow> e = None) \<and> as_text (out_nth out 0) = map_option snd p \<and> u = (n', snd v))"
    unfolding call_text_def
    by (intro meets_ffiCall [OF assms(1,2)]) (auto elim!: meets_mono)
  then show ?thesis
    by (rule meets_bind) (use assms(4) in auto)
qed

lemma meets_json_call:
  assumes "lance_in_tokio_runtime F (fst v) = 0" and "never_done c"
    and "ccall F f args (fst v) = ((rc, out), n')"
    and "\<And>e. rc \<noteq> ERROR_CODE_OK \<Longrightarrow> Q (Inl e) (n', snd v)"
    and "\<And>x. rc = ERROR_CODE_OK \<Longrightarrow> as_text (out_nth out 0) = Some (Json x) \<Longrightarrow>
      Q (case dec x of Inl err \<Rightarrow> Inl (Wrapf [Lit ''decode '', Lit what, Lit '': ''] err []) | Inr y \<Rightarrow> Inr y) (n', snd v)"
    and "\<And>e. rc = ERROR_CODE_OK \<Longrightarrow> (\<forall>x. as_text (out_nth out 0) \<noteq> Some (Json x)) \<Longrightarrow> Q (Inl e) (n', snd v)"
  shows "meets v (json_call F c f args what dec) Q"
  unfolding json_call_def
proof (rule meets_call_text [OF assms(1-3)])
  fix e :: "goerr option" and p :: "ctext cptr"
  assume "(rc = ERROR_CODE_OK) = (e = None)" and "as_text (out_nth out 0) = map_option snd p"
  with assms(4-) show "meets (n', snd v) (case (e, p) of (e, cJSON) \<Rightarrow>
      (case e of Some err \<Rightarrow> ret (Inl err)
      | None \<Rightarrow> deferring (lance_string_free cJSON) (ret (case unmarshal dec cJSON of
          Inl err \<Rightarrow> Inl (Wrapf [Lit ''decode '', Lit what, Lit '': ''] err []) | Inr x \<Rightarrow> Inr x)))) Q"
    by (auto simp: lance_string_free_def unmarshal_def intro!: meets_deferring meets_ret keeps_view_memory
        split: option.split prod.split ctext.split)
qed

section \<open>Operations on a dataset\<close>

lemma meets_datasetOp:
  assumes "never_done c" and "view_ptr (ds_h d) v = Some q"
    and "meets v (fn c q) (\<lambda>r u. Q (case r of Inl err \<Rightarrow> Inl (wrap_verb verb err) | Inr y \<Rightarrow> Inr y) u)"
  shows "meets v (datasetOp c d name verb fn attrs) Q"
proof -
  have "meets v (do { out \<leftarrow> fn c q; ret (case out of Inl err \<Rightarrow> Inl (wrap_verb verb err) | Inr y \<Rightarrow> Inr y) }) Q"
    using assms(3) by (rule meets_bind) (rule meets_ret)
  moreover have "view w = v \<Longrightarrow> handle_ptr (ds_h d) w = Some q" for w :: "('a, 'b) world"
    using assms(2) by auto
  ultimately show ?thesis
    unfolding datasetOp_def using assms(1)
    by (intro meets_observed meets_locked)
      (auto simp: meets_def run_checked_def Dataset_checkOpen_def check_handle_def never_done_def handle_ptr_def)
qed

section \<open>Exporting calls\<close>

lemma meets_write_call_rejected:
  assumes "lance_in_tokio_runtime F (fst v) \<noteq> 0"
    and "\<And>x. meets (fst v, fst (snd v), x # snd (snd v)) (g (Some (Wrapf [] (sentinel_err ErrReentrantCall) []), [])) Q"
  shows "meets v (State_Monad.bind (write_call F c f args) g) Q"
proof -
  have "meets v (export_arrows (Suc 0)) (\<lambda>_ u. \<exists>x. u = (fst v, fst (snd v), x # snd (snd v)))"
    by (auto simp: meets_def view_def)
  then have "meets v (write_call F c f args) (\<lambda>r u. r = (Some (Wrapf [] (sentinel_err ErrReentrantCall) []), []) \<and>
      (\<exists>x. u = (fst v, fst (snd v), x # snd (snd v))))"
    unfolding write_call_def export_call_def
    by (rule meets_bind) (use assms(1) in \<open>auto intro!: meets_mono [OF meets_ffiCall_rejected]\<close>)
  then show ?thesis
    by (rule meets_bind) (use assms(2) in auto)
qed

text \<open>An admitted exporting call reaches the native function with the structures it exported.\<close>

lemma meets_export_json:
  assumes "lance_in_tokio_runtime F (fst v) = 0" and "never_done c"
  shows "meets v (export_json F c n f args verb what dec)
    (\<lambda>_ u. \<exists>xs. length xs = n \<and> fst u = snd (ccall F f (args xs) (fst v)))"
proof -
  have exp: "meets v (export_arrows n) (\<lambda>xs u. length xs = n \<and> fst u = fst v)"
    by (auto simp: meets_def run_export_arrows view_def)
  have after: "keeps native (recv_text r :: ('a, 'b, int \<times> ctext cptr) go)" "keeps native (decoded what dec p :: ('a, 'b, goerr + 'c) go)"
    "keeps native (take_all xs :: ('a, 'b, unit) go)" for r p xs
    by (auto simp: recv_text_def c_alloc_def decoded_def lance_string_free_def free_cptr_def c_free_def take_ownership_def keeps_def
        split: option.split) (induction xs; simp add: take_ownership_def)
  have run: "meets u (ffiCall F c None (do { take_all xs; r \<leftarrow> native_call (ccall F f (args xs)); recv_text r }) :: ('a, 'b, goerr option \<times> ctext cptr) go)
      (\<lambda>_ u. fst u = snd (ccall F f (args xs) (fst v)))" if "fst u = fst v" for u xs
    using assms that after(1,3)
    by (intro meets_ffiCall) (auto simp: meets_def keeps_def split_beta)
  have "meets v (export_call F c None recv_text n f args :: ('a, 'b, goerr option \<times> ctext cptr) go)
      (\<lambda>_ u. \<exists>xs. length xs = n \<and> fst u = snd (ccall F f (args xs) (fst v)))"
    unfolding export_call_def by (rule meets_bind [OF exp]) (auto intro!: meets_mono [OF run])
  then show ?thesis
    unfolding export_json_def
    by (rule meets_bind) (use after(2) in \<open>auto simp: meets_def keeps_def view_def split: option.split\<close>)
qed

lemma meets_dataset_locked:
  assumes "never_done c" and "view_ptr (ds_h d) v = Some q" and "meets v (body q) Q"
  shows "meets v (dataset_locked c d body) Q"
proof -
  have "view w = v \<Longrightarrow> handle_ptr (ds_h d) w = Some q" for w :: "('a, 'b) world"
    using assms(2) by auto
  then show ?thesis
    unfolding dataset_locked_def using assms(1,3)
    by (intro meets_locked)
      (auto simp: meets_def Dataset_checkOpen_def check_handle_def never_done_def handle_ptr_def)
qed

section \<open>A native library that logs its calls\<close>

definition log_ffi :: "cval list \<Rightarrow> (string \<times> cval list) list lance_ffi" where
  "log_ffi out = \<lparr>lance_in_tokio_runtime = (\<lambda>_. 0), lance_last_error_code = (\<lambda>_. 0), lance_last_error_message = (\<lambda>_. None),
     ccall = (\<lambda>f args n. ((ERROR_CODE_OK, out), n @ [(f, args)])), cread = (\<lambda>_ _ _. CNull)\<rparr>"

definition log_world :: "(nat \<Rightarrow> handle option) \<Rightarrow> ((string \<times> cval list) list, bool) world" where
  "log_world hs = \<lparr>native = [], tick = 0, pins = 0, cancel_slot = None, tokens = [], token_fault = False,
     next_id = 0, c_live = [], c_fault = False, exported = [], held = [], closed = [], handles = hs,
     plugins = pluginRegistry, telemetry = []\<rparr>"

lemma log_simps [simp]:
  "lance_in_tokio_runtime (log_ffi out) n = 0" "ccall (log_ffi out) f args n = ((ERROR_CODE_OK, out), n @ [(f, args)])"
  "native (log_world hs) = []" "handle_ptr h (log_world hs) = (case hs h of None \<Rightarrow> None | Some x \<Rightarrow> h_ptr x)"
  "never_done background"
  by (simp_all add: log_ffi_def log_world_def handle_ptr_def never_done_def background_def)

end
