(* ===== verification/Lance_Dataset.thy ===== *)
theory Lance_Dataset
  imports Lance_Sends "HOL-Library.AList" "HOL-Library.Signed_Division"
begin

text \<open>
  Opening and writing datasets: the options of \<^verbatim>\<open>lance/dataset.go\<close> and
  \<^verbatim>\<open>lance/writeparams.go\<close> with the JSON contract they are marshalled into, sessions
  (\<^verbatim>\<open>lance/session.go\<close>), \<^verbatim>\<open>Open\<close>, \<^verbatim>\<open>Write\<close>, \<^verbatim>\<open>wrapObjectStoreCache\<close> (\<^verbatim>\<open>lance/cache.go\<close>), and
  the basic reads. Plugins (caches, progress callbacks) are values of type \<^verbatim>\<open>'p\<close>.
\<close>

section \<open>Sessions\<close>

record session =
  se_h :: nat
  se_obs :: "obs option"

definition newSession :: "nat option \<Rightarrow> obs option \<Rightarrow> ('n, 'p, session) go" where
  "newSession ptr ob = do { h \<leftarrow> new_handle ptr; ret \<lparr>se_h = h, se_obs = ob\<rparr> }"

record SessionConfig =
  IndexCacheBytes :: u64
  MetadataCacheBytes :: u64

definition NewSession :: "'n lance_ffi \<Rightarrow> otel \<Rightarrow> SessionConfig \<Rightarrow> ObsOption list \<Rightarrow> ('n, 'p, goerr + session) go" where
  "NewSession F G cfg opts = do {
     (e, outs) \<leftarrow> call F background ''lance_session_new'' [CU64 (IndexCacheBytes cfg), CU64 (MetadataCacheBytes cfg)];
     case e of
       Some err \<Rightarrow> ret (Inl (Wrapf [Lit ''lance: new session: ''] err []))
     | None \<Rightarrow> do { s \<leftarrow> newSession (as_handle (out_nth outs 0)) (Some (newObsFromOptions G opts)); ret (Inr s) }
   }"

definition NewSessionWithCacheBackend ::
  "'n lance_ffi \<Rightarrow> otel \<Rightarrow> 'p option \<Rightarrow> u64 \<Rightarrow> ObsOption list \<Rightarrow> ('n, 'p, goerr + session) go" where
  "NewSessionWithCacheBackend F G b metadataCacheBytes opts =
     (case b of
        None \<Rightarrow> ret (Inl (Wrapf [Lit ''lance: cache backend must not be nil: ''] (sentinel_err ErrInvalidArgument) []))
      | Some adapter \<Rightarrow> do {
          handle \<leftarrow> register_plugin adapter;
          (e, outs) \<leftarrow> call F background ''lance_session_new_with_cache_backend'' [CU64 handle, CU64 metadataCacheBytes];
          case e of
            Some err \<Rightarrow> do {
              release_plugin handle;
              ret (Inl (Wrapf [Lit ''lance: new session with cache backend: ''] err []))
            }
          | None \<Rightarrow> do { s \<leftarrow> newSession (as_handle (out_nth outs 0)) (Some (newObsFromOptions G opts)); ret (Inr s) }
        })"

definition session_closed :: goerr where
  "session_closed = Wrapf [Lit ''lance: session is closed: ''] (sentinel_err ErrInvalidArgument) []"

record CacheCounts =
  cc_Hits :: u64
  cc_Misses :: u64
  cc_NumEntries :: u64
  cc_SizeBytes :: u64

definition CacheCounts0 :: CacheCounts where
  "CacheCounts0 = \<lparr>cc_Hits = 0, cc_Misses = 0, cc_NumEntries = 0, cc_SizeBytes = 0\<rparr>"

definition un_CacheCounts :: "CacheCounts decoder" where
  "un_CacheCounts = un_struct
     [fld ''hits'' cc_Hits cc_Hits_update un_word, fld ''misses'' cc_Misses cc_Misses_update un_word,
      fld ''num_entries'' cc_NumEntries cc_NumEntries_update un_word, fld ''size_bytes'' cc_SizeBytes cc_SizeBytes_update un_word]"

record SessionStats =
  ss_IndexCache :: CacheCounts
  ss_MetadataCache :: CacheCounts
  ss_SizeBytes :: u64
  ss_ApproxNumItems :: u64

definition un_SessionStats :: "json \<Rightarrow> goerr + SessionStats" where
  "un_SessionStats j = un_struct
     [fld ''index_cache'' ss_IndexCache ss_IndexCache_update un_CacheCounts,
      fld ''metadata_cache'' ss_MetadataCache ss_MetadataCache_update un_CacheCounts,
      fld ''size_bytes'' ss_SizeBytes ss_SizeBytes_update un_word,
      fld ''approx_num_items'' ss_ApproxNumItems ss_ApproxNumItems_update un_word] j
     \<lparr>ss_IndexCache = CacheCounts0, ss_MetadataCache = CacheCounts0, ss_SizeBytes = 0, ss_ApproxNumItems = 0\<rparr>"

definition Session_Stats :: "'n lance_ffi \<Rightarrow> session \<Rightarrow> ('n, 'p, goerr + SessionStats) go" where
  "Session_Stats F s = locked (WriteLock (se_h s)) (do {
     p \<leftarrow> reads (handle_ptr (se_h s));
     case p of
       None \<Rightarrow> ret (Inl session_closed)
     | Some q \<Rightarrow> do {
         (e, cJSON) \<leftarrow> call_text F background ''lance_session_stats'' [CHandle q];
         case e of
           Some err \<Rightarrow> ret (Inl (Wrapf [Lit ''lance: session stats: ''] err []))
         | None \<Rightarrow> deferring (lance_string_free cJSON) (ret (
             case unmarshal un_SessionStats cJSON of
               Inl err \<Rightarrow> Inl (Wrapf [Lit ''lance: decode session stats: ''] err [])
             | Inr st \<Rightarrow> Inr st))
       }
   })"

definition Session_Close :: "session \<Rightarrow> ('n, 'p, unit) go" where
  "Session_Close s = locked (WriteLock (se_h s)) (handle_close (se_h s))"

section \<open>Open options\<close>

record 'p openConfig =
  oc_Version :: "u64 option"
  oc_Tag :: string
  oc_Branch :: string
  oc_tagSet :: bool
  oc_branchSet :: bool
  oc_storage :: gomap
  oc_obsCfg :: obsConfig
  oc_session :: "session option"
  oc_objectStoreCache :: "'p option"

definition openConfig0 :: "'p openConfig" where
  "openConfig0 = \<lparr>oc_Version = None, oc_Tag = [], oc_Branch = [], oc_tagSet = False, oc_branchSet = False,
     oc_storage = [], oc_obsCfg = no_obsConfig, oc_session = None, oc_objectStoreCache = None\<rparr>"

definition open_json :: "'p openConfig \<Rightarrow> json" where
  "open_json cfg = JObj (omit_ptr json_u64 ''version'' (oc_Version cfg) @ omit_str ''tag'' (oc_Tag cfg) @
     omit_str ''branch'' (oc_Branch cfg))"

definition open_validate :: "'p openConfig \<Rightarrow> goerr option" where
  "open_validate cfg =
     (if oc_tagSet cfg \<and> oc_Tag cfg = [] then
        Some (Wrapf [Lit ''lance: tag must not be empty: ''] (sentinel_err ErrInvalidArgument) [])
      else if oc_branchSet cfg \<and> oc_Branch cfg = [] then
        Some (Wrapf [Lit ''lance: branch must not be empty: ''] (sentinel_err ErrInvalidArgument) [])
      else if oc_tagSet cfg \<and> (oc_Version cfg \<noteq> None \<or> oc_branchSet cfg) then
        Some (Wrapf [Lit ''lance: WithTag cannot be combined with WithVersion or WithBranch: ''] (sentinel_err ErrInvalidArgument) [])
      else None)"

type_synonym 'p OpenOption = "'p openConfig \<Rightarrow> 'p openConfig"

definition WithStorageOptions :: "gomap \<Rightarrow> 'p OpenOption" where
  "WithStorageOptions options cfg = cfg\<lparr>oc_storage := options\<rparr>"

definition WithVersion :: "u64 \<Rightarrow> 'p OpenOption" where
  "WithVersion version cfg = cfg\<lparr>oc_Version := Some version\<rparr>"

definition WithTag :: "string \<Rightarrow> 'p OpenOption" where
  "WithTag tag cfg = cfg\<lparr>oc_Tag := tag, oc_tagSet := True\<rparr>"

definition WithBranch :: "string \<Rightarrow> 'p OpenOption" where
  "WithBranch branch cfg = cfg\<lparr>oc_Branch := branch, oc_branchSet := True\<rparr>"

definition WithObservability :: "ObsOption list \<Rightarrow> 'p OpenOption" where
  "WithObservability opts cfg = cfg\<lparr>oc_obsCfg := apply_opts opts (oc_obsCfg cfg)\<rparr>"

definition WithSession :: "session option \<Rightarrow> 'p OpenOption" where
  "WithSession s cfg = cfg\<lparr>oc_session := s\<rparr>"

definition WithObjectStoreCache :: "'p option \<Rightarrow> 'p OpenOption" where
  "WithObjectStoreCache cache cfg = cfg\<lparr>oc_objectStoreCache := cache\<rparr>"

section \<open>Open\<close>

text \<open>The error of a failed open, with a hint when the native side reports that nothing was
  found.\<close>

definition open_error :: "string \<Rightarrow> string \<Rightarrow> goerr \<Rightarrow> goerr" where
  "open_error uri how err =
     Wrapf [Lit ''lance: open '', Quo uri, Lit (how @ '': '')] err
       (if errors_is err (SentinelErr ErrNotFound) then [Lit '' (check the URI, version/tag, and storage options)''] else [])"

definition openWithSession ::
  "'n lance_ffi \<Rightarrow> ctx \<Rightarrow> session \<Rightarrow> string \<Rightarrow> cval \<Rightarrow> cval \<Rightarrow> cval \<Rightarrow> ('n, 'p, goerr + nat option) go" where
  "openWithSession F c sess uri cURI kv cOpts = locked (WriteLock (se_h sess)) (do {
     p \<leftarrow> reads (handle_ptr (se_h sess));
     case p of
       None \<Rightarrow> ret (Inl session_closed)
     | Some q \<Rightarrow> do {
         (e, outs) \<leftarrow> call F c ''lance_dataset_open_with_session'' [cURI, kv, cOpts, CHandle q];
         ret (case e of Some err \<Rightarrow> Inl (open_error uri '' with session'' err) | None \<Rightarrow> Inr (as_handle (out_nth outs 0)))
       }
   })"

definition wrapObjectStoreCache ::
  "'n lance_ffi \<Rightarrow> dataset \<Rightarrow> 'p \<Rightarrow> obs option \<Rightarrow> string \<Rightarrow> ('n, 'p, goerr + dataset) go" where
  "wrapObjectStoreCache F ds cache ob uri = do {
     handle \<leftarrow> register_plugin cache;
     p \<leftarrow> reads (handle_ptr (ds_h ds));
     (callErr, outs) \<leftarrow> call F background ''lance_dataset_wrap_object_store_cache'' [c_handle p, CU64 handle];
     Dataset_Close ds;
     case callErr of
       Some err \<Rightarrow> do {
         release_plugin handle;
         ret (Inl (Wrapf [Lit ''lance: wrap object-store cache for '', Quo uri, Lit '': ''] err []))
       }
     | None \<Rightarrow> do { d \<leftarrow> newDataset (as_handle (out_nth outs 0)) ob; ret (Inr d) }
   }"

definition open_obs :: "otel \<Rightarrow> 'p openConfig \<Rightarrow> obs option" where
  "open_obs G cfg = (case oc_session cfg of Some s \<Rightarrow> se_obs s | None \<Rightarrow> Some (newObs G (oc_obsCfg cfg)))"

text \<open>The part of \<^verbatim>\<open>Open\<close> after the options are marshalled.\<close>

definition open_native ::
  "'n lance_ffi \<Rightarrow> ctx \<Rightarrow> string \<Rightarrow> 'p openConfig \<Rightarrow> obs option \<Rightarrow> cval \<Rightarrow> cval \<Rightarrow> cval \<Rightarrow> ('n, 'p, goerr + dataset) go" where
  "open_native F c uri cfg ob cURI kv cOpts = do {
     r \<leftarrow> (case oc_session cfg of
            Some s \<Rightarrow> openWithSession F c s uri cURI kv cOpts
          | None \<Rightarrow> do {
              (e, outs) \<leftarrow> call F c ''lance_dataset_open'' [cURI, kv, cOpts];
              ret (case e of Some err \<Rightarrow> Inl (open_error uri '''' err) | None \<Rightarrow> Inr (as_handle (out_nth outs 0)))
            });
     case r of
       Inl err \<Rightarrow> ret (Inl err)
     | Inr ptr \<Rightarrow> do {
         ds \<leftarrow> newDataset ptr ob;
         case oc_objectStoreCache cfg of
           None \<Rightarrow> ret (Inr ds)
         | Some cache \<Rightarrow> wrapObjectStoreCache F ds cache ob uri
       }
   }"

definition Open ::
  "'n lance_ffi \<Rightarrow> otel \<Rightarrow> url_lib \<Rightarrow> ctx \<Rightarrow> string \<Rightarrow> 'p OpenOption list \<Rightarrow> ('n, 'p, goerr + dataset) go" where
  "Open F G L c uri opts =
     (let cfg = apply_opts opts openConfig0 in
      case open_validate cfg of
        Some err \<Rightarrow> ret (Inl err)
      | None \<Rightarrow>
          let ob = open_obs G cfg in
          observed ob ''Open'' [datasetURIAttribute L uri] (\<lambda>_. []) (do {
            e \<leftarrow> ctx_Err c;
            case e of
              Some err \<Rightarrow> ret (Inl err)
            | None \<Rightarrow>
                with_cString (Text uri) (\<lambda>cURI.
                with_storageKV (oc_storage cfg) (\<lambda>kv.
                with_options (Inr (open_json cfg)) (\<lambda>cOpts.
                  open_native F c uri cfg ob cURI kv cOpts)))
          }))"

definition OpenWithObjectStoreCache ::
  "'n lance_ffi \<Rightarrow> otel \<Rightarrow> url_lib \<Rightarrow> ctx \<Rightarrow> string \<Rightarrow> 'p option \<Rightarrow> 'p OpenOption list \<Rightarrow> ('n, 'p, goerr + dataset) go" where
  "OpenWithObjectStoreCache F G L c uri cache opts =
     (case cache of
        None \<Rightarrow> ret (Inl (Wrapf [Lit ''lance: object-store cache must not be nil: ''] (sentinel_err ErrInvalidArgument) []))
      | Some _ \<Rightarrow> Open F G L c uri (opts @ [WithObjectStoreCache cache]))"

definition Session_Open ::
  "'n lance_ffi \<Rightarrow> otel \<Rightarrow> url_lib \<Rightarrow> session \<Rightarrow> ctx \<Rightarrow> string \<Rightarrow> 'p OpenOption list \<Rightarrow> ('n, 'p, goerr + dataset) go" where
  "Session_Open F G L s c uri opts = Open F G L c uri (opts @ [WithSession (Some s)])"

section \<open>Write options\<close>

datatype WriteMode = WriteModeCreate | WriteModeAppend | WriteModeOverwrite | OtherMode int

fun WriteMode_String :: "WriteMode \<Rightarrow> string" where
  "WriteMode_String WriteModeCreate = ''create''"
| "WriteMode_String WriteModeAppend = ''append''"
| "WriteMode_String WriteModeOverwrite = ''overwrite''"
| "WriteMode_String (OtherMode m) = ''WriteMode('' @ dec_int m @ '')''"

record autoCleanupJSON =
  ac_Interval :: u64
  ac_OlderThanSeconds :: int

record BasePath =
  bp_ID :: u32
  bp_Name :: string
  bp_IsDatasetRoot :: bool
  bp_Path :: string

definition base_path_json :: "BasePath \<Rightarrow> json" where
  "base_path_json b = JObj ([(''id'', JInt (uint (bp_ID b)))] @ omit_str ''name'' (bp_Name b) @
     omit_bool ''is_dataset_root'' (bp_IsDatasetRoot b) @ [(''path'', JStr (bp_Path b))])"

record extendedWriteConfig =
  wc_EnableV2ManifestPaths :: "bool option"
  wc_AutoCleanup :: "autoCleanupJSON option"
  wc_SkipAutoCleanup :: bool
  wc_TransactionProperties :: gomap
  wc_ExternalBlobMode :: string
  wc_BlobPackFileSizeThreshold :: u64
  wc_AllowExternalBlobOutsideBases :: bool
  wc_InitialBases :: "BasePath list"
  wc_TargetBases :: "u32 list"
  wc_TargetBaseNamesOrPaths :: "string list"
  wc_BaseStoreParams :: "(string \<times> gomap) list"

definition auto_cleanup_json :: "autoCleanupJSON \<Rightarrow> json" where
  "auto_cleanup_json a = JObj [(''interval'', json_u64 (ac_Interval a)), (''older_than_seconds'', JInt (ac_OlderThanSeconds a))]"

definition base_store_json :: "(string \<times> gomap) list \<Rightarrow> members" where
  "base_store_json m = (if m = [] then []
     else [(''base_store_params'', JObj (map (\<lambda>(k, v). (k, json_map v)) (sort_key fst m)))])"

definition extended_json :: "extendedWriteConfig \<Rightarrow> members" where
  "extended_json x =
     omit_ptr JBool ''enable_v2_manifest_paths'' (wc_EnableV2ManifestPaths x) @
     omit_ptr auto_cleanup_json ''auto_cleanup'' (wc_AutoCleanup x) @
     omit_bool ''skip_auto_cleanup'' (wc_SkipAutoCleanup x) @
     omit_map ''transaction_properties'' (wc_TransactionProperties x) @
     omit_str ''external_blob_mode'' (wc_ExternalBlobMode x) @
     omit_u64 ''blob_pack_file_size_threshold'' (wc_BlobPackFileSizeThreshold x) @
     omit_bool ''allow_external_blob_outside_bases'' (wc_AllowExternalBlobOutsideBases x) @
     omit_list base_path_json ''initial_bases'' (wc_InitialBases x) @
     omit_list (\<lambda>i. JInt (uint i)) ''target_bases'' (wc_TargetBases x) @
     omit_list JStr ''target_base_names_or_paths'' (wc_TargetBaseNamesOrPaths x) @
     base_store_json (wc_BaseStoreParams x)"

record 'p writeConfig =
  wc_Mode :: string
  wc_MaxRowsPerFile :: u64
  wc_MaxRowsPerGroup :: u64
  wc_MaxBytesPerFile :: u64
  wc_DataStorageVersion :: string
  wc_EnableStableRowIDs :: bool
  wc_extended :: extendedWriteConfig
  wc_storage :: gomap
  wc_obsCfg :: obsConfig
  wc_session :: "session option"
  wc_progress :: "'p option"

definition writeConfig0 :: "'p writeConfig" where
  "writeConfig0 = \<lparr>wc_Mode = WriteMode_String WriteModeCreate, wc_MaxRowsPerFile = 0, wc_MaxRowsPerGroup = 0,
     wc_MaxBytesPerFile = 0, wc_DataStorageVersion = [], wc_EnableStableRowIDs = False,
     wc_extended = \<lparr>wc_EnableV2ManifestPaths = None, wc_AutoCleanup = None, wc_SkipAutoCleanup = False,
       wc_TransactionProperties = [], wc_ExternalBlobMode = [], wc_BlobPackFileSizeThreshold = 0,
       wc_AllowExternalBlobOutsideBases = False, wc_InitialBases = [], wc_TargetBases = [],
       wc_TargetBaseNamesOrPaths = [], wc_BaseStoreParams = []\<rparr>,
     wc_storage = [], wc_obsCfg = no_obsConfig, wc_session = None, wc_progress = None\<rparr>"

definition write_json :: "'p writeConfig \<Rightarrow> json" where
  "write_json cfg = JObj ([(''mode'', JStr (wc_Mode cfg))] @
     omit_u64 ''max_rows_per_file'' (wc_MaxRowsPerFile cfg) @
     omit_u64 ''max_rows_per_group'' (wc_MaxRowsPerGroup cfg) @
     omit_u64 ''max_bytes_per_file'' (wc_MaxBytesPerFile cfg) @
     omit_str ''data_storage_version'' (wc_DataStorageVersion cfg) @
     omit_bool ''enable_stable_row_ids'' (wc_EnableStableRowIDs cfg) @
     extended_json (wc_extended cfg))"

type_synonym 'p WriteOption = "'p writeConfig \<Rightarrow> 'p writeConfig"

definition WithMode :: "WriteMode \<Rightarrow> 'p WriteOption" where
  "WithMode mode cfg = cfg\<lparr>wc_Mode := WriteMode_String mode\<rparr>"

definition WithMaxRowsPerFile :: "u64 \<Rightarrow> 'p WriteOption" where
  "WithMaxRowsPerFile n cfg = cfg\<lparr>wc_MaxRowsPerFile := n\<rparr>"

definition WithMaxRowsPerGroup :: "u64 \<Rightarrow> 'p WriteOption" where
  "WithMaxRowsPerGroup n cfg = cfg\<lparr>wc_MaxRowsPerGroup := n\<rparr>"

definition WithMaxBytesPerFile :: "u64 \<Rightarrow> 'p WriteOption" where
  "WithMaxBytesPerFile n cfg = cfg\<lparr>wc_MaxBytesPerFile := n\<rparr>"

definition WithDataStorageVersion :: "string \<Rightarrow> 'p WriteOption" where
  "WithDataStorageVersion version cfg = cfg\<lparr>wc_DataStorageVersion := version\<rparr>"

definition WithStableRowIDs :: "bool \<Rightarrow> 'p WriteOption" where
  "WithStableRowIDs enable cfg = cfg\<lparr>wc_EnableStableRowIDs := enable\<rparr>"

definition WithWriteStorageOptions :: "gomap \<Rightarrow> 'p WriteOption" where
  "WithWriteStorageOptions options cfg = cfg\<lparr>wc_storage := options\<rparr>"

definition WithWriteObservability :: "ObsOption list \<Rightarrow> 'p WriteOption" where
  "WithWriteObservability opts cfg = cfg\<lparr>wc_obsCfg := apply_opts opts (wc_obsCfg cfg)\<rparr>"

definition WithWriteSession :: "session option \<Rightarrow> 'p WriteOption" where
  "WithWriteSession s cfg = cfg\<lparr>wc_session := s\<rparr>"

definition WithWriteProgress :: "'p option \<Rightarrow> 'p WriteOption" where
  "WithWriteProgress progress cfg = cfg\<lparr>wc_progress := progress\<rparr>"

text \<open>The extended options change the embedded struct.\<close>

definition on_extended :: "(extendedWriteConfig \<Rightarrow> extendedWriteConfig) \<Rightarrow> 'p WriteOption" where
  "on_extended f cfg = cfg\<lparr>wc_extended := f (wc_extended cfg)\<rparr>"

definition WithV2ManifestPaths :: "bool \<Rightarrow> 'p WriteOption" where
  "WithV2ManifestPaths enable = on_extended (\<lambda>x. x\<lparr>wc_EnableV2ManifestPaths := Some enable\<rparr>)"

text \<open>Durations are nanoseconds; Go's integer division truncates towards zero.\<close>

definition WithAutoCleanup :: "u64 \<Rightarrow> int \<Rightarrow> 'p WriteOption" where
  "WithAutoCleanup interval olderThan =
     on_extended (\<lambda>x. x\<lparr>wc_AutoCleanup := Some \<lparr>ac_Interval = interval, ac_OlderThanSeconds = olderThan sdiv 1000000000\<rparr>\<rparr>)"

definition WithSkipAutoCleanup :: "bool \<Rightarrow> 'p WriteOption" where
  "WithSkipAutoCleanup skip = on_extended (\<lambda>x. x\<lparr>wc_SkipAutoCleanup := skip\<rparr>)"

definition WithTransactionProperties :: "gomap \<Rightarrow> 'p WriteOption" where
  "WithTransactionProperties properties = on_extended (\<lambda>x. x\<lparr>wc_TransactionProperties := properties\<rparr>)"

definition ExternalBlobReference :: string where "ExternalBlobReference = ''reference''"
definition ExternalBlobIngest :: string where "ExternalBlobIngest = ''ingest''"

definition WithExternalBlobMode :: "string \<Rightarrow> 'p WriteOption" where
  "WithExternalBlobMode mode = on_extended (\<lambda>x. x\<lparr>wc_ExternalBlobMode := mode\<rparr>)"

definition WithBlobPackFileSizeThreshold :: "u64 \<Rightarrow> 'p WriteOption" where
  "WithBlobPackFileSizeThreshold n = on_extended (\<lambda>x. x\<lparr>wc_BlobPackFileSizeThreshold := n\<rparr>)"

definition WithAllowExternalBlobOutsideBases :: "bool \<Rightarrow> 'p WriteOption" where
  "WithAllowExternalBlobOutsideBases allow = on_extended (\<lambda>x. x\<lparr>wc_AllowExternalBlobOutsideBases := allow\<rparr>)"

definition WithInitialBases :: "BasePath list \<Rightarrow> 'p WriteOption" where
  "WithInitialBases bases = on_extended (\<lambda>x. x\<lparr>wc_InitialBases := bases\<rparr>)"

definition WithTargetBases :: "u32 list \<Rightarrow> 'p WriteOption" where
  "WithTargetBases ids = on_extended (\<lambda>x. x\<lparr>wc_TargetBases := ids\<rparr>)"

definition WithTargetBaseNamesOrPaths :: "string list \<Rightarrow> 'p WriteOption" where
  "WithTargetBaseNamesOrPaths names = on_extended (\<lambda>x. x\<lparr>wc_TargetBaseNamesOrPaths := names\<rparr>)"

definition WithBaseStoreParams :: "string \<Rightarrow> gomap \<Rightarrow> 'p WriteOption" where
  "WithBaseStoreParams base options =
     on_extended (\<lambda>x. x\<lparr>wc_BaseStoreParams := AList.update base options (wc_BaseStoreParams x)\<rparr>)"

section \<open>Write\<close>

definition write_obs :: "otel \<Rightarrow> 'p writeConfig \<Rightarrow> obs option" where
  "write_obs G cfg = (case wc_session cfg of Some s \<Rightarrow> se_obs s | None \<Rightarrow> Some (newObs G (wc_obsCfg cfg)))"

definition write_error :: "string \<Rightarrow> string \<Rightarrow> string \<Rightarrow> goerr \<Rightarrow> goerr" where
  "write_error uri how mode err =
     Wrapf [Lit ''lance: write '', Quo uri, Lit (how @ '': '')] err
       (if mode = WriteMode_String WriteModeCreate \<and> errors_is err (SentinelErr ErrAlreadyExists)
        then [Lit '' (dataset exists; use WithMode(WriteModeAppend) or WithMode(WriteModeOverwrite))''] else [])"

definition write_native ::
  "'n lance_ffi \<Rightarrow> ctx \<Rightarrow> string \<Rightarrow> 'p writeConfig \<Rightarrow> obs option \<Rightarrow> cval \<Rightarrow> cval \<Rightarrow> cval \<Rightarrow> nat option \<Rightarrow> u64 \<Rightarrow> ('n, 'p, goerr + dataset) go" where
  "write_native F c uri cfg ob cURI kv cOpts sessPtr progressHandle =
     (let usePlugin = (wc_session cfg \<noteq> None \<or> wc_progress cfg \<noteq> None) in do {
       (e, outs) \<leftarrow> (if usePlugin
          then write_call F c ''lance_dataset_write_with_session''
                 (\<lambda>x. [CArrow x, cURI, cOpts, kv, c_handle sessPtr, CU64 progressHandle])
          else write_call F c ''lance_dataset_write'' (\<lambda>x. [CArrow x, cURI, cOpts, kv]));
       case e of
         Some err \<Rightarrow> ret (Inl (write_error uri (if usePlugin then '' with session'' else '''') (wc_Mode cfg) err))
       | None \<Rightarrow> do { d \<leftarrow> newDataset (as_handle (out_nth outs 0)) ob; ret (Inr d) }
     })"

text \<open>With the progress callback registered for the duration of the rest.\<close>

definition with_plugin :: "'p option \<Rightarrow> (u64 \<Rightarrow> ('n, 'p, 'a) go) \<Rightarrow> ('n, 'p, 'a) go" where
  "with_plugin p body = (case p of
      None \<Rightarrow> body 0
    | Some adapter \<Rightarrow> do { h \<leftarrow> register_plugin adapter; deferring (release_plugin h) (body h) })"

definition with_session :: "session option \<Rightarrow> (nat option \<Rightarrow> ('n, 'p, goerr + 'a) go) \<Rightarrow> ('n, 'p, goerr + 'a) go" where
  "with_session s body = (case s of
      None \<Rightarrow> body None
    | Some se \<Rightarrow> locked (WriteLock (se_h se)) (do {
        p \<leftarrow> reads (handle_ptr (se_h se));
        case p of None \<Rightarrow> ret (Inl session_closed) | Some q \<Rightarrow> body (Some q) }))"

definition Write ::
  "'n lance_ffi \<Rightarrow> otel \<Rightarrow> url_lib \<Rightarrow> ctx \<Rightarrow> string \<Rightarrow> 'p WriteOption list \<Rightarrow> ('n, 'p, goerr + dataset) go" where
  "Write F G L c uri opts =
     (let cfg = apply_opts opts writeConfig0; ob = write_obs G cfg in
      observed ob ''Write'' [datasetURIAttribute L uri, (''lance.write_mode'', AStr (wc_Mode cfg))] (\<lambda>_. []) (do {
        e \<leftarrow> ctx_Err c;
        case e of
          Some err \<Rightarrow> ret (Inl err)
        | None \<Rightarrow>
            with_cString (Text uri) (\<lambda>cURI.
            with_storageKV (wc_storage cfg) (\<lambda>kv.
            with_options (Inr (write_json cfg)) (\<lambda>cOpts.
            with_plugin (wc_progress cfg) (\<lambda>progressHandle.
            with_session (wc_session cfg) (\<lambda>sessPtr.
              write_native F c uri cfg ob cURI kv cOpts sessPtr progressHandle)))))
      }))"

definition Session_Write ::
  "'n lance_ffi \<Rightarrow> otel \<Rightarrow> url_lib \<Rightarrow> session \<Rightarrow> ctx \<Rightarrow> string \<Rightarrow> 'p WriteOption list \<Rightarrow> ('n, 'p, goerr + dataset) go" where
  "Session_Write F G L s c uri opts = Write F G L c uri (opts @ [WithWriteSession (Some s)])"

definition Session_WriteWithProgress ::
  "'n lance_ffi \<Rightarrow> otel \<Rightarrow> url_lib \<Rightarrow> session \<Rightarrow> ctx \<Rightarrow> string \<Rightarrow> 'p option \<Rightarrow> 'p WriteOption list \<Rightarrow> ('n, 'p, goerr + dataset) go" where
  "Session_WriteWithProgress F G L s c uri progress opts =
     Write F G L c uri (opts @ [WithWriteSession (Some s), WithWriteProgress progress])"

definition WriteWithProgress ::
  "'n lance_ffi \<Rightarrow> otel \<Rightarrow> url_lib \<Rightarrow> ctx \<Rightarrow> string \<Rightarrow> 'p option \<Rightarrow> 'p WriteOption list \<Rightarrow> ('n, 'p, goerr + dataset) go" where
  "WriteWithProgress F G L c uri progress opts = Write F G L c uri (opts @ [WithWriteProgress progress])"

section \<open>Basic operations\<close>

definition CountRows :: "'n lance_ffi \<Rightarrow> ctx \<Rightarrow> dataset \<Rightarrow> string \<Rightarrow> ('n, 'p, goerr + u64) go" where
  "CountRows F c d flt =
     datasetOp c d ''Dataset.CountRows'' ''count rows'' (\<lambda>c ptr.
       with_cString (Text flt) (\<lambda>cFilter. do {
         (e, outs) \<leftarrow> call F c ''lance_dataset_count_rows'' [CHandle ptr, cFilter];
         ret (case e of Some err \<Rightarrow> Inl err | None \<Rightarrow> Inr (as_u64 (out_nth outs 0)))
       })) [expressionAttribute ''filter'' flt]"

text \<open>\<^verbatim>\<open>Schema\<close>: the exported C schema is released after the import; \<^verbatim>\<open>imp\<close> is
  \<^verbatim>\<open>cdata.ImportCArrowSchema\<close>.\<close>

definition Dataset_Schema :: "'n lance_ffi \<Rightarrow> ctx \<Rightarrow> dataset \<Rightarrow> (cval \<Rightarrow> goerr + 's) \<Rightarrow> ('n, 'p, goerr + 's) go" where
  "Dataset_Schema F c d imp =
     datasetOp c d ''Dataset.Schema'' ''schema'' (\<lambda>c ptr. do {
       (e, outs) \<leftarrow> call F c ''lance_dataset_schema'' [CHandle ptr];
       ret (case e of
              Some err \<Rightarrow> Inl err
            | None \<Rightarrow> (case imp (out_nth outs 0) of
                Inl err \<Rightarrow> Inl (Wrapf [Lit ''import schema: ''] err []) | Inr s \<Rightarrow> Inr s))
     }) []"

record VersionInfo =
  vi_Version :: u64
  vi_Timestamp :: string
  vi_Metadata :: gomap

definition VersionInfo0 :: VersionInfo where
  "VersionInfo0 = \<lparr>vi_Version = 0, vi_Timestamp = RFC3339Nano \<lparr>unix_sec = -62135596800, nsec = 0\<rparr>, vi_Metadata = []\<rparr>"

definition un_VersionInfo :: "VersionInfo decoder" where
  "un_VersionInfo = un_struct
     [fld ''version'' vi_Version vi_Version_update un_word, fld ''timestamp'' vi_Timestamp vi_Timestamp_update un_time,
      fld ''metadata'' vi_Metadata vi_Metadata_update un_strmap]"

definition Dataset_Version :: "'n lance_ffi \<Rightarrow> ctx \<Rightarrow> dataset \<Rightarrow> ('n, 'p, goerr + VersionInfo) go" where
  "Dataset_Version F c d =
     datasetOp c d ''Dataset.Version'' ''version'' (\<lambda>c ptr.
       json_call F c ''lance_dataset_version'' [CHandle ptr] ''version info'' (\<lambda>j. un_VersionInfo j VersionInfo0)) []"

definition LatestVersion :: "'n lance_ffi \<Rightarrow> ctx \<Rightarrow> dataset \<Rightarrow> ('n, 'p, goerr + u64) go" where
  "LatestVersion F c d =
     datasetOp c d ''Dataset.LatestVersion'' ''latest version'' (\<lambda>c ptr. do {
       (e, outs) \<leftarrow> call F c ''lance_dataset_latest_version'' [CHandle ptr];
       ret (case e of Some err \<Rightarrow> Inl err | None \<Rightarrow> Inr (as_u64 (out_nth outs 0)))
     }) []"

definition AddBases :: "'n lance_ffi \<Rightarrow> ctx \<Rightarrow> dataset \<Rightarrow> BasePath list option \<Rightarrow> gomap option \<Rightarrow> ('n, 'p, goerr option) go" where
  "AddBases F c d bases properties =
     datasetDo c d ''Dataset.AddBases'' ''add bases'' (\<lambda>c ptr.
       with_cString (Json (json_slice base_path_json bases)) (\<lambda>cBases.
         let rest = (\<lambda>cProps. do { (e, outs) \<leftarrow> call F c ''lance_dataset_add_bases'' [CHandle ptr, cBases, cProps]; ret e })
         in (case properties of
               None \<Rightarrow> rest CNull
             | Some props \<Rightarrow> with_cString (Json (json_map props)) rest))) []"

section \<open>Balance\<close>

lemma keeps_new_handle: "separate f \<Longrightarrow> (\<And>w v. f (w\<lparr>handles := v\<rparr>) = f w) \<Longrightarrow> keeps f (new_handle p)"
  by (simp add: keeps_def separate_def new_handle_def)

lemma keeps_newDataset [keeps_rules]:
  "keeps c_mem (newDataset p ob)" "keeps held (newDataset p ob)" "keeps exported (newDataset p ob)"
  "keeps plugins (newDataset p ob)" "keeps closed (newDataset p ob)"
  unfolding newDataset_def by (auto intro!: keeps_rules keeps_new_handle simp: c_mem_def)

lemma keeps_telemetry_handles [keeps_rules]:
  "keeps telemetry (newDataset p ob)" "keeps telemetry (handle_close h)" "keeps telemetry (Dataset_Close d)"
  "keeps telemetry (register_plugin q)" "keeps telemetry (release_plugin k)"
proof -
  show "keeps telemetry (newDataset p ob)"
    unfolding newDataset_def by (auto intro!: keeps_rules keeps_new_handle)
  show c: "keeps telemetry (handle_close h)" for h
    unfolding handle_close_def close_native_def by (auto intro!: keeps_rules keeps_modify)
  show "keeps telemetry (Dataset_Close d)"
    unfolding Dataset_Close_def by (auto intro!: keeps_rules c)
  show "keeps telemetry (register_plugin q)" "keeps telemetry (release_plugin k)"
    by (simp_all add: keeps_def register_plugin_def release_plugin_def split_beta Let_def)
qed

lemma keeps_handle_close [keeps_rules]:
  "keeps c_mem (handle_close h)" "keeps held (handle_close h)" "keeps exported (handle_close h)" "keeps plugins (handle_close h)"
  unfolding handle_close_def close_native_def by (auto intro!: keeps_rules keeps_modify simp: c_mem_def)

lemma keeps_register_plugin [keeps_rules]:
  "keeps c_mem (register_plugin p)" "keeps held (register_plugin p)" "keeps exported (register_plugin p)"
  "keeps handles (register_plugin p)" "keeps closed (register_plugin p)"
  by (simp_all add: keeps_def register_plugin_def c_mem_def split_beta Let_def)

lemma keeps_release_plugin [keeps_rules]:
  "keeps c_mem (release_plugin h)" "keeps held (release_plugin h)" "keeps exported (release_plugin h)"
  "keeps handles (release_plugin h)" "keeps closed (release_plugin h)"
  by (simp_all add: keeps_def release_plugin_def c_mem_def)

lemma keeps_Dataset_Close [keeps_rules]:
  "keeps c_mem (Dataset_Close d)" "keeps held (Dataset_Close d)" "keeps exported (Dataset_Close d)" "keeps plugins (Dataset_Close d)"
  unfolding Dataset_Close_def by (auto intro!: keeps_rules)

lemma keeps_open_native [keeps_rules]:
  "keeps c_mem (open_native F c uri cfg ob a b o')" "keeps held (open_native F c uri cfg ob a b o')"
  "keeps exported (open_native F c uri cfg ob a b o')"
  unfolding open_native_def openWithSession_def wrapObjectStoreCache_def
  by (auto intro!: keeps_rules)

lemma keeps_Open [keeps_rules]:
  "keeps c_mem (Open F G L c uri opts)" "keeps held (Open F G L c uri opts)" "keeps exported (Open F G L c uri opts)"
  unfolding Open_def Let_def by (auto intro!: keeps_rules)

lemma keeps_with_plugin [keeps_rules]:
  "(\<And>h. keeps c_mem (body h)) \<Longrightarrow> keeps c_mem (with_plugin p body)"
  "(\<And>h. keeps held (body h)) \<Longrightarrow> keeps held (with_plugin p body)"
  unfolding with_plugin_def by (cases p; auto intro!: keeps_rules)+

lemma keeps_with_session [keeps_rules]:
  "(\<And>h. keeps c_mem (body h)) \<Longrightarrow> keeps c_mem (with_session p body)"
  "(\<And>h. keeps held (body h)) \<Longrightarrow> keeps held (with_session p body)"
  unfolding with_session_def by (cases p; auto intro!: keeps_rules)+

lemma keeps_write_native [keeps_rules]:
  "keeps c_mem (write_native F c uri cfg ob a b o' s h)" "keeps held (write_native F c uri cfg ob a b o' s h)"
  "keeps plugins (write_native F c uri cfg ob a b o' s h)"
  unfolding write_native_def Let_def by (auto intro!: keeps_rules)

lemma keeps_Write [keeps_rules]:
  "keeps c_mem (Write F G L c uri opts)" "keeps held (Write F G L c uri opts)"
  unfolding Write_def Let_def by (auto intro!: keeps_rules)

section \<open>Ownership of exported streams\<close>

lemma ends_with_plugin:
  "keeps f (register_plugin (the p)) \<Longrightarrow> (\<And>h. keeps f (release_plugin h)) \<Longrightarrow> (\<And>h. ends f Q (body h)) \<Longrightarrow>
     ends f Q (with_plugin p body)"
  unfolding with_plugin_def by (cases p) (auto intro!: ends_rules)

lemma ends_with_session [ends_rules]:
  "lock_separate f \<Longrightarrow> (\<And>x e. Q x (Inl e) x) \<Longrightarrow> (\<And>h. ends f Q (body h)) \<Longrightarrow> ends f Q (with_session p body)"
  unfolding with_session_def by (auto intro!: ends_rules keeps_rules)

lemma handed_write_native [ends_rules]:
  "ends exported (handed_over (Suc 0)) (write_native F c uri cfg ob a b o' s h)"
proof -
  have ok: "keeps exported (do { d \<leftarrow> newDataset p ob; ret (Inr d) :: ('n, 'p, goerr + dataset) go })" for p
    by (auto intro!: keeps_rules)
  show ?thesis
    unfolding write_native_def Let_def if_distrib [of "\<lambda>m. State_Monad.bind m _"]
    by (auto intro!: handed_write_call ok simp: write_error_def)
qed

lemma handed_Write [ends_rules]: "ends exported (handed_over (Suc 0)) (Write F G L c uri opts)"
  unfolding Write_def Let_def by (auto intro!: ends_rules keeps_rules ends_with_plugin)

section \<open>Plugins registered for one call\<close>

text \<open>What a handle resolves to is as before, while the registry has room.\<close>

definition same_lookups :: "'p registry \<Rightarrow> 'r \<Rightarrow> 'p registry \<Rightarrow> bool" where
  "same_lookups r1 x r2 = (registry_inv r1 \<longrightarrow> registry_room r1 \<longrightarrow> (\<forall>k. lookupPlugin k r2 = lookupPlugin k r1))"

lemma same_lookups_refl [simp]: "same_lookups r x r"
  by (simp add: same_lookups_def)

lemma with_plugin_lookups [ends_rules]:
  assumes "\<And>h. keeps plugins (body h)"
  shows "ends plugins same_lookups (with_plugin p body)"
proof (cases p)
  case None
  with assms have "keeps plugins (with_plugin p body)"
    by (simp add: with_plugin_def)
  then show ?thesis
    by (simp add: ends_def keeps_def)
next
  case (Some q)
  have body: "plugins (snd (run_state (body h) v)) = plugins v" for h v
    using assms by (simp add: keeps_def)
  show ?thesis
    unfolding ends_def same_lookups_def Some
    using reg.scoped_registration
    by (auto simp: with_plugin_def register_plugin_def release_plugin_def body split_beta)
qed

lemma lookups_Write: "ends plugins same_lookups (Write F G L c uri opts)"
  unfolding Write_def Let_def with_session_def
  by (auto intro!: ends_rules keeps_rules)

section \<open>Specifications of the scoped registrations\<close>

lemma meets_with_plugin: "(\<And>h. meets v (body h) Q) \<Longrightarrow> meets v (with_plugin p body) Q"
  unfolding with_plugin_def
  by (cases p) (auto intro!: meets_before meets_deferring simp: keeps_def register_plugin_def release_plugin_def split_beta Let_def)

lemma meets_with_session:
  "(p = None \<Longrightarrow> meets v (body None) Q) \<Longrightarrow>
   (\<And>s. p = Some s \<Longrightarrow> \<exists>q. view_ptr (se_h s) v = Some q \<and> meets v (body (Some q)) Q) \<Longrightarrow> meets v (with_session p body) Q"
  unfolding with_session_def
  by (cases p) (auto intro!: meets_rules)

section \<open>Properties\<close>

text \<open>C8: \<^verbatim>\<open>Write\<close> is balanced on every path. Whatever the options and whatever the native
  library answers, \<^verbatim>\<open>Write\<close> frees exactly the C memory it allocated, releases the session lock,
  leaves every plugin handle resolving to what it did before (the progress callback is
  unregistered), and the exported stream has been handed over to the native side, except
  when the call was rejected before it ran: then exactly one stream is outstanding.\<close>

theorem write_balanced:
  assumes "registry_inv (plugins w)" and "registry_room (plugins w)"
    and "run_state (Write F G L c uri opts) w = (r, w')"
  shows "c_mem w' = c_mem w \<and> held w' = held w \<and>
    (\<forall>k. lookupPlugin k (plugins w') = lookupPlugin k (plugins w)) \<and>
    (exported w' = exported w \<or> (\<exists>e x. r = Inl e \<and> rejection e \<and> exported w' = x # exported w))"
proof -
  have "handed_over (Suc 0) (exported w) r (exported w')"
    using handed_Write assms(3) by (rule endsD)
  moreover have "same_lookups (plugins w) r (plugins w')"
    using lookups_Write assms(3) by (rule endsD)
  ultimately show ?thesis
    using keepsD [OF keeps_Write(1) assms(3)] keepsD [OF keeps_Write(2) assms(3)] assms(1,2)
    by (cases r) (auto simp: handed_over_def handed_def same_lookups_def length_Suc_conv)
qed

definition otel0 :: otel where
  "otel0 = \<lparr>GetTracerProvider = 0, GetMeterProvider = 0, GetLoggerProvider = 0, debug_logging = (\<lambda>_. False)\<rparr>"

definition reentrant_ffi :: "nat lance_ffi" where
  "reentrant_ffi = ffi0\<lparr>lance_in_tokio_runtime := (\<lambda>_. 1)\<rparr>"

theorem write_balanced_witness:
  "\<exists>r w'. run_state (Write ffi0 otel0 url_lib0 background ''mem'' [WithWriteProgress (Some True)]) world0 = (r, w') \<and>
     c_mem w' = ([], False) \<and> held w' = [] \<and> lookupPlugin 1 (plugins w') = None"
proof -
  obtain r w' where run: "run_state (Write ffi0 otel0 url_lib0 background ''mem'' [WithWriteProgress (Some True)]) world0 = (r, w')"
    by fastforce
  have "registry_inv (plugins world0)" "registry_room (plugins world0)"
    by (simp_all add: world0_def registry_inv_def registry_room_def pluginRegistry_def)
  from write_balanced [OF this run] run show ?thesis
    by (auto simp: world0_def c_mem_def lookupPlugin_def pluginRegistry_def)
qed

text \<open>C26: the rejected case does happen, for every \<^verbatim>\<open>Write\<close> from inside a native callback. Whatever the
  URI, the options and the native library, with a context that is not done and a session, if one
  is given, that is open, a \<^verbatim>\<open>Write\<close> on a thread of the native runtime returns \<^verbatim>\<open>ErrReentrantCall\<close>
  without a native call, and the stream it exported is still outstanding: nobody releases it,
  although the code counts on the native side to take it over even on errors.\<close>

theorem write_reentrant_leak:
  assumes "lance_in_tokio_runtime F (native w) \<noteq> 0" and "never_done c"
    and "\<forall>s. wc_session (apply_opts opts writeConfig0) = Some s \<longrightarrow> handle_ptr (se_h s) w \<noteq> None"
    and "run_state (Write F G L c uri opts) w = (r, w')"
  shows "\<exists>e x. r = Inl e \<and> errors_is e (SentinelErr ErrReentrantCall) \<and> native w' = native w \<and>
    exported w' = x # exported w"
proof -
  let ?v = "view w"
  have v: "lance_in_tokio_runtime F (fst ?v) \<noteq> 0" using assms(1) by simp
  have "meets ?v (Write F G L c uri opts) (\<lambda>r u. \<exists>e x. r = Inl e \<and> errors_is e (SentinelErr ErrReentrantCall) \<and>
      fst u = fst ?v \<and> snd (snd u) = x # snd (snd ?v))"
    unfolding Write_def Let_def write_native_def if_distrib [of "\<lambda>m. State_Monad.bind m _"]
    using assms(2,3) v
    by (auto intro!: meets_rules meets_with_plugin meets_with_session meets_write_call_rejected simp: write_error_def)
  from meetsD [OF this refl assms(4)] show ?thesis
    by simp
qed

theorem write_reentrant_leak_witness:
  "\<exists>e x w'. run_state (Write reentrant_ffi otel0 url_lib0 background ''mem'' [WithMaxRowsPerFile 5]) world0 = (Inl e, w') \<and>
     errors_is e (SentinelErr ErrReentrantCall) \<and> exported w' = [x]"
proof -
  obtain r w' where run: "run_state (Write reentrant_ffi otel0 url_lib0 background ''mem'' [WithMaxRowsPerFile 5]) world0 = (r, w')"
    by fastforce
  have "lance_in_tokio_runtime reentrant_ffi (native world0) \<noteq> 0" "never_done background"
    by (simp_all add: reentrant_ffi_def never_done_def background_def)
  from write_reentrant_leak [OF this _ run] run show ?thesis
    by (auto simp: world0_def WithMaxRowsPerFile_def writeConfig0_def)
qed

text \<open>A failed cache wrapping leaves nothing behind. When \<^verbatim>\<open>wrapObjectStoreCache\<close> fails,
  the dataset it was given is closed: its native handle, if it still had one, was
  closed exactly once and its cleanup is disarmed; and the plugin registered for the
  wrapping is released, so that every handle resolves to what it did before.\<close>

theorem wrap_cache_failure:
  assumes "registry_inv (plugins w)" and "registry_room (plugins w)"
    and "run_state (wrapObjectStoreCache F ds cache ob uri) w = (Inl e, w')"
  shows "handle_ptr (ds_h ds) w' = None \<and>
    closed w' = closed w @ (case handle_ptr (ds_h ds) w of None \<Rightarrow> [] | Some p \<Rightarrow> [p]) \<and>
    (handle_ptr (ds_h ds) w \<noteq> None \<longrightarrow> handles w' (ds_h ds) = Some \<lparr>h_ptr = None, h_cleanup = None\<rparr>) \<and>
    (\<forall>k. lookupPlugin k (plugins w') = lookupPlugin k (plugins w)) \<and> c_mem w' = c_mem w \<and> held w' = held w"
proof -
  obtain h r1 where reg: "register_locked cache (plugins w) = (h, r1)" by fastforce
  let ?args = "[c_handle (handle_ptr (ds_h ds) w), CU64 h]"
  obtain ce outs w2 where call: "run_state (call F background ''lance_dataset_wrap_object_store_cache'' ?args) (w\<lparr>plugins := r1\<rparr>) = ((ce, outs), w2)"
    by (metis surj_pair)
  have keep: "plugins w2 = r1" "handles w2 = handles w" "closed w2 = closed w" "c_mem w2 = c_mem w" "held w2 = held w"
    using keepsD [OF keeps_call call, of plugins] keepsD [OF keeps_call call, of handles]
      keepsD [OF keeps_call call, of closed] keepsD [OF keeps_call call, of c_mem] keepsD [OF keeps_call call, of held]
    by (simp_all add: c_mem_def)
  have hp: "handle_ptr (ds_h ds) (w\<lparr>plugins := r1\<rparr>) = handle_ptr (ds_h ds) w"
      "handle_ptr (ds_h ds) (w2\<lparr>held := v\<rparr>) = handle_ptr (ds_h ds) w" for v
    by (simp_all add: handle_ptr_def keep)
  define w3 where "w3 = snd (run_state (Dataset_Close ds) w2)"
  have close: "handle_ptr (ds_h ds) w3 = None" "plugins w3 = r1" "c_mem w3 = c_mem w" "held w3 = held w"
      "closed w3 = closed w @ (case handle_ptr (ds_h ds) w of None \<Rightarrow> [] | Some p \<Rightarrow> [p])"
      "handle_ptr (ds_h ds) w \<noteq> None \<Longrightarrow> handles w3 (ds_h ds) = Some \<lparr>h_ptr = None, h_cleanup = None\<rparr>"
    using hp(2) keep
    by (cases "handle_ptr (ds_h ds) w"; auto simp: w3_def Dataset_Close_def run_locked handle_close_def close_native_def handle_ptr_def c_mem_def)+
  have "ce \<noteq> None" and w': "w' = w3\<lparr>plugins := releasePlugin h r1\<rparr>"
    using assms(3) reg call close(2)
    by (auto simp: wrapObjectStoreCache_def register_plugin_def release_plugin_def hp w3_def newDataset_def new_handle_def
        split: option.splits prod.splits)
  have lk: "lookupPlugin k (releasePlugin h r1) = lookupPlugin k (plugins w)" for k
    using reg.scoped_registration [OF assms(1,2), of k cache] reg by simp
  have "handle_ptr (ds_h ds) w' = None"
    using close(1) by (simp add: w' handle_ptr_def)
  with close(3-) lk show ?thesis
    by (auto simp: w' c_mem_def)
qed

theorem wrap_cache_failure_witness:
  "\<exists>e w'. run_state (wrapObjectStoreCache reentrant_ffi \<lparr>ds_h = 4, ds_obs = None\<rparr> True None ''mem'')
      (world0\<lparr>handles := [4 \<mapsto> \<lparr>h_ptr = Some 9, h_cleanup = Some 9\<rparr>]\<rparr>) = (Inl e, w') \<and>
     closed w' = [9] \<and> handle_ptr 4 w' = None \<and> lookupPlugin 1 (plugins w') = None"
proof -
  let ?ds = "\<lparr>ds_h = 4, ds_obs = None\<rparr>"
  let ?w = "world0\<lparr>handles := [4 \<mapsto> \<lparr>h_ptr = Some 9, h_cleanup = Some 9\<rparr>]\<rparr>"
  have rej: "\<not> ffi_admits reentrant_ffi background w" for w :: "(nat, bool) world"
    by (simp add: ffi_admits_def reentrant_ffi_def)
  have tok: "lance_in_tokio_runtime reentrant_ffi n = 1" for n
    by (simp add: reentrant_ffi_def)
  have "\<exists>e. fst (run_state (wrapObjectStoreCache reentrant_ffi ?ds True None ''mem'') ?w) = Inl e"
    by (simp add: wrapObjectStoreCache_def call_def run_ffiCall_rejected [OF rej] tok split_beta)
  then obtain e w' where run: "run_state (wrapObjectStoreCache reentrant_ffi ?ds True None ''mem'') ?w = (Inl e, w')"
    by (metis prod.collapse)
  have "registry_inv (plugins ?w)" "registry_room (plugins ?w)"
    by (simp_all add: world0_def registry_inv_def registry_room_def pluginRegistry_def)
  from wrap_cache_failure [OF this run] run show ?thesis
    by (auto simp: world0_def handle_ptr_def lookupPlugin_def pluginRegistry_def)
qed

text \<open>The options that the package offers, and what any sequence of them leaves in the
  configuration.\<close>

definition open_options :: "'p OpenOption set" where
  "open_options = range WithStorageOptions \<union> range WithVersion \<union> range WithTag \<union> range WithBranch \<union>
     range WithObservability \<union> range WithSession \<union> range WithObjectStoreCache"

lemmas open_option_defs = WithStorageOptions_def WithVersion_def WithTag_def WithBranch_def
  WithObservability_def WithSession_def WithObjectStoreCache_def

definition selectors_set :: "'p openConfig \<Rightarrow> bool" where
  "selectors_set cfg = ((oc_Tag cfg \<noteq> [] \<longrightarrow> oc_tagSet cfg) \<and> (oc_Branch cfg \<noteq> [] \<longrightarrow> oc_branchSet cfg))"

lemma selectors_set_apply:
  "set opts \<subseteq> open_options \<Longrightarrow> selectors_set cfg \<Longrightarrow> selectors_set (apply_opts opts cfg)"
proof (induction opts arbitrary: cfg)
  case (Cons opt opts)
  then have "selectors_set (opt cfg)"
    by (auto simp: open_options_def selectors_set_def open_option_defs)
  with Cons show ?case by simp
qed simp

text \<open>The document that names the selected version, and the native call that \<^verbatim>\<open>Open\<close> has to make.\<close>

definition selected :: "'p openConfig \<Rightarrow> json" where
  "selected cfg = JObj (if oc_tagSet cfg then [(''tag'', JStr (oc_Tag cfg))]
     else (case oc_Version cfg of None \<Rightarrow> [] | Some v \<Rightarrow> [(''version'', JInt (uint v))]) @
          (if oc_branchSet cfg then [(''branch'', JStr (oc_Branch cfg))] else []))"

definition open_call ::
  "'n lance_ffi \<Rightarrow> string \<Rightarrow> 'p openConfig \<Rightarrow> json \<Rightarrow> ('n, 'p) world \<Rightarrow> (int \<times> cval list) \<times> 'n" where
  "open_call F uri cfg doc w =
     (let args = [text_arg (Text uri), kv_arg (oc_storage cfg), CText (Json doc)] in
      case oc_session cfg of
        None \<Rightarrow> ccall F ''lance_dataset_open'' args (native w)
      | Some s \<Rightarrow> ccall F ''lance_dataset_open_with_session'' (args @ [c_handle (handle_ptr (se_h s) w)]) (native w))"

definition reaches_native :: "'n lance_ffi \<Rightarrow> ctx \<Rightarrow> session option \<Rightarrow> ('n, 'p) world \<Rightarrow> bool" where
  "reaches_native F c s w =
     (never_done c \<and> lance_in_tokio_runtime F (native w) = 0 \<and> (case s of None \<Rightarrow> True | Some se \<Rightarrow> handle_ptr (se_h se) w \<noteq> None))"

text \<open>What the native library has seen after \<^verbatim>\<open>Open\<close>, when the open call left it in state \<^verbatim>\<open>n\<close>.\<close>

definition opened :: "'n lance_ffi \<Rightarrow> 'p openConfig \<Rightarrow> int \<Rightarrow> 'n \<Rightarrow> goerr + dataset \<Rightarrow> 'n \<Rightarrow> bool" where
  "opened F cfg rc n r n' =
     ((rc \<noteq> ERROR_CODE_OK \<longrightarrow> isl r) \<and>
      (n' = n \<or> rc = ERROR_CODE_OK \<and> oc_objectStoreCache cfg \<noteq> None \<and>
         (\<exists>p h. n' = snd (ccall F ''lance_dataset_wrap_object_store_cache'' [p, CU64 h] n))))"

lemma meets_wrapObjectStoreCache:
  "meets v (wrapObjectStoreCache F ds cache ob uri) (\<lambda>r u. fst u = fst v \<or>
     (\<exists>p h. fst u = snd (ccall F ''lance_dataset_wrap_object_store_cache'' [p, CU64 h] (fst v))))"
proof -
  have after: "keeps native (Dataset_Close d :: ('a, 'b, unit) go)" "keeps native (release_plugin h :: ('a, 'b, unit) go)"
      "keeps native (newDataset p ob :: ('a, 'b, dataset) go)" for d h p
    by (simp_all add: keeps_def Dataset_Close_def run_locked handle_close_def close_native_def release_plugin_def
        newDataset_def new_handle_def split_beta split: option.split)
  have call: "native (snd (run_state (call F background f args) w)) \<in> {native w, snd (ccall F f args (native w))}" for f args
    and w :: "('a, 'b) world"
    by (cases "ffi_admits F background w")
      (auto simp: call_def run_ffiCall_admitted run_ffiCall_rejected run_ffi_result ffi_entry_def background_def split_beta)
  have reg: "native (snd (run_state (register_plugin q) w)) = native w" for q and w :: "('a, 'b) world"
    by (simp add: register_plugin_def split_beta Let_def)
  have run: "native (snd (run_state (wrapObjectStoreCache F ds cache ob uri) w)) \<in>
      {native w} \<union> {snd (ccall F ''lance_dataset_wrap_object_store_cache'' [p, CU64 h] (native w)) | p h. True}"
    for w :: "('a, 'b) world"
  proof -
    obtain h w1 where r: "run_state (register_plugin cache) w = (h, w1)" "native w1 = native w"
      using reg [of cache w] by (metis prod.collapse)
    define p where "p = c_handle (handle_ptr (ds_h ds) w1)"
    obtain e out w2 where c: "run_state (call F background ''lance_dataset_wrap_object_store_cache'' [p, CU64 h]) w1 = ((e, out), w2)"
      by (metis surj_pair)
    have "native (snd (run_state (wrapObjectStoreCache F ds cache ob uri) w)) = native w2"
      using r(1) c after by (simp add: wrapObjectStoreCache_def p_def keeps_def split_beta split: option.split)
    then show ?thesis
      using call [of "''lance_dataset_wrap_object_store_cache''" "[p, CU64 h]" w1] c r(2) by auto
  qed
  show ?thesis
    using run by (fastforce simp: meets_def)
qed

lemma meets_open_native:
  assumes "reaches_native F c (oc_session cfg) w" and "open_call F uri cfg doc w = ((rc, out), n)"
  shows "meets (view w) (open_native F c uri cfg ob (text_arg (Text uri)) (kv_arg (oc_storage cfg)) (CText (Json doc)))
    (\<lambda>r u. opened F cfg rc n r (fst u))"
proof -
  have "meets (view w) (case oc_session cfg of
        Some s \<Rightarrow> openWithSession F c s uri (text_arg (Text uri)) (kv_arg (oc_storage cfg)) (CText (Json doc))
      | None \<Rightarrow> do {
          (e, outs) \<leftarrow> call F c ''lance_dataset_open'' [text_arg (Text uri), kv_arg (oc_storage cfg), CText (Json doc)];
          ret (case e of Some err \<Rightarrow> Inl (open_error uri '''' err) | None \<Rightarrow> Inr (as_handle (out_nth outs 0)))
        }) (\<lambda>r u. (rc \<noteq> ERROR_CODE_OK \<longleftrightarrow> isl r) \<and> fst u = n)"
    using assms
    by (cases "oc_session cfg")
      (auto simp: reaches_native_def open_call_def openWithSession_def
        intro!: meets_locked meets_handle meets_call meets_ret split: option.split)
  then show ?thesis
    unfolding open_native_def
  proof (rule meets_bind)
    fix r :: "goerr + nat option" and u :: "'a view"
    assume r: "(rc \<noteq> ERROR_CODE_OK \<longleftrightarrow> isl r) \<and> fst u = n"
    have wrap: "meets v (wrapObjectStoreCache F ds cache ob uri) (\<lambda>r u. fst u = n \<or>
        (\<exists>p h. fst u = snd (ccall F ''lance_dataset_wrap_object_store_cache'' [p, CU64 h] n)))"
      if "fst v = n" for v ds cache
      using meets_wrapObjectStoreCache [of v] that by simp
    show "meets u (case r of Inl err \<Rightarrow> ret (Inl err)
        | Inr ptr \<Rightarrow> do { ds \<leftarrow> newDataset ptr ob;
            case oc_objectStoreCache cfg of None \<Rightarrow> ret (Inr ds) | Some cache \<Rightarrow> wrapObjectStoreCache F ds cache ob uri })
        (\<lambda>r u. opened F cfg rc n r (fst u))"
      using r by (cases r) (auto simp: opened_def intro!: meets_newDataset meets_ret meets_mono [OF wrap] split: option.split)
  qed
qed

text \<open>C27: \<^verbatim>\<open>Open\<close> never reads a version that was not asked for. For every sequence of the
  package's options, an empty tag or branch and a tag combined with a version or a branch
  are refused with \<^verbatim>\<open>ErrInvalidArgument\<close> before any effect. Otherwise, when the call is admitted (the
  context is not done, the thread is not inside the native runtime, a given session is open), the
  native library receives the URI, the storage options and a document with the tag alone, or with
  the version and the branch that were set; it receives no other call, except the wrapping of
  the object-store cache when one was asked for and the open succeeded, and a failed native call
  is an error.\<close>

theorem open_selects_one:
  assumes "set opts \<subseteq> open_options" and "cfg = apply_opts opts openConfig0"
    and "run_state (Open F G L c uri opts) w = (r, w')"
  shows "if (oc_tagSet cfg \<and> (oc_Tag cfg = [] \<or> oc_Version cfg \<noteq> None \<or> oc_branchSet cfg)) \<or> (oc_branchSet cfg \<and> oc_Branch cfg = [])
    then w' = w \<and> (\<exists>e. r = Inl e \<and> errors_is e (SentinelErr ErrInvalidArgument))
    else reaches_native F c (oc_session cfg) w \<longrightarrow>
      (case open_call F uri cfg (selected cfg) w of ((rc, out), n) \<Rightarrow> opened F cfg rc n r (native w'))"
proof (cases "open_validate cfg")
  case None
  have "selectors_set cfg"
    unfolding assms(2) using assms(1)
    by (rule selectors_set_apply) (simp add: selectors_set_def openConfig0_def)
  with None have doc: "open_json cfg = selected cfg"
    by (auto simp: open_json_def selected_def selectors_set_def open_validate_def omit_defs split: if_splits option.splits)
  have "opened F cfg rc n r (native w')"
    if reach: "reaches_native F c (oc_session cfg) w" and oc: "open_call F uri cfg (selected cfg) w = ((rc, out), n)" for rc out n
  proof -
    have "never_done c" using reach by (simp add: reaches_native_def)
    then have "meets (view w) (Open F G L c uri opts) (\<lambda>r u. opened F cfg rc n r (fst u))"
      using None doc meets_open_native [OF reach oc]
      by (auto simp: Open_def Let_def assms(2) [symmetric] intro!: meets_rules)
    from meetsD [OF this refl assms(3)] show ?thesis by simp
  qed
  with None show ?thesis
    by (auto simp: open_validate_def split: if_splits)
next
  case (Some e)
  then have "r = Inl e" "w' = w"
    using assms(3) by (auto simp: Open_def Let_def assms(2) [symmetric])
  with Some show ?thesis
    by (auto simp: open_validate_def split: if_splits)
qed

theorem open_selects_one_witness:
  "native (snd (run_state (Open (log_ffi [CHandle 7]) otel0 url_lib0 background ''mem'' [WithVersion 3, WithBranch ''dev''])
      (log_world (\<lambda>_. None)))) =
     [(''lance_dataset_open'', [CText (Text ''mem''), CNull,
        CText (Json (JObj [(''version'', JInt 3), (''branch'', JStr ''dev'')]))])] \<and>
   (\<exists>e. run_state (Open ffi0 otel0 url_lib0 background ''mem'' [WithTag ''v1'', WithVersion 3]) world0 = (Inl e, world0) \<and>
     errors_is e (SentinelErr ErrInvalidArgument))"
proof
  have "set [WithVersion 3, WithBranch ''dev''] \<subseteq> (open_options :: bool OpenOption set)"
    by (simp add: open_options_def)
  from open_selects_one [OF this refl surjective_pairing, of "log_ffi [CHandle 7]" otel0 url_lib0 background "''mem''" "log_world (\<lambda>_. None)"]
  show "native (snd (run_state (Open (log_ffi [CHandle 7]) otel0 url_lib0 background ''mem'' [WithVersion 3, WithBranch ''dev''])
      (log_world (\<lambda>_. None)))) =
     [(''lance_dataset_open'', [CText (Text ''mem''), CNull,
        CText (Json (JObj [(''version'', JInt 3), (''branch'', JStr ''dev'')]))])]"
    by (simp add: WithVersion_def WithBranch_def openConfig0_def reaches_native_def open_call_def selected_def opened_def
        text_arg_def kv_arg_def)
next
  have "set [WithTag ''v1'', WithVersion 3] \<subseteq> (open_options :: bool OpenOption set)"
    by (simp add: open_options_def)
  from open_selects_one [OF this refl surjective_pairing, of ffi0 otel0 url_lib0 background "''mem''" world0]
  show "\<exists>e. run_state (Open ffi0 otel0 url_lib0 background ''mem'' [WithTag ''v1'', WithVersion 3]) world0 = (Inl e, world0) \<and>
     errors_is e (SentinelErr ErrInvalidArgument)"
    by (auto simp: WithTag_def WithVersion_def openConfig0_def prod_eq_iff)
qed

section \<open>Telemetry of Open and Write\<close>

lemma observed_telemetry:
  assumes "keeps telemetry body"
  shows "telemetry (snd (run_state (observed ob name attrs (\<lambda>_. []) body) w)) =
    telemetry w @ start_events ob name attrs @ end_events ob name (err_of (fst (run_state (observed ob name attrs (\<lambda>_. []) body) w))) []"
  using assms by (simp add: run_observed keeps_def split_beta)

lemma Open_telemetry:
  "telemetry (snd (run_state (Open F G L c uri opts) w)) =
     (let cfg = apply_opts opts openConfig0; ob = open_obs G cfg in
      if open_validate cfg = None
      then telemetry w @ start_events ob ''Open'' [datasetURIAttribute L uri] @
             end_events ob ''Open'' (err_of (fst (run_state (Open F G L c uri opts) w))) []
      else telemetry w)"
  unfolding Open_def Let_def open_native_def openWithSession_def wrapObjectStoreCache_def
  by (cases "open_validate (apply_opts opts openConfig0)")
    (simp, rule observed_telemetry, auto intro!: keeps_rules)

lemma Write_telemetry:
  "telemetry (snd (run_state (Write F G L c uri opts) w)) =
     (let cfg = apply_opts opts writeConfig0; ob = write_obs G cfg in
      telemetry w @ start_events ob ''Write'' [datasetURIAttribute L uri, (''lance.write_mode'', AStr (wc_Mode cfg))] @
        end_events ob ''Write'' (err_of (fst (run_state (Write F G L c uri opts) w))) [])"
  unfolding Write_def Let_def write_native_def with_plugin_def with_session_def
  by (rule observed_telemetry) (auto intro!: keeps_rules)

lemma end_events_outcome:
  assumes "isl r1 = isl r2"
  shows "if isl r1 then shown (end_events ob op (err_of r1) ex) = shown (end_events ob op (err_of r2) ex)
    else end_events ob op (err_of r1) ex = end_events ob op (err_of r2) ex"
  using assms end_events_shown by (cases r1; cases r2) auto

text \<open>C22: dataset URIs are sanitized in the telemetry of \<^verbatim>\<open>Open\<close> and \<^verbatim>\<open>Write\<close>, except in the errors. For two
  URIs that differ only in user info, query and fragment (or in the opaque part), two runs with the
  same outcome emit the same events: all of them when the calls succeed, and all but the two that
  carry the error when they fail. (The error itself is recorded as it is, and its text quotes the
  URI that was passed.)\<close>

theorem uri_secrets_redacted:
  assumes "url_Parse L uri1 = Inr u" and "url_Parse L uri2 = Inr v" and "same_location u v"
    and "f = (\<lambda>uri. Open F G L c uri oopts) \<or> f = (\<lambda>uri. Write F G L c uri wopts)"
    and "run_state (f uri1) w = (r1, w1)" and "run_state (f uri2) w = (r2, w2)" and "isl r1 = isl r2"
  shows "if isl r1 then shown (telemetry w1) = shown (telemetry w2) else telemetry w1 = telemetry w2"
proof -
  have attr: "datasetURIAttribute L uri1 = datasetURIAttribute L uri2"
    using assms(1-3) by (rule datasetURIAttribute_location)
  from assms(4) show ?thesis
  proof
    assume "f = (\<lambda>uri. Open F G L c uri oopts)"
    with assms(5-7) attr end_events_outcome [OF assms(7)] show ?thesis
      using Open_telemetry [of F G L c uri1 oopts w] Open_telemetry [of F G L c uri2 oopts w]
      by (auto simp: Let_def split: if_splits)
  next
    assume "f = (\<lambda>uri. Write F G L c uri wopts)"
    with assms(5-7) attr end_events_outcome [OF assms(7)] show ?thesis
      using Write_telemetry [of F G L c uri1 wopts w] Write_telemetry [of F G L c uri2 wopts w]
      by (auto simp: Let_def split: if_splits)
  qed
qed

theorem uri_secrets_redacted_witness:
  "shown (telemetry (snd (run_state (Write ffi0 otel0 url_lib0 \<lparr>ctx_cancellable = True, ctx_err_at = (\<lambda>_. Some Canceled)\<rparr> ''alice:pw'' []) world0))) =
     shown (telemetry (snd (run_state (Write ffi0 otel0 url_lib0 \<lparr>ctx_cancellable = True, ctx_err_at = (\<lambda>_. Some Canceled)\<rparr> ''bob:token'' []) world0))) \<and>
   sanitizeDatasetURI url_lib0 ''alice:pw'' = ''s3://bucket/t''"
proof
  let ?f = "\<lambda>uri. Write ffi0 otel0 url_lib0 \<lparr>ctx_cancellable = True, ctx_err_at = (\<lambda>_. Some Canceled)\<rparr> uri []"
  have fails: "isl (fst (run_state (?f uri) world0))" for uri
    by (simp add: Write_def Let_def run_observed)
  have "same_location (url0 ''alice:pw'') (url0 ''bob:token'')"
    by (simp add: same_location_def url0_def)
  moreover have "url_Parse url_lib0 s = Inr (url0 s)" for s
    by (simp add: url_lib0_def)
  ultimately show "shown (telemetry (snd (run_state (?f ''alice:pw'') world0))) = shown (telemetry (snd (run_state (?f ''bob:token'') world0)))"
    using uri_secrets_redacted [where f = ?f and L = url_lib0 and ?uri1.0 = "''alice:pw''" and ?uri2.0 = "''bob:token''"
        and w = world0, OF _ _ _ disjI2 [OF refl] surjective_pairing surjective_pairing] fails
    by simp
  show "sanitizeDatasetURI url_lib0 ''alice:pw'' = ''s3://bucket/t''"
    by (simp add: sanitizeDatasetURI_def url_lib0_def url0_def url_String_def url_authority_def EscapedPath_def)
qed

end
