(* ===== verification/Lance_Versions.thy ===== *)
theory Lance_Versions
  imports Lance_Dataset
begin

text \<open>
  Time travel, tags and branches: \<^verbatim>\<open>lance/version.go\<close> and \<^verbatim>\<open>lance/branch.go\<close>. Operations that
  return a dataset create a new handle that shares the telemetry of its parent.
\<close>

section \<open>Calls with a handle or no result\<close>

definition err_call :: "'n lance_ffi \<Rightarrow> ctx \<Rightarrow> string \<Rightarrow> cval list \<Rightarrow> ('n, 'p, goerr option) go" where
  "err_call F c f args = do { (e, outs) \<leftarrow> call F c f args; ret e }"

definition dataset_call :: "'n lance_ffi \<Rightarrow> ctx \<Rightarrow> string \<Rightarrow> cval list \<Rightarrow> obs option \<Rightarrow> ('n, 'p, goerr + dataset) go" where
  "dataset_call F c f args ob = do {
     (e, outs) \<leftarrow> call F c f args;
     case e of
       Some err \<Rightarrow> ret (Inl err)
     | None \<Rightarrow> do { ds \<leftarrow> newDataset (as_handle (out_nth outs 0)) ob; ret (Inr ds) }
   }"

definition out_call :: "'n lance_ffi \<Rightarrow> ctx \<Rightarrow> string \<Rightarrow> cval list \<Rightarrow> (cval \<Rightarrow> 'a) \<Rightarrow> ('n, 'p, goerr + 'a) go" where
  "out_call F c f args get = do {
     (e, outs) \<leftarrow> call F c f args;
     ret (case e of Some err \<Rightarrow> Inl err | None \<Rightarrow> Inr (get (out_nth outs 0)))
   }"

section \<open>References\<close>

record Ref =
  rf_version :: "u64 option"
  rf_tag :: string

definition VersionRef :: "u64 \<Rightarrow> Ref" where
  "VersionRef version = \<lparr>rf_version = Some version, rf_tag = []\<rparr>"

definition TagRef :: "string \<Rightarrow> Ref" where
  "TagRef tag = \<lparr>rf_version = None, rf_tag = tag\<rparr>"

definition refJSON :: "Ref \<Rightarrow> json" where
  "refJSON ref = JObj (omit_ptr json_u64 ''version'' (rf_version ref) @ omit_str ''tag'' (rf_tag ref))"

text \<open>\<^verbatim>\<open>marshalRef\<close> with the rest of the function; \<^verbatim>\<open>bad\<close> returns an error from there.\<close>

definition marshalRef :: "(goerr \<Rightarrow> 'a) \<Rightarrow> Ref \<Rightarrow> (cval \<Rightarrow> ('n, 'p, 'a) go) \<Rightarrow> ('n, 'p, 'a) go" where
  "marshalRef bad ref body =
     (if rf_version ref = None \<and> rf_tag ref = []
      then ret (bad (Wrapf [Lit ''invalid Ref, use VersionRef or TagRef: ''] (sentinel_err ErrInvalidArgument) []))
      else with_cString (Json (refJSON ref)) body)"

definition marshalOptionalRef :: "(goerr \<Rightarrow> 'a) \<Rightarrow> Ref \<Rightarrow> (cval \<Rightarrow> ('n, 'p, 'a) go) \<Rightarrow> ('n, 'p, 'a) go" where
  "marshalOptionalRef bad ref body =
     (if rf_version ref = None \<and> rf_tag ref = [] then body CNull else marshalRef bad ref body)"

section \<open>Checkout and versions\<close>

text \<open>\<^verbatim>\<open>if err != nil && errors.Is(err, ErrNotFound) { return ..., fmt.Errorf("%w (hint)", err) }\<close>.\<close>

definition not_found_hint :: "string \<Rightarrow> goerr + 'a \<Rightarrow> goerr + 'a" where
  "not_found_hint hint r = (case r of
      Inl err \<Rightarrow> (if errors_is err (SentinelErr ErrNotFound) then Inl (Wrapf [] err [Lit hint]) else Inl err)
    | Inr x \<Rightarrow> Inr x)"

definition Checkout :: "'n lance_ffi \<Rightarrow> ctx \<Rightarrow> dataset \<Rightarrow> Ref \<Rightarrow> ('n, 'p, goerr + dataset) go" where
  "Checkout F c d ref = do {
     r \<leftarrow> datasetOp c d ''Dataset.Checkout'' ''checkout'' (\<lambda>c ptr.
       marshalRef Inl ref (\<lambda>cRef.
         dataset_call F c ''lance_dataset_checkout'' [CHandle ptr, cRef] (ds_obs d))) [];
     ret (not_found_hint '' (version or tag does not exist; list with Versions or Tags().List)'' r)
   }"

definition CheckoutLatest :: "'n lance_ffi \<Rightarrow> ctx \<Rightarrow> dataset \<Rightarrow> ('n, 'p, goerr option) go" where
  "CheckoutLatest F c d =
     datasetDo c d ''Dataset.CheckoutLatest'' ''checkout latest'' (\<lambda>c ptr.
       err_call F c ''lance_dataset_checkout_latest'' [CHandle ptr]) []"

definition Restore :: "'n lance_ffi \<Rightarrow> ctx \<Rightarrow> dataset \<Rightarrow> ('n, 'p, goerr option) go" where
  "Restore F c d =
     datasetDo c d ''Dataset.Restore'' ''restore'' (\<lambda>c ptr.
       err_call F c ''lance_dataset_restore'' [CHandle ptr]) []"

definition Versions :: "'n lance_ffi \<Rightarrow> ctx \<Rightarrow> dataset \<Rightarrow> ('n, 'p, goerr + VersionInfo list) go" where
  "Versions F c d =
     datasetOp c d ''Dataset.Versions'' ''list versions'' (\<lambda>c ptr.
       json_call F c ''lance_dataset_list_versions'' [CHandle ptr] ''versions''
         (\<lambda>j. un_slice un_VersionInfo VersionInfo0 j [])) []"

record ManifestLocation =
  ml_Version :: u64
  ml_Path :: string
  ml_Size :: "u64 option"
  ml_NamingScheme :: string
  ml_ETag :: "string option"

definition un_ManifestLocation :: "json \<Rightarrow> goerr + ManifestLocation" where
  "un_ManifestLocation j = un_struct
     [fld ''version'' ml_Version ml_Version_update un_word, fld ''path'' ml_Path ml_Path_update un_str,
      fld ''size'' ml_Size ml_Size_update (un_ptr un_word 0),
      fld ''naming_scheme'' ml_NamingScheme ml_NamingScheme_update un_str,
      fld ''e_tag'' ml_ETag ml_ETag_update (un_ptr un_str [])] j
     \<lparr>ml_Version = 0, ml_Path = [], ml_Size = None, ml_NamingScheme = [], ml_ETag = None\<rparr>"

definition Dataset_ManifestLocation :: "'n lance_ffi \<Rightarrow> ctx \<Rightarrow> dataset \<Rightarrow> ('n, 'p, goerr + ManifestLocation) go" where
  "Dataset_ManifestLocation F c d =
     datasetOp c d ''Dataset.ManifestLocation'' ''manifest location'' (\<lambda>c ptr.
       json_call F c ''lance_dataset_manifest_location'' [CHandle ptr] ''manifest location'' un_ManifestLocation) []"

section \<open>Tags\<close>

record TagInfo =
  tg_Version :: u64
  tg_Branch :: string
  tg_ManifestSize :: u64
  tg_Metadata :: gomap

definition TagInfo0 :: TagInfo where
  "TagInfo0 = \<lparr>tg_Version = 0, tg_Branch = [], tg_ManifestSize = 0, tg_Metadata = []\<rparr>"

definition TagInfo_fields :: "TagInfo field list" where
  "TagInfo_fields =
     [fld ''version'' tg_Version tg_Version_update un_word, fld ''branch'' tg_Branch tg_Branch_update un_str,
      fld ''manifestSize'' tg_ManifestSize tg_ManifestSize_update un_word,
      fld ''metadata'' tg_Metadata tg_Metadata_update un_strmap]"

text \<open>\<^verbatim>\<open>Tags.mutate\<close>: create, update and delete share it; deleting has no reference.\<close>

definition Tags_mutate ::
  "'n lance_ffi \<Rightarrow> ctx \<Rightarrow> dataset \<Rightarrow> string \<Rightarrow> string \<Rightarrow> string \<Rightarrow> Ref option \<Rightarrow> (nat \<Rightarrow> cval \<Rightarrow> cval \<Rightarrow> string \<times> cval list) \<Rightarrow>
     ('n, 'p, goerr option) go" where
  "Tags_mutate F c d name verb tag ref fn =
     datasetDo c d name verb (\<lambda>c ptr.
       with_cString (Text tag) (\<lambda>cName.
         let rest = (\<lambda>cRef. err_call F c (fst (fn ptr cName cRef)) (snd (fn ptr cName cRef))) in
         case ref of
           None \<Rightarrow> rest CNull
         | Some rf \<Rightarrow> marshalRef Some rf rest)) [(''lance.tag'', AStr tag)]"

definition Tags_Create :: "'n lance_ffi \<Rightarrow> ctx \<Rightarrow> dataset \<Rightarrow> string \<Rightarrow> Ref \<Rightarrow> ('n, 'p, goerr option) go" where
  "Tags_Create F c d name ref = Tags_mutate F c d ''Tags.Create'' ''create tag'' name (Some ref)
     (\<lambda>ptr cName cRef. (''lance_dataset_tag_create'', [CHandle ptr, cName, cRef]))"

definition Tags_Update :: "'n lance_ffi \<Rightarrow> ctx \<Rightarrow> dataset \<Rightarrow> string \<Rightarrow> Ref \<Rightarrow> ('n, 'p, goerr option) go" where
  "Tags_Update F c d name ref = Tags_mutate F c d ''Tags.Update'' ''update tag'' name (Some ref)
     (\<lambda>ptr cName cRef. (''lance_dataset_tag_update'', [CHandle ptr, cName, cRef]))"

definition Tags_Delete :: "'n lance_ffi \<Rightarrow> ctx \<Rightarrow> dataset \<Rightarrow> string \<Rightarrow> ('n, 'p, goerr option) go" where
  "Tags_Delete F c d name = Tags_mutate F c d ''Tags.Delete'' ''delete tag'' name None
     (\<lambda>ptr cName _. (''lance_dataset_tag_delete'', [CHandle ptr, cName]))"

definition Tags_List :: "'n lance_ffi \<Rightarrow> ctx \<Rightarrow> dataset \<Rightarrow> ('n, 'p, goerr + (string \<times> TagInfo) list) go" where
  "Tags_List F c d =
     datasetOp c d ''Tags.List'' ''list tags'' (\<lambda>c ptr.
       json_call F c ''lance_dataset_tag_list'' [CHandle ptr] ''tags''
         (\<lambda>j. un_map (un_struct TagInfo_fields) TagInfo0 j [])) []"

record TagContents =
  tc_Version :: u64
  tc_Branch :: string
  tc_CreatedAt :: string
  tc_UpdatedAt :: string
  tc_ManifestSize :: u64
  tc_Metadata :: gomap

definition un_TagContents :: "json \<Rightarrow> goerr + TagContents" where
  "un_TagContents j = un_struct
     [fld ''version'' tc_Version tc_Version_update un_word, fld ''branch'' tc_Branch tc_Branch_update un_str,
      fld ''createdAt'' tc_CreatedAt tc_CreatedAt_update un_str, fld ''updatedAt'' tc_UpdatedAt tc_UpdatedAt_update un_str,
      fld ''manifestSize'' tc_ManifestSize tc_ManifestSize_update un_word,
      fld ''metadata'' tc_Metadata tc_Metadata_update un_strmap] j
     \<lparr>tc_Version = 0, tc_Branch = [], tc_CreatedAt = [], tc_UpdatedAt = [], tc_ManifestSize = 0, tc_Metadata = []\<rparr>"

definition Tags_Get :: "'n lance_ffi \<Rightarrow> ctx \<Rightarrow> dataset \<Rightarrow> string \<Rightarrow> ('n, 'p, goerr + TagContents) go" where
  "Tags_Get F c d name = do {
     r \<leftarrow> datasetOp c d ''Tags.Get'' ''get tag contents'' (\<lambda>c ptr.
       with_cString (Text name) (\<lambda>cName.
         json_call F c ''lance_dataset_tag_contents'' [CHandle ptr, cName] ''tag contents'' un_TagContents))
       [(''lance.tag'', AStr name)];
     ret (not_found_hint '' (tag does not exist)'' r)
   }"

definition Tags_GetVersion :: "'n lance_ffi \<Rightarrow> ctx \<Rightarrow> dataset \<Rightarrow> string \<Rightarrow> ('n, 'p, goerr + u64) go" where
  "Tags_GetVersion F c d name = do {
     r \<leftarrow> datasetOp c d ''Tags.GetVersion'' ''get tag version'' (\<lambda>c ptr.
       with_cString (Text name) (\<lambda>cName. do {
         (e, outs) \<leftarrow> call F c ''lance_dataset_tag_get_version'' [CHandle ptr, cName];
         ret (case e of Some err \<Rightarrow> Inl err | None \<Rightarrow> Inr (as_u64 (out_nth outs 0)))
       })) [(''lance.tag'', AStr name)];
     ret (not_found_hint '' (tag does not exist)'' r)
   }"

text \<open>\<^verbatim>\<open>TagEntry\<close> embeds \<^verbatim>\<open>TagInfo\<close>: the fields are decoded from one object.\<close>

record TagEntry =
  te_Name :: string
  te_Info :: TagInfo

definition un_TagEntry :: "TagEntry decoder" where
  "un_TagEntry = un_struct (fld ''name'' te_Name te_Name_update un_str #
     map (\<lambda>(k, d). (k, \<lambda>j r. map_sum id (\<lambda>x. r\<lparr>te_Info := x\<rparr>) (d j (te_Info r)))) TagInfo_fields)"

definition Tags_ListOrdered :: "'n lance_ffi \<Rightarrow> ctx \<Rightarrow> dataset \<Rightarrow> bool \<Rightarrow> ('n, 'p, goerr + TagEntry list) go" where
  "Tags_ListOrdered F c d ascending =
     datasetOp c d ''Tags.ListOrdered'' ''list tags ordered'' (\<lambda>c ptr.
       json_call F c ''lance_dataset_tag_list_ordered'' [CHandle ptr, CBool ascending] ''ordered tags''
         (\<lambda>j. un_slice un_TagEntry \<lparr>te_Name = [], te_Info = TagInfo0\<rparr> j [])) []"

definition Tags_ReplaceMetadata :: "'n lance_ffi \<Rightarrow> ctx \<Rightarrow> dataset \<Rightarrow> string \<Rightarrow> gomap option \<Rightarrow> ('n, 'p, goerr option) go" where
  "Tags_ReplaceMetadata F c d name metadata =
     datasetDo c d ''Tags.ReplaceMetadata'' ''replace tag metadata'' (\<lambda>c ptr.
       with_cString (Text name) (\<lambda>cName.
         let metadata = (case metadata of None \<Rightarrow> [] | Some m \<Rightarrow> m) in
         with_cString (Json (json_map metadata)) (\<lambda>cMeta.
           err_call F c ''lance_dataset_tag_replace_metadata'' [CHandle ptr, cName, cMeta]))) [(''lance.tag'', AStr name)]"

section \<open>Branches\<close>

record BranchInfo =
  bi_ParentBranch :: string
  bi_ParentVersion :: u64
  bi_CreatedAtUnix :: u64
  bi_ManifestSize :: u64
  bi_Metadata :: gomap

definition un_BranchInfo :: "BranchInfo decoder" where
  "un_BranchInfo = un_struct
     [fld ''parentBranch'' bi_ParentBranch bi_ParentBranch_update un_str,
      fld ''parentVersion'' bi_ParentVersion bi_ParentVersion_update un_word,
      fld ''createAt'' bi_CreatedAtUnix bi_CreatedAtUnix_update un_word,
      fld ''manifestSize'' bi_ManifestSize bi_ManifestSize_update un_word,
      fld ''metadata'' bi_Metadata bi_Metadata_update un_strmap]"

definition CreateBranch :: "'n lance_ffi \<Rightarrow> ctx \<Rightarrow> dataset \<Rightarrow> string \<Rightarrow> Ref \<Rightarrow> ('n, 'p, goerr + dataset) go" where
  "CreateBranch F c d name ref =
     datasetOp c d ''Dataset.CreateBranch'' ''create branch'' (\<lambda>c ptr.
       with_cString (Text name) (\<lambda>cName.
       marshalOptionalRef Inl ref (\<lambda>cRef.
         dataset_call F c ''lance_dataset_create_branch'' [CHandle ptr, cName, cRef] (ds_obs d)))) [(''lance.branch'', AStr name)]"

definition CheckoutBranch :: "'n lance_ffi \<Rightarrow> ctx \<Rightarrow> dataset \<Rightarrow> string \<Rightarrow> ('n, 'p, goerr + dataset) go" where
  "CheckoutBranch F c d name =
     datasetOp c d ''Dataset.CheckoutBranch'' ''checkout branch'' (\<lambda>c ptr.
       with_cString (Text name) (\<lambda>cName.
         dataset_call F c ''lance_dataset_checkout_branch'' [CHandle ptr, cName] (ds_obs d))) [(''lance.branch'', AStr name)]"

definition DeleteBranch :: "'n lance_ffi \<Rightarrow> ctx \<Rightarrow> dataset \<Rightarrow> string \<Rightarrow> bool \<Rightarrow> ('n, 'p, goerr option) go" where
  "DeleteBranch F c d name force =
     datasetDo c d ''Dataset.DeleteBranch'' ''delete branch'' (\<lambda>c ptr.
       with_cString (Text name) (\<lambda>cName.
         err_call F c ''lance_dataset_delete_branch'' [CHandle ptr, cName, CBool force])) [(''lance.branch'', AStr name)]"

definition ListBranches :: "'n lance_ffi \<Rightarrow> ctx \<Rightarrow> dataset \<Rightarrow> ('n, 'p, goerr + (string \<times> BranchInfo) list) go" where
  "ListBranches F c d =
     datasetOp c d ''Dataset.ListBranches'' ''list branches'' (\<lambda>c ptr.
       json_call F c ''lance_dataset_list_branches'' [CHandle ptr] ''list branches''
         (\<lambda>j. un_map un_BranchInfo \<lparr>bi_ParentBranch = [], bi_ParentVersion = 0, bi_CreatedAtUnix = 0,
                bi_ManifestSize = 0, bi_Metadata = []\<rparr> j [])) []"

definition clone ::
  "'n lance_ffi \<Rightarrow> url_lib \<Rightarrow> ctx \<Rightarrow> dataset \<Rightarrow> string \<Rightarrow> string \<Rightarrow> string \<Rightarrow> Ref \<Rightarrow> gomap \<Rightarrow> string \<Rightarrow> ('n, 'p, goerr + dataset) go" where
  "clone F L c d name what targetURI ref storageOptions fn =
     datasetOp c d name (what @ '' '' @ go_quote targetURI) (\<lambda>c ptr.
       with_cString (Text targetURI) (\<lambda>cURI.
       marshalOptionalRef Inl ref (\<lambda>cRef.
       with_storageKV storageOptions (\<lambda>kv.
         dataset_call F c fn [CHandle ptr, cURI, cRef, kv] (ds_obs d))))) [datasetURIAttribute L targetURI]"

definition ShallowClone where
  "ShallowClone F L c d targetURI ref storageOptions =
     clone F L c d ''Dataset.ShallowClone'' ''shallow clone'' targetURI ref storageOptions ''lance_dataset_shallow_clone''"

definition DeepClone where
  "DeepClone F L c d targetURI ref storageOptions =
     clone F L c d ''Dataset.DeepClone'' ''deep clone'' targetURI ref storageOptions ''lance_dataset_deep_clone''"

text \<open>\<^verbatim>\<open>Append\<close> hands the exported reader to the native side.\<close>

definition Append :: "'n lance_ffi \<Rightarrow> ctx \<Rightarrow> dataset \<Rightarrow> ('n, 'p, goerr option) go" where
  "Append F c d = do {
     r \<leftarrow> observed (ds_obs d) ''Dataset.Append'' [] (\<lambda>_. []) (dataset_locked c d (\<lambda>ptr. do {
       (e, outs) \<leftarrow> write_call F c ''lance_dataset_append'' (\<lambda>x. [CHandle ptr, CArrow x]);
       case e of Some err \<Rightarrow> ret (Inl (Wrapf [Lit ''lance: append: ''] err [])) | None \<Rightarrow> ret (Inr ())
     }));
     ret (err_of r)
   }"

section \<open>Contracts\<close>

lemma keeps_err_call [keeps_rules]: "ffi_separate f \<Longrightarrow> keeps f (err_call F c g args)"
  unfolding err_call_def by (intro keeps_rules)

lemma raw_err_call [yields_rules]: "yields raw_opt (err_call F c g args)"
  unfolding err_call_def by (rule yields_after_call) (auto intro: yields_return)

lemma keeps_dataset_call [keeps_rules]:
  "keeps c_mem (dataset_call F c g args ob)" "keeps held (dataset_call F c g args ob)"
  "keeps exported (dataset_call F c g args ob)" "keeps plugins (dataset_call F c g args ob)"
  unfolding dataset_call_def by (auto intro!: keeps_rules)

lemma raw_dataset_call [yields_rules]: "yields raw (dataset_call F c g args ob)"
  unfolding dataset_call_def by (rule yields_after_call) (auto intro!: yields_rules yields_bind)

lemma keeps_out_call [keeps_rules]: "ffi_separate f \<Longrightarrow> keeps f (out_call F c g args get)"
  unfolding out_call_def by (intro keeps_rules)

lemma raw_out_call [yields_rules]: "yields raw (out_call F c g args get)"
  unfolding out_call_def by (rule yields_after_call) (auto intro: yields_return)

lemma keeps_marshalRef [keeps_rules]:
  "separate f \<Longrightarrow> c_separate f \<Longrightarrow> (\<And>x. keeps f (body x)) \<Longrightarrow> keeps f (marshalRef bad ref body)"
  "(\<And>x. keeps c_mem (body' x)) \<Longrightarrow> keeps c_mem (marshalRef bad ref body')"
  unfolding marshalRef_def by (auto intro!: keeps_rules)

lemma keeps_marshalOptionalRef [keeps_rules]:
  "separate f \<Longrightarrow> c_separate f \<Longrightarrow> (\<And>x. keeps f (body x)) \<Longrightarrow> keeps f (marshalOptionalRef bad ref body)"
  "(\<And>x. keeps c_mem (body' x)) \<Longrightarrow> keeps c_mem (marshalOptionalRef bad ref body')"
  unfolding marshalOptionalRef_def by (auto intro!: keeps_rules)

lemma yields_marshalRef [yields_rules]:
  "(\<And>e. lance_prefixes e = 0 \<Longrightarrow> P (bad e)) \<Longrightarrow> (\<And>x. yields P (body x)) \<Longrightarrow> yields P (marshalRef bad ref body)"
  unfolding marshalRef_def by (auto intro!: yields_rules)

lemma yields_marshalOptionalRef [yields_rules]:
  "(\<And>e. lance_prefixes e = 0 \<Longrightarrow> P (bad e)) \<Longrightarrow> (\<And>x. yields P (body x)) \<Longrightarrow> yields P (marshalOptionalRef bad ref body)"
  unfolding marshalOptionalRef_def by (auto intro!: yields_rules)

lemma raw_decD: "raw_decoder d \<Longrightarrow> raw (d j x)"
  by (auto simp: raw_decoder_def raw_def)

lemma once_not_found_hint:
  "prefixed r \<Longrightarrow> take 7 hint \<noteq> ''lance: '' \<Longrightarrow> prefixed (not_found_hint hint r)"
  by (cases r) (auto simp: not_found_hint_def once_def)

lemma yields_not_found_hint [yields_rules]:
  "yields prefixed m \<Longrightarrow> take 7 hint \<noteq> ''lance: '' \<Longrightarrow> yields prefixed (do { r \<leftarrow> m; ret (not_found_hint hint r) })"
  by (erule yields_bind_from) (auto intro: yields_return once_not_found_hint)

lemmas version_decoders = un_VersionInfo_def un_ManifestLocation_def TagInfo_fields_def un_TagContents_def
  un_TagEntry_def un_BranchInfo_def

lemma raw_TagEntry: "raw_decoder un_TagEntry"
  unfolding version_decoders fld_def by (auto intro!: decoder_rules)

text \<open>The contract of each operation, by the rules for its parts.\<close>

lemmas contract_rules = keeps_rules yields_not_found_hint yields_rules

lemmas json_contract_rules = contract_rules raw_decD decoder_rules

lemma version_do_contracts:
  "do_contract (CheckoutLatest F c d)" "do_contract (Restore F c d)"
  "do_contract (Tags_Create F c d name ref)" "do_contract (Tags_Update F c d name ref)" "do_contract (Tags_Delete F c d name)"
  "do_contract (Tags_ReplaceMetadata F c d name md)" "do_contract (DeleteBranch F c d name force)"
  unfolding contract_defs CheckoutLatest_def Restore_def Tags_Create_def Tags_Update_def Tags_Delete_def Tags_mutate_def
    Tags_ReplaceMetadata_def DeleteBranch_def Let_def
  by (auto intro!: contract_rules)

lemma checkout_contracts:
  "op_contract (Checkout F c d ref)" "op_contract (CreateBranch F c d name ref)" "op_contract (CheckoutBranch F c d name)"
  "op_contract (ShallowClone F L c d uri ref so)" "op_contract (DeepClone F L c d uri ref so)"
  "op_contract (Tags_GetVersion F c d name)"
  unfolding contract_defs Checkout_def CreateBranch_def CheckoutBranch_def ShallowClone_def DeepClone_def clone_def
    Tags_GetVersion_def
  by (auto intro!: contract_rules)

lemma version_json_contracts:
  assumes "quiet F"
  shows "op_contract (Versions F c d)" "op_contract (Dataset_ManifestLocation F c d)" "op_contract (Tags_List F c d)"
    "op_contract (Tags_Get F c d name)" "op_contract (Tags_ListOrdered F c d asc)" "op_contract (ListBranches F c d)"
  using assms
  unfolding contract_defs Versions_def Dataset_ManifestLocation_def Tags_List_def Tags_Get_def Tags_ListOrdered_def ListBranches_def
    un_VersionInfo_def un_ManifestLocation_def TagInfo_fields_def un_TagContents_def un_BranchInfo_def
  by (auto intro!: json_contract_rules raw_TagEntry)

section \<open>Properties\<close>

text \<open>A reference that names nothing is never sent. \<^verbatim>\<open>Checkout\<close>, and creating or updating a tag,
  with the zero \<^verbatim>\<open>Ref\<close> fail with an error that is \<^verbatim>\<open>ErrInvalidArgument\<close> and has the package prefix
  once, on an open dataset and a live context, and the native state is untouched; the
  references built by \<^verbatim>\<open>VersionRef\<close> and a nonempty \<^verbatim>\<open>TagRef\<close> send exactly the version or the tag.\<close>

theorem zero_ref_rejected:
  assumes "rf_version ref = None" and "rf_tag ref = []"
    and "ctx_err_at c (tick w) = None" and "handle_ptr (ds_h d) w = Some p" and "tag \<noteq> []"
  shows "(\<exists>e. fst (run_state (Checkout F c d ref) w) = Inl e \<and> errors_is e (SentinelErr ErrInvalidArgument) \<and> lance_prefixes e = 1) \<and>
    native (snd (run_state (Checkout F c d ref) w)) = native w \<and>
    (\<exists>e. fst (run_state (Tags_Create F c d tag ref) w) = Some e \<and> errors_is e (SentinelErr ErrInvalidArgument) \<and> lance_prefixes e = 1) \<and>
    native (snd (run_state (Tags_Create F c d tag ref) w)) = native w \<and>
    refJSON (VersionRef v) = JObj [(''version'', json_u64 v)] \<and> refJSON (TagRef tag) = JObj [(''tag'', JStr tag)]"
  using assms
  by (simp add: Checkout_def Tags_Create_def Tags_mutate_def datasetDo_def run_datasetOp Let_def marshalRef_def not_found_hint_def
      wrap_verb_def with_cString_def cString_def c_alloc_def free_cptr_def c_free_def refJSON_def VersionRef_def TagRef_def omit_defs)

theorem zero_ref_rejected_witness:
  "\<exists>e. fst (run_state (Checkout ffi0 background \<lparr>ds_h = 4, ds_obs = None\<rparr> \<lparr>rf_version = None, rf_tag = []\<rparr>)
      (world0\<lparr>handles := [4 \<mapsto> \<lparr>h_ptr = Some 9, h_cleanup = Some 9\<rparr>]\<rparr>)) = Inl e \<and>
     errors_is e (SentinelErr ErrInvalidArgument) \<and> lance_prefixes e = 1"
  using zero_ref_rejected [of "\<lparr>rf_version = None, rf_tag = []\<rparr>" background
      "world0\<lparr>handles := [4 \<mapsto> \<lparr>h_ptr = Some 9, h_cleanup = Some 9\<rparr>]\<rparr>" "\<lparr>ds_h = 4, ds_obs = None\<rparr>" 9 "''t''" ffi0]
  by (simp add: background_def world0_def handle_ptr_def)

end
