(* ===== verification/Lance_Config.thy ===== *)
theory Lance_Config
  imports Lance_Versions
begin

text \<open>
  Configuration, metadata, introspection and maintenance: \<^verbatim>\<open>lance/config.go\<close> and
  \<^verbatim>\<open>lance/maintenance.go\<close>.
\<close>

section \<open>Key-value updates\<close>

text \<open>\<^verbatim>\<open>map[string]*string\<close>: a nil value deletes the key. \<^verbatim>\<open>json_updates\<close> is the document that is marshalled,
  with the keys sorted as \<^verbatim>\<open>json.Marshal\<close> writes them and with the Go strings as they are; what is
  read back from its text is \<^verbatim>\<open>json_wire\<close> of it.\<close>

type_synonym updates = "(string \<times> string option) list"

definition json_updates :: "updates \<Rightarrow> json" where
  "json_updates m = JObj (map (\<lambda>(k, v). (k, case v of None \<Rightarrow> JNull | Some s \<Rightarrow> JStr s)) (sort_key fst m))"

definition getJSON :: "'n lance_ffi \<Rightarrow> ctx \<Rightarrow> string \<Rightarrow> (json \<Rightarrow> goerr + 'a) \<Rightarrow> string \<Rightarrow> cval list \<Rightarrow> ('n, 'p, goerr + 'a) go" where
  "getJSON F c what dec f args = json_call F c f args what dec"

definition un_strings :: "json \<Rightarrow> goerr + gomap" where
  "un_strings j = un_strmap j []"

definition updateMap ::
  "'n lance_ffi \<Rightarrow> ctx \<Rightarrow> dataset \<Rightarrow> string \<Rightarrow> string \<Rightarrow> updates option \<Rightarrow> bool \<Rightarrow> string \<Rightarrow> ('n, 'p, goerr + gomap) go" where
  "updateMap F c d name verb updates replace fn =
     (let updates = (case updates of None \<Rightarrow> [] | Some u \<Rightarrow> u) in
      with_options (Inr (json_updates updates)) (\<lambda>cUpdates.
        datasetOp c d name verb (\<lambda>c ptr.
          json_call F c fn [CHandle ptr, cUpdates, CBool replace] (verb @ '' result'') un_strings) []))"

definition map_values :: "gomap \<Rightarrow> updates" where
  "map_values kv = map (\<lambda>(k, v). (k, Some v)) kv"

definition Dataset_Config :: "'n lance_ffi \<Rightarrow> ctx \<Rightarrow> dataset \<Rightarrow> ('n, 'p, goerr + gomap) go" where
  "Dataset_Config F c d =
     datasetOp c d ''Dataset.Config'' ''config'' (\<lambda>c ptr.
       getJSON F c ''config'' un_strings ''lance_dataset_config'' [CHandle ptr]) []"

definition StorageOptions :: "'n lance_ffi \<Rightarrow> ctx \<Rightarrow> dataset \<Rightarrow> ('n, 'p, goerr + gomap) go" where
  "StorageOptions F c d =
     datasetOp c d ''Dataset.StorageOptions'' ''storage options'' (\<lambda>c ptr.
       getJSON F c ''storage options'' un_strings ''lance_dataset_storage_options'' [CHandle ptr]) []"

definition UpdateConfig :: "'n lance_ffi \<Rightarrow> ctx \<Rightarrow> dataset \<Rightarrow> gomap \<Rightarrow> ('n, 'p, goerr + gomap) go" where
  "UpdateConfig F c d updates =
     updateMap F c d ''Dataset.UpdateConfig'' ''update config'' (Some (map_values updates)) False ''lance_dataset_update_config''"

definition DeleteConfigKeys :: "'n lance_ffi \<Rightarrow> ctx \<Rightarrow> dataset \<Rightarrow> string list \<Rightarrow> ('n, 'p, goerr option) go" where
  "DeleteConfigKeys F c d keys =
     with_cString (Json (JArr (map JStr keys))) (\<lambda>cKeys.
       datasetDo c d ''Dataset.DeleteConfigKeys'' ''delete config keys'' (\<lambda>c ptr.
         err_call F c ''lance_dataset_delete_config_keys'' [CHandle ptr, cKeys]) [])"

definition Dataset_Metadata :: "'n lance_ffi \<Rightarrow> ctx \<Rightarrow> dataset \<Rightarrow> ('n, 'p, goerr + gomap) go" where
  "Dataset_Metadata F c d =
     datasetOp c d ''Dataset.Metadata'' ''metadata'' (\<lambda>c ptr.
       getJSON F c ''metadata'' un_strings ''lance_dataset_metadata'' [CHandle ptr]) []"

definition UpdateMetadata :: "'n lance_ffi \<Rightarrow> ctx \<Rightarrow> dataset \<Rightarrow> gomap \<Rightarrow> ('n, 'p, goerr + gomap) go" where
  "UpdateMetadata F c d updates =
     updateMap F c d ''Dataset.UpdateMetadata'' ''update metadata'' (Some (map_values updates)) False ''lance_dataset_update_metadata''"

text \<open>\<^verbatim>\<open>for _, key := range keys { updates[key] = nil }\<close>.\<close>

fun delete_updates :: "string list \<Rightarrow> updates \<Rightarrow> updates" where
  "delete_updates [] m = m"
| "delete_updates (key # keys) m = delete_updates keys (AList.update key None m)"

definition DeleteMetadataKeys :: "'n lance_ffi \<Rightarrow> ctx \<Rightarrow> dataset \<Rightarrow> string list \<Rightarrow> ('n, 'p, goerr option) go" where
  "DeleteMetadataKeys F c d keys = do {
     r \<leftarrow> updateMap F c d ''Dataset.DeleteMetadataKeys'' ''delete metadata keys'' (Some (delete_updates keys [])) False
            ''lance_dataset_update_metadata'';
     ret (err_of r)
   }"

definition UpdateSchemaMetadata :: "'n lance_ffi \<Rightarrow> ctx \<Rightarrow> dataset \<Rightarrow> gomap \<Rightarrow> ('n, 'p, goerr + gomap) go" where
  "UpdateSchemaMetadata F c d updates =
     updateMap F c d ''Dataset.UpdateSchemaMetadata'' ''update schema metadata'' (Some (map_values updates)) False
       ''lance_dataset_update_schema_metadata''"

definition ReplaceSchemaMetadata :: "'n lance_ffi \<Rightarrow> ctx \<Rightarrow> dataset \<Rightarrow> gomap \<Rightarrow> ('n, 'p, goerr option) go" where
  "ReplaceSchemaMetadata F c d metadata = do {
     r \<leftarrow> updateMap F c d ''Dataset.ReplaceSchemaMetadata'' ''replace schema metadata'' (Some (map_values metadata)) True
            ''lance_dataset_update_schema_metadata'';
     ret (err_of r)
   }"

definition fieldMetadata ::
  "'n lance_ffi \<Rightarrow> ctx \<Rightarrow> dataset \<Rightarrow> string \<Rightarrow> string \<Rightarrow> string \<Rightarrow> gomap \<Rightarrow> bool \<Rightarrow> ('n, 'p, goerr option) go" where
  "fieldMetadata F c d name verb field updates replace =
     with_cString (Json (json_updates (map_values updates))) (\<lambda>cUpdates.
       datasetDo c d name verb (\<lambda>c ptr.
         with_cString (Text field) (\<lambda>cField.
           err_call F c ''lance_dataset_update_field_metadata'' [CHandle ptr, cField, cUpdates, CBool replace])) [])"

definition UpdateFieldMetadata :: "'n lance_ffi \<Rightarrow> ctx \<Rightarrow> dataset \<Rightarrow> string \<Rightarrow> gomap \<Rightarrow> ('n, 'p, goerr option) go" where
  "UpdateFieldMetadata F c d field updates =
     fieldMetadata F c d ''Dataset.UpdateFieldMetadata'' ''update field metadata'' field updates False"

definition ReplaceFieldMetadata :: "'n lance_ffi \<Rightarrow> ctx \<Rightarrow> dataset \<Rightarrow> string \<Rightarrow> gomap \<Rightarrow> ('n, 'p, goerr option) go" where
  "ReplaceFieldMetadata F c d field metadata =
     fieldMetadata F c d ''Dataset.ReplaceFieldMetadata'' ''replace field metadata'' field metadata True"

section \<open>Introspection\<close>

fun as_bool :: "cval \<Rightarrow> bool" where
  "as_bool (CBool b) = b"
| "as_bool _ = False"

definition TruncateTable :: "'n lance_ffi \<Rightarrow> ctx \<Rightarrow> dataset \<Rightarrow> ('n, 'p, goerr option) go" where
  "TruncateTable F c d =
     datasetDo c d ''Dataset.TruncateTable'' ''truncate table'' (\<lambda>c ptr. err_call F c ''lance_dataset_truncate'' [CHandle ptr]) []"

definition CountDeletedRows :: "'n lance_ffi \<Rightarrow> ctx \<Rightarrow> dataset \<Rightarrow> ('n, 'p, goerr + u64) go" where
  "CountDeletedRows F c d =
     datasetOp c d ''Dataset.CountDeletedRows'' ''count deleted rows'' (\<lambda>c ptr.
       out_call F c ''lance_dataset_count_deleted_rows'' [CHandle ptr] as_u64) []"

definition IsStale :: "'n lance_ffi \<Rightarrow> ctx \<Rightarrow> dataset \<Rightarrow> ('n, 'p, goerr + bool) go" where
  "IsStale F c d =
     datasetOp c d ''Dataset.IsStale'' ''is stale'' (\<lambda>c ptr. out_call F c ''lance_dataset_is_stale'' [CHandle ptr] as_bool) []"

definition HasSuccessorVersion :: "'n lance_ffi \<Rightarrow> ctx \<Rightarrow> dataset \<Rightarrow> ('n, 'p, goerr + bool) go" where
  "HasSuccessorVersion F c d =
     datasetOp c d ''Dataset.HasSuccessorVersion'' ''has successor version'' (\<lambda>c ptr.
       out_call F c ''lance_dataset_has_successor_version'' [CHandle ptr] as_bool) []"

definition Validate :: "'n lance_ffi \<Rightarrow> ctx \<Rightarrow> dataset \<Rightarrow> ('n, 'p, goerr option) go" where
  "Validate F c d =
     datasetDo c d ''Dataset.Validate'' ''validate'' (\<lambda>c ptr. err_call F c ''lance_dataset_validate'' [CHandle ptr]) []"

definition MigrateManifestPathsV2 :: "'n lance_ffi \<Rightarrow> ctx \<Rightarrow> dataset \<Rightarrow> ('n, 'p, goerr option) go" where
  "MigrateManifestPathsV2 F c d =
     datasetDo c d ''Dataset.MigrateManifestPathsV2'' ''migrate manifest paths v2'' (\<lambda>c ptr.
       err_call F c ''lance_dataset_migrate_manifest_paths_v2'' [CHandle ptr]) []"

definition NumSmallFiles :: "'n lance_ffi \<Rightarrow> ctx \<Rightarrow> dataset \<Rightarrow> u64 \<Rightarrow> ('n, 'p, goerr + u64) go" where
  "NumSmallFiles F c d maxRowsPerGroup =
     datasetOp c d ''Dataset.NumSmallFiles'' ''num small files'' (\<lambda>c ptr.
       out_call F c ''lance_dataset_num_small_files'' [CHandle ptr, CU64 maxRowsPerGroup] as_u64) []"

record CacheStats =
  cs_CacheSizeBytes :: u64
  cs_IndexCacheEntryCount :: u64
  cs_IndexCacheHitRate :: json

definition un_CacheStats :: "json \<Rightarrow> goerr + CacheStats" where
  "un_CacheStats j = un_struct
     [fld ''cache_size_bytes'' cs_CacheSizeBytes cs_CacheSizeBytes_update un_word,
      fld ''index_cache_entry_count'' cs_IndexCacheEntryCount cs_IndexCacheEntryCount_update un_word,
      fld ''index_cache_hit_rate'' cs_IndexCacheHitRate cs_IndexCacheHitRate_update un_number] j
     \<lparr>cs_CacheSizeBytes = 0, cs_IndexCacheEntryCount = 0, cs_IndexCacheHitRate = JInt 0\<rparr>"

definition Dataset_CacheStats :: "'n lance_ffi \<Rightarrow> ctx \<Rightarrow> dataset \<Rightarrow> ('n, 'p, goerr + CacheStats) go" where
  "Dataset_CacheStats F c d =
     datasetOp c d ''Dataset.CacheStats'' ''cache stats'' (\<lambda>c ptr.
       getJSON F c ''cache stats'' un_CacheStats ''lance_dataset_cache_stats'' [CHandle ptr]) []"

record DatasetPaths =
  dp_URI :: string
  dp_Base :: string
  dp_DataDir :: string
  dp_IndicesDir :: string
  dp_VersionsDir :: string
  dp_Branch :: string

definition un_DatasetPaths :: "json \<Rightarrow> goerr + DatasetPaths" where
  "un_DatasetPaths j = un_struct
     [fld ''uri'' dp_URI dp_URI_update un_str, fld ''base'' dp_Base dp_Base_update un_str,
      fld ''data_dir'' dp_DataDir dp_DataDir_update un_str, fld ''indices_dir'' dp_IndicesDir dp_IndicesDir_update un_str,
      fld ''versions_dir'' dp_VersionsDir dp_VersionsDir_update un_str, fld ''branch'' dp_Branch dp_Branch_update un_str] j
     \<lparr>dp_URI = [], dp_Base = [], dp_DataDir = [], dp_IndicesDir = [], dp_VersionsDir = [], dp_Branch = []\<rparr>"

definition Paths :: "'n lance_ffi \<Rightarrow> ctx \<Rightarrow> dataset \<Rightarrow> ('n, 'p, goerr + DatasetPaths) go" where
  "Paths F c d =
     datasetOp c d ''Dataset.Paths'' ''paths'' (\<lambda>c ptr. getJSON F c ''paths'' un_DatasetPaths ''lance_dataset_paths'' [CHandle ptr]) []"

record FieldStatistics =
  fst_ID :: u32
  fst_BytesOnDisk :: u64

definition un_FieldStatistics :: "FieldStatistics decoder" where
  "un_FieldStatistics = un_struct
     [fld ''id'' fst_ID fst_ID_update un_word, fld ''bytes_on_disk'' fst_BytesOnDisk fst_BytesOnDisk_update un_word]"

record DataStatistics =
  dst_Fields :: "FieldStatistics list"

definition un_DataStatistics :: "json \<Rightarrow> goerr + DataStatistics" where
  "un_DataStatistics j = un_struct
     [fld ''fields'' dst_Fields dst_Fields_update (un_slice un_FieldStatistics \<lparr>fst_ID = 0, fst_BytesOnDisk = 0\<rparr>)] j \<lparr>dst_Fields = []\<rparr>"

definition DataStats :: "'n lance_ffi \<Rightarrow> ctx \<Rightarrow> dataset \<Rightarrow> ('n, 'p, goerr + DataStatistics) go" where
  "DataStats F c d =
     datasetOp c d ''Dataset.DataStats'' ''data stats'' (\<lambda>c ptr.
       getJSON F c ''data stats'' un_DataStatistics ''lance_dataset_data_stats'' [CHandle ptr]) []"

section \<open>Compaction and cleanup\<close>

text \<open>Floats are bit patterns; \<^verbatim>\<open>json.Marshal\<close> refuses infinities and NaN.\<close>

definition f32_finite :: "u32 \<Rightarrow> bool" where
  "f32_finite b = (take_bit 8 (drop_bit 23 b) \<noteq> 255)"

definition json_f32 :: "u32 \<Rightarrow> json" where
  "json_f32 b = JFloat (ucast b)"

definition marshal_f32s :: "u32 option list \<Rightarrow> json \<Rightarrow> goerr + json" where
  "marshal_f32s fs j = (if list_all (\<lambda>f. case f of None \<Rightarrow> True | Some b \<Rightarrow> f32_finite b) fs then Inr j
     else Inl (Foreign ''json: unsupported value''))"

record CompactionOptions =
  co_TargetRowsPerFragment :: u64
  co_MaxRowsPerGroup :: u64
  co_MaxBytesPerFile :: "u64 option"
  co_MaterializeDeletions :: "bool option"
  co_MaterializeDeletionsThreshold :: "u32 option"
  co_NumThreads :: "u64 option"
  co_BatchSize :: "u64 option"
  co_DeferIndexRemap :: "bool option"

record compactionOptionsJSON =
  cj_TargetRowsPerFragment :: "u64 option"
  cj_MaxRowsPerGroup :: "u64 option"
  cj_MaxBytesPerFile :: "u64 option"
  cj_MaterializeDeletions :: "bool option"
  cj_MaterializeDeletionsThreshold :: "u32 option"
  cj_NumThreads :: "u64 option"
  cj_BatchSize :: "u64 option"
  cj_DeferIndexRemap :: "bool option"

definition toJSON :: "CompactionOptions \<Rightarrow> compactionOptionsJSON" where
  "toJSON opt = \<lparr>cj_TargetRowsPerFragment = (if co_TargetRowsPerFragment opt \<noteq> 0 then Some (co_TargetRowsPerFragment opt) else None),
     cj_MaxRowsPerGroup = (if co_MaxRowsPerGroup opt \<noteq> 0 then Some (co_MaxRowsPerGroup opt) else None),
     cj_MaxBytesPerFile = co_MaxBytesPerFile opt, cj_MaterializeDeletions = co_MaterializeDeletions opt,
     cj_MaterializeDeletionsThreshold = co_MaterializeDeletionsThreshold opt, cj_NumThreads = co_NumThreads opt,
     cj_BatchSize = co_BatchSize opt, cj_DeferIndexRemap = co_DeferIndexRemap opt\<rparr>"

definition compaction_members :: "compactionOptionsJSON \<Rightarrow> members" where
  "compaction_members j =
     omit_ptr json_u64 ''target_rows_per_fragment'' (cj_TargetRowsPerFragment j) @
     omit_ptr json_u64 ''max_rows_per_group'' (cj_MaxRowsPerGroup j) @
     omit_ptr json_u64 ''max_bytes_per_file'' (cj_MaxBytesPerFile j) @
     omit_ptr JBool ''materialize_deletions'' (cj_MaterializeDeletions j) @
     omit_ptr json_f32 ''materialize_deletions_threshold'' (cj_MaterializeDeletionsThreshold j) @
     omit_ptr json_u64 ''num_threads'' (cj_NumThreads j) @ omit_ptr json_u64 ''batch_size'' (cj_BatchSize j)"

definition compaction_json :: "compactionOptionsJSON \<Rightarrow> goerr + json" where
  "compaction_json j = marshal_f32s [cj_MaterializeDeletionsThreshold j]
     (JObj (compaction_members j @ omit_ptr JBool ''defer_index_remap'' (cj_DeferIndexRemap j)))"

record CompactionMetrics =
  cm_FragmentsRemoved :: u64
  cm_FragmentsAdded :: u64
  cm_FilesRemoved :: u64
  cm_FilesAdded :: u64

definition un_CompactionMetrics :: "json \<Rightarrow> goerr + CompactionMetrics" where
  "un_CompactionMetrics j = un_struct
     [fld ''fragments_removed'' cm_FragmentsRemoved cm_FragmentsRemoved_update un_word,
      fld ''fragments_added'' cm_FragmentsAdded cm_FragmentsAdded_update un_word,
      fld ''files_removed'' cm_FilesRemoved cm_FilesRemoved_update un_word,
      fld ''files_added'' cm_FilesAdded cm_FilesAdded_update un_word] j
     \<lparr>cm_FragmentsRemoved = 0, cm_FragmentsAdded = 0, cm_FilesRemoved = 0, cm_FilesAdded = 0\<rparr>"

definition CompactFiles :: "'n lance_ffi \<Rightarrow> ctx \<Rightarrow> dataset \<Rightarrow> CompactionOptions \<Rightarrow> ('n, 'p, goerr + CompactionMetrics) go" where
  "CompactFiles F c d opts =
     with_options (compaction_json (toJSON opts)) (\<lambda>cOpts.
       datasetOp c d ''Dataset.CompactFiles'' ''compact files'' (\<lambda>c ptr.
         json_call F c ''lance_dataset_compact_files'' [CHandle ptr, cOpts] ''compaction metrics'' un_CompactionMetrics) [])"

record RemovalStats =
  rs_BytesRemoved :: u64
  rs_OldVersions :: u64
  rs_DataFilesRemoved :: u64
  rs_TransactionFilesRemoved :: u64
  rs_IndexFilesRemoved :: u64
  rs_DeletionFilesRemoved :: u64

definition un_RemovalStats :: "json \<Rightarrow> goerr + RemovalStats" where
  "un_RemovalStats j = un_struct
     [fld ''bytes_removed'' rs_BytesRemoved rs_BytesRemoved_update un_word,
      fld ''old_versions'' rs_OldVersions rs_OldVersions_update un_word,
      fld ''data_files_removed'' rs_DataFilesRemoved rs_DataFilesRemoved_update un_word,
      fld ''transaction_files_removed'' rs_TransactionFilesRemoved rs_TransactionFilesRemoved_update un_word,
      fld ''index_files_removed'' rs_IndexFilesRemoved rs_IndexFilesRemoved_update un_word,
      fld ''deletion_files_removed'' rs_DeletionFilesRemoved rs_DeletionFilesRemoved_update un_word] j
     \<lparr>rs_BytesRemoved = 0, rs_OldVersions = 0, rs_DataFilesRemoved = 0, rs_TransactionFilesRemoved = 0,
      rs_IndexFilesRemoved = 0, rs_DeletionFilesRemoved = 0\<rparr>"

record cleanupConfig =
  cl_OlderThanSeconds :: int
  cl_DeleteUnverified :: "bool option"
  cl_ErrorIfTaggedOldVersions :: "bool option"

definition WithDeleteUnverified :: "bool \<Rightarrow> cleanupConfig \<Rightarrow> cleanupConfig" where
  "WithDeleteUnverified deleteUnverified cfg = cfg\<lparr>cl_DeleteUnverified := Some deleteUnverified\<rparr>"

definition WithErrorIfTaggedOldVersions :: "bool \<Rightarrow> cleanupConfig \<Rightarrow> cleanupConfig" where
  "WithErrorIfTaggedOldVersions errorIfTagged cfg = cfg\<lparr>cl_ErrorIfTaggedOldVersions := Some errorIfTagged\<rparr>"

definition cleanup_json :: "cleanupConfig \<Rightarrow> json" where
  "cleanup_json cfg = JObj ([(''older_than_seconds'', JInt (cl_OlderThanSeconds cfg))] @
     omit_ptr JBool ''delete_unverified'' (cl_DeleteUnverified cfg) @
     omit_ptr JBool ''error_if_tagged_old_versions'' (cl_ErrorIfTaggedOldVersions cfg))"

text \<open>\<^verbatim>\<open>olderThan\<close> is a duration in nanoseconds.\<close>

definition CleanupOldVersions ::
  "'n lance_ffi \<Rightarrow> ctx \<Rightarrow> dataset \<Rightarrow> int \<Rightarrow> (cleanupConfig \<Rightarrow> cleanupConfig) list \<Rightarrow> ('n, 'p, goerr + RemovalStats) go" where
  "CleanupOldVersions F c d olderThan opts =
     (let cfg = apply_opts opts \<lparr>cl_OlderThanSeconds = olderThan sdiv 1000000000, cl_DeleteUnverified = None,
                  cl_ErrorIfTaggedOldVersions = None\<rparr> in
      with_options (Inr (cleanup_json cfg)) (\<lambda>cOpts.
        datasetOp c d ''Dataset.CleanupOldVersions'' ''cleanup old versions'' (\<lambda>c ptr.
          json_call F c ''lance_dataset_cleanup_old_versions'' [CHandle ptr, cOpts] ''removal stats'' un_RemovalStats) []))"

record CleanupPolicy =
  cp_BeforeTimestamp :: gotime
  cp_BeforeVersion :: u64
  cp_DeleteUnverified :: bool
  cp_ErrorIfTaggedOldVersions :: "bool option"
  cp_CleanReferencedBranches :: bool
  cp_DeleteRateLimit :: u64

definition cleanupPolicyJSON :: "CleanupPolicy \<Rightarrow> json" where
  "cleanupPolicyJSON p =
     (let ts = (if time_IsZero (cp_BeforeTimestamp p) then [] else RFC3339Nano (cp_BeforeTimestamp p)) in
      JObj (omit_str ''before_timestamp'' ts @ omit_u64 ''before_version'' (cp_BeforeVersion p) @
        [(''delete_unverified'', JBool (cp_DeleteUnverified p))] @
        omit_ptr JBool ''error_if_tagged_old_versions'' (cp_ErrorIfTaggedOldVersions p) @
        [(''clean_referenced_branches'', JBool (cp_CleanReferencedBranches p))] @
        omit_u64 ''delete_rate_limit'' (cp_DeleteRateLimit p)))"

definition CleanupWithPolicy :: "'n lance_ffi \<Rightarrow> ctx \<Rightarrow> dataset \<Rightarrow> CleanupPolicy \<Rightarrow> ('n, 'p, goerr + RemovalStats) go" where
  "CleanupWithPolicy F c d policy =
     with_options (Inr (cleanupPolicyJSON policy)) (\<lambda>cPolicy.
       datasetOp c d ''Dataset.CleanupWithPolicy'' ''cleanup with policy'' (\<lambda>c ptr.
         json_call F c ''lance_dataset_cleanup_with_policy'' [CHandle ptr, cPolicy] ''cleanup stats'' un_RemovalStats) [])"

section \<open>Contracts\<close>

lemma raw_compaction_json: "raw (compaction_json j)"
  by (simp add: compaction_json_def marshal_f32s_def)

lemma config_do_contracts:
  "do_contract (DeleteConfigKeys F c d keys)" "do_contract (UpdateFieldMetadata F c d field kv)"
  "do_contract (ReplaceFieldMetadata F c d field kv)" "do_contract (TruncateTable F c d)" "do_contract (Validate F c d)"
  "do_contract (MigrateManifestPathsV2 F c d)"
  unfolding contract_defs DeleteConfigKeys_def UpdateFieldMetadata_def ReplaceFieldMetadata_def fieldMetadata_def
    TruncateTable_def Validate_def MigrateManifestPathsV2_def
  by (auto intro!: contract_rules)

lemma config_op_contracts:
  "op_contract (CountDeletedRows F c d)" "op_contract (IsStale F c d)" "op_contract (HasSuccessorVersion F c d)"
  "op_contract (NumSmallFiles F c d n)"
  unfolding contract_defs CountDeletedRows_def IsStale_def HasSuccessorVersion_def NumSmallFiles_def
  by (auto intro!: contract_rules)

lemma config_map_contracts:
  assumes "quiet F"
  shows "op_contract (UpdateConfig F c d kv)" "op_contract (UpdateMetadata F c d kv)" "op_contract (UpdateSchemaMetadata F c d kv)"
    "do_contract (DeleteMetadataKeys F c d keys)" "do_contract (ReplaceSchemaMetadata F c d kv)"
  using assms
  unfolding contract_defs UpdateConfig_def UpdateMetadata_def UpdateSchemaMetadata_def DeleteMetadataKeys_def ReplaceSchemaMetadata_def
    updateMap_def Let_def un_strings_def
  by (auto intro!: json_contract_rules)

lemma raw_FieldStatistics: "raw_decoder un_FieldStatistics"
  unfolding un_FieldStatistics_def by (auto intro!: decoder_rules)

lemma config_json_contracts:
  assumes "quiet F"
  shows "op_contract (Dataset_Config F c d)" "op_contract (StorageOptions F c d)" "op_contract (Dataset_Metadata F c d)"
    "op_contract (Dataset_CacheStats F c d)" "op_contract (Paths F c d)" "op_contract (DataStats F c d)"
    "op_contract (CompactFiles F c d co)" "op_contract (CleanupOldVersions F c d ns cos)" "op_contract (CleanupWithPolicy F c d cp)"
  using assms
  unfolding contract_defs Dataset_Config_def StorageOptions_def Dataset_Metadata_def Dataset_CacheStats_def Paths_def DataStats_def
    CompactFiles_def CleanupOldVersions_def CleanupWithPolicy_def getJSON_def Let_def un_CacheStats_def un_DatasetPaths_def
    un_DataStatistics_def un_strings_def un_CompactionMetrics_def un_RemovalStats_def
  by (auto intro!: json_contract_rules raw_FieldStatistics raw_compaction_json)

section \<open>Properties\<close>

text \<open>What a document of updates does to the stored map: null removes the key, a string sets it,
  a key that is not named keeps its value.\<close>

definition apply_updates :: "json \<Rightarrow> (string \<rightharpoonup> string) \<Rightarrow> string \<rightharpoonup> string" where
  "apply_updates doc m = (\<lambda>k. case json_get k doc of Some JNull \<Rightarrow> None | Some (JStr s) \<Rightarrow> Some s | _ \<Rightarrow> m k)"

definition json_update_value :: "string option \<Rightarrow> json" where
  "json_update_value v = (case v of None \<Rightarrow> JNull | Some s \<Rightarrow> JStr s)"

lemma map_of_map_snd: "map_of (map (\<lambda>(k, v). (k, f v)) m) k = map_option f (map_of m k)"
  by (induction m) auto

lemma json_get_updates:
  "distinct (map fst m) \<Longrightarrow> json_get k (json_updates m) = map_option json_update_value (map_of m k)"
  by (simp add: json_updates_def json_update_value_def [symmetric] map_of_map_snd map_of_sort_key)

lemma distinct_delete_updates: "distinct (map fst m) \<Longrightarrow> distinct (map fst (delete_updates keys m))"
  by (induction keys m rule: delete_updates.induct) (simp_all add: distinct_update)

lemma map_of_delete_updates:
  "map_of (delete_updates keys m) k = (if k \<in> set keys then Some None else map_of m k)"
  by (induction keys m rule: delete_updates.induct) (auto simp: update_conv)

lemma json_wire_value: "json_wire (case v of None \<Rightarrow> JNull | Some s \<Rightarrow> JStr s) = (case v of None \<Rightarrow> JNull | Some s \<Rightarrow> JStr (marshal_string s))"
  by (cases v) simp_all

lemma apply_map_values:
  assumes "distinct (map fst kv)"
  shows "apply_updates (json_updates (map_values kv)) m = m ++ map_of kv"
proof -
  have "distinct (map fst (map_values kv))"
    using assms by (simp add: map_values_def split_beta comp_def)
  moreover have "map_of (map_values kv) k = map_option Some (map_of kv k)" for k
    by (simp add: map_values_def map_of_map_snd)
  ultimately have "json_get k (json_updates (map_values kv)) = map_option JStr (map_of kv k)" for k
    by (simp add: json_get_updates option.map_comp comp_def json_update_value_def)
  then show ?thesis
    by (auto simp: fun_eq_iff apply_updates_def map_add_def split: option.split)
qed

lemma set_delete_updates: "set (delete_updates keys []) = set keys \<times> {None}"
proof -
  have "(k, v) \<in> set (delete_updates keys []) \<longleftrightarrow> map_of (delete_updates keys []) k = Some v" for k v
    using distinct_delete_updates [of "[]" keys] by (simp add: map_of_eq_Some_iff)
  then show ?thesis
    by (auto simp: map_of_delete_updates split: if_splits)
qed

lemma apply_delete_updates: "apply_updates (json_updates (delete_updates keys [])) m = m |` (- set keys)"
proof -
  have "json_get k (json_updates (delete_updates keys [])) = (if k \<in> set keys then Some JNull else None)" for k
    by (simp add: json_get_updates distinct_delete_updates map_of_delete_updates json_update_value_def)
  then show ?thesis
    by (auto simp: fun_eq_iff apply_updates_def restrict_map_def)
qed

lemma json_wire_updates:
  assumes "\<forall>(k, v) \<in> set m. ValidString k \<and> pred_option ValidString v"
  shows "json_wire (json_updates m) = json_updates m"
  using assms
  by (auto simp: json_updates_def map_prod_def split_beta json_wire_value split: option.split)

lemma meets_updateMap:
  assumes "never_done c" and "lance_in_tokio_runtime F (fst v) = 0" and "view_ptr (ds_h d) v = Some q"
  shows "meets v (updateMap F c d name verb (Some u) replace f)
    (\<lambda>_ v'. fst v' = snd (ccall F f [CHandle q, CText (Json (json_updates u)), CBool replace] (fst v)))"
proof -
  obtain rc out n where c: "ccall F f [CHandle q, CText (Json (json_updates u)), CBool replace] (fst v) = ((rc, out), n)"
    by (metis surj_pair)
  show ?thesis
    unfolding updateMap_def Let_def
    by (auto intro!: meets_with_options meets_datasetOp [OF assms(1,3)] meets_json_call [OF assms(2,1) c] simp: c)
qed

text \<open>The native rule for an update document: the named keys are set or removed in the stored map,
  or, with the replace flag, in an empty one. \<^verbatim>\<open>writes_map\<close> says that an operation makes one native call
  of \<^verbatim>\<open>f\<close> on the dataset whose document, as it is read on the other side, turns every stored map \<^verbatim>\<open>s\<close>
  into \<^verbatim>\<open>g s\<close>.\<close>

definition update_stored :: "bool \<Rightarrow> json \<Rightarrow> (string \<rightharpoonup> string) \<Rightarrow> string \<rightharpoonup> string" where
  "update_stored replace doc s = apply_updates doc (if replace then Map.empty else s)"

definition writes_map ::
  "'n lance_ffi \<Rightarrow> string \<Rightarrow> nat \<Rightarrow> ('n, 'p) world \<Rightarrow> ('n, 'p, 'a) go \<Rightarrow> ((string \<rightharpoonup> string) \<Rightarrow> string \<rightharpoonup> string) \<Rightarrow> bool" where
  "writes_map F f q w m g =
     (\<exists>doc replace. native (snd (run_state m w)) = snd (ccall F f [CHandle q, CText (Json doc), CBool replace] (native w)) \<and>
        (\<forall>s. update_stored replace (json_wire doc) s = g s))"

lemma writes_map_updateMap:
  assumes "never_done c" and "lance_in_tokio_runtime F (native w) = 0" and "handle_ptr (ds_h d) w = Some q"
    and "\<And>s. update_stored replace (json_wire (json_updates u)) s = g s"
  shows "writes_map F f q w (updateMap F c d name verb (Some u) replace f) g"
    and "writes_map F f q w (do { r \<leftarrow> updateMap F c d name verb (Some u) replace f; ret (err_of r) }) g"
proof -
  have "native (snd (run_state (updateMap F c d name verb (Some u) replace f) w)) =
      snd (ccall F f [CHandle q, CText (Json (json_updates u)), CBool replace] (native w))"
    using meetsD [OF meets_updateMap [of c F "view w" d q name verb u replace f] refl surjective_pairing] assms(1-3) by simp
  with assms(4) show "writes_map F f q w (updateMap F c d name verb (Some u) replace f) g"
    and "writes_map F f q w (do { r \<leftarrow> updateMap F c d name verb (Some u) replace f; ret (err_of r) }) g"
    unfolding writes_map_def by (auto simp: split_beta)
qed

text \<open>C36: the metadata operations do to the stored maps what they are called. For a Go map of valid
  UTF-8 strings and an admitted call on an open dataset, \<^verbatim>\<open>UpdateConfig\<close>, \<^verbatim>\<open>UpdateMetadata\<close> and
  \<^verbatim>\<open>UpdateSchemaMetadata\<close> call their native function on the dataset with a document and a replace flag
  that override the stored map by the given one, \<^verbatim>\<open>ReplaceSchemaMetadata\<close> with ones that make the given
  map the stored one, and \<^verbatim>\<open>DeleteMetadataKeys\<close> with ones that remove exactly the named keys, also
  when a key is named twice. (Strings that are not UTF-8 reach the native side with U+FFFD in
  place of the bad bytes, so that distinct keys can become one.)\<close>

theorem metadata_updates_refine:
  assumes "never_done c" and "lance_in_tokio_runtime F (native w) = 0" and "handle_ptr (ds_h d) w = Some q"
    and "distinct (map fst kv)" and "\<forall>(k, v) \<in> set kv. ValidString k \<and> ValidString v" and "\<forall>k \<in> set keys. ValidString k"
  shows "writes_map F ''lance_dataset_update_config'' q w (UpdateConfig F c d kv) (\<lambda>s. s ++ map_of kv) \<and>
    writes_map F ''lance_dataset_update_metadata'' q w (UpdateMetadata F c d kv) (\<lambda>s. s ++ map_of kv) \<and>
    writes_map F ''lance_dataset_update_schema_metadata'' q w (UpdateSchemaMetadata F c d kv) (\<lambda>s. s ++ map_of kv) \<and>
    writes_map F ''lance_dataset_update_schema_metadata'' q w (ReplaceSchemaMetadata F c d kv) (\<lambda>_. map_of kv) \<and>
    writes_map F ''lance_dataset_update_metadata'' q w (DeleteMetadataKeys F c d keys) (\<lambda>s. s |` (- set keys))"
proof -
  have "json_wire (json_updates (map_values kv)) = json_updates (map_values kv)"
    using assms(5) by (intro json_wire_updates) (auto simp: map_values_def)
  then have merge: "update_stored False (json_wire (json_updates (map_values kv))) s = s ++ map_of kv"
    and repl: "update_stored True (json_wire (json_updates (map_values kv))) s = map_of kv" for s
    using apply_map_values [OF assms(4)] by (simp_all add: update_stored_def)
  have "\<forall>(k, v) \<in> set (delete_updates keys []). ValidString k \<and> pred_option ValidString v"
    using assms(6) set_delete_updates [of keys] by fastforce
  then have del: "update_stored False (json_wire (json_updates (delete_updates keys []))) s = s |` (- set keys)" for s
    by (simp add: update_stored_def json_wire_updates apply_delete_updates)
  show ?thesis
    unfolding UpdateConfig_def UpdateMetadata_def UpdateSchemaMetadata_def ReplaceSchemaMetadata_def DeleteMetadataKeys_def
    by (intro conjI writes_map_updateMap [OF assms(1-3)] merge repl del)
qed

definition open_ds :: "nat \<Rightarrow> handle option" where
  "open_ds = [4 \<mapsto> \<lparr>h_ptr = Some 9, h_cleanup = Some 9\<rparr>]"

theorem metadata_updates_refine_witness:
  "let F = log_ffi [CText (Json (JObj []))]; d = \<lparr>ds_h = 4, ds_obs = None\<rparr>; w = log_world open_ds
   in writes_map F ''lance_dataset_update_metadata'' 9 w (UpdateMetadata F background d [(''b'', ''2''), (''a'', ''1'')])
        (\<lambda>s. s ++ [''a'' \<mapsto> ''1'', ''b'' \<mapsto> ''2'']) \<and>
      writes_map F ''lance_dataset_update_metadata'' 9 w (DeleteMetadataKeys F background d [''a'', ''a'']) (\<lambda>s. s |` (- {''a''}))"
proof -
  have "ValidString ''a''" "ValidString ''b''" "ValidString ''1''" "ValidString ''2''"
    by code_simp+
  then show ?thesis
    using metadata_updates_refine [of background "log_ffi [CText (Json (JObj []))]" "log_world open_ds"
        "\<lparr>ds_h = 4, ds_obs = None\<rparr>" 9 "[(''b'', ''2''), (''a'', ''1'')]" "[''a'', ''a'']"]
    by (simp add: open_ds_def fun_upd_twist)
qed

end
