(* ===== verification/Lance_Reader.thy ===== *)
theory Lance_Reader
  imports Lance_Ops
begin

text \<open>
  Streams of record batches: \<^verbatim>\<open>ownedRecordReader\<close> of \<^verbatim>\<open>lance/reader.go\<close>, the range-over-func
  iterator \<^verbatim>\<open>batches\<close> of \<^verbatim>\<open>lance/iter.go\<close>, and \<^verbatim>\<open>singleBatch\<close> and \<^verbatim>\<open>drainSingleBatch\<close> of
  \<^verbatim>\<open>lance/take.go\<close>. The native Arrow C stream is the finite sequence of replies that its
  \<^verbatim>\<open>get_next\<close> gives. What clients of a reader rely on is the locale \<^verbatim>\<open>record_reader\<close>.
\<close>

section \<open>The native stream\<close>

text \<open>One \<^verbatim>\<open>get_next\<close>: a batch, an error code with the text of \<^verbatim>\<open>get_last_error\<close>, or an array
  that cannot be imported. A stream without replies is at its end (a released array).\<close>

datatype 'b reply = Batch 'b | Errno int "string option" | BadBatch string

text \<open>The answer of \<^verbatim>\<open>get_schema\<close>.\<close>

datatype schema_reply = SchemaOk | SchemaErrno int "string option" | SchemaBad string

section \<open>ownedRecordReader\<close>

text \<open>\<^verbatim>\<open>+\<close> on \<^verbatim>\<open>int64\<close> values wraps around; the values are kept as integers in that range.\<close>

definition add_int64 :: "int \<Rightarrow> int \<Rightarrow> int" where
  "add_int64 a b = signed_take_bit 63 (a + b)"

text \<open>The fields of the struct, then what happened so far: how often the context was
  consulted, how often the stream was released, the calls of \<^verbatim>\<open>finish\<close>, and the batch
  references that the reader holds.\<close>

record 'b reader =
  r_refs :: int
  r_stream :: "'b reply list option"
  r_current :: "'b option"
  r_err :: "goerr option"
  r_released :: bool
  r_ctx :: ctx
  r_has_finish :: bool
  r_finished :: bool
  r_rows :: int
  r_what :: string
  r_tick :: nat
  streams_released :: nat
  finish_calls :: "(goerr option \<times> int) list"
  batch_refs :: "'b list"

definition streamCallErrorRaw :: "string \<Rightarrow> string \<Rightarrow> int \<Rightarrow> string option \<Rightarrow> goerr" where
  "streamCallErrorRaw what action errno last_error =
     (let message = (case last_error of None \<Rightarrow> ''unknown Arrow C stream error'' | Some m \<Rightarrow> m)
      in Wrapf [Str what, Lit '' stream '', Str action, Lit '' failed (errno '', Dec errno, Lit ''): '', Str message, Lit '': '']
           (sentinel_err ErrInternal) [])"

definition streamCallError :: "string \<Rightarrow> string \<Rightarrow> int \<Rightarrow> string option \<Rightarrow> goerr" where
  "streamCallError what action errno last_error =
     Wrapf [Lit ''lance: ''] (streamCallErrorRaw what action errno last_error) []"

text \<open>The constructor, with whether \<^verbatim>\<open>lance_go_stream_move\<close> could allocate; the second component
  counts the releases of the stream on the failing paths.\<close>

definition newOwnedRecordReader ::
  "bool \<Rightarrow> schema_reply \<Rightarrow> 'b reply list \<Rightarrow> string \<Rightarrow> ctx option \<Rightarrow> bool \<Rightarrow> (goerr + 'b reader) \<times> nat" where
  "newOwnedRecordReader alloc sch replies what cfg_ctx has_finish =
     (if \<not> alloc then
        (Inl (Wrapf [Lit ''import '', Str what, Lit '' stream: allocate stream: ''] (sentinel_err ErrInternal) []), 1)
      else (case sch of
        SchemaErrno errno m \<Rightarrow> (Inl (streamCallErrorRaw what ''schema'' errno m), 1)
      | SchemaBad m \<Rightarrow>
          (Inl (Wrapf [Lit ''import '', Str what, Lit '' stream schema: '', Str m, Lit '': ''] (sentinel_err ErrInternal) []), 1)
      | SchemaOk \<Rightarrow>
          (Inr \<lparr>r_refs = 1, r_stream = Some replies, r_current = None, r_err = None, r_released = False,
                r_ctx = (case cfg_ctx of None \<Rightarrow> background | Some c \<Rightarrow> c), r_has_finish = has_finish,
                r_finished = False, r_rows = 0, r_what = what, r_tick = 0, streams_released = 0,
                finish_calls = [], batch_refs = []\<rparr>, 0)))"

definition closeStreamLocked :: "'b reader \<Rightarrow> 'b reader" where
  "closeStreamLocked r =
     (if r_stream r \<noteq> None then r\<lparr>r_stream := None, streams_released := Suc (streams_released r)\<rparr> else r)"

definition finishLocked :: "'b reader \<Rightarrow> 'b reader" where
  "finishLocked r =
     (if r_finished r then r
      else let r1 = r\<lparr>r_finished := True\<rparr> in
        if r_has_finish r1 then r1\<lparr>finish_calls := finish_calls r1 @ [(r_err r1, r_rows r1)]\<rparr> else r1)"

text \<open>\<^verbatim>\<open>if r.current != nil { r.current.Release(); r.current = nil }\<close>.\<close>

definition release_current :: "'b reader \<Rightarrow> 'b reader" where
  "release_current r = (case r_current r of None \<Rightarrow> r
     | Some b \<Rightarrow> r\<lparr>r_current := None, batch_refs := remove1 b (batch_refs r)\<rparr>)"

definition forceRelease :: "'b reader \<Rightarrow> 'b reader" where
  "forceRelease r =
     (if r_released r then r
      else finishLocked (closeStreamLocked (release_current (r\<lparr>r_released := True\<rparr>))))"

definition Retain :: "'b reader \<Rightarrow> unit outcome \<times> 'b reader" where
  "Retain r = (if r_refs r \<le> 0 then (Panic ''lance: retain released record reader'', r)
     else (Ret (), r\<lparr>r_refs := r_refs r + 1\<rparr>))"

definition Release :: "'b reader \<Rightarrow> unit outcome \<times> 'b reader" where
  "Release r =
     (let r1 = r\<lparr>r_refs := r_refs r - 1\<rparr> in
      if r_refs r1 < 0 then (Panic ''lance: too many record reader releases'', r1)
      else if r_refs r1 = 0 then (Ret (), forceRelease r1)
      else (Ret (), r1))"

definition RecordBatch :: "'b reader \<Rightarrow> 'b option" where
  "RecordBatch r = r_current r"

definition Err :: "'b reader \<Rightarrow> goerr option" where
  "Err r = r_err r"

text \<open>Storing the error that ends the iteration.\<close>

definition stop_with :: "goerr option \<Rightarrow> 'b reader \<Rightarrow> 'b reader" where
  "stop_with e r = finishLocked (closeStreamLocked (r\<lparr>r_err := e\<rparr>))"

definition Next :: "('b \<Rightarrow> int) \<Rightarrow> 'b reader \<Rightarrow> bool \<times> 'b reader" where
  "Next NumRows r =
     (if r_released r \<or> r_stream r = None \<or> r_err r \<noteq> None then (False, r)
      else
        let r1 = release_current r in
        case ctx_err_at (r_ctx r1) (r_tick r1) of
          Some err \<Rightarrow> (False, stop_with (Some (ctx_error err)) (r1\<lparr>r_tick := Suc (r_tick r1)\<rparr>))
        | None \<Rightarrow>
            let r2 = r1\<lparr>r_tick := Suc (r_tick r1)\<rparr> in
            (case the (r_stream r2) of
               [] \<Rightarrow> (False, stop_with (r_err r2) r2)
             | Errno errno m # rest \<Rightarrow> (False, stop_with (Some (streamCallError (r_what r2) ''next'' errno m)) r2)
             | BadBatch m # rest \<Rightarrow>
                 (False, stop_with (Some (Wrapf [Lit ''lance: import '', Str (r_what r2), Lit '' record batch: '', Str m, Lit '': '']
                                       (sentinel_err ErrInternal) [])) r2)
             | Batch b # rest \<Rightarrow>
                 (True, r2\<lparr>r_stream := Some rest, r_current := Some b, batch_refs := b # batch_refs r2,
                           r_rows := add_int64 (r_rows r2) (NumRows b)\<rparr>)))"

section \<open>Life cycle\<close>

definition reader_inv :: "'b reader \<Rightarrow> bool" where
  "reader_inv r =
     (streams_released r = (if r_stream r = None then 1 else 0) \<and>
      batch_refs r = (case r_current r of None \<Rightarrow> [] | Some b \<Rightarrow> [b]) \<and>
      (r_stream r = None \<longleftrightarrow> r_finished r) \<and>
      finish_calls r = (if r_finished r \<and> r_has_finish r then [(r_err r, r_rows r)] else []) \<and>
      (r_err r \<noteq> None \<longrightarrow> r_stream r = None) \<and>
      (r_released r \<longrightarrow> r_stream r = None \<and> r_current r = None))"

lemmas reader_defs = stop_with_def closeStreamLocked_def finishLocked_def release_current_def forceRelease_def

lemma reader_inv_new:
  "newOwnedRecordReader al sch xs what c fin = (Inr r, k) \<Longrightarrow> reader_inv r \<and> k = 0"
  by (auto simp: newOwnedRecordReader_def reader_inv_def split: if_splits schema_reply.splits)

lemma reader_inv_forceRelease: "reader_inv r \<Longrightarrow> reader_inv (forceRelease r)"
  by (auto simp: reader_inv_def reader_defs Let_def split: option.splits)

lemma reader_inv_Retain: "reader_inv r \<Longrightarrow> reader_inv (snd (Retain r))"
  by (auto simp: Retain_def reader_inv_def)

lemma reader_inv_refs: "reader_inv (r\<lparr>r_refs := n\<rparr>) = reader_inv r"
  by (simp add: reader_inv_def)

lemma reader_inv_Release: "reader_inv r \<Longrightarrow> reader_inv (snd (Release r))"
  by (simp add: Release_def Let_def reader_inv_forceRelease reader_inv_refs)

definition reader_open :: "'b reader \<Rightarrow> bool" where
  "reader_open r = (\<not> r_released r \<and> r_stream r \<noteq> None \<and> r_err r = None)"

lemma reader_inv_stop:
  "reader_inv r \<Longrightarrow> reader_open r \<Longrightarrow> reader_inv (stop_with e r)"
  by (auto simp: reader_inv_def reader_open_def stop_with_def closeStreamLocked_def finishLocked_def Let_def)

lemma release_current_props:
  assumes "reader_inv r"
  shows "reader_inv (release_current r)" and "r_current (release_current r) = None"
    and "reader_open (release_current r) = reader_open r" and "r_stream (release_current r) = r_stream r"
    and "r_ctx (release_current r) = r_ctx r" and "r_tick (release_current r) = r_tick r"
    and "r_what (release_current r) = r_what r" and "r_err (release_current r) = r_err r"
    and "r_refs (release_current r) = r_refs r" and "r_rows (release_current r) = r_rows r"
    and "r_released (release_current r) = r_released r"
  using assms by (auto simp: reader_inv_def reader_open_def release_current_def split: option.splits)

lemma reader_tick_simps [simp]:
  "reader_inv (r\<lparr>r_tick := n\<rparr>) = reader_inv r" "reader_open (r\<lparr>r_tick := n\<rparr>) = reader_open r"
  by (simp_all add: reader_inv_def reader_open_def)

text \<open>\<^verbatim>\<open>Next\<close> on an open reader, case by case.\<close>

lemma Next_open:
  assumes "reader_inv r" and "reader_open r"
  shows "Next nr r =
    (let r2 = (release_current r)\<lparr>r_tick := Suc (r_tick r)\<rparr> in
     case ctx_err_at (r_ctx r) (r_tick r) of
       Some x \<Rightarrow> (False, stop_with (Some (ctx_error x)) r2)
     | None \<Rightarrow> (case the (r_stream r) of
         [] \<Rightarrow> (False, stop_with None r2)
       | Errno errno m # rest \<Rightarrow> (False, stop_with (Some (streamCallError (r_what r) ''next'' errno m)) r2)
       | BadBatch m # rest \<Rightarrow> (False, stop_with (Some (Wrapf [Lit ''lance: import '', Str (r_what r),
             Lit '' record batch: '', Str m, Lit '': ''] (sentinel_err ErrInternal) [])) r2)
       | Batch b # rest \<Rightarrow> (True, r2\<lparr>r_stream := Some rest, r_current := Some b, batch_refs := b # batch_refs r2,
             r_rows := add_int64 (r_rows r2) (nr b)\<rparr>)))"
proof -
  obtain xs where "r_stream r = Some xs" using assms(2) by (auto simp: reader_open_def)
  with assms(2) release_current_props [OF assms(1)] show ?thesis
    by (cases "ctx_err_at (r_ctx r) (r_tick r)")
      (simp_all add: Next_def reader_open_def Let_def split: list.split reply.split)
qed

lemma reader_inv_Next: "reader_inv r \<Longrightarrow> reader_inv (snd (Next nr r))"
proof (cases "reader_open r")
  case True
  assume inv: "reader_inv r"
  let ?r2 = "(release_current r)\<lparr>r_tick := Suc (r_tick r)\<rparr>"
  have stop: "reader_inv (stop_with e ?r2)" for e
    using True release_current_props [OF inv] by (intro reader_inv_stop) simp_all
  have "reader_inv ?r2" "r_current ?r2 = None" "reader_open ?r2"
    using True release_current_props [OF inv] by simp_all
  then have "reader_inv (?r2\<lparr>r_stream := Some rest, r_current := Some b, batch_refs := b # batch_refs ?r2,
             r_rows := add_int64 (r_rows ?r2) (nr b)\<rparr>)" for rest b
    by (simp add: reader_inv_def reader_open_def)
  with stop show ?thesis
    unfolding Next_open [OF inv True] Let_def
    by (simp split: option.split list.split reply.split)
next
  case False
  then show "reader_inv r \<Longrightarrow> reader_inv (snd (Next nr r))"
    by (auto simp: Next_def reader_open_def)
qed

text \<open>The calls that a client, its goroutines and the finalizer make on a reader.\<close>

datatype rd_op = ONext | ORetain | ORelease | OFinalize

fun rd_step :: "('b \<Rightarrow> int) \<Rightarrow> rd_op \<Rightarrow> 'b reader \<Rightarrow> 'b reader" where
  "rd_step nr ONext r = snd (Next nr r)"
| "rd_step nr ORetain r = snd (Retain r)"
| "rd_step nr ORelease r = snd (Release r)"
| "rd_step nr OFinalize r = forceRelease r"

fun rd_run :: "('b \<Rightarrow> int) \<Rightarrow> rd_op list \<Rightarrow> 'b reader \<Rightarrow> 'b reader" where
  "rd_run nr [] r = r"
| "rd_run nr (x # xs) r = rd_run nr xs (rd_step nr x r)"

lemma reader_inv_run: "reader_inv r \<Longrightarrow> reader_inv (rd_run nr xs r)"
proof (induction xs arbitrary: r)
  case (Cons x xs)
  then show ?case
    by (cases x) (auto intro: reader_inv_Next reader_inv_Retain reader_inv_Release reader_inv_forceRelease)
qed simp

lemma released_when_unreferenced: "reader_inv r \<Longrightarrow> r_refs r = 1 \<Longrightarrow> r_released (snd (Release r))"
  by (auto simp: Release_def reader_defs Let_def split: option.split)

section \<open>The reader interface\<close>

text \<open>\<^verbatim>\<open>array.RecordReader\<close> as its clients use it. \<^verbatim>\<open>pending\<close> lists what is still to come: batches,
  and an error if one ends the stream.\<close>

locale record_reader =
  fixes nxt :: "'r \<Rightarrow> bool \<times> 'r"
    and cur :: "'r \<Rightarrow> 'b option"
    and er :: "'r \<Rightarrow> goerr option"
    and pending :: "'r \<Rightarrow> (goerr + 'b) list"
    and invar :: "'r \<Rightarrow> bool"
  assumes next_batch: "invar r \<Longrightarrow> pending r = Inr b # vs \<Longrightarrow>
      \<exists>r'. nxt r = (True, r') \<and> invar r' \<and> cur r' = Some b \<and> pending r' = vs"
    and next_error: "invar r \<Longrightarrow> pending r = Inl e # vs \<Longrightarrow> \<exists>r'. nxt r = (False, r') \<and> invar r' \<and> er r' = Some e \<and> vs = []"
    and next_end: "invar r \<Longrightarrow> pending r = [] \<Longrightarrow> er r = None \<Longrightarrow> \<exists>r'. nxt r = (False, r') \<and> invar r' \<and> er r' = None"
    and next_clean: "invar r \<Longrightarrow> nxt r = (True, r') \<Longrightarrow> er r' = None"

text \<open>The loop of \<^verbatim>\<open>batches\<close>; \<^verbatim>\<open>yield\<close> is the loop body of the caller, which keeps its own state and
  says whether to go on. It gets a batch or an error.\<close>

partial_function (option) batches_loop ::
  "('r \<Rightarrow> bool \<times> 'r) \<Rightarrow> ('r \<Rightarrow> 'b option) \<Rightarrow> ('r \<Rightarrow> goerr option) \<Rightarrow>
   ('b option \<times> goerr option \<Rightarrow> 'y \<Rightarrow> bool \<times> 'y) \<Rightarrow> 'r \<Rightarrow> 'y \<Rightarrow> ('y \<times> 'r) option" where
  "batches_loop nxt cur er yield r y =
     (let (ok, r1) = nxt r in
      if ok then
        (let (go_on, y1) = yield (cur r1, None) y in
         if go_on then batches_loop nxt cur er yield r1 y1 else Some (y1, r1))
      else (case er r1 of
              Some err \<Rightarrow> Some (snd (yield (None, Some err) y), r1)
            | None \<Rightarrow> Some (y, r1)))"

definition batches ::
  "('r \<Rightarrow> bool \<times> 'r) \<Rightarrow> ('r \<Rightarrow> 'b option) \<Rightarrow> ('r \<Rightarrow> goerr option) \<Rightarrow> ('r \<Rightarrow> 'r) \<Rightarrow>
   goerr + 'r \<Rightarrow> ('b option \<times> goerr option \<Rightarrow> 'y \<Rightarrow> bool \<times> 'y) \<Rightarrow> 'y \<Rightarrow> ('y \<times> 'r option) option" where
  "batches nxt cur er release opened yield y =
     (case opened of
        Inl err \<Rightarrow> Some (snd (yield (None, Some err) y), None)
      | Inr r \<Rightarrow> (case batches_loop nxt cur er yield r y of
          None \<Rightarrow> None
        | Some (y1, r1) \<Rightarrow> Some (y1, Some (release r1))))"

text \<open>A loop body that collects what it gets and breaks after \<^verbatim>\<open>n\<close> values.\<close>

definition collect_upto :: "nat \<Rightarrow> 'v \<Rightarrow> 'v list \<Rightarrow> bool \<times> 'v list" where
  "collect_upto n v vs = (Suc (length vs) < n, vs @ [v])"

fun yielded :: "goerr + 'b \<Rightarrow> 'b option \<times> goerr option" where
  "yielded (Inr b) = (Some b, None)"
| "yielded (Inl e) = (None, Some e)"

context record_reader
begin

lemma batches_loop_collects:
  assumes "invar r" and "pending r = vs" and "vs = [] \<Longrightarrow> er r = None" and "length acc < n"
    and "P r" and keep: "\<And>r. P r \<Longrightarrow> P (snd (nxt r))"
  shows "\<exists>r'. batches_loop nxt cur er (collect_upto n) r acc = Some (take n (acc @ map yielded vs), r') \<and> invar r' \<and> P r'"
  using assms(1-5)
proof (induction vs arbitrary: r acc)
  case Nil
  then obtain r' where "nxt r = (False, r')" "er r' = None" "invar r'"
    using next_end [of r] by auto
  moreover from this have "P r'" using keep [of r] Nil.prems(5) by simp
  ultimately show ?case
    using Nil.prems by (subst batches_loop.simps) simp
next
  case (Cons v vs)
  show ?case
  proof (cases v)
    case (Inl e)
    then obtain r' where r': "nxt r = (False, r')" "er r' = Some e" "vs = []" "invar r'"
      using next_error [of r e vs] Cons.prems by auto
    moreover from this have "P r'" using keep [of r] Cons.prems(5) by simp
    moreover have "snd (collect_upto n (None, Some e) acc) = acc @ [(None, Some e)]"
      by (simp add: collect_upto_def)
    ultimately show ?thesis
      using Inl Cons.prems by (subst batches_loop.simps) simp
  next
    case (Inr b)
    then obtain r' where r': "nxt r = (True, r')" "invar r'" "cur r' = Some b" "pending r' = vs"
      using next_batch [of r b vs] Cons.prems by auto
    have P: "P r'" using keep [of r] Cons.prems(5) r'(1) by simp
    have collect: "collect_upto n (Some b, None) acc = (Suc (length acc) < n, acc @ [(Some b, None)])"
      by (simp add: collect_upto_def)
    show ?thesis
    proof (cases "Suc (length acc) < n")
      case True
      have clean: "vs = [] \<Longrightarrow> er r' = None"
        using next_clean r'(1) Cons.prems by blast
      show ?thesis
        using Cons.IH [OF r'(2,4) clean _ P, of "acc @ [(Some b, None)]"] True r' Inr
        by (subst batches_loop.simps) (simp add: collect)
    next
      case False
      then have "take (n - length acc) (x # xs) = [x]" for x :: "'b option \<times> goerr option" and xs
        using Cons.prems(4) by (cases "n - length acc") auto
      with False r' Inr Cons.prems P show ?thesis
        by (subst batches_loop.simps) (simp add: collect)
    qed
  qed
qed

end

section \<open>The owned reader implements the interface\<close>

text \<open>What an open reader still delivers: the context is consulted before each batch.\<close>

fun stream_values :: "ctx \<Rightarrow> nat \<Rightarrow> string \<Rightarrow> 'b reply list \<Rightarrow> (goerr + 'b) list" where
  "stream_values c t what [] = (case ctx_err_at c t of Some x \<Rightarrow> [Inl (ctx_error x)] | None \<Rightarrow> [])"
| "stream_values c t what (x # xs) =
     (case ctx_err_at c t of
        Some x \<Rightarrow> [Inl (ctx_error x)]
      | None \<Rightarrow> (case x of
          Batch b \<Rightarrow> Inr b # stream_values c (Suc t) what xs
        | Errno errno m \<Rightarrow> [Inl (streamCallError what ''next'' errno m)]
        | BadBatch m \<Rightarrow> [Inl (Wrapf [Lit ''lance: import '', Str what, Lit '' record batch: '', Str m, Lit '': '']
                               (sentinel_err ErrInternal) [])]))"

definition reader_pending :: "'b reader \<Rightarrow> (goerr + 'b) list" where
  "reader_pending r =
     (if reader_open r then stream_values (r_ctx r) (r_tick r) (r_what r) (the (r_stream r)) else [])"

lemma stop_with_simps [simp]: "r_err (stop_with e r) = e"
  by (simp add: stop_with_def closeStreamLocked_def finishLocked_def Let_def)

lemma Next_batch:
  assumes "reader_inv r" and "reader_pending r = Inr b # vs"
  shows "\<exists>r'. Next nr r = (True, r') \<and> RecordBatch r' = Some b \<and> reader_pending r' = vs \<and> r_err r' = None \<and> r_refs r' = r_refs r"
proof -
  have op: "reader_open r" using assms(2) by (auto simp: reader_pending_def split: if_splits)
  obtain xs where xs: "r_stream r = Some xs" using op by (auto simp: reader_open_def)
  from assms(2) op xs obtain rest where "ctx_err_at (r_ctx r) (r_tick r) = None" "xs = Batch b # rest"
      "vs = stream_values (r_ctx r) (Suc (r_tick r)) (r_what r) rest"
    by (cases xs) (auto simp: reader_pending_def split: option.splits reply.splits)
  with op xs release_current_props [OF assms(1)] show ?thesis
    by (auto simp: Next_open [OF assms(1) op] Let_def RecordBatch_def reader_pending_def reader_open_def)
qed

lemma Next_error:
  assumes "reader_inv r" and "reader_pending r = Inl e # vs"
  shows "\<exists>r'. Next nr r = (False, r') \<and> r_err r' = Some e \<and> vs = []"
proof -
  have op: "reader_open r" using assms(2) by (auto simp: reader_pending_def split: if_splits)
  obtain xs where xs: "r_stream r = Some xs" using op by (auto simp: reader_open_def)
  from assms(2) op xs show ?thesis
    by (cases xs) (auto simp: Next_open [OF assms(1) op] Let_def reader_pending_def split: option.splits reply.splits)
qed

lemma Next_end:
  assumes "reader_inv r" and "reader_pending r = []" and "r_err r = None"
  shows "\<exists>r'. Next nr r = (False, r') \<and> r_err r' = None"
proof (cases "reader_open r")
  case True
  obtain xs where xs: "r_stream r = Some xs" using True by (auto simp: reader_open_def)
  from assms(2) True xs show ?thesis
    by (cases xs) (auto simp: Next_open [OF assms(1) True] Let_def reader_pending_def split: option.splits reply.splits)
next
  case False
  with assms(3) show ?thesis by (auto simp: Next_def reader_open_def)
qed

lemma Next_True_clean: "reader_inv r \<Longrightarrow> Next nr r = (True, r') \<Longrightarrow> r_err r' = None"
proof -
  assume inv: "reader_inv r" and n: "Next nr r = (True, r')"
  then have op: "reader_open r" by (auto simp: Next_def reader_open_def split: if_splits)
  obtain xs where xs: "r_stream r = Some xs" using op by (auto simp: reader_open_def)
  from n op xs release_current_props [OF inv] show ?thesis
    by (auto simp: Next_open [OF inv op] Let_def reader_open_def split: option.splits list.splits reply.splits)
qed

interpretation owned: record_reader "Next nr" RecordBatch Err reader_pending reader_inv for nr
proof unfold_locales
  fix r r' :: "'a reader" and b e vs
  assume inv: "reader_inv r"
  have keep: "Next nr r = (x, s) \<Longrightarrow> reader_inv s" for x s
    using reader_inv_Next [OF inv, of nr] by simp
  show "reader_pending r = Inr b # vs \<Longrightarrow>
      \<exists>r'. Next nr r = (True, r') \<and> reader_inv r' \<and> RecordBatch r' = Some b \<and> reader_pending r' = vs"
    using Next_batch [OF inv] keep by blast
  show "reader_pending r = Inl e # vs \<Longrightarrow> \<exists>r'. Next nr r = (False, r') \<and> reader_inv r' \<and> Err r' = Some e \<and> vs = []"
    using Next_error [OF inv] keep unfolding Err_def by blast
  show "reader_pending r = [] \<Longrightarrow> Err r = None \<Longrightarrow> \<exists>r'. Next nr r = (False, r') \<and> reader_inv r' \<and> Err r' = None"
    using Next_end [OF inv] keep unfolding Err_def by blast
  show "Next nr r = (True, r') \<Longrightarrow> Err r' = None"
    using Next_True_clean [OF inv] by (simp add: Err_def)
qed

section \<open>Single batches\<close>

text \<open>\<^verbatim>\<open>singleBatch\<close> and \<^verbatim>\<open>drainSingleBatch\<close>: the result is a batch that the caller holds a
  reference to; the reader is released by the deferred call.\<close>

definition drainSingleBatch :: "('b \<Rightarrow> int) \<Rightarrow> 'b reader \<Rightarrow> (goerr + 'b option) \<times> unit outcome \<times> 'b reader" where
  "drainSingleBatch nr r =
     (case Next nr r of
        (False, r1) \<Rightarrow>
          ((case Err r1 of
              Some err \<Rightarrow> Inl err
            | None \<Rightarrow> Inl (Wrapf [Lit ''produced no batch: ''] (sentinel_err ErrInternal) [])), Release r1)
      | (True, r1) \<Rightarrow> (Inr (RecordBatch r1), Release r1))"

definition singleBatch :: "string \<Rightarrow> ('b \<Rightarrow> int) \<Rightarrow> 'b reader \<Rightarrow> (goerr + 'b option) \<times> unit outcome \<times> 'b reader" where
  "singleBatch what nr r =
     (case Next nr r of
        (False, r1) \<Rightarrow>
          ((case Err r1 of
              Some err \<Rightarrow> Inl (Wrapf [Lit ''lance: '', Str what, Lit '': ''] err [])
            | None \<Rightarrow> Inl (Wrapf [Lit ''lance: '', Str what, Lit '' produced no batch: ''] (sentinel_err ErrInternal) [])),
           Release r1)
      | (True, r1) \<Rightarrow> (Inr (RecordBatch r1), Release r1))"

lemma refs_Next: "reader_inv r \<Longrightarrow> r_refs (snd (Next nr r)) = r_refs r"
proof (cases "reader_open r")
  case True
  assume inv: "reader_inv r"
  have "r_refs (stop_with e r') = r_refs r'" for e and r' :: "'a reader"
    by (simp add: stop_with_def closeStreamLocked_def finishLocked_def Let_def)
  then show ?thesis
    using release_current_props [OF inv]
    by (simp add: Next_open [OF inv True] Let_def split: option.split list.split reply.split)
qed (auto simp: Next_def reader_open_def)

lemma Release_last:
  assumes "reader_inv r" and "r_refs r = 1"
  shows "\<exists>r'. Release r = (Ret (), r') \<and> reader_inv r' \<and> r_stream r' = None \<and> r_current r' = None \<and> r_refs r' = 0"
proof -
  have inv: "reader_inv (snd (Release r))" using assms(1) by (rule reader_inv_Release)
  have "Release r = (Ret (), forceRelease (r\<lparr>r_refs := 0\<rparr>))"
    using assms(2) by (simp add: Release_def)
  moreover have "r_released (forceRelease (r\<lparr>r_refs := 0\<rparr>))" "r_refs (forceRelease (r\<lparr>r_refs := 0\<rparr>)) = 0"
    by (auto simp: reader_defs Let_def split: option.split)
  ultimately show ?thesis
    using inv by (auto simp: reader_inv_def)
qed

lemma has_finish_run:
  fixes r :: "'b reader"
  shows "r_has_finish (rd_run nr xs r) = r_has_finish r"
proof (induction xs arbitrary: r)
  case (Cons x xs)
  have "r_has_finish (stop_with e r') = r_has_finish r'" "r_has_finish (release_current r') = r_has_finish r'" for e and r' :: "'b reader"
    by (simp_all add: stop_with_def closeStreamLocked_def finishLocked_def release_current_def Let_def split: option.split)
  then have "r_has_finish (rd_step nr x r) = r_has_finish r"
    by (cases x) (simp_all add: Next_def Retain_def Release_def forceRelease_def finishLocked_def closeStreamLocked_def
        Let_def split: option.split list.split reply.split)
  with Cons show ?case by simp
qed simp

section \<open>Properties\<close>

text \<open>C9: a record reader releases its native stream, its batches and its span exactly once.
  Whatever sequence of \<^verbatim>\<open>Next\<close>, \<^verbatim>\<open>Retain\<close>, \<^verbatim>\<open>Release\<close> and finalizer runs follows its
  construction, the stream has been released once if it is closed and not at all before,
  \<^verbatim>\<open>finish\<close> has been called once, with the error and the row count that the reader reports,
  exactly when the stream is closed, and the reader holds a reference to the current batch
  and to nothing else; after the last reference is dropped all are gone.\<close>

theorem reader_released_once:
  assumes "newOwnedRecordReader alloc sch replies what c fin = (Inr r0, k)"
  shows "let r = rd_run nr xs r0 in
    k = 0 \<and> streams_released r = (if r_stream r = None then 1 else 0) \<and>
    finish_calls r = (if r_stream r = None \<and> fin then [(Err r, r_rows r)] else []) \<and>
    batch_refs r = (case RecordBatch r of None \<Rightarrow> [] | Some b \<Rightarrow> [b]) \<and>
    (r_refs r = 1 \<longrightarrow> r_stream (snd (Release r)) = None \<and> batch_refs (snd (Release r)) = [])"
proof -
  have inv: "reader_inv (rd_run nr xs r0)" and k: "k = 0"
    using reader_inv_new [OF assms] by (auto intro: reader_inv_run)
  have "r_has_finish r0 = fin"
    using assms by (auto simp: newOwnedRecordReader_def split: if_splits schema_reply.splits)
  moreover have "r_stream (snd (Release (rd_run nr xs r0))) = None \<and> batch_refs (snd (Release (rd_run nr xs r0))) = []"
    if "r_refs (rd_run nr xs r0) = 1"
    using Release_last [OF inv that] by (auto simp: reader_inv_def)
  ultimately show ?thesis
    using inv k has_finish_run [of nr xs r0] unfolding reader_inv_def Let_def Err_def RecordBatch_def by auto
qed

theorem reader_released_once_witness:
  "streams_released (rd_run int [ONext, ORelease]
     (case newOwnedRecordReader True SchemaOk [Batch (3 :: nat)] ''scan'' None True of (Inr r, _) \<Rightarrow> r)) = 1"
proof -
  obtain r0 where r0: "newOwnedRecordReader True SchemaOk [Batch (3 :: nat)] ''scan'' None True = (Inr r0, 0)"
    by (simp add: newOwnedRecordReader_def)
  let ?r = "rd_run int [ONext, ORelease] r0"
  have inv: "reader_inv r0" and refs: "r_refs r0 = 1"
    using reader_inv_new [OF r0] r0 by (auto simp: newOwnedRecordReader_def)
  have "r_stream ?r = None"
    using Release_last [OF reader_inv_Next [OF inv, of int]] refs_Next [OF inv, of int] refs by auto
  then have "streams_released ?r = 1"
    using reader_released_once [OF r0, of int "[ONext, ORelease]"]
    unfolding Let_def by (simp only: simp_thms if_True)
  then show ?thesis using r0 by simp
qed

text \<open>C23: the iterator \<^verbatim>\<open>batches\<close> delivers the stream. For a reader whose stream gives the replies
  \<^verbatim>\<open>replies\<close>, a loop that breaks after \<^verbatim>\<open>n\<close> values gets exactly the first \<^verbatim>\<open>n\<close> of: the batches
  in order, then, if the stream fails, a batch cannot be imported or the context is done,
  that one error, and nothing after it; the iteration terminates, and the reader is released
  exactly once however it ends.\<close>

theorem batches_deliver:
  assumes "newOwnedRecordReader True SchemaOk replies what c fin = (Inr r0, 0)" and "0 < n"
  shows "\<exists>r. batches (Next nr) RecordBatch Err (\<lambda>r. snd (Release r)) (Inr r0) (collect_upto n) [] =
      Some (take n (map yielded (stream_values (r_ctx r0) 0 what replies)), Some r) \<and>
    r_stream r = None \<and> streams_released r = 1 \<and> batch_refs r = [] \<and> r_refs r = 0"
proof -
  have inv: "reader_inv r0" using reader_inv_new [OF assms(1)] by simp
  have r0: "r_refs r0 = 1" "reader_pending r0 = stream_values (r_ctx r0) 0 what replies" "Err r0 = None"
    using assms(1) by (auto simp: newOwnedRecordReader_def reader_pending_def reader_open_def Err_def)
  let ?P = "\<lambda>r. reader_inv r \<and> r_refs r = 1"
  have keep: "?P r \<Longrightarrow> ?P (snd (Next nr r))" for r
    by (simp add: reader_inv_Next refs_Next)
  obtain r1 where r1: "batches_loop (Next nr) RecordBatch Err (collect_upto n) r0 [] =
      Some (take n (map yielded (stream_values (r_ctx r0) 0 what replies)), r1)" "?P r1"
    using owned.batches_loop_collects [OF inv r0(2), of "[]" n ?P nr] assms(2) r0 inv keep by auto
  obtain r' where "snd (Release r1) = r'" "reader_inv r'" "r_stream r' = None" "r_current r' = None" "r_refs r' = 0"
    using Release_last [of r1] r1(2) by auto
  then show ?thesis
    using r1(1) by (auto simp: batches_def reader_inv_def)
qed

theorem batches_deliver_witness:
  "\<exists>r. batches (Next int) RecordBatch Err (\<lambda>r. snd (Release r))
      (Inr (case newOwnedRecordReader True SchemaOk [Batch (3 :: nat), Batch 4] ''scan'' None True of (Inr r, _) \<Rightarrow> r))
      (collect_upto 5) [] = Some ([(Some 3, None), (Some 4, None)], Some r) \<and> streams_released r = 1"
proof -
  obtain r0 where r0: "newOwnedRecordReader True SchemaOk [Batch (3 :: nat), Batch 4] ''scan'' None True = (Inr r0, 0)"
    by (simp add: newOwnedRecordReader_def)
  have "r_ctx r0 = background" using r0 by (auto simp: newOwnedRecordReader_def)
  then show ?thesis
    using batches_deliver [OF r0, of 5 int] r0 by (auto simp: background_def)
qed

text \<open>A single-batch result is drained cleanly. On a fresh reader \<^verbatim>\<open>drainSingleBatch\<close> returns
  the first batch, or the error of the stream, or an internal error for an empty stream, and
  in every case the reader's stream is released exactly once and no reference to a batch is
  kept by the reader.\<close>

theorem drainSingleBatch_first:
  assumes "newOwnedRecordReader True SchemaOk replies what None False = (Inr r0, 0)"
  shows "\<exists>r. drainSingleBatch nr r0 =
      ((case replies of
          [] \<Rightarrow> Inl (Wrapf [Lit ''produced no batch: ''] (sentinel_err ErrInternal) [])
        | Batch b # _ \<Rightarrow> Inr (Some b)
        | Errno errno m # _ \<Rightarrow> Inl (streamCallError what ''next'' errno m)
        | BadBatch m # _ \<Rightarrow> Inl (Wrapf [Lit ''lance: import '', Str what, Lit '' record batch: '', Str m, Lit '': '']
                               (sentinel_err ErrInternal) [])), Ret (), r) \<and>
    streams_released r = 1 \<and> batch_refs r = []"
proof -
  have inv: "reader_inv r0" using reader_inv_new [OF assms] by simp
  have r0: "r_refs r0 = 1" "reader_pending r0 = stream_values background 0 what replies" "r_err r0 = None"
    using assms by (auto simp: newOwnedRecordReader_def reader_pending_def reader_open_def)
  obtain ok r1 where n: "Next nr r0 = (ok, r1)" by fastforce
  have "reader_inv r1" "r_refs r1 = 1"
    using reader_inv_Next [OF inv, of nr] refs_Next [OF inv, of nr] n r0 by simp_all
  then obtain r where rel: "Release r1 = (Ret (), r)" "streams_released r = 1" "batch_refs r = []"
    using Release_last [of r1] by (auto simp: reader_inv_def)
  have bg: "ctx_err_at background t = None" for t by (simp add: background_def)
  have "fst (drainSingleBatch nr r0) =
     (case replies of
          [] \<Rightarrow> Inl (Wrapf [Lit ''produced no batch: ''] (sentinel_err ErrInternal) [])
        | Batch b # _ \<Rightarrow> Inr (Some b)
        | Errno errno m # _ \<Rightarrow> Inl (streamCallError what ''next'' errno m)
        | BadBatch m # _ \<Rightarrow> Inl (Wrapf [Lit ''lance: import '', Str what, Lit '' record batch: '', Str m, Lit '': '']
                               (sentinel_err ErrInternal) []))"
  proof (cases replies)
    case Nil
    then show ?thesis
      using Next_end [OF inv _ r0(3), of nr] r0(2) by (auto simp: drainSingleBatch_def Err_def bg)
  next
    case (Cons x xs)
    show ?thesis
    proof (cases x)
      case (Batch b)
      then show ?thesis
        using Next_batch [OF inv, of b _ nr] r0(2) Cons by (auto simp: drainSingleBatch_def bg)
    next
      case (Errno errno m)
      then show ?thesis
        using Next_error [OF inv, of _ _ nr] r0(2) Cons by (auto simp: drainSingleBatch_def Err_def bg)
    next
      case (BadBatch m)
      then show ?thesis
        using Next_error [OF inv, of _ _ nr] r0(2) Cons by (auto simp: drainSingleBatch_def Err_def bg)
    qed
  qed
  moreover have "snd (drainSingleBatch nr r0) = (Ret (), r)"
    using n rel by (cases ok) (simp_all add: drainSingleBatch_def)
  ultimately show ?thesis
    using rel by (metis prod.collapse)
qed

theorem drainSingleBatch_first_witness:
  "\<exists>r. drainSingleBatch int
      (case newOwnedRecordReader True SchemaOk [Batch (3 :: nat)] ''take'' None False of (Inr r, _) \<Rightarrow> r) =
    (Inr (Some 3), Ret (), r) \<and> streams_released r = 1"
proof -
  obtain r0 where r0: "newOwnedRecordReader True SchemaOk [Batch (3 :: nat)] ''take'' None False = (Inr r0, 0)"
    by (simp add: newOwnedRecordReader_def)
  from drainSingleBatch_first [OF this, of int] r0 show ?thesis by auto
qed

end
