(* ===== verification/Lance_Streams.thy ===== *)
theory Lance_Streams
  imports Lance_Reader Lance_Dataset
begin

text \<open>
  Operations that read rows: point reads and samples (\<^verbatim>\<open>lance/take.go\<close>), fragments
  (\<^verbatim>\<open>lance/fragment.go\<close>), SQL (\<^verbatim>\<open>lance/sql.go\<close>), change feeds (\<^verbatim>\<open>lance/delta.go\<close>), the record reader
  over Go batches (\<^verbatim>\<open>lance/records.go\<close>), and the iterators over them (\<^verbatim>\<open>lance/iter.go\<close>). The Arrow
  C stream that a native function fills in is a parameter: what its callbacks reply.
\<close>

section \<open>Importing a stream\<close>

text \<open>\<^verbatim>\<open>stream_of\<close> says, of a stream out parameter, whether the C struct for it can be allocated,
  what its schema callback answers, and the replies of \<^verbatim>\<open>get_next\<close>.\<close>

record 'b arrow_lib =
  stream_of :: "cval \<Rightarrow> bool \<times> schema_reply \<times> 'b reply list"
  NumRows :: "'b \<Rightarrow> int"

record streamReaderConfig =
  sr_ctx :: "ctx option"
  sr_finish :: bool

definition no_streamConfig :: streamReaderConfig where
  "no_streamConfig = \<lparr>sr_ctx = None, sr_finish = False\<rparr>"

text \<open>The context is consulted from now on by the reader.\<close>

definition importRecordReaderRaw ::
  "'b arrow_lib \<Rightarrow> cval \<Rightarrow> string \<Rightarrow> streamReaderConfig \<Rightarrow> ('n, 'p, goerr + 'b reader) go" where
  "importRecordReaderRaw A stream what cfg = do {
     t \<leftarrow> reads tick;
     ret (case stream_of A stream of (alloc, sch, replies) \<Rightarrow>
       map_sum id (\<lambda>r. r\<lparr>r_tick := t\<rparr>) (fst (newOwnedRecordReader alloc sch replies what (sr_ctx cfg) (sr_finish cfg))))
   }"

definition importRecordReader ::
  "'b arrow_lib \<Rightarrow> cval \<Rightarrow> string \<Rightarrow> streamReaderConfig \<Rightarrow> ('n, 'p, goerr + 'b reader) go" where
  "importRecordReader A stream what cfg = do {
     r \<leftarrow> importRecordReaderRaw A stream what cfg;
     ret (case r of Inl err \<Rightarrow> Inl (Wrapf [Lit ''lance: ''] err []) | Inr x \<Rightarrow> Inr x)
   }"

text \<open>\<^verbatim>\<open>observedStream\<close> with \<^verbatim>\<open>defer cfg.endOnError(&err)\<close>: the span is ended here only on an error; on
  success the reader ends it, with the events of \<^verbatim>\<open>stream_finish\<close>.\<close>

definition stream_finish :: "obs option \<Rightarrow> string \<Rightarrow> goerr option \<times> int \<Rightarrow> event list" where
  "stream_finish ob op fin = end_events ob op (fst fin) [(''lance.rows_read'', AInt (snd fin))]"

definition observedStream ::
  "obs option \<Rightarrow> string \<Rightarrow> ctx \<Rightarrow> (streamReaderConfig \<Rightarrow> ('n, 'p, goerr + 'b reader) go) \<Rightarrow> ('n, 'p, goerr + 'b reader) go" where
  "observedStream ob op c body = do {
     emit (start_events ob op []);
     r \<leftarrow> body \<lparr>sr_ctx = Some c, sr_finish = True\<rparr>;
     (case r of Inl err \<Rightarrow> emit (stream_finish ob op (Some err, 0)) | Inr _ \<Rightarrow> ret ());
     ret r
   }"

text \<open>A native function that fills in a stream, and the import of the stream.\<close>

definition stream_call ::
  "'n lance_ffi \<Rightarrow> 'b arrow_lib \<Rightarrow> ctx \<Rightarrow> string \<Rightarrow> cval list \<Rightarrow> (goerr \<Rightarrow> goerr) \<Rightarrow> string \<Rightarrow> streamReaderConfig \<Rightarrow>
     ('n, 'p, goerr + 'b reader) go" where
  "stream_call F A c f args wrap what cfg = do {
     (e, outs) \<leftarrow> call F c f args;
     case e of
       Some err \<Rightarrow> ret (Inl (wrap err))
     | None \<Rightarrow> importRecordReader A (out_nth outs 0) what cfg
   }"

text \<open>The same for a one-batch stream inside \<^verbatim>\<open>datasetOp\<close>, drained at once.\<close>

definition batch_call ::
  "'n lance_ffi \<Rightarrow> 'b arrow_lib \<Rightarrow> ctx \<Rightarrow> string \<Rightarrow> cval list \<Rightarrow> string \<Rightarrow> ('n, 'p, goerr + 'b option) go" where
  "batch_call F A c f args what = do {
     (e, outs) \<leftarrow> call F c f args;
     case e of
       Some err \<Rightarrow> ret (Inl err)
     | None \<Rightarrow> do {
         r \<leftarrow> importRecordReaderRaw A (out_nth outs 0) what no_streamConfig;
         ret (case r of Inl err \<Rightarrow> Inl err | Inr rd \<Rightarrow> fst (drainSingleBatch (NumRows A) rd))
       }
   }"

section \<open>Point reads\<close>

record NamedExpr =
  ne_Name :: string
  ne_SQL :: string

record TakeSpec =
  ts_Indices :: "u64 list option"
  ts_RowIDs :: "u64 list option"
  ts_Addresses :: "u64 list option"
  ts_Columns :: "string list"
  ts_SQLProjection :: "NamedExpr list"
  ts_WithRowAddress :: bool

definition TakeSpec0 :: TakeSpec where
  "TakeSpec0 = \<lparr>ts_Indices = None, ts_RowIDs = None, ts_Addresses = None, ts_Columns = [], ts_SQLProjection = [],
     ts_WithRowAddress = False\<rparr>"

definition namedExprJSON :: "NamedExpr \<Rightarrow> json" where
  "namedExprJSON e = JObj [(''name'', JStr (ne_Name e)), (''expr'', JStr (ne_SQL e))]"

definition takeSpecJSON :: "TakeSpec \<Rightarrow> json" where
  "takeSpecJSON spec = JObj (
     [(''indices'', json_slice json_u64 (ts_Indices spec)), (''row_ids'', json_slice json_u64 (ts_RowIDs spec)),
      (''addresses'', json_slice json_u64 (ts_Addresses spec))] @
     omit_list JStr ''columns'' (ts_Columns spec) @ omit_list namedExprJSON ''sql_projection'' (ts_SQLProjection spec) @
     omit_bool ''with_row_address'' (ts_WithRowAddress spec))"

definition Dataset_Take :: "'n lance_ffi \<Rightarrow> 'b arrow_lib \<Rightarrow> ctx \<Rightarrow> dataset \<Rightarrow> TakeSpec \<Rightarrow> ('n, 'p, goerr + 'b option) go" where
  "Dataset_Take F A c d spec =
     datasetOp c d ''Dataset.Take'' ''take'' (\<lambda>c ptr.
       with_cString (Json (takeSpecJSON spec)) (\<lambda>cSpec.
         batch_call F A c ''lance_dataset_take'' [CHandle ptr, cSpec] ''take'')) []"

definition TakeIndices :: "'n lance_ffi \<Rightarrow> 'b arrow_lib \<Rightarrow> ctx \<Rightarrow> dataset \<Rightarrow> u64 list option \<Rightarrow> string list \<Rightarrow> ('n, 'p, goerr + 'b option) go" where
  "TakeIndices F A c d indices columns = Dataset_Take F A c d (TakeSpec0\<lparr>ts_Indices := indices, ts_Columns := columns\<rparr>)"

definition TakeRows :: "'n lance_ffi \<Rightarrow> 'b arrow_lib \<Rightarrow> ctx \<Rightarrow> dataset \<Rightarrow> u64 list option \<Rightarrow> string list \<Rightarrow> ('n, 'p, goerr + 'b option) go" where
  "TakeRows F A c d rowIDs columns = Dataset_Take F A c d (TakeSpec0\<lparr>ts_RowIDs := rowIDs, ts_Columns := columns\<rparr>)"

definition takeScanSpecJSON :: "(u64 \<times> u64) list \<Rightarrow> string list \<Rightarrow> json" where
  "takeScanSpecJSON ranges columns = JObj (
     [(''ranges'', JArr (map (\<lambda>(a, b). JArr [json_u64 a, json_u64 b]) ranges))] @ omit_list JStr ''columns'' columns)"

definition TakeScan ::
  "'n lance_ffi \<Rightarrow> 'b arrow_lib \<Rightarrow> ctx \<Rightarrow> dataset \<Rightarrow> (u64 \<times> u64) list option \<Rightarrow> string list \<Rightarrow> ('n, 'p, goerr + 'b reader) go" where
  "TakeScan F A c d ranges columns =
     observedStream (ds_obs d) ''Dataset.TakeScan'' c (\<lambda>cfg.
       dataset_locked c d (\<lambda>ptr.
         let ranges = (case ranges of None \<Rightarrow> [] | Some rs \<Rightarrow> rs) in
         with_options (Inr (takeScanSpecJSON ranges columns)) (\<lambda>cSpec.
           stream_call F A c ''lance_dataset_take_scan'' [CHandle ptr, cSpec]
             (\<lambda>err. Wrapf [Lit ''lance: take scan: ''] err []) ''take scan'' cfg)))"

definition sampleSpecJSON :: "u64 \<Rightarrow> string list \<Rightarrow> json" where
  "sampleSpecJSON n columns = JObj ([(''n'', json_u64 n)] @ omit_list JStr ''columns'' columns)"

definition Sample :: "'n lance_ffi \<Rightarrow> 'b arrow_lib \<Rightarrow> ctx \<Rightarrow> dataset \<Rightarrow> u64 \<Rightarrow> string list \<Rightarrow> ('n, 'p, goerr + 'b option) go" where
  "Sample F A c d n columns =
     datasetOp c d ''Dataset.Sample'' ''sample'' (\<lambda>c ptr.
       with_cString (Json (sampleSpecJSON n columns)) (\<lambda>cSpec.
         batch_call F A c ''lance_dataset_sample'' [CHandle ptr, cSpec] ''sample'')) []"

section \<open>Records\<close>

text \<open>A nil batch is \<^verbatim>\<open>None\<close>; \<^verbatim>\<open>sch\<close> is the schema of a batch, \<^verbatim>\<open>eq\<close> is \<^verbatim>\<open>Schema.Equal\<close>, and \<^verbatim>\<open>mk\<close> is
  \<^verbatim>\<open>array.NewRecordReader\<close>.\<close>

fun records_check :: "('b \<Rightarrow> 's) \<Rightarrow> ('s \<Rightarrow> 's \<Rightarrow> bool) \<Rightarrow> 's \<Rightarrow> nat \<Rightarrow> 'b option list \<Rightarrow> goerr + 'b list" where
  "records_check sch eq schema i [] = Inr []"
| "records_check sch eq schema i (None # bs) =
     Inl (Wrapf [Lit ''lance: records: batch '', Dec (int i), Lit '': must not be nil: ''] (sentinel_err ErrInvalidArgument) [])"
| "records_check sch eq schema i (Some b # bs) =
     (if \<not> eq (sch b) schema
      then Inl (Wrapf [Lit ''lance: records: batch '', Dec (int i), Lit '': schema does not match: ''] (sentinel_err ErrInvalidArgument) [])
      else map_sum id (\<lambda>xs. b # xs) (records_check sch eq schema (Suc i) bs))"

definition Records ::
  "('b \<Rightarrow> 's) \<Rightarrow> ('s \<Rightarrow> 's \<Rightarrow> bool) \<Rightarrow> ('s \<Rightarrow> 'b list \<Rightarrow> string + 'r) \<Rightarrow> 's option \<Rightarrow> 'b option list \<Rightarrow> goerr + 'r" where
  "Records sch eq mk schema bs =
     (case schema of
        None \<Rightarrow> Inl (Wrapf [Lit ''lance: records: schema must not be nil: ''] (sentinel_err ErrInvalidArgument) [])
      | Some s \<Rightarrow> (case records_check sch eq s 0 bs of
          Inl err \<Rightarrow> Inl err
        | Inr xs \<Rightarrow> (case mk s xs of
            Inl msg \<Rightarrow> Inl (Wrapf [Lit ''lance: records: '', Str msg, Lit '': ''] (sentinel_err ErrInternal) [])
          | Inr r \<Rightarrow> Inr r)))"

section \<open>Fragments\<close>

record FragmentInfo =
  fi_ID :: u32
  fi_NumRows :: u64
  fi_PhysicalRows :: u64
  fi_NumDeletions :: u64
  fi_NumDataFiles :: u32
  fi_DataFiles :: "string list"

definition un_FragmentInfo :: "FragmentInfo decoder" where
  "un_FragmentInfo = un_struct
     [fld ''id'' fi_ID fi_ID_update un_word, fld ''num_rows'' fi_NumRows fi_NumRows_update un_word,
      fld ''physical_rows'' fi_PhysicalRows fi_PhysicalRows_update un_word,
      fld ''num_deletions'' fi_NumDeletions fi_NumDeletions_update un_word,
      fld ''num_data_files'' fi_NumDataFiles fi_NumDataFiles_update un_word,
      fld ''data_files'' fi_DataFiles fi_DataFiles_update (un_slice un_str [])]"

definition FragmentInfo0 :: FragmentInfo where
  "FragmentInfo0 = \<lparr>fi_ID = 0, fi_NumRows = 0, fi_PhysicalRows = 0, fi_NumDeletions = 0, fi_NumDataFiles = 0, fi_DataFiles = []\<rparr>"

record DataFileInfo =
  df_Path :: string
  df_Fields :: "int list"
  df_FileMajorVersion :: u32
  df_FileMinorVersion :: u32

definition un_DataFileInfo :: "DataFileInfo decoder" where
  "un_DataFileInfo = un_struct
     [fld ''path'' df_Path df_Path_update un_str, fld ''fields'' df_Fields df_Fields_update (un_slice (un_sint 32) 0),
      fld ''file_major_version'' df_FileMajorVersion df_FileMajorVersion_update un_word,
      fld ''file_minor_version'' df_FileMinorVersion df_FileMinorVersion_update un_word]"

record DeletionFileInfo =
  dl_ReadVersion :: u64
  dl_ID :: u64
  dl_NumDeletedRows :: "u64 option"

definition un_DeletionFileInfo :: "DeletionFileInfo decoder" where
  "un_DeletionFileInfo = un_struct
     [fld ''read_version'' dl_ReadVersion dl_ReadVersion_update un_word, fld ''id'' dl_ID dl_ID_update un_word,
      fld ''num_deleted_rows'' dl_NumDeletedRows dl_NumDeletedRows_update (un_ptr un_word 0)]"

record FragmentMetadata =
  fm_ID :: u64
  fm_PhysicalRows :: "u64 option"
  fm_Files :: "DataFileInfo list"
  fm_DeletionFile :: "DeletionFileInfo option"

definition un_FragmentMetadata :: "json \<Rightarrow> goerr + FragmentMetadata" where
  "un_FragmentMetadata j = un_struct
     [fld ''id'' fm_ID fm_ID_update un_word, fld ''physical_rows'' fm_PhysicalRows fm_PhysicalRows_update (un_ptr un_word 0),
      fld ''files'' fm_Files fm_Files_update
        (un_slice un_DataFileInfo \<lparr>df_Path = [], df_Fields = [], df_FileMajorVersion = 0, df_FileMinorVersion = 0\<rparr>),
      fld ''deletion_file'' fm_DeletionFile fm_DeletionFile_update
        (un_ptr un_DeletionFileInfo \<lparr>dl_ReadVersion = 0, dl_ID = 0, dl_NumDeletedRows = None\<rparr>)] j
     \<lparr>fm_ID = 0, fm_PhysicalRows = None, fm_Files = [], fm_DeletionFile = None\<rparr>"

definition Fragments :: "'n lance_ffi \<Rightarrow> ctx \<Rightarrow> dataset \<Rightarrow> ('n, 'p, goerr + FragmentInfo list) go" where
  "Fragments F c d =
     datasetOp c d ''Dataset.Fragments'' ''fragments'' (\<lambda>c ptr.
       json_call F c ''lance_dataset_fragments'' [CHandle ptr] ''fragments''
         (\<lambda>j. un_slice un_FragmentInfo FragmentInfo0 j [])) []"

definition Dataset_Fragment :: "'n lance_ffi \<Rightarrow> ctx \<Rightarrow> dataset \<Rightarrow> u32 \<Rightarrow> ('n, 'p, goerr + fragment) go" where
  "Dataset_Fragment F c d fid =
     datasetOp c d ''Dataset.Fragment'' (''get fragment '' @ dec_int (uint fid)) (\<lambda>c ptr. do {
       (e, outs) \<leftarrow> call F c ''lance_dataset_get_fragment'' [CHandle ptr, CU32 fid];
       case e of
         Some err \<Rightarrow> ret (Inl err)
       | None \<Rightarrow> do { f \<leftarrow> newFragment (as_handle (out_nth outs 0)) (ds_obs d); ret (Inr f) }
     }) []"

text \<open>A call whose out parameter is a number.\<close>

definition u64_call :: "'n lance_ffi \<Rightarrow> ctx \<Rightarrow> string \<Rightarrow> cval list \<Rightarrow> ('n, 'p, goerr + u64) go" where
  "u64_call F c f args = do {
     (e, outs) \<leftarrow> call F c f args;
     ret (case e of Some err \<Rightarrow> Inl err | None \<Rightarrow> Inr (as_u64 (out_nth outs 0)))
   }"

definition Fragment_CountRows :: "'n lance_ffi \<Rightarrow> ctx \<Rightarrow> fragment \<Rightarrow> string \<Rightarrow> ('n, 'p, goerr + u64) go" where
  "Fragment_CountRows F c f flt =
     fragmentOp c f ''Fragment.CountRows'' ''fragment count rows'' (\<lambda>c ptr.
       with_cString (Text flt) (\<lambda>cFilter. u64_call F c ''lance_fragment_count_rows'' [CHandle ptr, cFilter])) []"

definition CountDeletions :: "'n lance_ffi \<Rightarrow> ctx \<Rightarrow> fragment \<Rightarrow> ('n, 'p, goerr + u64) go" where
  "CountDeletions F c f =
     fragmentOp c f ''Fragment.CountDeletions'' ''fragment count deletions'' (\<lambda>c ptr.
       u64_call F c ''lance_fragment_count_deletions'' [CHandle ptr]) []"

definition PhysicalRows :: "'n lance_ffi \<Rightarrow> ctx \<Rightarrow> fragment \<Rightarrow> ('n, 'p, goerr + u64) go" where
  "PhysicalRows F c f =
     fragmentOp c f ''Fragment.PhysicalRows'' ''fragment physical rows'' (\<lambda>c ptr.
       u64_call F c ''lance_fragment_physical_rows'' [CHandle ptr]) []"

definition Fragment_Metadata :: "'n lance_ffi \<Rightarrow> ctx \<Rightarrow> fragment \<Rightarrow> ('n, 'p, goerr + FragmentMetadata) go" where
  "Fragment_Metadata F c f =
     fragmentOp c f ''Fragment.Metadata'' ''fragment metadata'' (\<lambda>c ptr.
       json_call F c ''lance_fragment_metadata'' [CHandle ptr] ''fragment metadata'' un_FragmentMetadata) []"

definition fragmentTakeSpecJSON :: "u32 list \<Rightarrow> string list \<Rightarrow> json" where
  "fragmentTakeSpecJSON indices columns =
     JObj ([(''indices'', JArr (map (\<lambda>i. JInt (uint i)) indices))] @ omit_list JStr ''columns'' columns)"

definition Fragment_Take ::
  "'n lance_ffi \<Rightarrow> 'b arrow_lib \<Rightarrow> ctx \<Rightarrow> fragment \<Rightarrow> u32 list option \<Rightarrow> string list \<Rightarrow> ('n, 'p, goerr + 'b option) go" where
  "Fragment_Take F A c f indices columns =
     observed (fr_obs f) ''Fragment.Take'' [] (\<lambda>_. []) (fragment_locked c f (\<lambda>ptr.
       let indices = (case indices of None \<Rightarrow> [] | Some xs \<Rightarrow> xs) in
       with_options (Inr (fragmentTakeSpecJSON indices columns)) (\<lambda>cSpec. do {
         r \<leftarrow> stream_call F A c ''lance_fragment_take'' [CHandle ptr, cSpec]
                (\<lambda>err. Wrapf [Lit ''lance: fragment take: ''] err []) ''fragment take'' no_streamConfig;
         ret (case r of Inl err \<Rightarrow> Inl err | Inr rd \<Rightarrow> fst (singleBatch ''fragment take'' (NumRows A) rd))
       })))"

record fragmentScanConfig =
  fs_Columns :: "string list"
  fs_Filter :: string
  fs_Limit :: "int option"
  fs_Offset :: "int option"
  fs_WithRowID :: bool
  fs_WithRowAddress :: bool
  fs_BatchSize :: u64
  fs_ScanInOrder :: "bool option"

definition fragment_scan_json :: "fragmentScanConfig \<Rightarrow> json" where
  "fragment_scan_json cfg = JObj (
     omit_list JStr ''columns'' (fs_Columns cfg) @ omit_str ''filter'' (fs_Filter cfg) @
     omit_ptr JInt ''limit'' (fs_Limit cfg) @ omit_ptr JInt ''offset'' (fs_Offset cfg) @
     omit_bool ''with_row_id'' (fs_WithRowID cfg) @ omit_bool ''with_row_address'' (fs_WithRowAddress cfg) @
     omit_u64 ''batch_size'' (fs_BatchSize cfg) @ omit_ptr JBool ''scan_in_order'' (fs_ScanInOrder cfg))"

record FragmentScanner =
  fsc_f :: fragment
  fsc_cfg :: fragmentScanConfig

definition Fragment_Scan :: "fragment \<Rightarrow> FragmentScanner" where
  "Fragment_Scan f = \<lparr>fsc_f = f, fsc_cfg = \<lparr>fs_Columns = [], fs_Filter = [], fs_Limit = None, fs_Offset = None,
     fs_WithRowID = False, fs_WithRowAddress = False, fs_BatchSize = 0, fs_ScanInOrder = None\<rparr>\<rparr>"

definition FragmentScanner_Columns :: "string list \<Rightarrow> FragmentScanner \<Rightarrow> FragmentScanner" where
  "FragmentScanner_Columns columns s = s\<lparr>fsc_cfg := (fsc_cfg s)\<lparr>fs_Columns := columns\<rparr>\<rparr>"

definition FragmentScanner_Filter :: "string \<Rightarrow> FragmentScanner \<Rightarrow> FragmentScanner" where
  "FragmentScanner_Filter flt s = s\<lparr>fsc_cfg := (fsc_cfg s)\<lparr>fs_Filter := flt\<rparr>\<rparr>"

definition FragmentScanner_Limit :: "int \<Rightarrow> FragmentScanner \<Rightarrow> FragmentScanner" where
  "FragmentScanner_Limit limit s = s\<lparr>fsc_cfg := (fsc_cfg s)\<lparr>fs_Limit := Some limit\<rparr>\<rparr>"

definition FragmentScanner_Offset :: "int \<Rightarrow> FragmentScanner \<Rightarrow> FragmentScanner" where
  "FragmentScanner_Offset offset s = s\<lparr>fsc_cfg := (fsc_cfg s)\<lparr>fs_Offset := Some offset\<rparr>\<rparr>"

definition FragmentScanner_WithRowID :: "FragmentScanner \<Rightarrow> FragmentScanner" where
  "FragmentScanner_WithRowID s = s\<lparr>fsc_cfg := (fsc_cfg s)\<lparr>fs_WithRowID := True\<rparr>\<rparr>"

definition FragmentScanner_WithRowAddress :: "FragmentScanner \<Rightarrow> FragmentScanner" where
  "FragmentScanner_WithRowAddress s = s\<lparr>fsc_cfg := (fsc_cfg s)\<lparr>fs_WithRowAddress := True\<rparr>\<rparr>"

definition FragmentScanner_BatchSize :: "u64 \<Rightarrow> FragmentScanner \<Rightarrow> FragmentScanner" where
  "FragmentScanner_BatchSize n s = s\<lparr>fsc_cfg := (fsc_cfg s)\<lparr>fs_BatchSize := n\<rparr>\<rparr>"

definition FragmentScanner_ScanInOrder :: "bool \<Rightarrow> FragmentScanner \<Rightarrow> FragmentScanner" where
  "FragmentScanner_ScanInOrder ordered s = s\<lparr>fsc_cfg := (fsc_cfg s)\<lparr>fs_ScanInOrder := Some ordered\<rparr>\<rparr>"

definition FragmentScanner_Reader ::
  "'n lance_ffi \<Rightarrow> 'b arrow_lib \<Rightarrow> ctx \<Rightarrow> FragmentScanner \<Rightarrow> ('n, 'p, goerr + 'b reader) go" where
  "FragmentScanner_Reader F A c s =
     observedStream (fr_obs (fsc_f s)) ''FragmentScanner.Reader'' c (\<lambda>cfg.
       fragment_locked c (fsc_f s) (\<lambda>ptr.
         with_options (Inr (fragment_scan_json (fsc_cfg s))) (\<lambda>cJSON.
           stream_call F A c ''lance_fragment_scan_to_stream'' [CHandle ptr, cJSON]
             (\<lambda>err. Wrapf [Lit ''lance: fragment scan: ''] err []) ''fragment scan'' cfg)))"

section \<open>SQL\<close>

record SQLBuilder =
  sq_ds :: dataset
  sq_query :: string
  sq_TableName :: string
  sq_WithRowID :: bool
  sq_WithRowAddr :: bool

definition Dataset_SQL :: "dataset \<Rightarrow> string \<Rightarrow> SQLBuilder" where
  "Dataset_SQL d query = \<lparr>sq_ds = d, sq_query = query, sq_TableName = [], sq_WithRowID = False, sq_WithRowAddr = False\<rparr>"

definition sql_json :: "SQLBuilder \<Rightarrow> json" where
  "sql_json b = JObj (omit_str ''table_name'' (sq_TableName b) @ omit_bool ''with_row_id'' (sq_WithRowID b) @
     omit_bool ''with_row_addr'' (sq_WithRowAddr b))"

definition SQLBuilder_TableName :: "string \<Rightarrow> SQLBuilder \<Rightarrow> SQLBuilder" where
  "SQLBuilder_TableName name b = b\<lparr>sq_TableName := name\<rparr>"

definition SQLBuilder_WithRowID :: "SQLBuilder \<Rightarrow> SQLBuilder" where
  "SQLBuilder_WithRowID b = b\<lparr>sq_WithRowID := True\<rparr>"

definition SQLBuilder_WithRowAddr :: "SQLBuilder \<Rightarrow> SQLBuilder" where
  "SQLBuilder_WithRowAddr b = b\<lparr>sq_WithRowAddr := True\<rparr>"

definition SQLBuilder_Reader :: "'n lance_ffi \<Rightarrow> 'b arrow_lib \<Rightarrow> ctx \<Rightarrow> SQLBuilder \<Rightarrow> ('n, 'p, goerr + 'b reader) go" where
  "SQLBuilder_Reader F A c b =
     observedStream (ds_obs (sq_ds b)) ''SQLBuilder.Reader'' c (\<lambda>cfg.
       dataset_locked c (sq_ds b) (\<lambda>ptr.
         with_cString (Text (sq_query b)) (\<lambda>cQuery.
         with_options (Inr (sql_json b)) (\<lambda>cOpts.
           stream_call F A c ''lance_dataset_sql'' [CHandle ptr, cQuery, cOpts]
             (\<lambda>err. Wrapf [Lit ''lance: sql: ''] err []) ''sql'' cfg))))"

section \<open>Deltas\<close>

record DeltaBuilder =
  db_ds :: dataset
  db_ComparedAgainstVersion :: "u64 option"
  db_BeginVersion :: "u64 option"
  db_EndVersion :: "u64 option"
  db_BeginDate :: string
  db_EndDate :: string

definition Dataset_Delta :: "dataset \<Rightarrow> DeltaBuilder" where
  "Dataset_Delta d = \<lparr>db_ds = d, db_ComparedAgainstVersion = None, db_BeginVersion = None, db_EndVersion = None,
     db_BeginDate = [], db_EndDate = []\<rparr>"

definition delta_json :: "DeltaBuilder \<Rightarrow> json" where
  "delta_json b = JObj (omit_ptr json_u64 ''compared_against_version'' (db_ComparedAgainstVersion b) @
     omit_ptr json_u64 ''begin_version'' (db_BeginVersion b) @ omit_ptr json_u64 ''end_version'' (db_EndVersion b) @
     omit_str ''begin_date'' (db_BeginDate b) @ omit_str ''end_date'' (db_EndDate b))"

definition ComparedAgainstVersion :: "u64 \<Rightarrow> DeltaBuilder \<Rightarrow> DeltaBuilder" where
  "ComparedAgainstVersion v b = b\<lparr>db_ComparedAgainstVersion := Some v\<rparr>"

definition FromVersion :: "u64 \<Rightarrow> DeltaBuilder \<Rightarrow> DeltaBuilder" where
  "FromVersion v b = b\<lparr>db_BeginVersion := Some v\<rparr>"

definition ToVersion :: "u64 \<Rightarrow> DeltaBuilder \<Rightarrow> DeltaBuilder" where
  "ToVersion v b = b\<lparr>db_EndVersion := Some v\<rparr>"

definition FromDate :: "gotime \<Rightarrow> DeltaBuilder \<Rightarrow> DeltaBuilder" where
  "FromDate t b = b\<lparr>db_BeginDate := RFC3339Nano t\<rparr>"

definition ToDate :: "gotime \<Rightarrow> DeltaBuilder \<Rightarrow> DeltaBuilder" where
  "ToDate t b = b\<lparr>db_EndDate := RFC3339Nano t\<rparr>"

definition DeltaBuilder_rows ::
  "'n lance_ffi \<Rightarrow> 'b arrow_lib \<Rightarrow> ctx \<Rightarrow> DeltaBuilder \<Rightarrow> int \<Rightarrow> string \<Rightarrow> string \<Rightarrow> ('n, 'p, goerr + 'b reader) go" where
  "DeltaBuilder_rows F A c b kind what operation =
     observedStream (ds_obs (db_ds b)) operation c (\<lambda>cfg.
       dataset_locked c (db_ds b) (\<lambda>ptr.
         with_options (Inr (delta_json b)) (\<lambda>cSpec.
           stream_call F A c ''lance_dataset_delta'' [CHandle ptr, cSpec, CI32 kind]
             (\<lambda>err. Wrapf [Lit ''lance: delta '', Str what, Lit '': ''] err []) (''delta '' @ what) cfg)))"

definition InsertedRows :: "'n lance_ffi \<Rightarrow> 'b arrow_lib \<Rightarrow> ctx \<Rightarrow> DeltaBuilder \<Rightarrow> ('n, 'p, goerr + 'b reader) go" where
  "InsertedRows F A c b = DeltaBuilder_rows F A c b 0 ''inserted rows'' ''DeltaBuilder.InsertedRows''"

definition UpdatedRows :: "'n lance_ffi \<Rightarrow> 'b arrow_lib \<Rightarrow> ctx \<Rightarrow> DeltaBuilder \<Rightarrow> ('n, 'p, goerr + 'b reader) go" where
  "UpdatedRows F A c b = DeltaBuilder_rows F A c b 1 ''updated rows'' ''DeltaBuilder.UpdatedRows''"

definition UpsertedRows :: "'n lance_ffi \<Rightarrow> 'b arrow_lib \<Rightarrow> ctx \<Rightarrow> DeltaBuilder \<Rightarrow> ('n, 'p, goerr + 'b reader) go" where
  "UpsertedRows F A c b = DeltaBuilder_rows F A c b 2 ''upserted rows'' ''DeltaBuilder.UpsertedRows''"

record TransactionInfo =
  ti_ReadVersion :: u64
  ti_UUID :: string
  ti_Operation :: string
  ti_Tag :: string
  ti_Properties :: gomap

definition un_TransactionInfo :: "TransactionInfo decoder" where
  "un_TransactionInfo = un_struct
     [fld ''read_version'' ti_ReadVersion ti_ReadVersion_update un_word, fld ''uuid'' ti_UUID ti_UUID_update un_str,
      fld ''operation'' ti_Operation ti_Operation_update un_str, fld ''tag'' ti_Tag ti_Tag_update un_str,
      fld ''properties'' ti_Properties ti_Properties_update un_strmap]"

definition DeltaBuilder_Transactions :: "'n lance_ffi \<Rightarrow> ctx \<Rightarrow> DeltaBuilder \<Rightarrow> ('n, 'p, goerr + TransactionInfo list) go" where
  "DeltaBuilder_Transactions F c b =
     datasetOp c (db_ds b) ''DeltaBuilder.Transactions'' ''delta transactions'' (\<lambda>c ptr.
       with_cString (Json (delta_json b)) (\<lambda>cSpec.
         json_call F c ''lance_dataset_delta_transactions'' [CHandle ptr, cSpec] ''delta transactions''
           (\<lambda>j. un_slice un_TransactionInfo
                  \<lparr>ti_ReadVersion = 0, ti_UUID = [], ti_Operation = [], ti_Tag = [], ti_Properties = []\<rparr> j []))) []"

section \<open>Iterators\<close>

text \<open>\<^verbatim>\<open>batches(ctx, open)\<close> with the body of the caller's loop.\<close>

definition iterate ::
  "'b arrow_lib \<Rightarrow> ('n, 'p, goerr + 'b reader) go \<Rightarrow> ('b option \<times> goerr option \<Rightarrow> 'y \<Rightarrow> bool \<times> 'y) \<Rightarrow> 'y \<Rightarrow>
     ('n, 'p, ('y \<times> 'b reader option) option) go" where
  "iterate A opn yield y = do {
     r \<leftarrow> opn;
     ret (batches (Next (NumRows A)) RecordBatch Err (\<lambda>rd. snd (Release rd)) r yield y)
   }"

definition SQLBuilder_All where
  "SQLBuilder_All F A c b = iterate A (SQLBuilder_Reader F A c b)"

definition FragmentScanner_All where
  "FragmentScanner_All F A c s = iterate A (FragmentScanner_Reader F A c s)"

definition DeltaBuilder_AllInserted where
  "DeltaBuilder_AllInserted F A c b = iterate A (InsertedRows F A c b)"

definition DeltaBuilder_AllUpdated where
  "DeltaBuilder_AllUpdated F A c b = iterate A (UpdatedRows F A c b)"

definition DeltaBuilder_AllUpserted where
  "DeltaBuilder_AllUpserted F A c b = iterate A (UpsertedRows F A c b)"

definition TakeScanAll where
  "TakeScanAll F A c d ranges columns = iterate A (TakeScan F A c d ranges columns)"

section \<open>Balance and spans\<close>

lemma keeps_importRecordReaderRaw [keeps_rules]: "keeps f (importRecordReaderRaw A s what cfg)"
  unfolding importRecordReaderRaw_def by (intro keeps_rules)

lemma keeps_importRecordReader [keeps_rules]: "keeps f (importRecordReader A s what cfg)"
  unfolding importRecordReader_def by (intro keeps_rules)

lemma keeps_stream_call [keeps_rules]: "ffi_separate f \<Longrightarrow> keeps f (stream_call F A c g args wrap what cfg)"
  unfolding stream_call_def by (intro keeps_rules)

lemma keeps_batch_call [keeps_rules]: "ffi_separate f \<Longrightarrow> keeps f (batch_call F A c g args what)"
  unfolding batch_call_def by (intro keeps_rules)

lemma keeps_observedStream [keeps_rules]:
  "silent f \<Longrightarrow> (\<And>cfg. keeps f (body cfg)) \<Longrightarrow> keeps f (observedStream ob op c body)"
  unfolding observedStream_def by (auto intro!: keeps_rules)

text \<open>A fresh reader: no call was made on it, and it ends the span if it was told to.\<close>

definition fresh_reader :: "streamReaderConfig \<Rightarrow> goerr + 'b reader \<Rightarrow> bool" where
  "fresh_reader cfg r = (case r of Inl _ \<Rightarrow> True
     | Inr rd \<Rightarrow> reader_inv rd \<and> r_refs rd = 1 \<and> r_has_finish rd = sr_finish cfg \<and> r_rows rd = 0)"

lemma fresh_reader_Inl [simp]: "fresh_reader cfg (Inl e)"
  by (simp add: fresh_reader_def)

lemma newOwnedRecordReader_fresh:
  "newOwnedRecordReader al sch xs what c fin = (Inr rd, k) \<Longrightarrow>
     reader_inv rd \<and> r_refs rd = 1 \<and> r_has_finish rd = fin \<and> r_rows rd = 0"
  by (auto simp: newOwnedRecordReader_def reader_inv_def split: if_splits schema_reply.splits)

lemma fresh_tick: "fresh_reader cfg (map_sum id (\<lambda>r. r\<lparr>r_tick := t\<rparr>) x) = fresh_reader cfg x"
  by (cases x) (simp_all add: fresh_reader_def)

lemma fresh_importRaw [yields_rules]: "yields (fresh_reader cfg) (importRecordReaderRaw A s what cfg)"
proof -
  have "fresh_reader cfg (fst (newOwnedRecordReader al sch xs what (sr_ctx cfg) (sr_finish cfg)))" for al sch and xs :: "'a reply list"
    using newOwnedRecordReader_fresh [of al sch xs what "sr_ctx cfg" "sr_finish cfg"]
    by (cases "newOwnedRecordReader al sch xs what (sr_ctx cfg) (sr_finish cfg)")
      (auto simp: fresh_reader_def split: sum.split)
  then show ?thesis
    unfolding importRecordReaderRaw_def by (auto intro!: yields_rules yields_bind simp: fresh_tick split: prod.split)
qed

lemma fresh_import [yields_rules]: "yields (fresh_reader cfg) (importRecordReader A s what cfg)"
  unfolding importRecordReader_def
  by (rule yields_bind_from [OF fresh_importRaw]) (auto intro!: yields_return split: sum.split)

lemma fresh_stream_call [yields_rules]: "yields (fresh_reader cfg) (stream_call F A c g args wrap what cfg)"
  unfolding stream_call_def by (auto intro!: yields_rules)

text \<open>The life of the span of a stream: it is started once; a failed open ends it once; after a
  successful open the reader ends it, once, when its stream is closed.\<close>

definition span_once :: "obs option \<Rightarrow> string \<Rightarrow> event list \<Rightarrow> goerr + 'b reader \<Rightarrow> event list \<Rightarrow> bool" where
  "span_once ob op t r t' = (case r of
      Inl e \<Rightarrow> t' = t @ start_events ob op [] @ stream_finish ob op (Some e, 0)
    | Inr rd \<Rightarrow> t' = t @ start_events ob op [] \<and>
        (\<forall>nr xs. finish_calls (rd_run nr xs rd) =
           (if r_stream (rd_run nr xs rd) = None then [(Err (rd_run nr xs rd), r_rows (rd_run nr xs rd))] else [])))"

lemma fresh_reader_finish:
  assumes "fresh_reader \<lparr>sr_ctx = c, sr_finish = True\<rparr> (Inr rd)"
  shows "finish_calls (rd_run nr xs rd) =
    (if r_stream (rd_run nr xs rd) = None then [(Err (rd_run nr xs rd), r_rows (rd_run nr xs rd))] else [])"
proof -
  have "reader_inv (rd_run nr xs rd)" "r_has_finish (rd_run nr xs rd)"
    using assms reader_inv_run [of rd nr xs] has_finish_run [of nr xs rd] by (auto simp: fresh_reader_def)
  then show ?thesis by (auto simp: reader_inv_def Err_def)
qed

lemma observedStream_span:
  assumes "\<And>cfg. keeps telemetry (body cfg)" and "\<And>cfg. yields (fresh_reader cfg) (body cfg)"
  shows "ends telemetry (span_once ob op) (observedStream ob op c body)"
proof (rule endsI)
  fix w r w'
  assume run: "run_state (observedStream ob op c body) w = (r, w')"
  let ?cfg = "\<lparr>sr_ctx = Some c, sr_finish = True\<rparr>"
  let ?w = "w\<lparr>telemetry := telemetry w @ start_events ob op []\<rparr>"
  obtain r1 w1 where 1: "run_state (body ?cfg) ?w = (r1, w1)" by fastforce
  have "telemetry w1 = telemetry w @ start_events ob op []"
    using keepsD [OF assms(1) 1] by simp
  moreover have "fresh_reader ?cfg r1"
    using yieldsD [OF assms(2) 1] .
  ultimately show "span_once ob op (telemetry w) r (telemetry w')"
    using run 1 by (cases r1) (auto simp: observedStream_def span_once_def fresh_reader_finish)
qed

text \<open>The bodies of the stream operations.\<close>

lemmas stream_op_defs = TakeScan_def FragmentScanner_Reader_def SQLBuilder_Reader_def DeltaBuilder_rows_def

lemma stream_ops_keep:
  "keeps c_mem (TakeScan F A c d ranges columns)" "keeps held (TakeScan F A c d ranges columns)"
  "keeps c_mem (FragmentScanner_Reader F A c fs)" "keeps held (FragmentScanner_Reader F A c fs)"
  "keeps c_mem (SQLBuilder_Reader F A c b)" "keeps held (SQLBuilder_Reader F A c b)"
  "keeps c_mem (DeltaBuilder_rows F A c db kind what op)" "keeps held (DeltaBuilder_rows F A c db kind what op)"
  unfolding stream_op_defs Let_def by (auto intro!: keeps_rules)

section \<open>Properties\<close>

text \<open>C35: The span of a streaming read lives as long as its stream. \<^verbatim>\<open>TakeScan\<close> and the readers of
  fragment scans, SQL queries and deltas start one span; if the open fails, on any path, the
  span is ended once with the error that is returned and zero rows; if it succeeds, nothing
  more is emitted by the operation, and whatever is then done with the reader, its \<^verbatim>\<open>finish\<close>
  callback has run exactly once, with the final error and row count, when the stream is
  closed, and not before.\<close>

theorem stream_span_once:
  "ends telemetry (span_once (ds_obs d) ''Dataset.TakeScan'') (TakeScan F A c d ranges columns) \<and>
   ends telemetry (span_once (fr_obs (fsc_f fs)) ''FragmentScanner.Reader'') (FragmentScanner_Reader F A c fs) \<and>
   ends telemetry (span_once (ds_obs (sq_ds b)) ''SQLBuilder.Reader'') (SQLBuilder_Reader F A c b) \<and>
   ends telemetry (span_once (ds_obs (db_ds db)) op) (DeltaBuilder_rows F A c db kind what op)"
  unfolding stream_op_defs Let_def
  by (intro conjI observedStream_span) (auto intro!: keeps_rules yields_rules)

end
