(* ===== verification/Lance_Mutation.thy ===== *)
theory Lance_Mutation
  imports Lance_Config Lance_Streams
begin

text \<open>
  Deleting, updating and merging rows (\<^verbatim>\<open>lance/mutation.go\<close>), schema evolution
  (\<^verbatim>\<open>lance/evolution.go\<close>) and computed columns (\<^verbatim>\<open>AddColumnsUDF\<close> of \<^verbatim>\<open>lance/hooks.go\<close>). Readers,
  schemas and batches are opaque: what matters is whether they are nil and who owns what
  was exported.
\<close>

section \<open>Delete and update\<close>

definition invalid :: "string \<Rightarrow> goerr" where
  "invalid msg = Wrapf [Lit msg] (sentinel_err ErrInvalidArgument) []"

text \<open>\<^verbatim>\<open>int64(n)\<close> of an unsigned count.\<close>

definition as_int64 :: "u64 \<Rightarrow> int" where
  "as_int64 n = sint n"

record DeleteResult =
  dr_NumDeletedRows :: u64

definition un_DeleteResult :: "json \<Rightarrow> goerr + DeleteResult" where
  "un_DeleteResult j = un_struct [fld ''num_deleted_rows'' dr_NumDeletedRows dr_NumDeletedRows_update un_word] j
     \<lparr>dr_NumDeletedRows = 0\<rparr>"

text \<open>The zero result accompanies every error.\<close>

definition rows_of :: "('a \<Rightarrow> u64) \<Rightarrow> goerr + 'a \<Rightarrow> int" where
  "rows_of sel r = (case r of Inl _ \<Rightarrow> 0 | Inr x \<Rightarrow> as_int64 (sel x))"

definition Dataset_Delete :: "'n lance_ffi \<Rightarrow> ctx \<Rightarrow> dataset \<Rightarrow> string \<Rightarrow> ('n, 'p, goerr + DeleteResult) go" where
  "Dataset_Delete F c d predicate = do {
     res \<leftarrow> observed (ds_obs d) ''Dataset.Delete'' [] (\<lambda>r. [(''lance.rows_deleted'', AInt (rows_of dr_NumDeletedRows r))])
       (if predicate = [] then ret (Inl (invalid ''lance: delete: predicate must not be empty: ''))
        else dataset_locked c d (\<lambda>ptr.
          with_cString (Text predicate) (\<lambda>cPredicate.
            own_json F c ''lance_dataset_delete'' [CHandle ptr, cPredicate] ''delete'' ''delete result'' un_DeleteResult)));
     recordRows (ds_obs d) ''Dataset.Delete'' ''deleted'' (rows_of dr_NumDeletedRows res);
     ret res
   }"

record UpdateResult =
  ur_RowsUpdated :: u64

definition un_UpdateResult :: "json \<Rightarrow> goerr + UpdateResult" where
  "un_UpdateResult j = un_struct [fld ''rows_updated'' ur_RowsUpdated ur_RowsUpdated_update un_word] j \<lparr>ur_RowsUpdated = 0\<rparr>"

record UpdateSpec =
  us_Set :: gomap
  us_Where :: string
  us_ConflictRetries :: "u32 option"
  us_RetryTimeout :: int

text \<open>\<^verbatim>\<open>uint64(d / time.Millisecond)\<close>: a duration is a signed count of nanoseconds, division
  truncates towards zero and the conversion wraps.\<close>

definition millis :: "int \<Rightarrow> u64" where
  "millis d = word_of_int (d sdiv 1000000)"

definition updateOptions :: "UpdateSpec \<Rightarrow> json" where
  "updateOptions spec = JObj ([(''set'', json_map (us_Set spec))] @ omit_str ''where'' (us_Where spec) @
     omit_ptr (\<lambda>n. JInt (uint n)) ''conflict_retries'' (us_ConflictRetries spec) @
     omit_u64 ''retry_timeout_ms'' (millis (us_RetryTimeout spec)))"

definition Dataset_Update :: "'n lance_ffi \<Rightarrow> ctx \<Rightarrow> dataset \<Rightarrow> UpdateSpec \<Rightarrow> ('n, 'p, goerr + UpdateResult) go" where
  "Dataset_Update F c d spec = do {
     res \<leftarrow> observed (ds_obs d) ''Dataset.Update'' [] (\<lambda>r. [(''lance.rows_updated'', AInt (rows_of ur_RowsUpdated r))])
       (if length (us_Set spec) = 0 then ret (Inl (invalid ''lance: update: Set must not be empty: ''))
        else dataset_locked c d (\<lambda>ptr.
          with_options (Inr (updateOptions spec)) (\<lambda>cJSON.
            own_json F c ''lance_dataset_update'' [CHandle ptr, cJSON] ''update'' ''update result'' un_UpdateResult)));
     recordRows (ds_obs d) ''Dataset.Update'' ''updated'' (rows_of ur_RowsUpdated res);
     ret res
   }"

section \<open>Merge insert\<close>

record MergeStats =
  ms_NumInsertedRows :: u64
  ms_NumUpdatedRows :: u64
  ms_NumDeletedRows :: u64
  ms_NumAttempts :: u32
  ms_BytesWritten :: u64
  ms_NumFilesWritten :: u64
  ms_NumSkippedDuplicates :: u64

definition un_MergeStats :: "json \<Rightarrow> goerr + MergeStats" where
  "un_MergeStats j = un_struct
     [fld ''num_inserted_rows'' ms_NumInsertedRows ms_NumInsertedRows_update un_word,
      fld ''num_updated_rows'' ms_NumUpdatedRows ms_NumUpdatedRows_update un_word,
      fld ''num_deleted_rows'' ms_NumDeletedRows ms_NumDeletedRows_update un_word,
      fld ''num_attempts'' ms_NumAttempts ms_NumAttempts_update un_word,
      fld ''bytes_written'' ms_BytesWritten ms_BytesWritten_update un_word,
      fld ''num_files_written'' ms_NumFilesWritten ms_NumFilesWritten_update un_word,
      fld ''num_skipped_duplicates'' ms_NumSkippedDuplicates ms_NumSkippedDuplicates_update un_word] j
     \<lparr>ms_NumInsertedRows = 0, ms_NumUpdatedRows = 0, ms_NumDeletedRows = 0, ms_NumAttempts = 0, ms_BytesWritten = 0,
      ms_NumFilesWritten = 0, ms_NumSkippedDuplicates = 0\<rparr>"

text \<open>The fields of type \<^verbatim>\<open>any\<close> hold what is marshalled; nil is left out.\<close>

record mergeInsertConfig =
  mc_On :: "string list option"
  mc_WhenMatched :: "json option"
  mc_WhenNotMatched :: string
  mc_WhenNotMatchedBySource :: "json option"
  mc_ConflictRetries :: "u32 option"
  mc_RetryTimeoutMS :: u64
  mc_SourceDedupeBehavior :: string
  mc_UseIndex :: "bool option"
  mc_CommitRetries :: "u32 option"
  mc_SkipAutoCleanup :: "bool option"

definition merge_insert_json :: "mergeInsertConfig \<Rightarrow> json" where
  "merge_insert_json cfg = JObj ([(''on'', json_slice JStr (mc_On cfg))] @
     omit_ptr (\<lambda>j. j) ''when_matched'' (mc_WhenMatched cfg) @ omit_str ''when_not_matched'' (mc_WhenNotMatched cfg) @
     omit_ptr (\<lambda>j. j) ''when_not_matched_by_source'' (mc_WhenNotMatchedBySource cfg) @
     omit_ptr (\<lambda>n. JInt (uint n)) ''conflict_retries'' (mc_ConflictRetries cfg) @
     omit_u64 ''retry_timeout_ms'' (mc_RetryTimeoutMS cfg) @
     omit_str ''source_dedupe_behavior'' (mc_SourceDedupeBehavior cfg) @ omit_ptr JBool ''use_index'' (mc_UseIndex cfg) @
     omit_ptr (\<lambda>n. JInt (uint n)) ''commit_retries'' (mc_CommitRetries cfg) @
     omit_ptr JBool ''skip_auto_cleanup'' (mc_SkipAutoCleanup cfg))"

record MergeInsertBuilder =
  mb_ds :: dataset
  mb_cfg :: mergeInsertConfig

definition MergeInsert :: "dataset \<Rightarrow> string list option \<Rightarrow> MergeInsertBuilder" where
  "MergeInsert d on = \<lparr>mb_ds = d, mb_cfg = \<lparr>mc_On = on, mc_WhenMatched = None, mc_WhenNotMatched = [],
     mc_WhenNotMatchedBySource = None, mc_ConflictRetries = None, mc_RetryTimeoutMS = 0, mc_SourceDedupeBehavior = [],
     mc_UseIndex = None, mc_CommitRetries = None, mc_SkipAutoCleanup = None\<rparr>\<rparr>"

type_synonym merge_setter = "MergeInsertBuilder \<Rightarrow> MergeInsertBuilder"

definition on_cfg :: "(mergeInsertConfig \<Rightarrow> mergeInsertConfig) \<Rightarrow> merge_setter" where
  "on_cfg f b = b\<lparr>mb_cfg := f (mb_cfg b)\<rparr>"

definition WhenMatchedUpdateAll :: merge_setter where
  "WhenMatchedUpdateAll = on_cfg (mc_WhenMatched_update (\<lambda>_. Some (JStr ''update_all'')))"

definition WhenMatchedUpdateIf :: "string \<Rightarrow> merge_setter" where
  "WhenMatchedUpdateIf expr = on_cfg (mc_WhenMatched_update (\<lambda>_. Some (JObj [(''update_if'', JStr expr)])))"

definition WhenMatchedDelete :: merge_setter where
  "WhenMatchedDelete = on_cfg (mc_WhenMatched_update (\<lambda>_. Some (JStr ''delete'')))"

definition WhenMatchedFail :: merge_setter where
  "WhenMatchedFail = on_cfg (mc_WhenMatched_update (\<lambda>_. Some (JStr ''fail'')))"

definition WhenMatchedDoNothing :: merge_setter where
  "WhenMatchedDoNothing = on_cfg (mc_WhenMatched_update (\<lambda>_. Some (JStr ''do_nothing'')))"

definition WhenNotMatchedInsertAll :: merge_setter where
  "WhenNotMatchedInsertAll = on_cfg (mc_WhenNotMatched_update (\<lambda>_. ''insert_all''))"

definition WhenNotMatchedDoNothing :: merge_setter where
  "WhenNotMatchedDoNothing = on_cfg (mc_WhenNotMatched_update (\<lambda>_. ''do_nothing''))"

definition WhenNotMatchedBySourceKeep :: merge_setter where
  "WhenNotMatchedBySourceKeep = on_cfg (mc_WhenNotMatchedBySource_update (\<lambda>_. Some (JStr ''keep'')))"

definition WhenNotMatchedBySourceDelete :: merge_setter where
  "WhenNotMatchedBySourceDelete = on_cfg (mc_WhenNotMatchedBySource_update (\<lambda>_. Some (JStr ''delete'')))"

definition WhenNotMatchedBySourceDeleteIf :: "string \<Rightarrow> merge_setter" where
  "WhenNotMatchedBySourceDeleteIf expr = on_cfg (mc_WhenNotMatchedBySource_update (\<lambda>_. Some (JObj [(''delete_if'', JStr expr)])))"

definition Merge_ConflictRetries :: "u32 \<Rightarrow> merge_setter" where
  "Merge_ConflictRetries n = on_cfg (mc_ConflictRetries_update (\<lambda>_. Some n))"

definition Merge_RetryTimeout :: "int \<Rightarrow> merge_setter" where
  "Merge_RetryTimeout d = on_cfg (mc_RetryTimeoutMS_update (\<lambda>_. millis d))"

definition SourceDedupeFail :: string where "SourceDedupeFail = ''fail''"
definition SourceDedupeFirstSeen :: string where "SourceDedupeFirstSeen = ''first_seen''"

definition Merge_SourceDedupeBehavior :: "string \<Rightarrow> merge_setter" where
  "Merge_SourceDedupeBehavior behavior = on_cfg (mc_SourceDedupeBehavior_update (\<lambda>_. behavior))"

definition Merge_UseIndex :: "bool \<Rightarrow> merge_setter" where
  "Merge_UseIndex use = on_cfg (mc_UseIndex_update (\<lambda>_. Some use))"

definition Merge_CommitRetries :: "u32 \<Rightarrow> merge_setter" where
  "Merge_CommitRetries n = on_cfg (mc_CommitRetries_update (\<lambda>_. Some n))"

definition Merge_SkipAutoCleanup :: "bool \<Rightarrow> merge_setter" where
  "Merge_SkipAutoCleanup skip = on_cfg (mc_SkipAutoCleanup_update (\<lambda>_. Some skip))"

definition merge_record :: "obs option \<Rightarrow> string \<Rightarrow> goerr + MergeStats \<Rightarrow> ('n, 'p, unit) go" where
  "merge_record ob op res = do {
     recordRows ob op ''inserted'' (rows_of ms_NumInsertedRows res);
     recordRows ob op ''updated'' (rows_of ms_NumUpdatedRows res);
     recordRows ob op ''deleted'' (rows_of ms_NumDeletedRows res);
     recordBytes ob op (rows_of ms_BytesWritten res)
   }"

definition MergeInsertBuilder_Execute :: "'n lance_ffi \<Rightarrow> ctx \<Rightarrow> MergeInsertBuilder \<Rightarrow> ('n, 'p, goerr + MergeStats) go" where
  "MergeInsertBuilder_Execute F c b = (let ob = ds_obs (mb_ds b); op = ''MergeInsertBuilder.Execute'' in do {
     res \<leftarrow> observed ob op []
       (\<lambda>r. [(''lance.rows_inserted'', AInt (rows_of ms_NumInsertedRows r)),
             (''lance.rows_updated'', AInt (rows_of ms_NumUpdatedRows r)),
             (''lance.rows_deleted'', AInt (rows_of ms_NumDeletedRows r)),
             (''lance.bytes_written'', AInt (rows_of ms_BytesWritten r))])
       (dataset_locked c (mb_ds b) (\<lambda>ptr.
          with_options (Inr (merge_insert_json (mb_cfg b))) (\<lambda>cJSON.
            export_json F c (Suc 0) ''lance_dataset_merge_insert'' (\<lambda>xs. [CHandle ptr, cJSON, CArrow (hd xs)])
              ''merge insert'' ''merge stats'' un_MergeStats)));
     merge_record ob op res;
     ret res
   })"

section \<open>Schema evolution\<close>

record ColumnAlteration =
  ca_Path :: string
  ca_Rename :: string
  ca_Nullable :: "bool option"
  ca_DataType :: string

record addColumnsSpec =
  as_Kind :: string
  as_Expressions :: "(string \<times> string) list"
  as_ReadColumns :: "string list"
  as_BatchSize :: u32

definition add_columns_json :: "addColumnsSpec \<Rightarrow> json" where
  "add_columns_json spec = JObj ([(''kind'', JStr (as_Kind spec))] @
     omit_list (\<lambda>(n, e). JArr [JStr n, JStr e]) ''expressions'' (as_Expressions spec) @
     omit_list JStr ''read_columns'' (as_ReadColumns spec) @ omit_u32 ''batch_size'' (as_BatchSize spec))"

text \<open>\<^verbatim>\<open>addColumns\<close>: a reader and a schema, if given, are exported in this order.\<close>

definition with_options_do :: "goerr + json \<Rightarrow> (cval \<Rightarrow> ('n, 'p, goerr option) go) \<Rightarrow> ('n, 'p, goerr option) go" where
  "with_options_do v body = (case v of
      Inl err \<Rightarrow> ret (Some (Wrapf [Lit ''lance: marshal options: ''] err []))
    | Inr j \<Rightarrow> with_cString (Json j) body)"

definition addColumns :: "'n lance_ffi \<Rightarrow> ctx \<Rightarrow> dataset \<Rightarrow> string \<Rightarrow> addColumnsSpec \<Rightarrow> bool \<Rightarrow> bool \<Rightarrow> ('n, 'p, goerr option) go" where
  "addColumns F c d name spec rdr schema =
     with_options_do (Inr (add_columns_json spec)) (\<lambda>cSpec.
       datasetDo c d name ''add columns'' (\<lambda>c ptr. do {
         (e, outs) \<leftarrow> export_call F c [] ret (of_bool rdr + of_bool schema) ''lance_dataset_add_columns'' (\<lambda>xs.
           [CHandle ptr, cSpec, (if rdr then CArrow (xs ! 0) else CNull),
            (if schema then CArrow (xs ! of_bool rdr) else CNull)]);
         ret e
       }) [])"

definition AddColumnsSQL :: "'n lance_ffi \<Rightarrow> ctx \<Rightarrow> dataset \<Rightarrow> NamedExpr list \<Rightarrow> string list \<Rightarrow> u32 \<Rightarrow> ('n, 'p, goerr option) go" where
  "AddColumnsSQL F c d exprs readColumns batchSize =
     (if length exprs = 0 then ret (Some (invalid ''lance: add columns: no expressions given: ''))
      else addColumns F c d ''Dataset.AddColumnsSQL''
        \<lparr>as_Kind = ''sql'', as_Expressions = map (\<lambda>e. (ne_Name e, ne_SQL e)) exprs, as_ReadColumns = readColumns,
         as_BatchSize = batchSize\<rparr> False False)"

definition AddColumnsFromReader :: "'n lance_ffi \<Rightarrow> ctx \<Rightarrow> dataset \<Rightarrow> bool \<Rightarrow> u32 \<Rightarrow> ('n, 'p, goerr option) go" where
  "AddColumnsFromReader F c d rdr batchSize =
     (if \<not> rdr then ret (Some (invalid ''lance: add columns: reader must not be nil: ''))
      else addColumns F c d ''Dataset.AddColumnsFromReader''
        \<lparr>as_Kind = ''reader'', as_Expressions = [], as_ReadColumns = [], as_BatchSize = batchSize\<rparr> rdr False)"

definition AddColumnsAllNulls :: "'n lance_ffi \<Rightarrow> ctx \<Rightarrow> dataset \<Rightarrow> bool \<Rightarrow> ('n, 'p, goerr option) go" where
  "AddColumnsAllNulls F c d schema =
     (if \<not> schema then ret (Some (invalid ''lance: add columns: schema must not be nil: ''))
      else addColumns F c d ''Dataset.AddColumnsAllNulls''
        \<lparr>as_Kind = ''all_nulls'', as_Expressions = [], as_ReadColumns = [], as_BatchSize = 0\<rparr> False schema)"

definition DropColumns :: "'n lance_ffi \<Rightarrow> ctx \<Rightarrow> dataset \<Rightarrow> string list \<Rightarrow> ('n, 'p, goerr option) go" where
  "DropColumns F c d cols =
     (if length cols = 0 then ret (Some (invalid ''lance: drop columns: no columns given: ''))
      else with_cStrings cols (\<lambda>arr.
        datasetDo c d ''Dataset.DropColumns'' ''drop columns'' (\<lambda>c ptr.
          err_call F c ''lance_dataset_drop_columns'' [CHandle ptr, arr]) []))"

definition columnAlterationJSON :: "ColumnAlteration \<Rightarrow> json" where
  "columnAlterationJSON a = JObj ([(''path'', JStr (ca_Path a))] @ omit_str ''rename'' (ca_Rename a) @
     omit_ptr JBool ''nullable'' (ca_Nullable a) @ omit_str ''data_type'' (ca_DataType a))"

definition AlterColumns :: "'n lance_ffi \<Rightarrow> ctx \<Rightarrow> dataset \<Rightarrow> ColumnAlteration list \<Rightarrow> ('n, 'p, goerr option) go" where
  "AlterColumns F c d alts =
     (if length alts = 0 then ret (Some (invalid ''lance: alter columns: no alterations given: ''))
      else with_options_do (Inr (JArr (map columnAlterationJSON alts))) (\<lambda>cJSON.
        datasetDo c d ''Dataset.AlterColumns'' ''alter columns'' (\<lambda>c ptr.
          err_call F c ''lance_dataset_alter_columns'' [CHandle ptr, cJSON]) []))"

definition Dataset_Merge :: "'n lance_ffi \<Rightarrow> ctx \<Rightarrow> dataset \<Rightarrow> bool \<Rightarrow> string \<Rightarrow> string \<Rightarrow> ('n, 'p, goerr option) go" where
  "Dataset_Merge F c d rdr leftOn rightOn =
     (if \<not> rdr then ret (Some (invalid ''lance: merge: reader must not be nil: ''))
      else with_cString (Text leftOn) (\<lambda>cLeft.
        with_cString (Text rightOn) (\<lambda>cRight.
          datasetDo c d ''Dataset.Merge'' ''merge'' (\<lambda>c ptr. do {
            (e, outs) \<leftarrow> write_call F c ''lance_dataset_merge'' (\<lambda>x. [CHandle ptr, CArrow x, cLeft, cRight]);
            ret e
          }) [])))"

section \<open>Computed columns\<close>

record 'p udfOptions =
  uo_readColumns :: "string list"
  uo_batchSize :: u32
  uo_checkpoint :: "'p option"

type_synonym 'p UDFOption = "'p udfOptions \<Rightarrow> 'p udfOptions"

definition WithUDFReadColumns :: "string list \<Rightarrow> 'p UDFOption" where
  "WithUDFReadColumns columns o' = o'\<lparr>uo_readColumns := columns\<rparr>"

definition WithUDFBatchSize :: "u32 \<Rightarrow> 'p UDFOption" where
  "WithUDFBatchSize n o' = o'\<lparr>uo_batchSize := n\<rparr>"

definition WithUDFCheckpoint :: "'p option \<Rightarrow> 'p UDFOption" where
  "WithUDFCheckpoint store o' = o'\<lparr>uo_checkpoint := store\<rparr>"

definition AddColumnsUDF :: "'n lance_ffi \<Rightarrow> ctx \<Rightarrow> dataset \<Rightarrow> 'p option \<Rightarrow> 'p UDFOption list \<Rightarrow> ('n, 'p, goerr option) go" where
  "AddColumnsUDF F c d fn opts =
     (case fn of
        None \<Rightarrow> ret (Some (invalid ''lance: udf mapper must not be nil: ''))
      | Some adapter \<Rightarrow>
          let o' = apply_opts opts \<lparr>uo_readColumns = [], uo_batchSize = 0, uo_checkpoint = None\<rparr> in
          with_plugin (Some adapter) (\<lambda>udfHandle.
          with_plugin (uo_checkpoint o') (\<lambda>ckptHandle.
            datasetDo c d ''Dataset.AddColumnsUDF'' ''add columns udf'' (\<lambda>c ptr.
              let rest = (\<lambda>cOpts. do {
                (e, outs) \<leftarrow> write_call F c ''lance_dataset_add_columns_udf'' (\<lambda>x.
                  [CHandle ptr, CArrow x, CU64 udfHandle, cOpts, CU32 (uo_batchSize o'), CU64 ckptHandle]);
                ret e })
              in if length (uo_readColumns o') > 0
                 then with_cString (Json (json_any [(''read_columns'', JArr (map JStr (uo_readColumns o')))])) rest
                 else rest CNull) [])))"

section \<open>Contracts\<close>

lemma keeps_with_options_do [keeps_rules]:
  "separate f \<Longrightarrow> c_separate f \<Longrightarrow> (\<And>x. keeps f (body x)) \<Longrightarrow> keeps f (with_options_do v body)"
  "(\<And>x. keeps c_mem (body' x)) \<Longrightarrow> keeps c_mem (with_options_do v body')"
  unfolding with_options_do_def by (auto intro!: keeps_rules)

lemma yields_with_options_do [yields_rules]:
  "raw v \<Longrightarrow> (\<And>x. yields prefixed_opt (body x)) \<Longrightarrow> yields prefixed_opt (with_options_do v body)"
  unfolding with_options_do_def by (cases v) (auto intro!: yields_rules)

lemma ends_with_options_do [ends_rules]:
  "separate f \<Longrightarrow> c_separate f \<Longrightarrow> (\<And>x e. Q x (Some e) x) \<Longrightarrow> (\<And>x. ends f Q (body x)) \<Longrightarrow> ends f Q (with_options_do v body)"
  unfolding with_options_do_def by (auto intro!: ends_rules)

lemma once_invalid [simp]: "take 7 msg = ''lance: '' \<Longrightarrow> once (invalid msg)"
  by (simp add: invalid_def once_def)

lemma yields_then [yields_rules]: "yields P m \<Longrightarrow> yields P (do { r \<leftarrow> m; g r; ret r })"
  by (erule yields_bind_from) (auto intro!: yields_bind yields_return)

lemma ends_then: "ends f Q m \<Longrightarrow> (\<And>r. keeps f (g r)) \<Longrightarrow> ends f Q (do { r \<leftarrow> m; g r; ret r })"
  unfolding ends_def keeps_def by (simp add: split_beta)

lemma mutation_do_contracts:
  "do_contract (DropColumns F c d cols)" "do_contract (AlterColumns F c d alts)"
  unfolding contract_defs DropColumns_def AlterColumns_def
  by (auto intro!: contract_rules keeps_rules yields_rules)

lemma mutation_json_contracts:
  assumes "quiet F"
  shows "op_contract (Dataset_Delete F c d predicate)" "op_contract (Dataset_Update F c d spec)"
  using assms unfolding contract_defs Dataset_Delete_def Dataset_Update_def un_DeleteResult_def un_UpdateResult_def
  by (auto intro!: json_contract_rules keeps_rules yields_rules)

lemma hands_Append: "hands_do (Suc 0) (Append F c d)"
proof -
  let ?rest = "\<lambda>ptr. do {
       (e, outs) \<leftarrow> write_call F c ''lance_dataset_append'' (\<lambda>x. [CHandle ptr, CArrow x]);
       case e of Some err \<Rightarrow> ret (Inl (Wrapf [Lit ''lance: append: ''] err [])) | None \<Rightarrow> ret (Inr ()) }"
  have "ends exported (handed_over (Suc 0)) (?rest ptr)" for ptr
    by (rule handed_write_call) (auto intro: keeps_rules)
  moreover have "yields prefixed (?rest ptr)" for ptr
    unfolding write_call_def by (rule yields_after_export) (auto intro: yields_return)
  ultimately show ?thesis
    unfolding hands_defs Append_def
    by (auto intro!: handed_err_of ends_observed ends_dataset_locked keeps_rules yields_err_of yields_observed yields_dataset_locked)
qed

lemma keeps_merge_record [keeps_rules]: "silent f \<Longrightarrow> keeps f (merge_record ob op r)"
  unfolding merge_record_def by (intro keeps_rules)

lemma hands_MergeInsert: "quiet F \<Longrightarrow> hands_op (Suc 0) (MergeInsertBuilder_Execute F c b)"
  unfolding hands_defs MergeInsertBuilder_Execute_def Let_def un_MergeStats_def
  by (auto intro!: json_contract_rules keeps_rules yields_rules ends_then ends_observed ends_dataset_locked
      ends_with_options handed_export_json)

lemma hands_addColumns: "hands_do (of_bool rdr + of_bool schema) (addColumns F c d name spec rdr schema)"
  unfolding hands_defs addColumns_def
  by (auto intro!: keeps_rules ends_with_options_do ends_datasetDo handed_export_err yields_rules)

lemma hands_Merge: "hands_do (Suc 0) (Dataset_Merge F c d rdr leftOn rightOn)"
  unfolding hands_defs Dataset_Merge_def
  by (auto intro!: keeps_rules ends_return ends_with_cString ends_datasetDo handed_write_err yields_rules)

lemma yields_with_plugin [yields_rules]: "(\<And>h. yields P (body h)) \<Longrightarrow> yields P (with_plugin p body)"
  unfolding with_plugin_def by (cases p) (auto intro!: yields_rules yields_bind)

lemma hands_AddColumnsUDF: "hands_do (Suc 0) (AddColumnsUDF F c d fn opts)"
  unfolding hands_defs AddColumnsUDF_def Let_def
  by (cases fn) (auto intro!: keeps_rules ends_return ends_if ends_with_cString ends_datasetDo handed_write_err ends_with_plugin yields_rules)

section \<open>What reaches the native library\<close>

lemma meets_then: "meets v m Q \<Longrightarrow> (\<And>r. keeps view (g r)) \<Longrightarrow> meets v (do { r \<leftarrow> m; g r; ret r }) Q"
  by (erule meets_bind) (auto intro!: meets_before meets_ret)

lemma keeps_view_records: "keeps view (recordRows ob op kind n)" "keeps view (merge_record ob op r)"
  by (auto simp: keeps_def merge_record_def recordRows_def recordBytes_def)

lemma meets_Delete:
  assumes "never_done c" and "lance_in_tokio_runtime F (fst v) = 0" and "view_ptr (ds_h d) v = Some q" and "predicate \<noteq> []"
  shows "meets v (Dataset_Delete F c d predicate)
    (\<lambda>_ u. fst u = snd (ccall F ''lance_dataset_delete'' [CHandle q, CText (Text predicate)] (fst v)))"
  unfolding Dataset_Delete_def own_json_def using assms(4)
  by (auto simp: text_arg_def intro!: meets_then keeps_view_records meets_observed meets_dataset_locked [OF assms(1,3)] meets_with_cString
      meets_mono [OF meets_export_json [OF assms(2,1)]])

section \<open>Properties\<close>



text \<open>What a reader of the document finds as the retry timeout, for a duration of \<^verbatim>\<open>d\<close> nanoseconds.\<close>

definition wire_timeout :: "int \<Rightarrow> json option" where
  "wire_timeout d =
     (if \<bar>d\<bar> < 1000000 then None else Some (JInt (if 0 \<le> d then d div 1000000 else 2 ^ 64 - (-d) div 1000000)))"

lemma uint_millis:
  assumes "-(2 ^ 63) \<le> d" and "d < 2 ^ 63"
  shows "uint (millis d) = (if 0 \<le> d then d div 1000000 else if -d < 1000000 then 0 else 2 ^ 64 - (-d) div 1000000)"
proof (cases "0 \<le> d")
  case True
  then have "d sdiv 1000000 = d div 1000000"
    by (auto simp: signed_divide_int_def sgn_if)
  moreover have "0 \<le> d div 1000000" "d div 1000000 < 2 ^ 63"
    using True assms by simp_all
  ultimately show ?thesis
    using True by (simp add: millis_def uint_word_of_int take_bit_int_eq_self)
next
  case False
  define q where "q = (-d) div 1000000"
  have sd: "d sdiv 1000000 = -q"
    using False by (simp add: signed_divide_int_def q_def)
  have q: "0 \<le> q" "q < 2 ^ 63" "q = 0 \<longleftrightarrow> -d < 1000000"
    using False assms by (auto simp: q_def)
  have "uint (millis d) = (-q) mod 2 ^ 64"
    unfolding millis_def sd by (simp only: uint_word_of_int take_bit_eq_mod) simp
  then have "uint (millis d) = (if q = 0 then 0 else 2 ^ 64 - q)"
    using q by (simp add: zmod_zminus1_eq_if)
  with q False show ?thesis
    by (auto simp: q_def)
qed

lemma millis_member:
  assumes "-(2 ^ 63) \<le> d" and "d < 2 ^ 63"
  shows "map_of (omit_u64 ''retry_timeout_ms'' (millis d)) ''retry_timeout_ms'' = wire_timeout d"
proof -
  have "millis d = 0 \<longleftrightarrow> uint (millis d) = 0"
    by (simp add: word_uint_eq_iff)
  also have "\<dots> \<longleftrightarrow> \<bar>d\<bar> < 1000000"
    using assms uint_millis [OF assms] by (auto simp: split: if_splits)
  finally show ?thesis
    using uint_millis [OF assms] by (auto simp: omit_u64_def wire_timeout_def)
qed

lemma update_document: "json_get ''retry_timeout_ms'' (updateOptions spec) =
    map_of (omit_u64 ''retry_timeout_ms'' (millis (us_RetryTimeout spec))) ''retry_timeout_ms''"
  by (auto simp: updateOptions_def omit_defs split: option.split)

lemma merge_document: "json_get ''retry_timeout_ms'' (merge_insert_json cfg) =
    map_of (omit_u64 ''retry_timeout_ms'' (mc_RetryTimeoutMS cfg)) ''retry_timeout_ms''"
  by (auto simp: merge_insert_json_def omit_defs split: option.split)

text \<open>C40: the retry timeout reaches the native library in whole milliseconds. For an admitted call on an
  open dataset, \<^verbatim>\<open>Update\<close> and a merge with \<^verbatim>\<open>RetryTimeout(d)\<close> call their native function with a document
  whose \<^verbatim>\<open>retry_timeout_ms\<close> is the duration divided by a million and rounded towards zero. A
  duration of less than a millisecond, of either sign, is left out, so that the native default of
  30 seconds applies, and a negative one of a millisecond or more wraps to a timeout above
  \<^verbatim>\<open>2^63\<close> milliseconds.\<close>

theorem retry_timeout_millis:
  assumes "never_done c" and "lance_in_tokio_runtime F (native w) = 0" and "handle_ptr (ds_h d) w = Some q"
    and "us_Set spec \<noteq> []" and "mb_ds b = d" and "t = us_RetryTimeout spec" and "-(2 ^ 63) \<le> t" and "t < 2 ^ 63"
  shows "(\<exists>doc. native (snd (run_state (Dataset_Update F c d spec) w)) =
        snd (ccall F ''lance_dataset_update'' [CHandle q, CText (Json doc)] (native w)) \<and>
      json_get ''retry_timeout_ms'' doc = wire_timeout t) \<and>
    (\<exists>doc x. native (snd (run_state (MergeInsertBuilder_Execute F c (Merge_RetryTimeout t b)) w)) =
        snd (ccall F ''lance_dataset_merge_insert'' [CHandle q, CText (Json doc), CArrow x] (native w)) \<and>
      json_get ''retry_timeout_ms'' doc = wire_timeout t)"
proof
  let ?v = "view w"
  have v: "lance_in_tokio_runtime F (fst ?v) = 0" "view_ptr (ds_h d) ?v = Some q" using assms(2,3) by simp_all
  have "meets ?v (Dataset_Update F c d spec) (\<lambda>_ u.
      fst u = snd (ccall F ''lance_dataset_update'' [CHandle q, CText (Json (updateOptions spec))] (fst ?v)))"
    unfolding Dataset_Update_def own_json_def using assms(4)
    by (auto intro!: meets_then keeps_view_records meets_observed meets_dataset_locked [OF assms(1) v(2)] meets_with_options
        meets_mono [OF meets_export_json [OF v(1) assms(1)]])
  from meetsD [OF this refl surjective_pairing]
  show "\<exists>doc. native (snd (run_state (Dataset_Update F c d spec) w)) =
        snd (ccall F ''lance_dataset_update'' [CHandle q, CText (Json doc)] (native w)) \<and>
      json_get ''retry_timeout_ms'' doc = wire_timeout t"
    using update_document [of spec] millis_member [OF assms(7,8)] assms(6) by auto
  let ?b = "Merge_RetryTimeout t b"
  have b: "mb_ds ?b = d" "mc_RetryTimeoutMS (mb_cfg ?b) = millis t"
    using assms(5) by (simp_all add: Merge_RetryTimeout_def on_cfg_def)
  have "meets ?v (MergeInsertBuilder_Execute F c ?b) (\<lambda>_ u. \<exists>x.
      fst u = snd (ccall F ''lance_dataset_merge_insert'' [CHandle q, CText (Json (merge_insert_json (mb_cfg ?b))), CArrow x] (fst ?v)))"
    unfolding MergeInsertBuilder_Execute_def Let_def b(1)
    by (auto intro!: meets_then keeps_view_records meets_observed meets_dataset_locked [OF assms(1) v(2)] meets_with_options
        meets_mono [OF meets_export_json [OF v(1) assms(1)]])
  from meetsD [OF this refl surjective_pairing]
  show "\<exists>doc x. native (snd (run_state (MergeInsertBuilder_Execute F c ?b) w)) =
        snd (ccall F ''lance_dataset_merge_insert'' [CHandle q, CText (Json doc), CArrow x] (native w)) \<and>
      json_get ''retry_timeout_ms'' doc = wire_timeout t"
    using merge_document [of "mb_cfg ?b"] millis_member [OF assms(7,8)] b(2) by auto
qed

theorem retry_timeout_millis_witness:
  "let F = log_ffi []; ds = \<lparr>ds_h = 4, ds_obs = None\<rparr>;
       spec = \<lparr>us_Set = [(''a'', ''1'')], us_Where = [], us_ConflictRetries = None, us_RetryTimeout = 2500000000\<rparr>
   in \<exists>doc. native (snd (run_state (Dataset_Update F background ds spec) (log_world open_ds))) =
        [(''lance_dataset_update'', [CHandle 9, CText (Json doc)])] \<and>
      json_get ''retry_timeout_ms'' doc = Some (JInt 2500)"
proof -
  let ?ds = "\<lparr>ds_h = 4, ds_obs = None\<rparr>"
  have "wire_timeout 2500000000 = Some (JInt 2500)" by (simp add: wire_timeout_def)
  then show ?thesis
    using retry_timeout_millis [of background "log_ffi []" "log_world open_ds" ?ds 9
        "\<lparr>us_Set = [(''a'', ''1'')], us_Where = [], us_ConflictRetries = None, us_RetryTimeout = 2500000000\<rparr>" "MergeInsert ?ds None"]
    by (simp add: open_ds_def MergeInsert_def)
qed

end
