(* ===== verification/Lance_Transaction.thy ===== *)
theory Lance_Transaction
  imports Lance_Mutation
begin

text \<open>
  Distributed writes and commits: \<^verbatim>\<open>lance/transaction.go\<close>. A transaction is the protobuf bytes
  that the native side produced, which Go code does not look into, and a JSON view of them.
\<close>

section \<open>Views\<close>

record OperationView =
  ov_Type :: string
  ov_NumFragments :: int
  ov_FragmentIDs :: "u64 list"
  ov_Predicate :: string
  ov_Version :: u64
  ov_NewIndices :: "string list"
  ov_Raw :: "json option"

definition OperationView0 :: OperationView where
  "OperationView0 = \<lparr>ov_Type = [], ov_NumFragments = 0, ov_FragmentIDs = [], ov_Predicate = [], ov_Version = 0,
     ov_NewIndices = [], ov_Raw = None\<rparr>"

text \<open>\<^verbatim>\<open>OperationView.UnmarshalJSON\<close>: the document is kept, then the fields are decoded.\<close>

definition OperationView_UnmarshalJSON :: "OperationView decoder" where
  "OperationView_UnmarshalJSON j old = un_struct
     [fld ''type'' ov_Type ov_Type_update un_str,
      fld ''num_fragments'' ov_NumFragments ov_NumFragments_update (un_sint 64),
      fld ''fragment_ids'' ov_FragmentIDs ov_FragmentIDs_update (un_slice un_word 0),
      fld ''predicate'' ov_Predicate ov_Predicate_update un_str,
      fld ''version'' ov_Version ov_Version_update un_word,
      fld ''new_indices'' ov_NewIndices ov_NewIndices_update (un_slice un_str [])] j (old\<lparr>ov_Raw := Some j\<rparr>)"

record transactionView =
  tv_ReadVersion :: u64
  tv_UUID :: string
  tv_Tag :: "string option"
  tv_Operation :: OperationView
  tv_Properties :: gomap

definition transactionView0 :: transactionView where
  "transactionView0 = \<lparr>tv_ReadVersion = 0, tv_UUID = [], tv_Tag = None, tv_Operation = OperationView0, tv_Properties = []\<rparr>"

definition un_transactionView :: "transactionView decoder" where
  "un_transactionView = un_struct
     [fld ''read_version'' tv_ReadVersion tv_ReadVersion_update un_word, fld ''uuid'' tv_UUID tv_UUID_update un_str,
      fld ''tag'' tv_Tag tv_Tag_update (un_ptr un_str []),
      fld ''operation'' tv_Operation tv_Operation_update OperationView_UnmarshalJSON,
      fld ''transaction_properties'' tv_Properties tv_Properties_update un_strmap]"

record Transaction =
  tx_pb :: bytes
  tx_view :: transactionView
  tx_Raw :: json

definition Transaction_ReadVersion :: "Transaction \<Rightarrow> u64" where
  "Transaction_ReadVersion t = tv_ReadVersion (tx_view t)"

definition Transaction_UUID :: "Transaction \<Rightarrow> string" where
  "Transaction_UUID t = tv_UUID (tx_view t)"

text \<open>The accessors return copies, so that a caller cannot change the transaction.\<close>

fun cloneStringMap :: "gomap \<Rightarrow> gomap" where
  "cloneStringMap [] = []"
| "cloneStringMap ((k, v) # src) = AList.update k v (cloneStringMap src)"

definition cloneOperationView :: "OperationView \<Rightarrow> OperationView" where
  "cloneOperationView src = src\<lparr>ov_FragmentIDs := [] @ ov_FragmentIDs src, ov_NewIndices := [] @ ov_NewIndices src,
     ov_Raw := ov_Raw src\<rparr>"

definition Transaction_Operation :: "Transaction \<Rightarrow> OperationView" where
  "Transaction_Operation t = cloneOperationView (tv_Operation (tx_view t))"

definition Transaction_Properties :: "Transaction \<Rightarrow> gomap" where
  "Transaction_Properties t = cloneStringMap (tv_Properties (tx_view t))"

definition Transaction_Bytes :: "Transaction \<Rightarrow> bytes" where
  "Transaction_Bytes t = [] @ tx_pb t"

text \<open>\<^verbatim>\<open>newTransaction\<close>: the view of a version without a transaction is \<^verbatim>\<open>null\<close> or empty; the result
  is then a nil pointer without an error.\<close>

definition newTransaction :: "bytes \<Rightarrow> ctext option \<Rightarrow> goerr + Transaction option" where
  "newTransaction pb viewJSON = (case viewJSON of
      None \<Rightarrow> Inr None
    | Some (Text s) \<Rightarrow> (if s = ''null'' \<or> s = [] then Inr None
        else Inl (Wrapf [Lit ''lance: decode transaction view: ''] json_syntax_error []))
    | Some (Json j) \<Rightarrow> (if j = JNull then Inr None
        else (case un_transactionView j transactionView0 of
            Inl err \<Rightarrow> Inl (Wrapf [Lit ''lance: decode transaction view: ''] err [])
          | Inr v \<Rightarrow> Inr (Some \<lparr>tx_pb = pb, tx_view = v, tx_Raw = j\<rparr>))))"

section \<open>Receiving a transaction\<close>

text \<open>The bytes, their length and the view, all owned by the caller.\<close>

definition recv_txn :: "int \<times> cval list \<Rightarrow> ('n, 'p, int \<times> bytes cptr \<times> u64 \<times> ctext cptr) go" where
  "recv_txn r = do {
     pbPtr \<leftarrow> (case out_nth (snd r) 0 of CBytes mem \<Rightarrow> c_alloc mem | _ \<Rightarrow> ret None);
     viewJSON \<leftarrow> (case as_text (out_nth (snd r) 2) of Some t \<Rightarrow> c_alloc t | None \<Rightarrow> ret None);
     ret (fst r, pbPtr, as_u64 (out_nth (snd r) 1), viewJSON)
   }"

definition lance_bytes_free :: "bytes cptr \<Rightarrow> u64 \<Rightarrow> ('n, 'p, unit) go" where
  "lance_bytes_free p n = free_cptr p"

definition goBytesFree :: "bytes cptr \<Rightarrow> u64 \<Rightarrow> ('n, 'p, goerr + bytes option) go" where
  "goBytesFree ptr n = (case ptr of
      None \<Rightarrow> ret (copyCBytes None n)
    | Some (_, mem) \<Rightarrow> deferring (lance_bytes_free ptr n) (ret (if n = 0 then Inr None else copyCBytes (Some mem) n)))"

text \<open>The common end of the functions that receive encoded bytes with a view: a failed call frees
  whatever was written; \<^verbatim>\<open>copied\<close> wraps an error of the copy, \<^verbatim>\<open>mk\<close> builds the result.\<close>

definition take_pb ::
  "(goerr \<Rightarrow> goerr) \<Rightarrow> (goerr \<Rightarrow> goerr) \<Rightarrow> (bytes \<Rightarrow> ctext option \<Rightarrow> goerr + 'a) \<Rightarrow>
     goerr option \<times> bytes cptr \<times> u64 \<times> ctext cptr \<Rightarrow> ('n, 'p, goerr + 'a) go" where
  "take_pb wrap copied mk r = (case r of (callErr, pbPtr, pbLen, viewJSON) \<Rightarrow>
     (case callErr of
        Some err \<Rightarrow> do { lance_bytes_free pbPtr pbLen; lance_string_free viewJSON; ret (Inl (wrap err)) }
      | None \<Rightarrow> deferring (lance_string_free viewJSON) (do {
          pb \<leftarrow> goBytesFree pbPtr pbLen;
          ret (case pb of
            Inl err \<Rightarrow> Inl (copied err)
          | Inr b \<Rightarrow> mk (case b of None \<Rightarrow> [] | Some x \<Rightarrow> x) (map_option snd viewJSON))
        })))"

definition take_txn ::
  "(goerr \<Rightarrow> goerr) \<Rightarrow> goerr option \<times> bytes cptr \<times> u64 \<times> ctext cptr \<Rightarrow> ('n, 'p, goerr + Transaction option) go" where
  "take_txn wrap = take_pb wrap (\<lambda>err. Wrapf [Lit ''lance: copy transaction bytes: ''] err []) newTransaction"

section \<open>Writing fragments\<close>

record writeFragmentsConfig =
  wf_Mode :: string
  wf_MaxRowsPerFile :: u64
  wf_MaxRowsPerGroup :: u64
  wf_MaxBytesPerFile :: u64
  wf_DataStorageVersion :: string
  wf_EnableStableRowIDs :: bool
  wf_EnableV2ManifestPaths :: bool
  wf_TransactionProperties :: gomap
  wf_storage :: gomap

definition writeFragmentsConfig0 :: writeFragmentsConfig where
  "writeFragmentsConfig0 = \<lparr>wf_Mode = [], wf_MaxRowsPerFile = 0, wf_MaxRowsPerGroup = 0, wf_MaxBytesPerFile = 0,
     wf_DataStorageVersion = [], wf_EnableStableRowIDs = False, wf_EnableV2ManifestPaths = False,
     wf_TransactionProperties = [], wf_storage = []\<rparr>"

definition write_fragments_json :: "writeFragmentsConfig \<Rightarrow> json" where
  "write_fragments_json c = JObj (omit_str ''mode'' (wf_Mode c) @ omit_u64 ''max_rows_per_file'' (wf_MaxRowsPerFile c) @
     omit_u64 ''max_rows_per_group'' (wf_MaxRowsPerGroup c) @ omit_u64 ''max_bytes_per_file'' (wf_MaxBytesPerFile c) @
     omit_str ''data_storage_version'' (wf_DataStorageVersion c) @
     omit_bool ''enable_stable_row_ids'' (wf_EnableStableRowIDs c) @
     omit_bool ''enable_v2_manifest_paths'' (wf_EnableV2ManifestPaths c) @
     omit_map ''transaction_properties'' (wf_TransactionProperties c))"

type_synonym WriteFragmentsOption = "writeFragmentsConfig \<Rightarrow> writeFragmentsConfig"

definition WithFragmentsMode :: "WriteMode \<Rightarrow> WriteFragmentsOption" where
  "WithFragmentsMode mode c = c\<lparr>wf_Mode := WriteMode_String mode\<rparr>"

definition WithFragmentsMaxRowsPerFile :: "u64 \<Rightarrow> WriteFragmentsOption" where
  "WithFragmentsMaxRowsPerFile n c = c\<lparr>wf_MaxRowsPerFile := n\<rparr>"

definition WithFragmentsDataStorageVersion :: "string \<Rightarrow> WriteFragmentsOption" where
  "WithFragmentsDataStorageVersion v c = c\<lparr>wf_DataStorageVersion := v\<rparr>"

definition WithFragmentsStableRowIDs :: "bool \<Rightarrow> WriteFragmentsOption" where
  "WithFragmentsStableRowIDs enable c = c\<lparr>wf_EnableStableRowIDs := enable\<rparr>"

definition WithFragmentsStorageOptions :: "gomap \<Rightarrow> WriteFragmentsOption" where
  "WithFragmentsStorageOptions opts c = c\<lparr>wf_storage := opts\<rparr>"

definition WithFragmentsTransactionProperties :: "gomap \<Rightarrow> WriteFragmentsOption" where
  "WithFragmentsTransactionProperties props c = c\<lparr>wf_TransactionProperties := props\<rparr>"

definition WriteFragments ::
  "'n lance_ffi \<Rightarrow> otel \<Rightarrow> url_lib \<Rightarrow> ctx \<Rightarrow> string \<Rightarrow> WriteFragmentsOption list \<Rightarrow> ('n, 'p, goerr + Transaction option) go" where
  "WriteFragments F G L c uri opts =
     observed (Some (newObs G no_obsConfig)) ''WriteFragments'' [datasetURIAttribute L uri] (\<lambda>_. []) (
       let cfg = apply_opts opts writeFragmentsConfig0 in do {
         e \<leftarrow> ctx_Err c;
         case e of
           Some err \<Rightarrow> ret (Inl err)
         | None \<Rightarrow>
             with_cString (Text uri) (\<lambda>cURI.
             with_storageKV (wf_storage cfg) (\<lambda>kv.
             with_options (Inr (write_fragments_json cfg)) (\<lambda>cOpts. do {
               r \<leftarrow> export_call F c (None, 0, None) recv_txn (Suc 0) ''lance_write_fragments''
                 (\<lambda>xs. [CArrow (hd xs), cURI, cOpts, kv]);
               take_txn (\<lambda>err. Wrapf [Lit ''lance: write fragments '', Quo uri, Lit '': ''] err []) r
             })))
       })"

section \<open>Commits\<close>

record commitConfig =
  cc_UseStableRowIDs :: "bool option"
  cc_EnableV2ManifestPaths :: "bool option"
  cc_Detached :: "bool option"
  cc_MaxRetries :: "u32 option"
  cc_SkipAutoCleanup :: "bool option"
  cc_TransactionProperties :: gomap
  cc_StorageFormat :: string
  cc_uri :: string
  cc_storage :: gomap

definition commit_json :: "commitConfig \<Rightarrow> json" where
  "commit_json c = JObj (omit_ptr JBool ''use_stable_row_ids'' (cc_UseStableRowIDs c) @
     omit_ptr JBool ''enable_v2_manifest_paths'' (cc_EnableV2ManifestPaths c) @
     omit_ptr JBool ''detached'' (cc_Detached c) @ omit_ptr (\<lambda>n. JInt (uint n)) ''max_retries'' (cc_MaxRetries c) @
     omit_ptr JBool ''skip_auto_cleanup'' (cc_SkipAutoCleanup c) @
     omit_map ''transaction_properties'' (cc_TransactionProperties c) @ omit_str ''storage_format'' (cc_StorageFormat c))"

record CommitBuilder =
  cb_cfg :: commitConfig
  cb_withObs :: "obs option"

definition NewCommit :: "otel \<Rightarrow> string \<Rightarrow> ObsOption list \<Rightarrow> CommitBuilder" where
  "NewCommit G uri opts = \<lparr>cb_cfg = \<lparr>cc_UseStableRowIDs = None, cc_EnableV2ManifestPaths = None, cc_Detached = None,
     cc_MaxRetries = None, cc_SkipAutoCleanup = None, cc_TransactionProperties = [], cc_StorageFormat = [],
     cc_uri = uri, cc_storage = []\<rparr>, cb_withObs = Some (newObsFromOptions G opts)\<rparr>"

type_synonym commit_setter = "CommitBuilder \<Rightarrow> CommitBuilder"

definition on_commit :: "(commitConfig \<Rightarrow> commitConfig) \<Rightarrow> commit_setter" where
  "on_commit f b = b\<lparr>cb_cfg := f (cb_cfg b)\<rparr>"

definition Commit_UseStableRowIDs :: commit_setter where
  "Commit_UseStableRowIDs = on_commit (cc_UseStableRowIDs_update (\<lambda>_. Some True))"

definition Commit_EnableV2ManifestPaths :: commit_setter where
  "Commit_EnableV2ManifestPaths = on_commit (cc_EnableV2ManifestPaths_update (\<lambda>_. Some True))"

definition Commit_Detached :: commit_setter where
  "Commit_Detached = on_commit (cc_Detached_update (\<lambda>_. Some True))"

definition Commit_MaxRetries :: "u32 \<Rightarrow> commit_setter" where
  "Commit_MaxRetries n = on_commit (cc_MaxRetries_update (\<lambda>_. Some n))"

definition Commit_SkipAutoCleanup :: commit_setter where
  "Commit_SkipAutoCleanup = on_commit (cc_SkipAutoCleanup_update (\<lambda>_. Some True))"

definition Commit_WithTransactionProperties :: "gomap \<Rightarrow> commit_setter" where
  "Commit_WithTransactionProperties props = on_commit (cc_TransactionProperties_update (\<lambda>_. props))"

definition Commit_WithStorageFormat :: "string \<Rightarrow> commit_setter" where
  "Commit_WithStorageFormat format = on_commit (cc_StorageFormat_update (\<lambda>_. format))"

definition Commit_WithStorageOptions :: "gomap \<Rightarrow> commit_setter" where
  "Commit_WithStorageOptions opts = on_commit (cc_storage_update (\<lambda>_. opts))"

definition CommitBuilder_Execute :: "'n lance_ffi \<Rightarrow> ctx \<Rightarrow> CommitBuilder \<Rightarrow> Transaction option \<Rightarrow> ('n, 'p, goerr + dataset) go" where
  "CommitBuilder_Execute F c b txn =
     observed (cb_withObs b) ''CommitBuilder.Execute'' [] (\<lambda>_. [])
       (if (case txn of None \<Rightarrow> True | Some t \<Rightarrow> length (tx_pb t) = 0)
        then ret (Inl (invalid ''lance: commit: nil transaction: ''))
        else do {
          e \<leftarrow> ctx_Err c;
          case e of
            Some err \<Rightarrow> ret (Inl err)
          | None \<Rightarrow>
              with_cString (Text (cc_uri (cb_cfg b))) (\<lambda>cURI.
              with_storageKV (cc_storage (cb_cfg b)) (\<lambda>kv.
              with_options (Inr (commit_json (cb_cfg b))) (\<lambda>cOpts. do {
                let pb = tx_pb (the txn);
                (e, outs) \<leftarrow> call F c ''lance_commit'' [cURI, CBytes pb, CU64 (of_nat (length pb)), cOpts, kv];
                case e of
                  Some err \<Rightarrow> ret (Inl (Wrapf [Lit ''lance: commit '', Quo (cc_uri (cb_cfg b)), Lit '': ''] err []))
                | None \<Rightarrow> do { ds \<leftarrow> newDataset (as_handle (out_nth outs 0)) (cb_withObs b); ret (Inr ds) }
              })))
        })"

text \<open>\<^verbatim>\<open>cByteArrays\<close>: an array of pointers, an array of lengths, and one block per nonempty blob.\<close>

definition with_cByteArrays :: "bytes list \<Rightarrow> (cval \<Rightarrow> ('n, 'p, 'a) go) \<Rightarrow> ('n, 'p, 'a) go" where
  "with_cByteArrays blobs body = do {
     arrs \<leftarrow> c_mallocs 2;
     deferring (c_frees arrs) (do {
       slots \<leftarrow> c_mallocs (length (filter (\<lambda>b. b \<noteq> []) blobs));
       deferring (c_frees slots) (body (CByteArrays blobs))
     })
   }"

definition un_commit_version :: "json \<Rightarrow> goerr + u64" where
  "un_commit_version j = un_struct [fld ''version'' id (\<lambda>f. f) un_word] j 0"

text \<open>\<^verbatim>\<open>ExecuteBatch\<close>. Reading the bytes of a nil transaction panics; the deferred calls still run,
  with no error set.\<close>

definition batch_blobs :: "Transaction option list \<Rightarrow> bytes list outcome" where
  "batch_blobs txns = (if None \<in> set txns then Panic ''invalid memory address or nil pointer dereference''
     else Ret (map (\<lambda>t. tx_pb (the t)) txns))"

definition CommitBuilder_ExecuteBatch ::
  "'n lance_ffi \<Rightarrow> ctx \<Rightarrow> CommitBuilder \<Rightarrow> Transaction option list \<Rightarrow> ('n, 'p, goerr + u64 list outcome) go" where
  "CommitBuilder_ExecuteBatch F c b txns =
     observed (cb_withObs b) ''CommitBuilder.ExecuteBatch'' [] (\<lambda>_. [])
       (if length txns = 0 then ret (Inl (invalid ''lance: commit batch: no transactions: ''))
        else do {
          e \<leftarrow> ctx_Err c;
          case e of
            Some err \<Rightarrow> ret (Inl err)
          | None \<Rightarrow>
              with_cString (Text (cc_uri (cb_cfg b))) (\<lambda>cURI.
              with_storageKV (cc_storage (cb_cfg b)) (\<lambda>kv.
              with_options (Inr (commit_json (cb_cfg b))) (\<lambda>cOpts.
                case batch_blobs txns of
                  Panic p \<Rightarrow> ret (Inr (Panic p))
                | Ret blobs \<Rightarrow> with_cByteArrays blobs (\<lambda>arrs. do {
                    (e, resJSON) \<leftarrow> call_text F c ''lance_commit_batch'' [cURI, arrs, CU64 (of_nat (length txns)), cOpts, kv];
                    case e of
                      Some err \<Rightarrow> ret (Inl (Wrapf [Lit ''lance: commit batch '', Quo (cc_uri (cb_cfg b)), Lit '': ''] err []))
                    | None \<Rightarrow> decoded ''commit batch result'' (\<lambda>j. map_sum id (\<lambda>v. Ret [v]) (un_commit_version j)) resJSON
                  }))))
        })"

section \<open>Reading transactions\<close>

definition readTransaction :: "'n lance_ffi \<Rightarrow> ctx \<Rightarrow> dataset \<Rightarrow> string \<Rightarrow> cval list \<Rightarrow> ('n, 'p, goerr + Transaction option) go" where
  "readTransaction F c d f args = dataset_locked c d (\<lambda>ptr. do {
     r \<leftarrow> export_call F c (None, 0, None) recv_txn 0 f (\<lambda>_. CHandle ptr # args);
     take_txn (\<lambda>err. Wrapf [Lit ''lance: read transaction: ''] err []) r
   })"

definition ReadTransaction :: "'n lance_ffi \<Rightarrow> ctx \<Rightarrow> dataset \<Rightarrow> ('n, 'p, goerr + Transaction option) go" where
  "ReadTransaction F c d =
     observed (ds_obs d) ''Dataset.ReadTransaction'' [] (\<lambda>_. []) (readTransaction F c d ''lance_dataset_read_transaction'' [])"

definition TransactionByVersion :: "'n lance_ffi \<Rightarrow> ctx \<Rightarrow> dataset \<Rightarrow> u64 \<Rightarrow> ('n, 'p, goerr + Transaction option) go" where
  "TransactionByVersion F c d v =
     observed (ds_obs d) ''Dataset.TransactionByVersion'' [] (\<lambda>_. [])
       (readTransaction F c d ''lance_dataset_read_transaction_by_version'' [CU64 v])"

record TransactionSummary =
  ts_view :: transactionView
  ts_Raw :: json

definition TransactionSummary_ReadVersion :: "TransactionSummary \<Rightarrow> u64" where
  "TransactionSummary_ReadVersion s = tv_ReadVersion (ts_view s)"

definition TransactionSummary_UUID :: "TransactionSummary \<Rightarrow> string" where
  "TransactionSummary_UUID s = tv_UUID (ts_view s)"

definition TransactionSummary_Operation :: "TransactionSummary \<Rightarrow> OperationView" where
  "TransactionSummary_Operation s = cloneOperationView (tv_Operation (ts_view s))"

text \<open>The loop over the raw documents; a null stays a nil entry.\<close>

fun un_summaries :: "nat \<Rightarrow> json list \<Rightarrow> goerr + TransactionSummary option list" where
  "un_summaries i [] = Inr []"
| "un_summaries i (r # rs) =
     (if r = JNull then map_sum id (\<lambda>xs. None # xs) (un_summaries (Suc i) rs)
      else (case un_transactionView r transactionView0 of
          Inl err \<Rightarrow> Inl (Wrapf [Lit ''decode transaction '', Dec (int i), Lit '': ''] err [])
        | Inr v \<Rightarrow> map_sum id (\<lambda>xs. Some \<lparr>ts_view = v, ts_Raw = r\<rparr> # xs) (un_summaries (Suc i) rs)))"

definition un_raws :: "json \<Rightarrow> goerr + json list" where
  "un_raws j = (case j of JNull \<Rightarrow> Inr [] | JArr js \<Rightarrow> Inr js | _ \<Rightarrow> Inl type_error)"

definition Transactions :: "'n lance_ffi \<Rightarrow> ctx \<Rightarrow> dataset \<Rightarrow> int \<Rightarrow> ('n, 'p, goerr + TransactionSummary option list) go" where
  "Transactions F c d n =
     datasetOp c d ''Dataset.Transactions'' ''transactions'' (\<lambda>c ptr. do {
       raw \<leftarrow> json_call F c ''lance_dataset_get_transactions'' [CHandle ptr, CU64 (word_of_int n)] ''transactions'' un_raws;
       ret (case raw of Inl err \<Rightarrow> Inl err | Inr rs \<Rightarrow> un_summaries 0 rs)
     }) []"

section \<open>Manifests\<close>

record ManifestField =
  mf_ID :: int
  mf_Name :: string

definition un_ManifestField :: "ManifestField decoder" where
  "un_ManifestField = un_struct [fld ''id'' mf_ID mf_ID_update (un_sint 32), fld ''name'' mf_Name mf_Name_update un_str]"

record ManifestInfo =
  mi_Version :: u64
  mi_Fields :: "ManifestField list"
  mi_NumFragments :: int
  mi_Config :: gomap
  mi_TableMetadata :: gomap
  mi_Tag :: "string option"
  mi_Branch :: "string option"

definition un_ManifestInfo :: "json \<Rightarrow> goerr + ManifestInfo" where
  "un_ManifestInfo j = un_struct
     [fld ''version'' mi_Version mi_Version_update un_word,
      fld ''fields'' mi_Fields mi_Fields_update (un_slice un_ManifestField \<lparr>mf_ID = 0, mf_Name = []\<rparr>),
      fld ''num_fragments'' mi_NumFragments mi_NumFragments_update (un_sint 64),
      fld ''config'' mi_Config mi_Config_update un_strmap,
      fld ''table_metadata'' mi_TableMetadata mi_TableMetadata_update un_strmap,
      fld ''tag'' mi_Tag mi_Tag_update (un_ptr un_str []), fld ''branch'' mi_Branch mi_Branch_update (un_ptr un_str [])] j
     \<lparr>mi_Version = 0, mi_Fields = [], mi_NumFragments = 0, mi_Config = [], mi_TableMetadata = [], mi_Tag = None, mi_Branch = None\<rparr>"

definition Dataset_Manifest :: "'n lance_ffi \<Rightarrow> ctx \<Rightarrow> dataset \<Rightarrow> ('n, 'p, goerr + ManifestInfo) go" where
  "Dataset_Manifest F c d =
     datasetOp c d ''Dataset.Manifest'' ''manifest'' (\<lambda>c ptr.
       getJSON F c ''manifest'' un_ManifestInfo ''lance_dataset_manifest'' [CHandle ptr]) []"

record DetachedManifest =
  dm_Version :: u64
  dm_Path :: string
  dm_Size :: "u64 option"

definition un_DetachedManifest :: "DetachedManifest decoder" where
  "un_DetachedManifest = un_struct
     [fld ''version'' dm_Version dm_Version_update un_word, fld ''path'' dm_Path dm_Path_update un_str,
      fld ''size'' dm_Size dm_Size_update (un_ptr un_word 0)]"

definition ListDetachedManifests :: "'n lance_ffi \<Rightarrow> ctx \<Rightarrow> dataset \<Rightarrow> ('n, 'p, goerr + DetachedManifest list) go" where
  "ListDetachedManifests F c d =
     datasetOp c d ''Dataset.ListDetachedManifests'' ''list detached manifests'' (\<lambda>c ptr.
       getJSON F c ''list detached manifests'' (\<lambda>j. un_slice un_DetachedManifest \<lparr>dm_Version = 0, dm_Path = [], dm_Size = None\<rparr> j [])
         ''lance_dataset_list_detached_manifests'' [CHandle ptr]) []"

section \<open>Committing an operation\<close>

record UpdateConfigOperation =
  uc_ConfigUpserts :: gomap
  uc_ConfigDeletes :: "string list"
  uc_TableMetadataUpserts :: gomap
  uc_SchemaMetadataUpserts :: gomap

datatype Operation = UpdateConfigOp UpdateConfigOperation | RestoreOperation u64

definition updateMapJSON :: "gomap \<Rightarrow> string list \<Rightarrow> json option" where
  "updateMapJSON upserts deletes =
     (if length upserts = 0 \<and> length deletes = 0 then None
      else Some (json_any [(''entries'', json_updates (delete_updates deletes (map_values upserts)))]))"

fun operationJSON :: "Operation \<Rightarrow> json" where
  "operationJSON (UpdateConfigOp o') = json_any ([(''type'', JStr ''UpdateConfig'')] @
     omit_ptr (\<lambda>j. j) ''config_updates'' (updateMapJSON (uc_ConfigUpserts o') (uc_ConfigDeletes o')) @
     omit_ptr (\<lambda>j. j) ''table_metadata_updates'' (updateMapJSON (uc_TableMetadataUpserts o') []) @
     omit_ptr (\<lambda>j. j) ''schema_metadata_updates'' (updateMapJSON (uc_SchemaMetadataUpserts o') []))"
| "operationJSON (RestoreOperation v) = json_any [(''type'', JStr ''Restore''), (''version'', json_u64 v)]"

definition CommitOperation ::
  "'n lance_ffi \<Rightarrow> otel \<Rightarrow> url_lib \<Rightarrow> ctx \<Rightarrow> string \<Rightarrow> Operation \<Rightarrow> u64 \<Rightarrow> commit_setter list \<Rightarrow> ('n, 'p, goerr + dataset) go" where
  "CommitOperation F G L c uri op readVersion opts =
     (let b = apply_opts opts (NewCommit G uri []) in
      observed (cb_withObs b) ''CommitOperation'' [datasetURIAttribute L uri] (\<lambda>_. []) (do {
        e \<leftarrow> ctx_Err c;
        case e of
          Some err \<Rightarrow> ret (Inl err)
        | None \<Rightarrow>
            with_cString (Text uri) (\<lambda>cURI.
            with_cString (Json (operationJSON op)) (\<lambda>cOp.
            with_storageKV (cc_storage (cb_cfg b)) (\<lambda>kv.
            with_options (Inr (commit_json (cb_cfg b))) (\<lambda>cOpts. do {
              (e, outs) \<leftarrow> call F c ''lance_dataset_commit_operation'' [cURI, cOp, CU64 readVersion, cOpts, kv];
              case e of
                Some err \<Rightarrow> ret (Inl (Wrapf [Lit ''lance: commit operation '', Quo uri, Lit '': ''] err []))
              | None \<Rightarrow> do { ds \<leftarrow> newDataset (as_handle (out_nth outs 0)) (cb_withObs b); ret (Inr ds) }
            }))))
      }))"

section \<open>Contracts\<close>

lemma keeps_c_mem_mallocs [keeps_rules]:
  fixes body :: "nat list \<Rightarrow> ('n, 'p, 'a) go"
  assumes "\<And>xs. keeps c_mem (body xs)"
  shows "keeps c_mem (do { xs \<leftarrow> c_mallocs n; deferring (c_frees xs) (body xs) })"
  unfolding keeps_def
proof
  fix w :: "('n, 'p) world"
  define ids where "ids = [next_id w..<next_id w + n]"
  define w1 where "w1 = w\<lparr>next_id := next_id w + n, c_live := rev ids @ c_live w\<rparr>"
  define w2 where "w2 = snd (run_state (body ids) w1)"
  have "c_mem w2 = c_mem w1"
    using assms by (simp add: keeps_def w2_def)
  then have live: "c_live w2 = rev ids @ c_live w" "c_fault w2 = c_fault w"
    by (simp_all add: c_mem_def w1_def)
  have "run_state (c_frees ids) (w2\<lparr>c_live := rev ids @ c_live w\<rparr>) = ((), w2\<lparr>c_live := c_live w\<rparr>)"
    by (rule run_c_frees) (simp add: ids_def)
  then have "run_state (c_frees ids) w2 = ((), w2\<lparr>c_live := c_live w\<rparr>)"
    by (simp add: live [symmetric])
  moreover have "run_state (c_mallocs n) w = (ids, w1)"
    by (simp add: run_c_mallocs ids_def w1_def)
  ultimately show "c_mem (snd (run_state (do { xs \<leftarrow> c_mallocs n; deferring (c_frees xs) (body xs) }) w)) = c_mem w"
    using live by (simp add: w2_def c_mem_def split_beta)
qed

lemma keeps_with_cByteArrays [keeps_rules]:
  "separate f \<Longrightarrow> c_separate f \<Longrightarrow> (\<And>x. keeps f (body x)) \<Longrightarrow> keeps f (with_cByteArrays blobs body)"
  "(\<And>x. keeps c_mem (body' x)) \<Longrightarrow> keeps c_mem (with_cByteArrays blobs body')"
proof -
  show "separate f \<Longrightarrow> c_separate f \<Longrightarrow> (\<And>x. keeps f (body x)) \<Longrightarrow> keeps f (with_cByteArrays blobs body)"
    unfolding with_cByteArrays_def by (auto intro!: keeps_bind keeps_deferring keeps_c_mallocs keeps_c_frees)
  show "(\<And>x. keeps c_mem (body' x)) \<Longrightarrow> keeps c_mem (with_cByteArrays blobs body')"
    unfolding with_cByteArrays_def by (intro keeps_c_mem_mallocs)
qed

text \<open>Receiving a transaction leaves no native memory behind, whatever the native side wrote.\<close>

lemma keeps_c_mem_pb [keeps_rules]:
  fixes F :: "'n lance_ffi"
  shows "keeps c_mem (do { r \<leftarrow> export_call F c (None, 0, None) recv_txn n f args; take_pb wrap copied mk r } :: ('n, 'p, goerr + 'a) go)"
  unfolding keeps_def
proof
  fix w :: "('n, 'p) world"
  let ?xs = "[next_id w..<next_id w + n]"
  define w0 where "w0 = w\<lparr>next_id := next_id w + n, exported := rev ?xs @ exported w\<rparr>"
  let ?body = "do { take_all ?xs; r \<leftarrow> native_call (ccall F f (args ?xs)); recv_txn r }"
  have w0: "c_mem w0 = c_mem w"
    by (simp add: w0_def c_mem_def)
  have run: "run_state (export_call F c (None, 0, None) recv_txn n f args) w = run_state (ffiCall F c (None, 0, None) ?body) w0"
    by (simp add: export_call_def run_export_arrows w0_def)
  show "c_mem (snd (run_state (do { r \<leftarrow> export_call F c (None, 0, None) recv_txn n f args; take_pb wrap copied mk r }) w)) = c_mem w"
  proof (cases "ffi_admits F c w0")
    case True
    define w1 where "w1 = snd (run_state (take_all ?xs) (ffi_entry c w0))"
    have take: "run_state (take_all ?xs) (ffi_entry c w0) = ((), w1)"
      by (simp add: w1_def prod_eq_iff)
    have "c_mem w1 = c_mem w"
      using keepsD [OF keeps_take_all [of c_mem] take] w0 by (simp add: ffi_separate_entry)
    then have mem: "c_live w1 = c_live w" "c_fault w1 = c_fault w"
      by (simp_all add: c_mem_def)
    obtain rc outs n' where cc: "ccall F f (args ?xs) (native w1) = ((rc, outs), n')"
      by (metis surj_pair)
    show ?thesis
      using mem
      by (cases "out_nth outs 0"; cases "as_text (out_nth outs 2)")
        (auto simp: run run_ffiCall_admitted [OF True] run_ffi_result cc take recv_txn_def take_pb_def c_alloc_def
          goBytesFree_def lance_bytes_free_def lance_string_free_def free_cptr_def c_free_def c_mem_def split: option.split)
  next
    case False
    with w0 show ?thesis
      by (auto simp: run run_ffiCall_rejected take_pb_def goBytesFree_def lance_bytes_free_def lance_string_free_def
          free_cptr_def c_mem_def split: option.split)
  qed
qed

lemma keeps_recv_txn [keeps_rules]: "separate f \<Longrightarrow> c_separate f \<Longrightarrow> keeps f (recv_txn r)"
  unfolding recv_txn_def by (auto intro!: keeps_rules keeps_c_alloc split: cval.split)

lemma keeps_take_pb [keeps_rules]: "c_separate f \<Longrightarrow> keeps f (take_pb wrap copied mk r)"
  unfolding take_pb_def goBytesFree_def lance_bytes_free_def lance_string_free_def
  by (auto intro!: keeps_rules keeps_free_cptr)

lemma handed_pb:
  assumes "\<And>err. rejection (wrap err) = rejection err"
  shows "ends exported (handed_over n) (do { r \<leftarrow> export_call F c (None, 0, None) recv_txn n f args; take_pb wrap copied mk r })"
proof (rule endsI)
  fix w r w'
  assume run: "run_state (do { r \<leftarrow> export_call F c (None, 0, None) recv_txn n f args; take_pb wrap copied mk r }) w = (r, w')"
  obtain e z w1 where call: "run_state (export_call F c (None, 0, None) recv_txn n f args) w = ((e, z), w1)"
    by (metis surj_pair)
  then have take: "run_state (take_pb wrap copied mk (e, z)) w1 = (r, w')"
    using run by simp
  have k: "keeps exported (recv_txn x)" for x
    by (intro keeps_rules) simp_all
  have h: "handed n (exported w) e (exported w1)"
    using endsD [OF export_call_exported [OF k] call] by simp
  have same: "exported w' = exported w1"
    using keepsD [OF keeps_take_pb [of exported] take] by simp
  have "err_of r = Some (wrap err)" if "e = Some err" for err
    using take that by (auto simp: take_pb_def split: prod.splits)
  then show "handed_over n (exported w) r (exported w')"
    using h same assms by (auto simp: handed_over_def handed_def)
qed

lemma hands_WriteFragments:
  "keeps c_mem (WriteFragments F G L c uri opts)" "keeps held (WriteFragments F G L c uri opts)"
  "ends exported (handed_over (Suc 0)) (WriteFragments F G L c uri opts)"
proof -
  show "keeps c_mem (WriteFragments F G L c uri opts)" "keeps held (WriteFragments F G L c uri opts)"
    unfolding WriteFragments_def take_txn_def Let_def by (auto intro!: keeps_rules)
  show "ends exported (handed_over (Suc 0)) (WriteFragments F G L c uri opts)"
    unfolding WriteFragments_def take_txn_def Let_def
    by (auto intro!: ends_observed ends_with_cString ends_with_storageKV ends_with_options ends_bind [of _ "ctx_Err c"]
        ends_case_option ends_return handed_pb keeps_rules)
qed

lemma commit_contracts: "op_contract (CommitBuilder_Execute F c b txn)" "op_contract (CommitOperation F G L c uri op v opts)"
proof -
  show "op_contract (CommitBuilder_Execute F c b txn)"
    unfolding contract_defs CommitBuilder_Execute_def Let_def
    by (auto intro!: keeps_rules yields_observed yields_if yields_return yields_ctx_Err yields_with_cString yields_with_storageKV
        yields_with_options yields_call_then yields_newDataset)
  show "op_contract (CommitOperation F G L c uri op v opts)"
    unfolding contract_defs CommitOperation_def Let_def
    by (auto intro!: keeps_rules yields_observed yields_if yields_return yields_ctx_Err yields_with_cString yields_with_storageKV
        yields_with_options yields_call_then yields_newDataset)
qed

text \<open>Memory management does not reach the native state.\<close>

lemma keeps_native_memory:
  "keeps native c_malloc" "keeps native (c_free a)" "keeps native (c_mallocs n)" "keeps native (c_frees as)"
  "keeps native (c_alloc x)" "keeps native (free_cptr p)"
proof -
  show m: "keeps native c_malloc" and f: "keeps native (c_free a)" for a
    by (simp_all add: keeps_def c_free_def)
  show "keeps native (c_mallocs n)"
    by (simp add: keeps_def run_c_mallocs)
  show "keeps native (c_frees as)"
    by (induction as) (auto intro!: keeps_rules f)
  show "keeps native (c_alloc x)" "keeps native (free_cptr p)"
    unfolding c_alloc_def free_cptr_def by (auto intro!: keeps_rules m f)
qed

lemma keeps_native_with_cString: "(\<And>x. keeps native (body x)) \<Longrightarrow> keeps native (with_cString t body)"
  unfolding with_cString_def cString_def by (auto intro!: keeps_bind keeps_if keeps_return keeps_deferring keeps_native_memory)

lemma keeps_native_with_storageKV: "(\<And>x. keeps native (body x)) \<Longrightarrow> keeps native (with_storageKV kv body)"
  unfolding with_storageKV_def cStorageKV_def freeKV_def
  by (auto intro!: keeps_bind keeps_if keeps_return keeps_deferring keeps_native_memory split: option.split)

lemma keeps_native_with_options: "(\<And>x. keeps native (body x)) \<Longrightarrow> keeps native (with_options v body)"
  unfolding with_options_def by (auto intro!: keeps_native_with_cString keeps_return split: sum.split)

lemmas keeps_native_scopes = keeps_native_with_cString keeps_native_with_storageKV keeps_native_with_options

section \<open>Properties\<close>

text \<open>A nil transaction. \<^verbatim>\<open>Execute\<close> refuses it with \<^verbatim>\<open>ErrInvalidArgument\<close> before any effect on the
  native side. \<^verbatim>\<open>ExecuteBatch\<close> with a nil entry, on a live context, panics with a nil
  dereference instead: the C memory is released by the deferred calls and nothing was
  committed, but no error is returned and the telemetry counts a success.\<close>

theorem nil_transaction:
  assumes "None \<in> set txns" and "ctx_err_at c (tick w) = None"
    and "run_state (CommitBuilder_ExecuteBatch F c b txns) w = (r, w')"
  shows "(\<exists>p. r = Inr (Panic p)) \<and> native w' = native w \<and> c_mem w' = c_mem w \<and>
    telemetry w' = telemetry w @ start_events (cb_withObs b) ''CommitBuilder.ExecuteBatch'' [] @
      end_events (cb_withObs b) ''CommitBuilder.ExecuteBatch'' None [] \<and>
    (\<exists>e. fst (run_state (CommitBuilder_Execute F c b None) w) = Inl e \<and> errors_is e (SentinelErr ErrInvalidArgument)) \<and>
    native (snd (run_state (CommitBuilder_Execute F c b None) w)) = native w"
proof -
  define pn where "pn = ''invalid memory address or nil pointer dereference''"
  let ?in = "with_cString (Text (cc_uri (cb_cfg b))) (\<lambda>cURI. with_storageKV (cc_storage (cb_cfg b)) (\<lambda>kv.
      with_options (Inr (commit_json (cb_cfg b))) (\<lambda>cOpts. ret (Inr (Panic pn)))))
      :: ('a, 'b, goerr + u64 list outcome) go"
  have txns: "txns \<noteq> []" "batch_blobs txns = Panic pn"
    using assms(1) by (auto simp: batch_blobs_def pn_def)
  have k: "keeps c_mem ?in" "keeps telemetry ?in"
    by (auto intro!: keeps_rules)
  have kn: "keeps native ?in"
    by (intro keeps_native_scopes keeps_return)
  have "fst (run_state ?in v) = Inr (Panic pn)" for v
  proof -
    have "yields (\<lambda>x. x = Inr (Panic pn)) ?in"
      by (intro yields_with_cString yields_with_storageKV yields_with_options yields_return refl)
    then show ?thesis by (simp add: yields_def)
  qed
  moreover obtain v x where v: "run_state ?in (w\<lparr>telemetry := telemetry w @ start_events (cb_withObs b) ''CommitBuilder.ExecuteBatch'' [],
      tick := Suc (tick w)\<rparr>) = (x, v)"
    by fastforce
  ultimately have x: "x = Inr (Panic pn)"
    by (metis fst_conv)
  have run: "r = Inr (Panic pn)"
      "w' = v\<lparr>telemetry := telemetry v @ end_events (cb_withObs b) ''CommitBuilder.ExecuteBatch'' None []\<rparr>"
    using assms(2,3) v txns x by (simp_all add: CommitBuilder_ExecuteBatch_def run_observed split_beta)
  show ?thesis
    using keepsD [OF k(1) v] keepsD [OF k(2) v] keepsD [OF kn v]
    by (simp add: run CommitBuilder_Execute_def run_observed invalid_def c_mem_def)
qed

theorem nil_transaction_witness:
  "\<exists>p. fst (run_state (CommitBuilder_ExecuteBatch ffi0 background (NewCommit otel0 ''mem'' []) [None]) world0) = Inr (Panic p)"
proof -
  let ?m = "CommitBuilder_ExecuteBatch ffi0 background (NewCommit otel0 ''mem'' []) [None]"
  obtain r w' where run: "run_state ?m world0 = (r, w')" by fastforce
  have "None \<in> set [None :: Transaction option]" "ctx_err_at background (tick world0) = None"
    by (simp_all add: background_def)
  from nil_transaction [OF this run] run show ?thesis by auto
qed

text \<open>The configuration update of a committed operation. Under the merge rule for the entries,
  the document of \<^verbatim>\<open>UpdateConfigOperation\<close> sets the upserted keys and removes the deleted ones,
  a key that is in both is removed, and an operation without configuration changes sends no
  \<^verbatim>\<open>config_updates\<close> member.\<close>

theorem update_config_deletes_win:
  assumes "distinct (map fst (uc_ConfigUpserts o'))"
  shows "json_get ''type'' (operationJSON (UpdateConfigOp o')) = Some (JStr ''UpdateConfig'') \<and>
    (case json_get ''config_updates'' (operationJSON (UpdateConfigOp o')) of
       None \<Rightarrow> uc_ConfigUpserts o' = [] \<and> uc_ConfigDeletes o' = []
     | Some u \<Rightarrow> (\<exists>doc. json_get ''entries'' u = Some doc \<and>
         apply_updates doc m = (m ++ map_of (uc_ConfigUpserts o')) |` (- set (uc_ConfigDeletes o'))))"
proof -
  let ?ups = "uc_ConfigUpserts o'" and ?del = "uc_ConfigDeletes o'"
  have d: "distinct (map fst (map_values ?ups))"
    using assms by (simp add: map_values_def split_beta comp_def)
  have mv: "map_of (map_values ?ups) k = map_option Some (map_of ?ups k)" for k
    by (simp add: map_values_def map_of_map_snd)
  have "json_get k (json_updates (delete_updates ?del (map_values ?ups))) =
      (if k \<in> set ?del then Some JNull else map_option JStr (map_of ?ups k))" for k
    using d by (simp add: json_get_updates distinct_delete_updates map_of_delete_updates mv json_update_value_def
        option.map_comp comp_def)
  then have "apply_updates (json_updates (delete_updates ?del (map_values ?ups))) m = (m ++ map_of ?ups) |` (- set ?del)"
    by (auto simp: fun_eq_iff apply_updates_def map_add_def restrict_map_def split: option.split)
  then show ?thesis
    by (auto simp: json_any_get omit_ptr_def updateMapJSON_def split: option.split)
qed

theorem update_config_deletes_win_witness:
  "case json_get ''config_updates'' (operationJSON (UpdateConfigOp
      \<lparr>uc_ConfigUpserts = [(''a'', ''1''), (''b'', ''2'')], uc_ConfigDeletes = [''b''], uc_TableMetadataUpserts = [], uc_SchemaMetadataUpserts = []\<rparr>)) of
     None \<Rightarrow> False
   | Some u \<Rightarrow> \<exists>doc. json_get ''entries'' u = Some doc \<and> apply_updates doc [''b'' \<mapsto> ''0''] = [''a'' \<mapsto> ''1'']"
  using update_config_deletes_win [of "\<lparr>uc_ConfigUpserts = [(''a'', ''1''), (''b'', ''2'')], uc_ConfigDeletes = [''b''],
      uc_TableMetadataUpserts = [], uc_SchemaMetadataUpserts = []\<rparr>" "[''b'' \<mapsto> ''0'']"]
  by (auto simp: fun_eq_iff restrict_map_def split: option.splits)

end
