(* ===== verification/Lance_Scanner.thy ===== *)
theory Lance_Scanner
  imports Lance_Transaction
begin

text \<open>
  Scans, vector search and full text search: \<^verbatim>\<open>lance/scanner.go\<close> and \<^verbatim>\<open>Scanner.All\<close> of
  \<^verbatim>\<open>lance/iter.go\<close>. Floats are IEEE bit patterns.
\<close>

section \<open>Full text queries\<close>

definition f32_zero :: "u32 \<Rightarrow> bool" where
  "f32_zero b = (b = 0 \<or> b = 0x80000000)"

definition f32_one :: u32 where "f32_one = 0x3F800000"

definition f32_half :: u32 where "f32_half = 0x3F000000"

definition FtsOperatorOr :: string where "FtsOperatorOr = ''Or''"
definition FtsOperatorAnd :: string where "FtsOperatorAnd = ''And''"

record MatchQuery =
  mq_Column :: string
  mq_Terms :: string
  mq_Boost :: u32
  mq_Fuzziness :: int
  mq_MaxExpansions :: int
  mq_Operator :: string
  mq_PrefixLength :: u32

record PhraseQuery =
  pq_Column :: string
  pq_Terms :: string
  pq_Slop :: u32

text \<open>A sub-query is an interface value and may be nil.\<close>

datatype FtsQuery =
    Match MatchQuery
  | Phrase PhraseQuery
  | BoostQuery (bq_Positive: "FtsQuery option") (bq_Negative: "FtsQuery option") (bq_NegativeBoost: u32)
  | MultiMatch "MatchQuery list"
  | BooleanQuery (bo_Should: "FtsQuery option list") (bo_Must: "FtsQuery option list") (bo_MustNot: "FtsQuery option list")

definition raw_invalid :: "string \<Rightarrow> goerr" where
  "raw_invalid msg = Wrapf [Lit msg] (sentinel_err ErrInvalidArgument) []"

definition nullableString :: "string \<Rightarrow> json" where
  "nullableString s = (if s = [] then JNull else JStr s)"

definition match_ftsNode :: "MatchQuery \<Rightarrow> goerr + json" where
  "match_ftsNode q =
     (if mq_Terms q = [] then Inl (raw_invalid ''match query terms must not be empty: '')
      else
        let boost = (if f32_zero (mq_Boost q) then f32_one else mq_Boost q);
            fuzziness = (if mq_Fuzziness q < 0 then JNull else JInt (mq_Fuzziness q));
            maxExpansions = (if mq_MaxExpansions q = 0 then 50 else mq_MaxExpansions q);
            operator = (if mq_Operator q = [] then FtsOperatorOr else mq_Operator q)
        in if operator \<noteq> FtsOperatorOr \<and> operator \<noteq> FtsOperatorAnd
           then Inl (Wrapf [Lit ''invalid operator '', Quo operator, Lit '': ''] (sentinel_err ErrInvalidArgument) [])
           else Inr (json_any [(''match'', json_any
             [(''column'', nullableString (mq_Column q)), (''terms'', JStr (mq_Terms q)), (''boost'', json_f32 boost),
              (''fuzziness'', fuzziness), (''max_expansions'', JInt maxExpansions), (''operator'', JStr operator),
              (''prefix_length'', JInt (uint (mq_PrefixLength q)))])]))"

definition phrase_ftsNode :: "PhraseQuery \<Rightarrow> goerr + json" where
  "phrase_ftsNode q =
     (if pq_Terms q = [] then Inl (raw_invalid ''phrase query terms must not be empty: '')
      else Inr (json_any [(''phrase'', json_any
        [(''column'', nullableString (pq_Column q)), (''terms'', JStr (pq_Terms q)), (''slop'', JInt (uint (pq_Slop q)))])]))"

text \<open>The loop over the sub-queries of a multi-match query: the first offending one is reported.\<close>

fun multi_check :: "string \<Rightarrow> MatchQuery list \<Rightarrow> goerr option" where
  "multi_check terms [] = None"
| "multi_check terms (sub # subs) =
     (if mq_Column sub = [] then Some (raw_invalid ''multi-match sub-queries must name a column: '')
      else if mq_Terms sub \<noteq> terms then Some (raw_invalid ''multi-match sub-queries must share the same terms: '')
      else multi_check terms subs)"

definition multi_ftsNode :: "MatchQuery list \<Rightarrow> goerr + json" where
  "multi_ftsNode queries =
     (case queries of
        [] \<Rightarrow> Inl (raw_invalid ''multi-match query needs at least one sub-query: '')
      | q0 # _ \<Rightarrow> (case multi_check (mq_Terms q0) queries of
          Some err \<Rightarrow> Inl err
        | None \<Rightarrow> Inr (json_any [(''multi_match'', json_any
            [(''query'', JStr (mq_Terms q0)), (''columns'', JArr (map (\<lambda>q. JStr (mq_Column q)) queries)),
             (''boost'', JArr (map (\<lambda>q. json_f32 (if f32_zero (mq_Boost q) then f32_one else mq_Boost q)) queries))])])))"

function (sequential) ftsNode :: "FtsQuery \<Rightarrow> goerr + json" and toNodes :: "FtsQuery option list \<Rightarrow> goerr + json list" where
  "ftsNode (Match q) = match_ftsNode q"
| "ftsNode (Phrase q) = phrase_ftsNode q"
| "ftsNode (MultiMatch qs) = multi_ftsNode qs"
| "ftsNode (BoostQuery (Some p) (Some n) b) =
     (case ftsNode p of
        Inl err \<Rightarrow> Inl err
      | Inr positive \<Rightarrow> (case ftsNode n of
          Inl err \<Rightarrow> Inl err
        | Inr negative \<Rightarrow> Inr (json_any [(''boost'', json_any
            [(''positive'', positive), (''negative'', negative),
             (''negative_boost'', json_f32 (if f32_zero b then f32_half else b))])])))"
| "ftsNode (BoostQuery p n b) = Inl (raw_invalid ''boost query needs positive and negative sub-queries: '')"
| "ftsNode (BooleanQuery should must mustNot) =
     (case toNodes should of
        Inl err \<Rightarrow> Inl err
      | Inr s \<Rightarrow> (case toNodes must of
          Inl err \<Rightarrow> Inl err
        | Inr m \<Rightarrow> (case toNodes mustNot of
            Inl err \<Rightarrow> Inl err
          | Inr n \<Rightarrow> Inr (json_any [(''boolean'', json_any [(''should'', JArr s), (''must'', JArr m), (''must_not'', JArr n)])]))))"
| "toNodes [] = Inr []"
| "toNodes (None # subs) = Inl (raw_invalid ''boolean sub-queries must not be nil: '')"
| "toNodes (Some sub # subs) =
     (case ftsNode sub of
        Inl err \<Rightarrow> Inl err
      | Inr node \<Rightarrow> map_sum id (\<lambda>ns. node # ns) (toNodes subs))"
  by pat_completeness auto

termination
  by (relation "measure (\<lambda>x. case x of Inl q \<Rightarrow> size q | Inr qs \<Rightarrow> size_list (size_option size) qs)") auto

text \<open>\<^verbatim>\<open>json.Marshal\<close> of a node fails on a boost that is not finite.\<close>

fun json_finite :: "json \<Rightarrow> bool" where
  "json_finite (JFloat b) = f32_finite (ucast b)"
| "json_finite (JArr js) = list_all json_finite js"
| "json_finite (JObj ms) = list_all (\<lambda>m. json_finite (snd m)) ms"
| "json_finite j = True"

definition marshalFtsQuery :: "FtsQuery option \<Rightarrow> goerr + json" where
  "marshalFtsQuery q =
     (case q of
        None \<Rightarrow> Inl (raw_invalid ''query must not be nil: '')
      | Some q \<Rightarrow> (case ftsNode q of
          Inl err \<Rightarrow> Inl err
        | Inr node \<Rightarrow> (if json_finite node then Inr node else Inl (Foreign ''json: unsupported value''))))"

section \<open>The scan configuration\<close>

datatype DistanceType = L2 | Cosine | Dot | Hamming | OtherDistance int

fun DistanceType_String :: "DistanceType \<Rightarrow> string" where
  "DistanceType_String L2 = ''l2''"
| "DistanceType_String Cosine = ''cosine''"
| "DistanceType_String Dot = ''dot''"
| "DistanceType_String Hamming = ''hamming''"
| "DistanceType_String (OtherDistance d) = ''DistanceType('' @ dec_int d @ '')''"

record orderBy =
  ob_Column :: string
  ob_Ascending :: "bool option"
  ob_NullsFirst :: "bool option"

definition order_by_json :: "orderBy \<Rightarrow> json" where
  "order_by_json o' = JObj ([(''column'', JStr (ob_Column o'))] @ omit_ptr JBool ''ascending'' (ob_Ascending o') @
     omit_ptr JBool ''nulls_first'' (ob_NullsFirst o'))"

record AggFunc =
  ag_Func :: string
  ag_Column :: string
  ag_Alias :: string

record AggSpec =
  ag_GroupBy :: "string list"
  ag_Aggregates :: "AggFunc list option"

definition agg_func_json :: "AggFunc \<Rightarrow> json" where
  "agg_func_json a = JObj ([(''func'', JStr (ag_Func a))] @ omit_str ''column'' (ag_Column a) @ omit_str ''alias'' (ag_Alias a))"

definition agg_json :: "AggSpec \<Rightarrow> json" where
  "agg_json a = JObj (omit_list JStr ''group_by'' (ag_GroupBy a) @ [(''aggregates'', json_slice agg_func_json (ag_Aggregates a))])"

record scanConfig =
  sf_Columns :: "string list"
  sf_ProjectionExprs :: "(string \<times> string) list"
  sf_Filter :: string
  sf_FilterSubstrait :: string
  sf_Prefilter :: "bool option"
  sf_Limit :: "int option"
  sf_Offset :: "int option"
  sf_WithRowID :: bool
  sf_WithRowAddress :: bool
  sf_BatchSize :: u64
  sf_BatchSizeBytes :: u64
  sf_StrictBatchSize :: "bool option"
  sf_ScanInOrder :: "bool option"
  sf_OrderBy :: "orderBy list"
  sf_Aggregate :: "AggSpec option"
  sf_FragmentIDs :: "u32 list"
  sf_IncludeDeletedRows :: bool
  sf_UseStats :: "bool option"
  sf_UseScalarIndex :: "bool option"
  sf_MaterializationStyle :: string
  sf_BlobHandling :: string
  sf_DisableScoringAutoprojection :: bool
  sf_IOBufferSize :: u64
  sf_BatchReadahead :: "int option"
  sf_FragmentReadahead :: "int option"
  sf_TargetParallelism :: "int option"
  sf_Column :: string
  sf_K :: int
  sf_Metric :: string
  sf_Nprobes :: int
  sf_MinimumNprobes :: int
  sf_MaximumNprobes :: int
  sf_Refine :: u32
  sf_Ef :: int
  sf_UseIndex :: "bool option"
  sf_FastSearch :: bool
  sf_DistanceLower :: "u32 option"
  sf_DistanceUpper :: "u32 option"
  sf_QueryParallelism :: "int option"
  sf_ApproxMode :: string
  sf_IndexSegments :: "string list"
  sf_Fts :: "json option"
  sf_FtsColumns :: "string list"
  sf_FtsLimit :: "int option"
  sf_WandFactor :: "u32 option"
  sf_ScanStatsPlugin :: u64

definition scanConfig0 :: scanConfig where
  "scanConfig0 = \<lparr>sf_Columns = [], sf_ProjectionExprs = [], sf_Filter = [], sf_FilterSubstrait = [], sf_Prefilter = None,
     sf_Limit = None, sf_Offset = None, sf_WithRowID = False, sf_WithRowAddress = False, sf_BatchSize = 0, sf_BatchSizeBytes = 0,
     sf_StrictBatchSize = None, sf_ScanInOrder = None, sf_OrderBy = [], sf_Aggregate = None, sf_FragmentIDs = [],
     sf_IncludeDeletedRows = False, sf_UseStats = None, sf_UseScalarIndex = None, sf_MaterializationStyle = [],
     sf_BlobHandling = [], sf_DisableScoringAutoprojection = False, sf_IOBufferSize = 0, sf_BatchReadahead = None,
     sf_FragmentReadahead = None, sf_TargetParallelism = None, sf_Column = [], sf_K = 0, sf_Metric = [], sf_Nprobes = 0,
     sf_MinimumNprobes = 0, sf_MaximumNprobes = 0, sf_Refine = 0, sf_Ef = 0, sf_UseIndex = None, sf_FastSearch = False,
     sf_DistanceLower = None, sf_DistanceUpper = None, sf_QueryParallelism = None, sf_ApproxMode = [], sf_IndexSegments = [],
     sf_Fts = None, sf_FtsColumns = [], sf_FtsLimit = None, sf_WandFactor = None, sf_ScanStatsPlugin = 0\<rparr>"

text \<open>The members, in the order of the struct fields.\<close>

definition scan_rows_members :: "scanConfig \<Rightarrow> members" where
  "scan_rows_members c = omit_list JStr ''columns'' (sf_Columns c) @
     omit_list (\<lambda>(n, e). JArr [JStr n, JStr e]) ''projection_exprs'' (sf_ProjectionExprs c) @
     omit_str ''filter'' (sf_Filter c) @ omit_str ''filter_substrait'' (sf_FilterSubstrait c) @
     omit_ptr JBool ''prefilter'' (sf_Prefilter c) @ omit_ptr JInt ''limit'' (sf_Limit c) @
     omit_ptr JInt ''offset'' (sf_Offset c) @ omit_bool ''with_row_id'' (sf_WithRowID c) @
     omit_bool ''with_row_address'' (sf_WithRowAddress c) @ omit_u64 ''batch_size'' (sf_BatchSize c) @
     omit_u64 ''batch_size_bytes'' (sf_BatchSizeBytes c) @ omit_ptr JBool ''strict_batch_size'' (sf_StrictBatchSize c) @
     omit_ptr JBool ''scan_in_order'' (sf_ScanInOrder c) @ omit_list order_by_json ''order_by'' (sf_OrderBy c) @
     omit_ptr agg_json ''aggregate'' (sf_Aggregate c)"

definition scan_source_members :: "scanConfig \<Rightarrow> members" where
  "scan_source_members c = omit_list (\<lambda>i. JInt (uint i)) ''fragment_ids'' (sf_FragmentIDs c) @
     omit_bool ''include_deleted_rows'' (sf_IncludeDeletedRows c) @ omit_ptr JBool ''use_stats'' (sf_UseStats c) @
     omit_ptr JBool ''use_scalar_index'' (sf_UseScalarIndex c) @ omit_str ''materialization_style'' (sf_MaterializationStyle c) @
     omit_str ''blob_handling'' (sf_BlobHandling c) @
     omit_bool ''disable_scoring_autoprojection'' (sf_DisableScoringAutoprojection c) @
     omit_u64 ''io_buffer_size'' (sf_IOBufferSize c) @ omit_ptr JInt ''batch_readahead'' (sf_BatchReadahead c) @
     omit_ptr JInt ''fragment_readahead'' (sf_FragmentReadahead c) @ omit_ptr JInt ''target_parallelism'' (sf_TargetParallelism c)"

definition scan_search_members :: "scanConfig \<Rightarrow> members" where
  "scan_search_members c = omit_str ''column'' (sf_Column c) @ omit_int ''k'' (sf_K c) @ omit_str ''metric'' (sf_Metric c) @
     omit_int ''nprobes'' (sf_Nprobes c) @ omit_int ''minimum_nprobes'' (sf_MinimumNprobes c) @
     omit_int ''maximum_nprobes'' (sf_MaximumNprobes c) @ omit_u32 ''refine'' (sf_Refine c) @ omit_int ''ef'' (sf_Ef c) @
     omit_ptr JBool ''use_index'' (sf_UseIndex c) @ omit_bool ''fast_search'' (sf_FastSearch c) @
     omit_ptr json_f32 ''distance_lower'' (sf_DistanceLower c) @ omit_ptr json_f32 ''distance_upper'' (sf_DistanceUpper c) @
     omit_ptr JInt ''query_parallelism'' (sf_QueryParallelism c) @ omit_str ''approx_mode'' (sf_ApproxMode c) @
     omit_list JStr ''index_segments'' (sf_IndexSegments c) @ omit_ptr (\<lambda>j. j) ''fts'' (sf_Fts c) @
     omit_list JStr ''fts_columns'' (sf_FtsColumns c) @ omit_ptr JInt ''fts_limit'' (sf_FtsLimit c) @
     omit_ptr json_f32 ''wand_factor'' (sf_WandFactor c) @ omit_u64 ''scan_stats_plugin'' (sf_ScanStatsPlugin c)"

definition scan_json :: "scanConfig \<Rightarrow> goerr + json" where
  "scan_json c = marshal_f32s [sf_DistanceLower c, sf_DistanceUpper c, sf_WandFactor c]
     (JObj (scan_rows_members c @ scan_source_members c @ scan_search_members c))"

section \<open>The builder\<close>

text \<open>An Arrow array is opaque; \<^verbatim>\<open>scanStats\<close> is the adapter of the callback.\<close>

record 'p Scanner =
  sn_ds :: dataset
  sn_cfg :: scanConfig
  sn_vector :: "u32 list option"
  sn_vectorArr :: "nat option"
  sn_scanStats :: "'p option"
  sn_err :: "goerr option"

definition Dataset_Scan :: "dataset \<Rightarrow> 'p Scanner" where
  "Dataset_Scan d = \<lparr>sn_ds = d, sn_cfg = scanConfig0, sn_vector = None, sn_vectorArr = None, sn_scanStats = None, sn_err = None\<rparr>"

type_synonym 'p scan_setter = "'p Scanner \<Rightarrow> 'p Scanner"

definition on_scan :: "(scanConfig \<Rightarrow> scanConfig) \<Rightarrow> 'p scan_setter" where
  "on_scan f s = s\<lparr>sn_cfg := f (sn_cfg s)\<rparr>"

definition Scanner_Columns :: "string list \<Rightarrow> 'p scan_setter" where
  "Scanner_Columns columns = on_scan (sf_Columns_update (\<lambda>_. columns))"
definition Scanner_Filter :: "string \<Rightarrow> 'p scan_setter" where
  "Scanner_Filter flt = on_scan (sf_Filter_update (\<lambda>_. flt))"
definition Scanner_Prefilter :: "bool \<Rightarrow> 'p scan_setter" where
  "Scanner_Prefilter prefilter = on_scan (sf_Prefilter_update (\<lambda>_. Some prefilter))"
definition Scanner_Limit :: "int \<Rightarrow> 'p scan_setter" where
  "Scanner_Limit limit = on_scan (sf_Limit_update (\<lambda>_. Some limit))"
definition Scanner_Offset :: "int \<Rightarrow> 'p scan_setter" where
  "Scanner_Offset offset = on_scan (sf_Offset_update (\<lambda>_. Some offset))"
definition Scanner_WithRowID :: "'p scan_setter" where
  "Scanner_WithRowID = on_scan (sf_WithRowID_update (\<lambda>_. True))"
definition Scanner_BatchSize :: "u64 \<Rightarrow> 'p scan_setter" where
  "Scanner_BatchSize n = on_scan (sf_BatchSize_update (\<lambda>_. n))"
definition Scanner_ScanInOrder :: "bool \<Rightarrow> 'p scan_setter" where
  "Scanner_ScanInOrder ordered = on_scan (sf_ScanInOrder_update (\<lambda>_. Some ordered))"
definition Scanner_WithRowAddress :: "'p scan_setter" where
  "Scanner_WithRowAddress = on_scan (sf_WithRowAddress_update (\<lambda>_. True))"
definition Scanner_ProjectExpr :: "string \<Rightarrow> string \<Rightarrow> 'p scan_setter" where
  "Scanner_ProjectExpr name expr = on_scan (sf_ProjectionExprs_update (\<lambda>xs. xs @ [(name, expr)]))"
definition Scanner_FilterSubstrait :: "bytes \<Rightarrow> 'p scan_setter" where
  "Scanner_FilterSubstrait expr = on_scan (sf_FilterSubstrait_update (\<lambda>_. base64_encode expr))"

type_synonym OrderOption = "orderBy \<Rightarrow> orderBy"

definition NullsFirst :: "bool \<Rightarrow> OrderOption" where
  "NullsFirst first o' = o'\<lparr>ob_NullsFirst := Some first\<rparr>"

definition Scanner_orderBy :: "string \<Rightarrow> bool \<Rightarrow> OrderOption list \<Rightarrow> 'p scan_setter" where
  "Scanner_orderBy column ascending opts =
     on_scan (sf_OrderBy_update (\<lambda>xs. xs @ [apply_opts opts \<lparr>ob_Column = column, ob_Ascending = Some ascending, ob_NullsFirst = None\<rparr>]))"

definition Scanner_OrderBy :: "string \<Rightarrow> OrderOption list \<Rightarrow> 'p scan_setter" where
  "Scanner_OrderBy column opts = Scanner_orderBy column True opts"

definition Scanner_OrderByDesc :: "string \<Rightarrow> OrderOption list \<Rightarrow> 'p scan_setter" where
  "Scanner_OrderByDesc column opts = Scanner_orderBy column False opts"

definition Scanner_Aggregate :: "AggSpec \<Rightarrow> 'p scan_setter" where
  "Scanner_Aggregate spec = on_scan (sf_Aggregate_update (\<lambda>_. Some spec))"
definition Scanner_DistanceRange :: "u32 option \<Rightarrow> u32 option \<Rightarrow> 'p scan_setter" where
  "Scanner_DistanceRange lo hi = on_scan (\<lambda>c. c\<lparr>sf_DistanceLower := lo, sf_DistanceUpper := hi\<rparr>)"
definition Scanner_IOBufferSize :: "u64 \<Rightarrow> 'p scan_setter" where
  "Scanner_IOBufferSize n = on_scan (sf_IOBufferSize_update (\<lambda>_. n))"
definition Scanner_BatchReadahead :: "int \<Rightarrow> 'p scan_setter" where
  "Scanner_BatchReadahead n = on_scan (sf_BatchReadahead_update (\<lambda>_. Some n))"
definition Scanner_FragmentReadahead :: "int \<Rightarrow> 'p scan_setter" where
  "Scanner_FragmentReadahead n = on_scan (sf_FragmentReadahead_update (\<lambda>_. Some n))"
definition Scanner_TargetParallelism :: "int \<Rightarrow> 'p scan_setter" where
  "Scanner_TargetParallelism n = on_scan (sf_TargetParallelism_update (\<lambda>_. Some n))"
definition Scanner_QueryParallelism :: "int \<Rightarrow> 'p scan_setter" where
  "Scanner_QueryParallelism n = on_scan (sf_QueryParallelism_update (\<lambda>_. Some n))"
definition Scanner_BatchSizeBytes :: "u64 \<Rightarrow> 'p scan_setter" where
  "Scanner_BatchSizeBytes n = on_scan (sf_BatchSizeBytes_update (\<lambda>_. n))"
definition Scanner_StrictBatchSize :: "bool \<Rightarrow> 'p scan_setter" where
  "Scanner_StrictBatchSize strict = on_scan (sf_StrictBatchSize_update (\<lambda>_. Some strict))"
definition Scanner_IncludeDeletedRows :: "'p scan_setter" where
  "Scanner_IncludeDeletedRows = on_scan (sf_IncludeDeletedRows_update (\<lambda>_. True))"
definition Scanner_UseStats :: "bool \<Rightarrow> 'p scan_setter" where
  "Scanner_UseStats use = on_scan (sf_UseStats_update (\<lambda>_. Some use))"
definition Scanner_UseScalarIndex :: "bool \<Rightarrow> 'p scan_setter" where
  "Scanner_UseScalarIndex use = on_scan (sf_UseScalarIndex_update (\<lambda>_. Some use))"
definition Scanner_MaterializationStyle :: "string \<Rightarrow> 'p scan_setter" where
  "Scanner_MaterializationStyle style = on_scan (sf_MaterializationStyle_update (\<lambda>_. style))"
definition Scanner_ScanFragments :: "u32 list \<Rightarrow> 'p scan_setter" where
  "Scanner_ScanFragments ids = on_scan (sf_FragmentIDs_update (\<lambda>_. ids))"
definition Scanner_IndexSegments :: "string list \<Rightarrow> 'p scan_setter" where
  "Scanner_IndexSegments uuids = on_scan (sf_IndexSegments_update (\<lambda>_. uuids))"
definition Scanner_ApproxMode :: "string \<Rightarrow> 'p scan_setter" where
  "Scanner_ApproxMode mode = on_scan (sf_ApproxMode_update (\<lambda>_. mode))"
definition Scanner_BlobHandling :: "string \<Rightarrow> 'p scan_setter" where
  "Scanner_BlobHandling handling = on_scan (sf_BlobHandling_update (\<lambda>_. handling))"
definition Scanner_DisableScoringAutoprojection :: "'p scan_setter" where
  "Scanner_DisableScoringAutoprojection = on_scan (sf_DisableScoringAutoprojection_update (\<lambda>_. True))"
definition Scanner_WithScanStats :: "'p option \<Rightarrow> 'p scan_setter" where
  "Scanner_WithScanStats fn s = s\<lparr>sn_scanStats := fn\<rparr>"

definition Scanner_Nearest :: "string \<Rightarrow> u32 list option \<Rightarrow> int \<Rightarrow> 'p scan_setter" where
  "Scanner_Nearest column vector k s =
     on_scan (\<lambda>c. c\<lparr>sf_Column := column, sf_K := k\<rparr>) s\<lparr>sn_vector := vector, sn_vectorArr := None\<rparr>"

definition Scanner_NearestArrow :: "string \<Rightarrow> nat option \<Rightarrow> int \<Rightarrow> 'p scan_setter" where
  "Scanner_NearestArrow column vector k s =
     on_scan (\<lambda>c. c\<lparr>sf_Column := column, sf_K := k\<rparr>) s\<lparr>sn_vector := None, sn_vectorArr := vector\<rparr>"

definition Scanner_Metric :: "DistanceType \<Rightarrow> 'p scan_setter" where
  "Scanner_Metric metric = on_scan (sf_Metric_update (\<lambda>_. DistanceType_String metric))"
definition Scanner_Nprobes :: "int \<Rightarrow> 'p scan_setter" where
  "Scanner_Nprobes n = on_scan (sf_Nprobes_update (\<lambda>_. n))"
definition Scanner_MinimumNprobes :: "int \<Rightarrow> 'p scan_setter" where
  "Scanner_MinimumNprobes n = on_scan (sf_MinimumNprobes_update (\<lambda>_. n))"
definition Scanner_MaximumNprobes :: "int \<Rightarrow> 'p scan_setter" where
  "Scanner_MaximumNprobes n = on_scan (sf_MaximumNprobes_update (\<lambda>_. n))"
definition Scanner_Refine :: "u32 \<Rightarrow> 'p scan_setter" where
  "Scanner_Refine factor = on_scan (sf_Refine_update (\<lambda>_. factor))"
definition Scanner_Ef :: "int \<Rightarrow> 'p scan_setter" where
  "Scanner_Ef ef = on_scan (sf_Ef_update (\<lambda>_. ef))"
definition Scanner_UseIndex :: "bool \<Rightarrow> 'p scan_setter" where
  "Scanner_UseIndex use = on_scan (sf_UseIndex_update (\<lambda>_. Some use))"
definition Scanner_FastSearch :: "'p scan_setter" where
  "Scanner_FastSearch = on_scan (sf_FastSearch_update (\<lambda>_. True))"

type_synonym FtsOption = "scanConfig \<Rightarrow> scanConfig"

definition WithFtsColumns :: "string list \<Rightarrow> FtsOption" where
  "WithFtsColumns columns cfg = cfg\<lparr>sf_FtsColumns := columns\<rparr>"
definition WithFtsLimit :: "int \<Rightarrow> FtsOption" where
  "WithFtsLimit limit cfg = cfg\<lparr>sf_FtsLimit := Some limit\<rparr>"
definition WithWandFactor :: "u32 \<Rightarrow> FtsOption" where
  "WithWandFactor factor cfg = cfg\<lparr>sf_WandFactor := Some factor\<rparr>"

text \<open>An invalid query is remembered and reported by the operation that runs the scan.\<close>

definition Scanner_FullTextSearch :: "FtsQuery option \<Rightarrow> FtsOption list \<Rightarrow> 'p scan_setter" where
  "Scanner_FullTextSearch q opts s =
     (case marshalFtsQuery q of
        Inl err \<Rightarrow> s\<lparr>sn_err := Some (Wrapf [Lit ''lance: full text search: ''] err [])\<rparr>
      | Inr data \<Rightarrow> on_scan (\<lambda>c. apply_opts opts (c\<lparr>sf_Fts := Some data\<rparr>)) s)"

section \<open>Running a scan\<close>

text \<open>\<^verbatim>\<open>queryArray\<close>: an Arrow query is retained and used as it is, a Go vector is copied into a new Arrow
  array; nil without a query. The reference that the caller gets (the retained one, or the new array,
  whose buffers are in C memory) is counted with the C allocations, and \<^verbatim>\<open>Release\<close> gives it back. The
  exported pair (array and schema) has a reference of its own.\<close>

definition queryArray :: "'p Scanner \<Rightarrow> ('n, 'p, (nat + u32 list) cptr) go" where
  "queryArray s = (case sn_vectorArr s of
      Some a \<Rightarrow> c_alloc (Inl a)
    | None \<Rightarrow> (case sn_vector s of None \<Rightarrow> ret None | Some v \<Rightarrow> c_alloc (Inr v)))"

definition query_Release :: "(nat + u32 list) cptr \<Rightarrow> ('n, 'p, unit) go" where
  "query_Release query = free_cptr query"

text \<open>The query for the rest of the function, with the number of C structures it is exported into.\<close>

definition with_query :: "'p Scanner \<Rightarrow> (nat \<Rightarrow> ('n, 'p, 'a) go) \<Rightarrow> ('n, 'p, 'a) go" where
  "with_query s body = do {
     query \<leftarrow> queryArray s;
     deferring (query_Release query) (body (if query = None then 0 else 2))
   }"

definition query_structs :: "'p Scanner \<Rightarrow> nat" where
  "query_structs s = (if sn_vectorArr s = None \<and> sn_vector s = None then 0 else 2)"

definition release_handle :: "u64 \<Rightarrow> ('n, 'p, unit) go" where
  "release_handle h = (if h \<noteq> 0 then release_plugin h else ret ())"

definition scan_native :: "'n lance_ffi \<Rightarrow> ctx \<Rightarrow> 'p Scanner \<Rightarrow> nat \<Rightarrow> u64 \<Rightarrow> ('n, 'p, goerr + nat option) go" where
  "scan_native F c s ptr h =
     (case scan_json ((sn_cfg s)\<lparr>sf_ScanStatsPlugin := h\<rparr>) of
        Inl err \<Rightarrow> do { release_handle h; ret (Inl (Wrapf [Lit ''lance: marshal options: ''] err [])) }
      | Inr j \<Rightarrow> with_cString (Json j) (\<lambda>cJSON.
          with_query s (\<lambda>n. do {
            (e, outs) \<leftarrow> export_call F c [] ret n ''lance_scanner_new'' (\<lambda>xs.
              [CHandle ptr, cJSON] @ (if n = 0 then [CNull, CNull] else [CArrow (xs ! 0), CArrow (xs ! 1)]));
            case e of
              Some err \<Rightarrow> do { release_handle h; ret (Inl (Wrapf [Lit ''lance: scan: ''] err [])) }
            | None \<Rightarrow> ret (Inr (as_handle (out_nth outs 0)))
          })))"

definition newNative :: "'n lance_ffi \<Rightarrow> ctx \<Rightarrow> 'p Scanner \<Rightarrow> ('n, 'p, goerr + nat option) go" where
  "newNative F c s =
     (case sn_err s of
        Some err \<Rightarrow> ret (Inl err)
      | None \<Rightarrow> dataset_locked c (sn_ds s) (\<lambda>ptr. do {
          h \<leftarrow> (case sn_scanStats s of None \<Rightarrow> ret 0 | Some adapter \<Rightarrow> register_plugin adapter);
          scan_native F c s ptr h
        }))"

text \<open>\<^verbatim>\<open>defer C.lance_scanner_close(sc)\<close>.\<close>

definition scanner_close :: "nat option \<Rightarrow> ('n, 'p, unit) go" where
  "scanner_close sc = (case sc of None \<Rightarrow> ret () | Some q \<Rightarrow> close_native q)"

definition with_scanner ::
  "'n lance_ffi \<Rightarrow> ctx \<Rightarrow> 'p Scanner \<Rightarrow> (nat option \<Rightarrow> ('n, 'p, goerr + 'a) go) \<Rightarrow> ('n, 'p, goerr + 'a) go" where
  "with_scanner F c s body = do {
     r \<leftarrow> newNative F c s;
     case r of Inl err \<Rightarrow> ret (Inl err) | Inr sc \<Rightarrow> deferring (scanner_close sc) (body sc)
   }"

definition Scanner_Reader :: "'n lance_ffi \<Rightarrow> 'b arrow_lib \<Rightarrow> ctx \<Rightarrow> 'p Scanner \<Rightarrow> ('n, 'p, goerr + 'b reader) go" where
  "Scanner_Reader F A c s =
     observedStream (ds_obs (sn_ds s)) ''Scanner.Reader'' c (\<lambda>cfg.
       with_scanner F c s (\<lambda>sc.
         stream_call F A c ''lance_scanner_to_stream'' [c_handle sc]
           (\<lambda>err. Wrapf [Lit ''lance: scan stream: ''] err []) ''scan'' cfg))"

definition Scanner_All where
  "Scanner_All F A c s = iterate A (Scanner_Reader F A c s)"

definition Scanner_CountRows :: "'n lance_ffi \<Rightarrow> ctx \<Rightarrow> 'p Scanner \<Rightarrow> ('n, 'p, goerr + u64) go" where
  "Scanner_CountRows F c s =
     observed (ds_obs (sn_ds s)) ''Scanner.CountRows'' [] (\<lambda>_. []) (with_scanner F c s (\<lambda>sc. do {
       (e, outs) \<leftarrow> call F c ''lance_scanner_count_rows'' [c_handle sc];
       case e of
         Some err \<Rightarrow> ret (Inl (Wrapf [Lit ''lance: scan count rows: ''] err []))
       | None \<Rightarrow> ret (Inr (as_u64 (out_nth outs 0)))
     }))"

text \<open>The one batch of a scan; the stream is released on every path.\<close>

definition first_record :: "('b \<Rightarrow> int) \<Rightarrow> 'b reader \<Rightarrow> goerr + 'b option" where
  "first_record nr rd = (case Next nr rd of
      (False, r1) \<Rightarrow> (case Err r1 of
          Some err \<Rightarrow> Inl (Wrapf [Lit ''lance: scan batch: ''] err [])
        | None \<Rightarrow> Inl (Wrapf [Lit ''lance: scan batch produced no record: ''] (sentinel_err ErrInternal) []))
    | (True, r1) \<Rightarrow> Inr (RecordBatch r1))"

definition Scanner_Batch :: "'n lance_ffi \<Rightarrow> 'b arrow_lib \<Rightarrow> ctx \<Rightarrow> 'p Scanner \<Rightarrow> ('n, 'p, goerr + 'b option) go" where
  "Scanner_Batch F A c s =
     observed (ds_obs (sn_ds s)) ''Scanner.Batch'' [] (\<lambda>_. []) (with_scanner F c s (\<lambda>sc. do {
       r \<leftarrow> stream_call F A c ''lance_scanner_to_batch'' [c_handle sc]
         (\<lambda>err. Wrapf [Lit ''lance: scan batch: ''] err []) ''scan batch'' no_streamConfig;
       ret (case r of Inl err \<Rightarrow> Inl err | Inr rd \<Rightarrow> first_record (NumRows A) rd)
     }))"

definition GoString :: "ctext cptr \<Rightarrow> ctext" where
  "GoString p = (case p of None \<Rightarrow> Text [] | Some (_, t) \<Rightarrow> t)"

definition text_call :: "'n lance_ffi \<Rightarrow> ctx \<Rightarrow> string \<Rightarrow> cval list \<Rightarrow> (goerr \<Rightarrow> goerr) \<Rightarrow> ('n, 'p, goerr + ctext) go" where
  "text_call F c f args wrap = do {
     (e, p) \<leftarrow> call_text F c f args;
     case e of
       Some err \<Rightarrow> ret (Inl (wrap err))
     | None \<Rightarrow> deferring (lance_string_free p) (ret (Inr (GoString p)))
   }"

definition Scanner_Explain :: "'n lance_ffi \<Rightarrow> ctx \<Rightarrow> 'p Scanner \<Rightarrow> bool \<Rightarrow> ('n, 'p, goerr + ctext) go" where
  "Scanner_Explain F c s verbose =
     observed (ds_obs (sn_ds s)) ''Scanner.Explain'' [] (\<lambda>_. []) (with_scanner F c s (\<lambda>sc.
       text_call F c ''lance_scanner_explain'' [c_handle sc, CBool verbose] (\<lambda>err. Wrapf [Lit ''lance: explain: ''] err [])))"

definition analyze :: "'n lance_ffi \<Rightarrow> ctx \<Rightarrow> 'p Scanner \<Rightarrow> int \<Rightarrow> string \<Rightarrow> ('n, 'p, goerr + ctext) go" where
  "analyze F c s mode what = with_scanner F c s (\<lambda>sc.
     text_call F c ''lance_scanner_analyze'' [c_handle sc, CI32 mode] (\<lambda>err. Wrapf [Lit ''lance: '', Str what, Lit '': ''] err []))"

definition AnalyzePlan :: "'n lance_ffi \<Rightarrow> ctx \<Rightarrow> 'p Scanner \<Rightarrow> ('n, 'p, goerr + ctext) go" where
  "AnalyzePlan F c s =
     observed (ds_obs (sn_ds s)) ''Scanner.AnalyzePlan'' [] (\<lambda>_. []) (analyze F c s 0 ''analyze plan'')"

definition AnalyzeCountPlan :: "'n lance_ffi \<Rightarrow> ctx \<Rightarrow> 'p Scanner \<Rightarrow> ('n, 'p, goerr + ctext) go" where
  "AnalyzeCountPlan F c s =
     observed (ds_obs (sn_ds s)) ''Scanner.AnalyzeCountPlan'' [] (\<lambda>_. []) (analyze F c s 1 ''analyze count plan'')"

section \<open>Contracts\<close>

lemma keeps_release_handle [keeps_rules]:
  "keeps c_mem (release_handle h)" "keeps held (release_handle h)" "keeps exported (release_handle h)"
  "keeps closed (release_handle h)" "keeps telemetry (release_handle h)"
  unfolding release_handle_def by (auto intro!: keeps_rules simp: keeps_def release_plugin_def c_mem_def)

lemma keeps_scanner_close [keeps_rules]:
  "keeps c_mem (scanner_close sc)" "keeps held (scanner_close sc)" "keeps exported (scanner_close sc)"
  "keeps plugins (scanner_close sc)" "keeps telemetry (scanner_close sc)"
  unfolding scanner_close_def close_native_def by (auto intro!: keeps_rules keeps_modify simp: c_mem_def)

lemma with_query_cases:
  "with_query s body =
     (if query_structs s = 0 then body 0
      else do {
        p \<leftarrow> c_alloc (case sn_vectorArr s of Some a \<Rightarrow> Inl a | None \<Rightarrow> Inr (the (sn_vector s)));
        deferring (free_cptr p) (body (query_structs s))
      })"
  by (auto simp: with_query_def queryArray_def query_structs_def query_Release_def c_alloc_def free_cptr_def deferring_def
      fun_eq_iff State_Monad.bind_def split_beta intro!: state.expand split: option.split)

lemma keeps_with_query [keeps_rules]:
  "separate f \<Longrightarrow> c_separate f \<Longrightarrow> (\<And>n. keeps f (body n)) \<Longrightarrow> keeps f (with_query s body)"
  "(\<And>n. keeps c_mem (body' n)) \<Longrightarrow> keeps c_mem (with_query s body')"
  unfolding with_query_cases by (auto intro!: keeps_rules keeps_c_alloc keeps_free_cptr keeps_c_mem_scoped)

lemma ends_with_query:
  assumes "separate f" "c_separate f" "ends f Q (body (query_structs s))"
  shows "ends f Q (with_query s body)"
proof -
  have "ends f Q (deferring (free_cptr p) (body (query_structs s)))" for p :: "(nat + u32 list) cptr"
    using assms(3) keeps_free_cptr [OF assms(2), of p] by (auto simp: ends_def keeps_def split_beta)
  then show ?thesis
    using assms keeps_c_alloc unfolding with_query_cases by (auto intro!: ends_bind)
qed

lemma keeps_newNative [keeps_rules]:
  "keeps c_mem (newNative F c s)" "keeps held (newNative F c s)" "keeps telemetry (newNative F c s)" "keeps closed (newNative F c s)"
  unfolding newNative_def scan_native_def Let_def by (auto intro!: keeps_rules)

lemma keeps_with_scanner [keeps_rules]:
  "(\<And>sc. keeps c_mem (body sc)) \<Longrightarrow> keeps c_mem (with_scanner F c s body)"
  "(\<And>sc. keeps held (body sc)) \<Longrightarrow> keeps held (with_scanner F c s body)"
  "(\<And>sc. keeps telemetry (body sc)) \<Longrightarrow> keeps telemetry (with_scanner F c s body)"
  unfolding with_scanner_def by (auto intro!: keeps_rules)

lemma keeps_text_call [keeps_rules]:
  "ffi_separate f \<Longrightarrow> c_separate f \<Longrightarrow> keeps f (text_call F c g args wrap)"
  unfolding text_call_def lance_string_free_def by (auto intro!: keeps_rules keeps_call_text keeps_free_cptr)

lemma keeps_c_mem_text_call [keeps_rules]:
  assumes "quiet F"
  shows "keeps c_mem (text_call F c f args wrap)"
  unfolding keeps_def
proof
  fix w
  obtain e p w' where r: "run_state (call_text F c f args) w = ((e, p), w')"
    by (metis surj_pair)
  show "c_mem (snd (run_state (text_call F c f args wrap) w)) = c_mem w"
    using call_text_mem [OF assms r]
    by (cases e) (simp_all add: text_call_def r lance_string_free_def)
qed

lemma scanner_ops_keep:
  assumes "quiet F"
  shows "keeps c_mem (Scanner_Reader F A c s)" "keeps held (Scanner_Reader F A c s)"
    "keeps c_mem (Scanner_CountRows F c s)" "keeps held (Scanner_CountRows F c s)"
    "keeps c_mem (Scanner_Batch F A c s)" "keeps held (Scanner_Batch F A c s)"
    "keeps c_mem (Scanner_Explain F c s verbose)" "keeps held (Scanner_Explain F c s verbose)"
    "keeps c_mem (AnalyzePlan F c s)" "keeps held (AnalyzePlan F c s)"
    "keeps c_mem (AnalyzeCountPlan F c s)" "keeps held (AnalyzeCountPlan F c s)"
  unfolding Scanner_Reader_def Scanner_CountRows_def Scanner_Batch_def Scanner_Explain_def AnalyzePlan_def AnalyzeCountPlan_def analyze_def
  using assms by (auto intro!: keeps_rules)

text \<open>The statistics plugin: a failure releases it, a success leaves it to the native scanner.\<close>

lemma scan_native_plugins:
  "ends plugins (\<lambda>p r p'. p' = (case r of Inl _ \<Rightarrow> if h = 0 then p else releasePlugin h p | Inr _ \<Rightarrow> p)) (scan_native F c s ptr h)"
proof -
  have rel: "ends plugins (\<lambda>p r p'. p' = (case r of Inl _ \<Rightarrow> if h = 0 then p else releasePlugin h p | Inr _ \<Rightarrow> p))
      (do { release_handle h; ret (Inl err) } :: ('n, 'p, goerr + nat option) go)" for err
    by (simp add: ends_def release_handle_def release_plugin_def)
  show ?thesis
    unfolding scan_native_def Let_def
    by (intro ends_case_sum ends_with_cString ends_with_query rel ends_case_option ends_case_prod ends_return
          ends_bind [of _ "export_call F c [] ret n g args" for n g args] keeps_rules) simp_all
qed

lemma handed_export_then:
  assumes "\<And>r. keeps exported (recv r)" "\<And>z. keeps exported (ok z)" "\<And>err. keeps exported (bad err)"
    and "\<And>err. yields (\<lambda>r. \<exists>e. r = Inl e \<and> rejection e = rejection err) (bad err)"
  shows "ends exported (handed_over n) (do {
     (e, z) \<leftarrow> export_call F c z0 recv n f args;
     case e of Some err \<Rightarrow> bad err | None \<Rightarrow> ok z })"
proof (rule endsI)
  fix w r w'
  assume run: "run_state (do { (e, z) \<leftarrow> export_call F c z0 recv n f args;
     case e of Some err \<Rightarrow> bad err | None \<Rightarrow> ok z }) w = (r, w')"
  obtain e z w1 where call: "run_state (export_call F c z0 recv n f args) w = ((e, z), w1)"
    by (metis surj_pair)
  have h: "handed n (exported w) e (exported w1)"
    using endsD [OF export_call_exported [OF assms(1)] call] by simp
  show "handed_over n (exported w) r (exported w')"
  proof (cases e)
    case None
    then have "run_state (ok z) w1 = (r, w')"
      using run call by simp
    then have "exported w' = exported w1"
      by (rule keepsD [OF assms(2)])
    with h None show ?thesis
      by (simp add: handed_def)
  next
    case (Some err)
    then have bad: "run_state (bad err) w1 = (r, w')"
      using run call by simp
    then have "exported w' = exported w1"
      by (rule keepsD [OF assms(3)])
    moreover obtain e' where "r = Inl e'" "rejection e' = rejection err"
      using yieldsD [OF assms(4) bad] by blast
    ultimately show ?thesis
      using h Some by (auto simp: handed_def handed_over_def)
  qed
qed

lemma handed_scan_native:
  "ends exported (handed_over (query_structs s)) (scan_native F c s ptr h)"
proof -
  have bad: "yields (\<lambda>r. \<exists>e. r = Inl e \<and> rejection e = rejection err)
      (do { release_handle h; ret (Inl (Wrapf ps err qs)) } :: ('n, 'p, goerr + nat option) go)" for err ps qs
    by (auto intro!: yields_bind yields_return)
  have k: "keeps exported (do { release_handle h; ret (Inl e) } :: ('n, 'p, goerr + nat option) go)" for e
    by (intro keeps_rules)
  have "ends exported (handed_over n) (do { release_handle h; ret (Inl e) } :: ('n, 'p, goerr + nat option) go)" for e n
    by (intro ends_bind ends_return keeps_rules) simp
  with bad k show ?thesis
    unfolding scan_native_def Let_def
    by (auto intro!: ends_case_sum ends_with_cString ends_with_query handed_export_then keeps_rules)
qed

lemma next_handle_nonzero: "registry_room r \<Longrightarrow> fst (register_locked p r) \<noteq> 0"
  using next_handle_gt [of "reg_next r"] by (auto simp: registry_room_def register_locked_def Let_def)

definition scan_plugin :: "'p option \<Rightarrow> 'p registry \<Rightarrow> goerr + 'a \<Rightarrow> 'p registry \<Rightarrow> bool" where
  "scan_plugin stats p r p' = (registry_inv p \<longrightarrow> registry_room p \<longrightarrow>
     (case r of
        Inl _ \<Rightarrow> \<forall>k. lookupPlugin k p' = lookupPlugin k p
      | Inr _ \<Rightarrow> (case stats of
          None \<Rightarrow> p' = p
        | Some a \<Rightarrow> \<exists>h. h \<noteq> 0 \<and> lookupPlugin h p = None \<and> (\<forall>k. lookupPlugin k p' = (if k = h then Some a else lookupPlugin k p)))))"

lemma newNative_plugins: "ends plugins (scan_plugin (sn_scanStats s)) (newNative F c s)"
proof -
  have reg: "ends plugins (scan_plugin (Some a)) (do { h \<leftarrow> register_plugin a; scan_native F c s ptr h })" for a ptr
  proof (rule endsI)
    fix w r w'
    assume run: "run_state (do { h \<leftarrow> register_plugin a; scan_native F c s ptr h }) w = (r, w')"
    let ?reg = "register_locked a (plugins w)"
    have "run_state (scan_native F c s ptr (fst ?reg)) (w\<lparr>plugins := snd ?reg\<rparr>) = (r, w')"
      using run by (simp add: register_plugin_def split_beta)
    from endsD [OF scan_native_plugins this]
    have p: "plugins w' = (case r of Inl _ \<Rightarrow> if fst ?reg = 0 then snd ?reg else releasePlugin (fst ?reg) (snd ?reg) | Inr _ \<Rightarrow> snd ?reg)"
      by (cases r) simp_all
    show "scan_plugin (Some a) (plugins w) r (plugins w')"
      unfolding scan_plugin_def
    proof (intro impI)
      assume inv: "registry_inv (plugins w)" "registry_room (plugins w)"
      then show "case r of Inl _ \<Rightarrow> \<forall>k. lookupPlugin k (plugins w') = lookupPlugin k (plugins w)
        | Inr _ \<Rightarrow> case Some a of None \<Rightarrow> plugins w' = plugins w
            | Some a \<Rightarrow> \<exists>h. h \<noteq> 0 \<and> lookupPlugin h (plugins w) = None \<and>
                (\<forall>k. lookupPlugin k (plugins w') = (if k = h then Some a else lookupPlugin k (plugins w)))"
        using next_handle_nonzero [OF inv(2), of a] reg.register_lookup [OF inv] reg.register_fresh [OF inv, of a]
        by (cases r) (auto simp: p reg.release_lookup)
    qed
  qed
  have none: "ends plugins (scan_plugin None) (do { h \<leftarrow> ret 0; scan_native F c s ptr h })" for ptr
    using scan_native_plugins [of 0 F c s ptr]
    by (auto simp: ends_def scan_plugin_def split: sum.splits)
  show ?thesis
    unfolding newNative_def
    by (cases "sn_scanStats s"; cases "sn_err s")
      (auto intro!: ends_dataset_locked ends_return reg none [simplified] simp: scan_plugin_def split: option.splits)
qed

text \<open>The queries that the code accepts, at every depth: terms that are not empty and a known operator in a
  match, terms in a phrase, at least one sub-query with a column and the terms of the first one in a
  multi-match, both sides of a boost, and no nil among the sub-queries of a boolean query.\<close>

definition match_valid :: "MatchQuery \<Rightarrow> bool" where
  "match_valid q = (mq_Terms q \<noteq> [] \<and> mq_Operator q \<in> {[], FtsOperatorOr, FtsOperatorAnd})"

definition multi_ok :: "string \<Rightarrow> MatchQuery list \<Rightarrow> bool" where
  "multi_ok t qs = list_all (\<lambda>q. mq_Column q \<noteq> [] \<and> mq_Terms q = t) qs"

fun fts_accepted :: "FtsQuery \<Rightarrow> bool" where
  "fts_accepted (Match q) = match_valid q"
| "fts_accepted (Phrase q) = (pq_Terms q \<noteq> [])"
| "fts_accepted (MultiMatch qs) = (case qs of [] \<Rightarrow> False | q # _ \<Rightarrow> multi_ok (mq_Terms q) qs)"
| "fts_accepted (BoostQuery p n b) = (case (p, n) of (Some q, Some r) \<Rightarrow> fts_accepted q \<and> fts_accepted r | _ \<Rightarrow> False)"
| "fts_accepted (BooleanQuery s m n) =
     (list_all (\<lambda>q. case q of None \<Rightarrow> False | Some x \<Rightarrow> fts_accepted x) s \<and>
      list_all (\<lambda>q. case q of None \<Rightarrow> False | Some x \<Rightarrow> fts_accepted x) m \<and>
      list_all (\<lambda>q. case q of None \<Rightarrow> False | Some x \<Rightarrow> fts_accepted x) n)"

text \<open>Every boost of the query is a finite number.\<close>

fun fts_finite :: "FtsQuery \<Rightarrow> bool" where
  "fts_finite (Match q) = f32_finite (mq_Boost q)"
| "fts_finite (Phrase q) = True"
| "fts_finite (MultiMatch qs) = list_all (\<lambda>q. f32_finite (mq_Boost q)) qs"
| "fts_finite (BoostQuery p n b) =
     (f32_finite b \<and> (case p of None \<Rightarrow> True | Some q \<Rightarrow> fts_finite q) \<and> (case n of None \<Rightarrow> True | Some q \<Rightarrow> fts_finite q))"
| "fts_finite (BooleanQuery s m n) =
     (list_all (\<lambda>q. case q of None \<Rightarrow> True | Some x \<Rightarrow> fts_finite x) s \<and>
      list_all (\<lambda>q. case q of None \<Rightarrow> True | Some x \<Rightarrow> fts_finite x) m \<and>
      list_all (\<lambda>q. case q of None \<Rightarrow> True | Some x \<Rightarrow> fts_finite x) n)"

lemma json_finite_f32: "json_finite (json_f32 b) = f32_finite b"
proof -
  have "ucast (ucast b :: u64) = b"
    by (rule bit_word_eqI) (simp add: bit_ucast_iff)
  then show ?thesis by (simp add: json_f32_def)
qed

lemma json_finite_plain: "json_finite (nullableString s)" "json_finite (if b then JNull else JInt n)"
  by (simp_all add: nullableString_def)

lemma json_finite_any: "json_finite (json_any ms) = list_all (\<lambda>m. json_finite (snd m)) ms"
  by (simp add: json_any_def list_all_iff)

lemma boost_finite: "f32_finite d \<Longrightarrow> f32_finite (if f32_zero b then d else b) = f32_finite b"
  by (auto simp: f32_zero_def f32_finite_def)

lemma default_boosts: "f32_finite f32_one" "f32_finite f32_half"
  by (simp_all add: f32_finite_def f32_one_def f32_half_def)

lemmas json_finite_rules = json_finite_plain json_finite_any json_finite_f32 boost_finite default_boosts

lemma if_Inr_dest: "(if b then Inl e else x) = Inr y \<Longrightarrow> x = Inr y"
  by (simp split: if_splits)

lemma match_ftsNode_finite: "match_ftsNode q = Inr node \<Longrightarrow> json_finite node = f32_finite (mq_Boost q)"
  unfolding match_ftsNode_def Let_def
  by (drule if_Inr_dest, drule if_Inr_dest, drule sym) (simp add: json_finite_rules)

lemma phrase_ftsNode_finite: "phrase_ftsNode q = Inr node \<Longrightarrow> json_finite node"
  unfolding phrase_ftsNode_def by (drule if_Inr_dest, drule sym) (simp add: json_finite_rules)

lemma multi_ftsNode_finite: "multi_ftsNode qs = Inr node \<Longrightarrow> json_finite node = list_all (\<lambda>q. f32_finite (mq_Boost q)) qs"
  by (auto simp: multi_ftsNode_def json_finite_rules list_all_iff split: list.splits option.splits)

lemma ftsNode_finite:
  "ftsNode q = Inr node \<Longrightarrow> json_finite node = fts_finite q"
  "toNodes qs = Inr nodes \<Longrightarrow> list_all json_finite nodes = list_all (\<lambda>q. case q of None \<Rightarrow> True | Some x \<Rightarrow> fts_finite x) qs"
proof (induction q and qs arbitrary: node and nodes rule: ftsNode_toNodes.induct)
  case (1 q)
  then show ?case by (simp add: match_ftsNode_finite)
next
  case (2 q)
  then show ?case by (simp add: phrase_ftsNode_finite)
next
  case (3 qs)
  then show ?case by (simp add: multi_ftsNode_finite)
next
  case (4 p n b)
  then show ?case
    by (auto simp: json_finite_rules split: sum.splits)
next
  case (6 should must mustNot)
  then show ?case
    by (auto simp: json_finite_any split: sum.splits)
next
  case (9 sub subs)
  then show ?case
    by (cases "toNodes subs") (auto split: sum.splits)
qed auto

definition bad_argument :: "goerr \<Rightarrow> bool" where
  "bad_argument e = (errors_is e (SentinelErr ErrInvalidArgument) \<and> lance_prefixes e = 0)"

lemma bad_raw_invalid: "take 7 msg \<noteq> ''lance: '' \<Longrightarrow> bad_argument (raw_invalid msg)"
  by (simp add: bad_argument_def raw_invalid_def)

lemma match_ftsNode_valid:
  "case match_ftsNode q of Inl e \<Rightarrow> bad_argument e \<and> \<not> match_valid q | Inr _ \<Rightarrow> match_valid q"
  by (auto simp: match_ftsNode_def match_valid_def Let_def bad_raw_invalid) (simp_all add: bad_argument_def)

lemma multi_check_valid:
  "case multi_check t qs of Some e \<Rightarrow> bad_argument e \<and> \<not> multi_ok t qs | None \<Rightarrow> multi_ok t qs"
  by (induction qs) (auto simp: bad_raw_invalid multi_ok_def split: option.splits)

lemma ftsNode_valid:
  "case ftsNode q of Inl e \<Rightarrow> bad_argument e \<and> \<not> fts_accepted q | Inr _ \<Rightarrow> fts_accepted q"
  "case toNodes qs of Inl e \<Rightarrow> bad_argument e \<and> \<not> list_all (\<lambda>q. case q of None \<Rightarrow> False | Some x \<Rightarrow> fts_accepted x) qs
     | Inr _ \<Rightarrow> list_all (\<lambda>q. case q of None \<Rightarrow> False | Some x \<Rightarrow> fts_accepted x) qs"
proof (induction q and qs rule: ftsNode_toNodes.induct)
  case (1 q)
  then show ?case using match_ftsNode_valid [of q] by (simp split: sum.splits)
next
  case (2 q)
  then show ?case by (simp add: phrase_ftsNode_def bad_raw_invalid)
next
  case (3 qs)
  then show ?case
    using multi_check_valid [where qs = qs and t = "mq_Terms (hd qs)"]
    by (cases qs) (simp_all add: multi_ftsNode_def bad_raw_invalid del: multi_check.simps split: option.splits)
next
  case (6 should must mustNot)
  then show ?case
    by (cases "toNodes should"; cases "toNodes must"; cases "toNodes mustNot") simp_all
qed (simp_all add: bad_raw_invalid split: sum.splits option.split)

section \<open>Properties\<close>

text \<open>C37: full text queries are checked completely and before anything runs. A query marshals exactly when
  the code accepts it, at every depth of nesting, and all its boosts are finite. A query that is not
  accepted, and a nil one, make the scan fail with an error that is \<^verbatim>\<open>ErrInvalidArgument\<close> and has the
  package prefix once; an accepted one with a NaN or an infinite boost makes it fail too, with
  the error of \<^verbatim>\<open>json.Marshal\<close>, which wraps no sentinel. In each case the world is untouched: no lock, no
  plugin, no native call.\<close>

theorem fts_validated:
  "((\<exists>doc. marshalFtsQuery q = Inr doc) \<longleftrightarrow> (case q of None \<Rightarrow> False | Some x \<Rightarrow> fts_accepted x \<and> fts_finite x)) \<and>
   (case marshalFtsQuery q of
      Inr doc \<Rightarrow> sn_err (Scanner_FullTextSearch q opts s) = sn_err s
    | Inl _ \<Rightarrow> \<exists>e. run_state (newNative F c (Scanner_FullTextSearch q opts s)) w = (Inl e, w) \<and> lance_prefixes e = 1 \<and>
        (errors_is e (SentinelErr ErrInvalidArgument) \<longleftrightarrow> (case q of None \<Rightarrow> True | Some x \<Rightarrow> \<not> fts_accepted x)))"
proof (cases q)
  case None
  then show ?thesis
    by (simp add: marshalFtsQuery_def Scanner_FullTextSearch_def newNative_def raw_invalid_def)
next
  case (Some x)
  show ?thesis
  proof (cases "ftsNode x")
    case (Inl e)
    then have "bad_argument e" "\<not> fts_accepted x"
      using ftsNode_valid(1) [of x] by simp_all
    with Inl Some show ?thesis
      by (simp add: marshalFtsQuery_def Scanner_FullTextSearch_def newNative_def bad_argument_def)
  next
    case (Inr node)
    then have "fts_accepted x" "json_finite node = fts_finite x"
      using ftsNode_valid(1) [of x] ftsNode_finite(1) [of x] by simp_all
    with Inr Some show ?thesis
      by (simp add: marshalFtsQuery_def Scanner_FullTextSearch_def newNative_def on_scan_def)
  qed
qed

text \<open>C34: starting a scan keeps its books. On every path \<^verbatim>\<open>newNative\<close> frees exactly the C memory it allocated,
  gives back the reference to the query array it took and releases the dataset's lock. When it
  fails, the statistics plugin it registered is released again; when it succeeds, the plugin is
  registered under a fresh handle, to be released with the native scanner, and every other handle
  resolves as before. The exported query was taken over by the native side, except when the call was
  rejected before it ran: then the query's two structures are outstanding and nobody releases them.\<close>

theorem scan_start_balanced:
  assumes "registry_inv (plugins w)" and "registry_room (plugins w)" and "run_state (newNative F c s) w = (r, w')"
  shows "c_mem w' = c_mem w \<and> held w' = held w \<and>
    (exported w' = exported w \<or>
      (\<exists>e zs. r = Inl e \<and> rejection e \<and> length zs = query_structs s \<and> exported w' = zs @ exported w)) \<and>
    (case r of
       Inl _ \<Rightarrow> \<forall>k. lookupPlugin k (plugins w') = lookupPlugin k (plugins w)
     | Inr _ \<Rightarrow> (case sn_scanStats s of
         None \<Rightarrow> plugins w' = plugins w
       | Some a \<Rightarrow> \<exists>h. h \<noteq> 0 \<and> lookupPlugin h (plugins w) = None \<and>
           (\<forall>k. lookupPlugin k (plugins w') = (if k = h then Some a else lookupPlugin k (plugins w)))))"
proof -
  have x: "ends exported (handed_over (query_structs s)) (newNative F c s)"
    unfolding newNative_def
    by (cases "sn_err s")
      (auto intro!: ends_dataset_locked ends_return ends_bind handed_scan_native keeps_rules split: option.splits)
  show ?thesis
    using keepsD [OF keeps_newNative(1) assms(3)] keepsD [OF keeps_newNative(2) assms(3)]
      endsD [OF x assms(3)] endsD [OF newNative_plugins assms(3)] assms(1,2)
    by (cases r) (auto simp: handed_over_def handed_def scan_plugin_def)
qed

theorem scan_start_balanced_witness:
  "\<exists>e w'. run_state (newNative reentrant_ffi background (Scanner_WithScanStats (Some True) (Dataset_Scan \<lparr>ds_h = 4, ds_obs = None\<rparr>)))
      (world0\<lparr>handles := [4 \<mapsto> \<lparr>h_ptr = Some 9, h_cleanup = Some 9\<rparr>]\<rparr>) = (Inl e, w') \<and>
     held w' = [] \<and> lookupPlugin 1 (plugins w') = None"
proof -
  let ?s = "Scanner_WithScanStats (Some True) (Dataset_Scan \<lparr>ds_h = 4, ds_obs = None\<rparr>)"
  let ?w = "world0\<lparr>handles := [4 \<mapsto> \<lparr>h_ptr = Some 9, h_cleanup = Some 9\<rparr>]\<rparr>"
  obtain r w' where run: "run_state (newNative reentrant_ffi background ?s) ?w = (r, w')" by fastforce
  have rej: "\<not> ffi_admits reentrant_ffi background w" for w :: "(nat, bool) world"
    by (simp add: ffi_admits_def reentrant_ffi_def)
  have tok: "lance_in_tokio_runtime reentrant_ffi n = 1" for n
    by (simp add: reentrant_ffi_def)
  have "err_of (fst (run_state (newNative reentrant_ffi background ?s) ?w)) \<noteq> None"
    by (simp add: newNative_def scan_native_def Scanner_WithScanStats_def Dataset_Scan_def dataset_locked_def run_locked
        Dataset_checkOpen_def run_check_handle background_def handle_ptr_def register_plugin_def scan_json_def marshal_f32s_def
        scanConfig0_def query_structs_def with_query_def queryArray_def export_call_def run_ffiCall_rejected [OF rej [unfolded background_def]] tok
        with_cString_def cString_def c_alloc_def world0_def split_beta)
  then obtain e where "r = Inl e"
    using run by (cases r) auto
  moreover have "registry_inv (plugins ?w)" "registry_room (plugins ?w)"
    by (simp_all add: world0_def registry_inv_def registry_room_def pluginRegistry_def)
  ultimately show ?thesis
    using scan_start_balanced [OF _ _ run] run by (auto simp: world0_def lookupPlugin_def pluginRegistry_def)
qed

end
