(* ===== verification/Lance_Index.thy ===== *)
theory Lance_Index
  imports Lance_Scanner
begin

text \<open>
  Indices: \<^verbatim>\<open>lance/index.go\<close>, and building them and planning compactions in a distributed way:
  \<^verbatim>\<open>lance/distributed.go\<close>. Arrow arrays (centroids, codebooks) are opaque.
\<close>

section \<open>Index configurations\<close>

record Inverted =
  iv_BaseTokenizer :: string
  iv_Language :: string
  iv_WithPosition :: bool
  iv_LowerCase :: "bool option"
  iv_Stem :: "bool option"
  iv_RemoveStopWords :: "bool option"
  iv_AsciiFolding :: "bool option"
  iv_MaxTokenLength :: "int option"
  iv_CustomStopWords :: "string list option"
  iv_NgramMinLength :: u32
  iv_NgramMaxLength :: u32
  iv_NgramPrefixOnly :: bool

record VectorOptions =
  vo_TargetPartitionSize :: u64
  vo_Retrain :: bool
  vo_StreamingSampleRate :: u64
  vo_StreamingCoresetRate :: u64
  vo_StreamingRefinePasses :: u64
  vo_ShufflePartitionBatches :: u64
  vo_ShufflePartitionConcurrency :: u64
  vo_PrecomputedPartitionsFile :: string
  vo_StorageOptions :: gomap
  vo_KmeansRedos :: u64
  vo_PrefetchDistance :: u64
  vo_IndexFileVersion :: string
  vo_SkipTranspose :: "bool option"
  vo_RuntimeHints :: gomap
  vo_Centroids :: "nat option"
  vo_Codebook :: "nat option"

record IvfFlat =
  flat_Partitions :: int
  flat_Distance :: DistanceType
  flat_VectorOptions :: VectorOptions

record IvfPq =
  ipq_Partitions :: int
  ipq_Bits :: int
  ipq_SubVectors :: int
  ipq_MaxIterations :: int
  ipq_Distance :: DistanceType
  ipq_VectorOptions :: VectorOptions

record IvfSq =
  isq_Partitions :: int
  isq_Bits :: int
  isq_SampleRate :: int
  isq_Distance :: DistanceType
  isq_VectorOptions :: VectorOptions

record IvfRq =
  irq_Partitions :: int
  irq_Bits :: int
  irq_Distance :: DistanceType
  irq_RotationType :: string
  irq_VectorOptions :: VectorOptions

record IvfHnswFlat =
  hf_Partitions :: int
  hf_Distance :: DistanceType
  hf_M :: int
  hf_EfConstruction :: int
  hf_VectorOptions :: VectorOptions

record IvfHnswPq =
  hp_Partitions :: int
  hp_Bits :: int
  hp_SubVectors :: int
  hp_Distance :: DistanceType
  hp_M :: int
  hp_EfConstruction :: int
  hp_VectorOptions :: VectorOptions

record IvfHnswSq =
  hs_Partitions :: int
  hs_Bits :: int
  hs_Distance :: DistanceType
  hs_M :: int
  hs_EfConstruction :: int
  hs_VectorOptions :: VectorOptions

text \<open>The implementations of the interface \<^verbatim>\<open>IndexConfig\<close>; scalar ones with their fields.\<close>

datatype IndexConfig =
    BTree (ZoneSize: u64)
  | Bitmap
  | LabelList
  | NGram
  | ZoneMap (RowsPerZone: u64)
  | BloomFilter (NumberOfItems: u64) (Probability: u64)
  | FM
  | RTree (PageSize: u32)
  | JSONIndex (Path: string) (TargetIndexType: string) (TargetParams: string)
  | InvertedIndex Inverted
  | IvfFlatIndex IvfFlat
  | IvfPqIndex IvfPq
  | IvfSqIndex IvfSq
  | IvfRqIndex IvfRq
  | IvfHnswFlatIndex IvfHnswFlat
  | IvfHnswPqIndex IvfHnswPq
  | IvfHnswSqIndex IvfHnswSq

fun indexTypeName :: "IndexConfig \<Rightarrow> string" where
  "indexTypeName (BTree _) = ''btree''"
| "indexTypeName Bitmap = ''bitmap''"
| "indexTypeName LabelList = ''labellist''"
| "indexTypeName NGram = ''ngram''"
| "indexTypeName (ZoneMap _) = ''zonemap''"
| "indexTypeName (BloomFilter _ _) = ''bloomfilter''"
| "indexTypeName FM = ''fm''"
| "indexTypeName (RTree _) = ''rtree''"
| "indexTypeName (JSONIndex _ _ _) = ''json''"
| "indexTypeName (InvertedIndex _) = ''inverted''"
| "indexTypeName (IvfFlatIndex _) = ''ivf_flat''"
| "indexTypeName (IvfPqIndex _) = ''ivf_pq''"
| "indexTypeName (IvfSqIndex _) = ''ivf_sq''"
| "indexTypeName (IvfRqIndex _) = ''ivf_rq''"
| "indexTypeName (IvfHnswFlatIndex _) = ''ivf_hnsw_flat''"
| "indexTypeName (IvfHnswPqIndex _) = ''ivf_hnsw_pq''"
| "indexTypeName (IvfHnswSqIndex _) = ''ivf_hnsw_sq''"

text \<open>\<^verbatim>\<open>map[string]any{"params": m}\<close>, or nil when there is nothing to say.\<close>

definition params_any :: "members \<Rightarrow> json option" where
  "params_any m = (if length m = 0 then None else Some (json_any [(''params'', json_any m)]))"

definition scalarParams :: "(string \<times> u64) list \<Rightarrow> json option" where
  "scalarParams flds = params_any (concat (map (\<lambda>(k, n). omit_u64 k n) flds))"

definition f64_zero :: "u64 \<Rightarrow> bool" where
  "f64_zero b = (b = 0 \<or> b = 0x8000000000000000)"

definition f64_finite :: "u64 \<Rightarrow> bool" where
  "f64_finite b = (take_bit 11 (drop_bit 52 b) \<noteq> 2047)"

definition json_params :: "string \<Rightarrow> string \<Rightarrow> string \<Rightarrow> goerr + json option" where
  "json_params path target targetParams =
     (if path = [] then Inl (Wrapf [] (sentinel_err ErrInvalidArgument) [Lit '': JSONIndex.Path must be set''])
      else if target = [] then Inl (Wrapf [] (sentinel_err ErrInvalidArgument) [Lit '': JSONIndex.TargetIndexType must be set''])
      else Inr (params_any ([(''target_index_type'', JStr target), (''path'', JStr path)] @
        omit_str ''target_index_parameters'' targetParams)))"

definition inverted_params :: "Inverted \<Rightarrow> json option" where
  "inverted_params c =
     (let m = omit_str ''base_tokenizer'' (iv_BaseTokenizer c) @ omit_str ''language'' (iv_Language c) @
        omit_bool ''with_position'' (iv_WithPosition c) @ omit_ptr JBool ''lower_case'' (iv_LowerCase c) @
        omit_ptr JBool ''stem'' (iv_Stem c) @ omit_ptr JBool ''remove_stop_words'' (iv_RemoveStopWords c) @
        omit_ptr JBool ''ascii_folding'' (iv_AsciiFolding c) @ omit_ptr JInt ''max_token_length'' (iv_MaxTokenLength c) @
        omit_ptr (\<lambda>ws. JArr (map JStr ws)) ''custom_stop_words'' (iv_CustomStopWords c) @
        omit_u32 ''ngram_min_length'' (iv_NgramMinLength c) @ omit_u32 ''ngram_max_length'' (iv_NgramMaxLength c) @
        omit_bool ''ngram_prefix_only'' (iv_NgramPrefixOnly c)
      in if length m = 0 then None else Some (json_any m))"

text \<open>\<^verbatim>\<open>VectorOptions.apply\<close>: the members it adds to the map.\<close>

definition vector_apply :: "VectorOptions \<Rightarrow> members" where
  "vector_apply o' = omit_u64 ''target_partition_size'' (vo_TargetPartitionSize o') @ omit_bool ''retrain'' (vo_Retrain o') @
     omit_u64 ''streaming_sample_rate'' (vo_StreamingSampleRate o') @
     omit_u64 ''streaming_coreset_rate'' (vo_StreamingCoresetRate o') @
     omit_u64 ''streaming_refine_passes'' (vo_StreamingRefinePasses o') @
     omit_u64 ''shuffle_partition_batches'' (vo_ShufflePartitionBatches o') @
     omit_u64 ''shuffle_partition_concurrency'' (vo_ShufflePartitionConcurrency o') @
     omit_str ''precomputed_partitions_file'' (vo_PrecomputedPartitionsFile o') @
     omit_map ''storage_options'' (vo_StorageOptions o') @ omit_u64 ''kmeans_redos'' (vo_KmeansRedos o') @
     omit_str ''index_file_version'' (vo_IndexFileVersion o') @ omit_ptr JBool ''skip_transpose'' (vo_SkipTranspose o') @
     omit_map ''runtime_hints'' (vo_RuntimeHints o')"

definition vector_arrowParams :: "VectorOptions \<Rightarrow> nat option \<times> nat option" where
  "vector_arrowParams o' = (vo_Centroids o', vo_Codebook o')"

text \<open>The loop over the fields: integers only when positive, strings only when not empty.\<close>

fun vector_field :: "string \<times> json \<Rightarrow> members" where
  "vector_field (k, JInt n) = (if n > 0 then [(k, JInt n)] else [])"
| "vector_field (k, JStr s) = (if s \<noteq> [] then [(k, JStr s)] else [])"
| "vector_field (k, v) = [(k, v)]"

definition vectorParams :: "DistanceType \<Rightarrow> VectorOptions \<Rightarrow> members \<Rightarrow> members" where
  "vectorParams distance opts flds =
     [(''metric'', JStr (DistanceType_String distance))] @ concat (map vector_field flds) @ vector_apply opts"

definition hnswParams :: "int \<Rightarrow> int \<Rightarrow> u64 \<Rightarrow> json option" where
  "hnswParams m efConstruction prefetchDistance =
     (let h = vector_field (''m'', JInt m) @ vector_field (''ef_construction'', JInt efConstruction) @
        omit_u64 ''prefetch_distance'' prefetchDistance
      in if length h = 0 then None else Some (json_any h))"

definition hnsw_member :: "int \<Rightarrow> int \<Rightarrow> VectorOptions \<Rightarrow> members" where
  "hnsw_member m ef o' = omit_ptr (\<lambda>j. j) ''hnsw'' (hnswParams m ef (vo_PrefetchDistance o'))"

text \<open>One definition per method \<^verbatim>\<open>indexParams\<close>; the dispatch is the interface call.\<close>

definition BTree_indexParams :: "u64 \<Rightarrow> json option" where
  "BTree_indexParams zone = scalarParams [(''zone_size'', zone)]"

definition ZoneMap_indexParams :: "u64 \<Rightarrow> json option" where
  "ZoneMap_indexParams rows = scalarParams [(''rows_per_zone'', rows)]"

definition BloomFilter_indexParams :: "u64 \<Rightarrow> u64 \<Rightarrow> json option" where
  "BloomFilter_indexParams n p = params_any (omit_u64 ''number_of_items'' n @
     (if f64_zero p then [] else [(''probability'', JFloat p)]))"

definition RTree_indexParams :: "u32 \<Rightarrow> json option" where
  "RTree_indexParams page = params_any (omit_u32 ''page_size'' page)"

definition IvfFlat_indexParams :: "IvfFlat \<Rightarrow> json" where
  "IvfFlat_indexParams c = json_any (vectorParams (flat_Distance c) (flat_VectorOptions c)
     [(''num_partitions'', JInt (flat_Partitions c))])"

definition IvfPq_indexParams :: "IvfPq \<Rightarrow> json" where
  "IvfPq_indexParams c = json_any (vectorParams (ipq_Distance c) (ipq_VectorOptions c)
     [(''num_partitions'', JInt (ipq_Partitions c)), (''num_bits'', JInt (ipq_Bits c)),
      (''num_sub_vectors'', JInt (ipq_SubVectors c)), (''max_iterations'', JInt (ipq_MaxIterations c))])"

definition IvfSq_indexParams :: "IvfSq \<Rightarrow> json" where
  "IvfSq_indexParams c = json_any (vectorParams (isq_Distance c) (isq_VectorOptions c)
     [(''num_partitions'', JInt (isq_Partitions c)), (''num_bits'', JInt (isq_Bits c)), (''sample_rate'', JInt (isq_SampleRate c))])"

definition IvfRq_indexParams :: "IvfRq \<Rightarrow> json" where
  "IvfRq_indexParams c = json_any (vectorParams (irq_Distance c) (irq_VectorOptions c)
     [(''num_partitions'', JInt (irq_Partitions c)), (''num_bits'', JInt (irq_Bits c)), (''rotation_type'', JStr (irq_RotationType c))])"

definition IvfHnswFlat_indexParams :: "IvfHnswFlat \<Rightarrow> json" where
  "IvfHnswFlat_indexParams c = json_any (vectorParams (hf_Distance c) (hf_VectorOptions c)
     [(''num_partitions'', JInt (hf_Partitions c))] @ hnsw_member (hf_M c) (hf_EfConstruction c) (hf_VectorOptions c))"

definition IvfHnswPq_indexParams :: "IvfHnswPq \<Rightarrow> json" where
  "IvfHnswPq_indexParams c = json_any (vectorParams (hp_Distance c) (hp_VectorOptions c)
     [(''num_partitions'', JInt (hp_Partitions c)), (''num_bits'', JInt (hp_Bits c)), (''num_sub_vectors'', JInt (hp_SubVectors c))] @
     hnsw_member (hp_M c) (hp_EfConstruction c) (hp_VectorOptions c))"

definition IvfHnswSq_indexParams :: "IvfHnswSq \<Rightarrow> json" where
  "IvfHnswSq_indexParams c = json_any (vectorParams (hs_Distance c) (hs_VectorOptions c)
     [(''num_partitions'', JInt (hs_Partitions c)), (''num_bits'', JInt (hs_Bits c))] @
     hnsw_member (hs_M c) (hs_EfConstruction c) (hs_VectorOptions c))"

fun indexParams :: "IndexConfig \<Rightarrow> goerr + json option" where
  "indexParams (BTree zone) = Inr (BTree_indexParams zone)"
| "indexParams Bitmap = Inr None"
| "indexParams LabelList = Inr None"
| "indexParams NGram = Inr None"
| "indexParams (ZoneMap rows) = Inr (ZoneMap_indexParams rows)"
| "indexParams (BloomFilter n p) = Inr (BloomFilter_indexParams n p)"
| "indexParams FM = Inr None"
| "indexParams (RTree page) = Inr (RTree_indexParams page)"
| "indexParams (JSONIndex path target targetParams) = json_params path target targetParams"
| "indexParams (InvertedIndex c) = Inr (inverted_params c)"
| "indexParams (IvfFlatIndex c) = Inr (Some (IvfFlat_indexParams c))"
| "indexParams (IvfPqIndex c) = Inr (Some (IvfPq_indexParams c))"
| "indexParams (IvfSqIndex c) = Inr (Some (IvfSq_indexParams c))"
| "indexParams (IvfRqIndex c) = Inr (Some (IvfRq_indexParams c))"
| "indexParams (IvfHnswFlatIndex c) = Inr (Some (IvfHnswFlat_indexParams c))"
| "indexParams (IvfHnswPqIndex c) = Inr (Some (IvfHnswPq_indexParams c))"
| "indexParams (IvfHnswSqIndex c) = Inr (Some (IvfHnswSq_indexParams c))"

fun arrowParams :: "IndexConfig \<Rightarrow> nat option \<times> nat option" where
  "arrowParams (IvfFlatIndex c) = vector_arrowParams (flat_VectorOptions c)"
| "arrowParams (IvfPqIndex c) = vector_arrowParams (ipq_VectorOptions c)"
| "arrowParams (IvfSqIndex c) = vector_arrowParams (isq_VectorOptions c)"
| "arrowParams (IvfRqIndex c) = vector_arrowParams (irq_VectorOptions c)"
| "arrowParams (IvfHnswFlatIndex c) = vector_arrowParams (hf_VectorOptions c)"
| "arrowParams (IvfHnswPqIndex c) = vector_arrowParams (hp_VectorOptions c)"
| "arrowParams (IvfHnswSqIndex c) = vector_arrowParams (hs_VectorOptions c)"
| "arrowParams _ = (None, None)"

text \<open>\<^verbatim>\<open>json.Marshal(params)\<close>: only a probability can be a number that JSON does not have.\<close>

fun marshalable :: "IndexConfig \<Rightarrow> bool" where
  "marshalable (BloomFilter n p) = f64_finite p"
| "marshalable _ = True"

definition params_text :: "IndexConfig \<Rightarrow> goerr + ctext" where
  "params_text cfg = (case indexParams cfg of
      Inl err \<Rightarrow> Inl err
    | Inr None \<Rightarrow> Inr (Text [])
    | Inr (Some j) \<Rightarrow> (if marshalable cfg then Inr (Json j)
        else Inl (Wrapf [Lit ''marshal index params: ''] (Foreign ''json: unsupported value'') [])))"

section \<open>Creating indices\<close>

record indexOptions =
  io_name :: string
  io_replace :: bool

type_synonym IndexOption = "indexOptions \<Rightarrow> indexOptions"

definition WithIndexName :: "string \<Rightarrow> IndexOption" where
  "WithIndexName name o' = o'\<lparr>io_name := name\<rparr>"

definition WithReplace :: "bool \<Rightarrow> IndexOption" where
  "WithReplace replace o' = o'\<lparr>io_replace := replace\<rparr>"

text \<open>\<^verbatim>\<open>exportArrayPair\<close> for the centroids and the codebook: two structures for each array that is
  there, in this order.\<close>

definition pair_structs :: "nat option \<times> nat option \<Rightarrow> nat" where
  "pair_structs arrays = (case arrays of (centroids, codebook) \<Rightarrow>
     (if centroids = None then 0 else 2) + (if codebook = None then 0 else 2))"

definition pair_args :: "nat option \<times> nat option \<Rightarrow> nat list \<Rightarrow> cval list" where
  "pair_args arrays xs = (case arrays of (centroids, codebook) \<Rightarrow>
     (let (cent, rest) = (if centroids = None then ([CNull, CNull], xs) else ([CArrow (xs ! 0), CArrow (xs ! 1)], drop 2 xs));
          cb = (if codebook = None then [CNull, CNull] else [CArrow (rest ! 0), CArrow (rest ! 1)])
      in cent @ cb))"

definition CreateIndex ::
  "'n lance_ffi \<Rightarrow> ctx \<Rightarrow> dataset \<Rightarrow> string \<Rightarrow> IndexConfig \<Rightarrow> IndexOption list \<Rightarrow> ('n, 'p, goerr option) go" where
  "CreateIndex F c d column cfg opts =
     (let o' = apply_opts opts \<lparr>io_name = [], io_replace = False\<rparr> in
      datasetDo c d ''Dataset.CreateIndex'' (''create index on '' @ go_quote column) (\<lambda>c ptr.
        case params_text cfg of
          Inl err \<Rightarrow> ret (Some err)
        | Inr params \<Rightarrow>
            with_cStrings [column] (\<lambda>cColumns.
            with_cString (Text (indexTypeName cfg)) (\<lambda>cType.
            with_cString (Text (io_name o')) (\<lambda>cName.
            with_cString params (\<lambda>cParams. do {
              (e, outs) \<leftarrow> export_call F c [] ret (pair_structs (arrowParams cfg)) ''lance_dataset_create_index_v2'' (\<lambda>xs.
                [CHandle ptr, cColumns, cType, cName, cParams] @ pair_args (arrowParams cfg) xs @ [CBool (io_replace o'), CNull]);
              ret e
            }))))) [(''lance.column'', AStr column)])"

section \<open>Looking at indices\<close>

record IndexInfo =
  ii_Name :: string
  ii_UUID :: string
  ii_Fields :: "int list"
  ii_DatasetVersion :: u64
  ii_IndexVersion :: int
  ii_CreatedAt :: "string option"

definition IndexInfo0 :: IndexInfo where
  "IndexInfo0 = \<lparr>ii_Name = [], ii_UUID = [], ii_Fields = [], ii_DatasetVersion = 0, ii_IndexVersion = 0, ii_CreatedAt = None\<rparr>"

definition un_IndexInfo :: "IndexInfo decoder" where
  "un_IndexInfo = un_struct
     [fld ''name'' ii_Name ii_Name_update un_str, fld ''uuid'' ii_UUID ii_UUID_update un_str,
      fld ''fields'' ii_Fields ii_Fields_update (un_slice (un_sint 32) 0),
      fld ''dataset_version'' ii_DatasetVersion ii_DatasetVersion_update un_word,
      fld ''index_version'' ii_IndexVersion ii_IndexVersion_update (un_sint 32),
      fld ''created_at'' ii_CreatedAt ii_CreatedAt_update (un_ptr un_time (vi_Timestamp VersionInfo0))]"

definition un_IndexInfos :: "json \<Rightarrow> goerr + IndexInfo list" where
  "un_IndexInfos j = un_slice un_IndexInfo IndexInfo0 j []"

definition ListIndices :: "'n lance_ffi \<Rightarrow> ctx \<Rightarrow> dataset \<Rightarrow> ('n, 'p, goerr + IndexInfo list) go" where
  "ListIndices F c d =
     datasetOp c d ''Dataset.ListIndices'' ''list indices'' (\<lambda>c ptr.
       json_call F c ''lance_dataset_list_indices'' [CHandle ptr] ''index list'' un_IndexInfos) []"

definition IndexStatistics :: "'n lance_ffi \<Rightarrow> ctx \<Rightarrow> dataset \<Rightarrow> string \<Rightarrow> ('n, 'p, goerr + ctext) go" where
  "IndexStatistics F c d name =
     datasetOp c d ''Dataset.IndexStatistics'' (''index statistics for '' @ go_quote name) (\<lambda>c ptr.
       with_cString (Text name) (\<lambda>cName.
         text_call F c ''lance_dataset_index_statistics'' [CHandle ptr, cName] (\<lambda>err. err))) [(''lance.index_name'', AStr name)]"

definition DropIndex :: "'n lance_ffi \<Rightarrow> ctx \<Rightarrow> dataset \<Rightarrow> string \<Rightarrow> ('n, 'p, goerr option) go" where
  "DropIndex F c d name =
     datasetDo c d ''Dataset.DropIndex'' (''drop index '' @ go_quote name) (\<lambda>c ptr.
       with_cString (Text name) (\<lambda>cName.
         err_call F c ''lance_dataset_drop_index'' [CHandle ptr, cName])) [(''lance.index_name'', AStr name)]"

record optimizeConfig =
  op_NumIndicesToMerge :: "int option"
  op_IndexNames :: "string list"
  op_Retrain :: bool
  op_TransactionProperties :: gomap

type_synonym OptimizeOption = "optimizeConfig \<Rightarrow> optimizeConfig"

definition WithMergeIndices :: "int \<Rightarrow> OptimizeOption" where
  "WithMergeIndices n cfg = cfg\<lparr>op_NumIndicesToMerge := Some n\<rparr>"

definition WithIndexNames :: "string list \<Rightarrow> OptimizeOption" where
  "WithIndexNames names cfg = cfg\<lparr>op_IndexNames := names\<rparr>"

definition WithRetrain :: OptimizeOption where
  "WithRetrain cfg = cfg\<lparr>op_Retrain := True\<rparr>"

definition WithOptimizeTransactionProperties :: "gomap \<Rightarrow> OptimizeOption" where
  "WithOptimizeTransactionProperties props cfg = cfg\<lparr>op_TransactionProperties := props\<rparr>"

definition optimize_json :: "optimizeConfig \<Rightarrow> json" where
  "optimize_json cfg = JObj (omit_ptr JInt ''num_indices_to_merge'' (op_NumIndicesToMerge cfg) @
     omit_list JStr ''index_names'' (op_IndexNames cfg) @ omit_bool ''retrain'' (op_Retrain cfg) @
     omit_map ''transaction_properties'' (op_TransactionProperties cfg))"

definition OptimizeIndices :: "'n lance_ffi \<Rightarrow> ctx \<Rightarrow> dataset \<Rightarrow> OptimizeOption list \<Rightarrow> ('n, 'p, goerr option) go" where
  "OptimizeIndices F c d opts =
     (let cfg = apply_opts opts \<lparr>op_NumIndicesToMerge = None, op_IndexNames = [], op_Retrain = False, op_TransactionProperties = []\<rparr> in
      datasetDo c d ''Dataset.OptimizeIndices'' ''optimize indices'' (\<lambda>c ptr.
        with_cString (Json (optimize_json cfg)) (\<lambda>cOpts.
          err_call F c ''lance_dataset_optimize_indices'' [CHandle ptr, cOpts])) [])"

definition PrewarmIndex :: "'n lance_ffi \<Rightarrow> ctx \<Rightarrow> dataset \<Rightarrow> string \<Rightarrow> ('n, 'p, goerr option) go" where
  "PrewarmIndex F c d name =
     datasetDo c d ''Dataset.PrewarmIndex'' (''prewarm index '' @ go_quote name) (\<lambda>c ptr.
       with_cString (Text name) (\<lambda>cName.
         err_call F c ''lance_dataset_prewarm_index'' [CHandle ptr, cName])) [(''lance.index_name'', AStr name)]"

text \<open>\<^verbatim>\<open>PrewarmFTS\<close> is the only implementation of \<^verbatim>\<open>PrewarmOption\<close>.\<close>

datatype PrewarmOption = PrewarmFTS bool

fun prewarmOptions :: "PrewarmOption \<Rightarrow> json" where
  "prewarmOptions (PrewarmFTS withPosition) = json_any [(''fts'', json_any [(''with_position'', JBool withPosition)])]"

definition PrewarmIndexWithOptions :: "'n lance_ffi \<Rightarrow> ctx \<Rightarrow> dataset \<Rightarrow> string \<Rightarrow> PrewarmOption \<Rightarrow> ('n, 'p, goerr option) go" where
  "PrewarmIndexWithOptions F c d name opt =
     datasetDo c d ''Dataset.PrewarmIndexWithOptions'' (''prewarm index '' @ go_quote name) (\<lambda>c ptr.
       with_cString (Text name) (\<lambda>cName.
       with_cString (Json (prewarmOptions opt)) (\<lambda>cOpts.
         err_call F c ''lance_dataset_prewarm_index_with_options'' [CHandle ptr, cName, cOpts]))) [(''lance.index_name'', AStr name)]"

record IndexDescription =
  de_Name :: string
  de_IndexType :: string
  de_TypeURL :: string
  de_RowsIndexed :: u64
  de_FieldIDs :: "int list"
  de_Details :: string
  de_TotalSizeBytes :: "u64 option"
  de_Segments :: "IndexInfo list"

definition un_IndexDescription :: "IndexDescription decoder" where
  "un_IndexDescription = un_struct
     [fld ''name'' de_Name de_Name_update un_str, fld ''index_type'' de_IndexType de_IndexType_update un_str,
      fld ''type_url'' de_TypeURL de_TypeURL_update un_str, fld ''rows_indexed'' de_RowsIndexed de_RowsIndexed_update un_word,
      fld ''field_ids'' de_FieldIDs de_FieldIDs_update (un_slice (un_sint 32) 0), fld ''details'' de_Details de_Details_update un_str,
      fld ''total_size_bytes'' de_TotalSizeBytes de_TotalSizeBytes_update (un_ptr un_word 0),
      fld ''segments'' de_Segments de_Segments_update (un_slice un_IndexInfo IndexInfo0)]"

record IndexCriteria =
  ic_ForColumn :: string
  ic_HasName :: string
  ic_MustSupportFTS :: bool
  ic_MustSupportExactEquality :: bool

definition criteria_json :: "IndexCriteria \<Rightarrow> json" where
  "criteria_json x = JObj (omit_str ''for_column'' (ic_ForColumn x) @ omit_str ''has_name'' (ic_HasName x) @
     omit_bool ''must_support_fts'' (ic_MustSupportFTS x) @ omit_bool ''must_support_exact_equality'' (ic_MustSupportExactEquality x))"

definition json_or_empty :: "json option \<Rightarrow> ctext" where
  "json_or_empty j = (case j of None \<Rightarrow> Text [] | Some x \<Rightarrow> Json x)"

definition DescribeIndices :: "'n lance_ffi \<Rightarrow> ctx \<Rightarrow> dataset \<Rightarrow> IndexCriteria option \<Rightarrow> ('n, 'p, goerr + IndexDescription list) go" where
  "DescribeIndices F c d criteria =
     datasetOp c d ''Dataset.DescribeIndices'' ''describe indices'' (\<lambda>c ptr.
       with_cString (json_or_empty (map_option criteria_json criteria)) (\<lambda>cCriteria.
         json_call F c ''lance_dataset_describe_indices'' [CHandle ptr, cCriteria] ''index descriptions''
           (\<lambda>j. un_slice un_IndexDescription \<lparr>de_Name = [], de_IndexType = [], de_TypeURL = [], de_RowsIndexed = 0, de_FieldIDs = [],
              de_Details = [], de_TotalSizeBytes = None, de_Segments = []\<rparr> j []))) []"

definition loadIndicesByCriteria :: "'n lance_ffi \<Rightarrow> ctx \<Rightarrow> dataset \<Rightarrow> members \<Rightarrow> ('n, 'p, goerr + IndexInfo list) go" where
  "loadIndicesByCriteria F c d criteria =
     dataset_locked c d (\<lambda>ptr.
       with_cString (if length criteria \<noteq> 0 then Json (json_any criteria) else Text []) (\<lambda>cCriteria. do {
         (e, cJSON) \<leftarrow> call_text F c ''lance_dataset_load_indices_by_criteria'' [CHandle ptr, cCriteria];
         case e of
           Some err \<Rightarrow> ret (Inl err)
         | None \<Rightarrow> decoded ''index list'' un_IndexInfos cJSON
       }))"

definition LoadIndex :: "'n lance_ffi \<Rightarrow> ctx \<Rightarrow> dataset \<Rightarrow> string \<Rightarrow> ('n, 'p, goerr + IndexInfo option) go" where
  "LoadIndex F c d uuid =
     observed (ds_obs d) ''Dataset.LoadIndex'' [(''lance.index_uuid'', AStr uuid)] (\<lambda>_. []) (do {
       infos \<leftarrow> loadIndicesByCriteria F c d [(''uuid'', JStr uuid)];
       ret (case infos of
         Inl err \<Rightarrow> Inl (Wrapf [Lit ''lance: load index '', Quo uuid, Lit '': ''] err [])
       | Inr [] \<Rightarrow> Inr None
       | Inr (x # _) \<Rightarrow> Inr (Some x))
     })"

definition LoadIndicesByName :: "'n lance_ffi \<Rightarrow> ctx \<Rightarrow> dataset \<Rightarrow> string \<Rightarrow> ('n, 'p, goerr + IndexInfo list) go" where
  "LoadIndicesByName F c d name =
     observed (ds_obs d) ''Dataset.LoadIndicesByName'' [(''lance.index_name'', AStr name)] (\<lambda>_. []) (do {
       infos \<leftarrow> loadIndicesByCriteria F c d [(''name'', JStr name)];
       ret (case infos of
         Inl err \<Rightarrow> Inl (Wrapf [Lit ''lance: load indices by name '', Quo name, Lit '': ''] err [])
       | Inr xs \<Rightarrow> Inr xs)
     })"

definition LoadIndexByName :: "'n lance_ffi \<Rightarrow> ctx \<Rightarrow> dataset \<Rightarrow> string \<Rightarrow> ('n, 'p, goerr + IndexInfo option) go" where
  "LoadIndexByName F c d name = do {
     infos \<leftarrow> LoadIndicesByName F c d name;
     ret (case infos of
       Inl err \<Rightarrow> Inl err
     | Inr [] \<Rightarrow> Inr None
     | Inr [x] \<Rightarrow> Inr (Some x)
     | Inr xs \<Rightarrow> Inl (Wrapf [Lit ''lance: load index by name '', Quo name, Lit '': ''] (sentinel_err ErrIndex)
         [Lit '': found '', Dec (int (length xs)), Lit '' indices, use LoadIndicesByName'']))
   }"

definition RemapIndex :: "'n lance_ffi \<Rightarrow> ctx \<Rightarrow> dataset \<Rightarrow> string \<Rightarrow> string \<Rightarrow> ('n, 'p, goerr option) go" where
  "RemapIndex F c d column name =
     datasetDo c d ''Dataset.RemapIndex'' (''remap index on '' @ go_quote column) (\<lambda>c ptr.
       with_cStrings [column] (\<lambda>cColumns.
       with_cString (Text name) (\<lambda>cName.
         err_call F c ''lance_dataset_remap_column_index'' [CHandle ptr, cColumns, cName]))) [(''lance.column'', AStr column)]"

section \<open>Distributed index builds\<close>

record IndexMetadataView =
  mv_Name :: string
  mv_UUID :: string
  mv_Fields :: "int list"
  mv_DatasetVersion :: u64
  mv_IndexVersion :: int
  mv_CreatedAt :: "string option"

definition un_IndexMetadataView :: "json \<Rightarrow> goerr + IndexMetadataView" where
  "un_IndexMetadataView j = un_struct
     [fld ''name'' mv_Name mv_Name_update un_str, fld ''uuid'' mv_UUID mv_UUID_update un_str,
      fld ''fields'' mv_Fields mv_Fields_update (un_slice (un_sint 32) 0),
      fld ''dataset_version'' mv_DatasetVersion mv_DatasetVersion_update un_word,
      fld ''index_version'' mv_IndexVersion mv_IndexVersion_update (un_sint 32),
      fld ''created_at'' mv_CreatedAt mv_CreatedAt_update (un_ptr un_str [])] j
     \<lparr>mv_Name = [], mv_UUID = [], mv_Fields = [], mv_DatasetVersion = 0, mv_IndexVersion = 0, mv_CreatedAt = None\<rparr>"

record IndexMetadata =
  im_pb :: bytes
  im_view :: IndexMetadataView
  im_Raw :: json

definition IndexMetadata_Name :: "IndexMetadata \<Rightarrow> string" where
  "IndexMetadata_Name m = mv_Name (im_view m)"

definition IndexMetadata_UUID :: "IndexMetadata \<Rightarrow> string" where
  "IndexMetadata_UUID m = mv_UUID (im_view m)"

text \<open>The view and the bytes are handed out as copies.\<close>

definition IndexMetadata_View :: "IndexMetadata \<Rightarrow> IndexMetadataView" where
  "IndexMetadata_View m = (im_view m)\<lparr>mv_Fields := [] @ mv_Fields (im_view m),
     mv_CreatedAt := (case mv_CreatedAt (im_view m) of None \<Rightarrow> None | Some t \<Rightarrow> Some t)\<rparr>"

definition IndexMetadata_Bytes :: "IndexMetadata \<Rightarrow> bytes" where
  "IndexMetadata_Bytes m = [] @ im_pb m"

definition newIndexMetadata :: "bytes \<Rightarrow> ctext option \<Rightarrow> goerr + IndexMetadata" where
  "newIndexMetadata pb viewJSON = (case viewJSON of
      Some (Json j) \<Rightarrow> (case un_IndexMetadataView j of
          Inl err \<Rightarrow> Inl (Wrapf [Lit ''decode index metadata view: ''] err [])
        | Inr v \<Rightarrow> Inr \<lparr>im_pb = pb, im_view = v, im_Raw = j\<rparr>)
    | _ \<Rightarrow> Inl (Wrapf [Lit ''decode index metadata view: ''] json_syntax_error []))"

definition take_meta :: "goerr option \<times> bytes cptr \<times> u64 \<times> ctext cptr \<Rightarrow> ('n, 'p, goerr + IndexMetadata) go" where
  "take_meta = take_pb (\<lambda>err. err) (\<lambda>err. Wrapf [Lit ''copy index metadata bytes: ''] err []) newIndexMetadata"

record createUncommittedConfig =
  cu_Train :: "bool option"
  cu_Fragments :: "u32 list option"
  cu_IndexUUID :: string
  cu_Name :: string
  cu_TransactionProperties :: gomap
  cu_optErr :: "goerr option"

type_synonym UncommittedOption = "createUncommittedConfig \<Rightarrow> createUncommittedConfig"

definition WithTrain :: "bool \<Rightarrow> UncommittedOption" where
  "WithTrain train c = c\<lparr>cu_Train := Some train\<rparr>"

definition WithFragments :: "u32 list option \<Rightarrow> UncommittedOption" where
  "WithFragments ids c = (case ids of
      None \<Rightarrow> c\<lparr>cu_optErr := Some (invalid ''lance: WithFragments requires at least one fragment id, or an explicit empty slice spread with WithFragments(emptySlice...) to restrict to zero fragments: '')\<rparr>
    | Some f \<Rightarrow> c\<lparr>cu_Fragments := Some f\<rparr>)"

definition WithIndexUUID :: "string \<Rightarrow> UncommittedOption" where
  "WithIndexUUID uuid c = c\<lparr>cu_IndexUUID := uuid\<rparr>"

definition WithUncommittedName :: "string \<Rightarrow> UncommittedOption" where
  "WithUncommittedName name c = c\<lparr>cu_Name := name\<rparr>"

definition WithUncommittedTransactionProperties :: "gomap \<Rightarrow> UncommittedOption" where
  "WithUncommittedTransactionProperties props c = c\<lparr>cu_TransactionProperties := props\<rparr>"

definition uncommitted_json :: "createUncommittedConfig \<Rightarrow> json" where
  "uncommitted_json c = JObj (omit_ptr JBool ''train'' (cu_Train c) @
     omit_ptr (\<lambda>f. JArr (map (\<lambda>i. JInt (uint i)) f)) ''fragments'' (cu_Fragments c) @
     omit_str ''index_uuid'' (cu_IndexUUID c) @ omit_str ''name'' (cu_Name c) @
     omit_map ''transaction_properties'' (cu_TransactionProperties c))"

definition CreateIndexUncommitted ::
  "'n lance_ffi \<Rightarrow> ctx \<Rightarrow> dataset \<Rightarrow> string \<Rightarrow> IndexConfig \<Rightarrow> UncommittedOption list \<Rightarrow> ('n, 'p, goerr + IndexMetadata) go" where
  "CreateIndexUncommitted F c d column cfg opts =
     (let o' = apply_opts opts \<lparr>cu_Train = None, cu_Fragments = None, cu_IndexUUID = [], cu_Name = [],
                 cu_TransactionProperties = [], cu_optErr = None\<rparr> in
      case cu_optErr o' of
        Some err \<Rightarrow> ret (Inl err)
      | None \<Rightarrow>
          datasetOp c d ''Dataset.CreateIndexUncommitted'' (''create index uncommitted on '' @ go_quote column) (\<lambda>c ptr.
            case params_text cfg of
              Inl err \<Rightarrow> ret (Inl err)
            | Inr params \<Rightarrow>
                with_cStrings [column] (\<lambda>cColumns.
                with_cString (Text (indexTypeName cfg)) (\<lambda>cType.
                with_cString params (\<lambda>cParams.
                with_cString (Json (uncommitted_json o')) (\<lambda>cOpts. do {
                  r \<leftarrow> export_call F c (None, 0, None) recv_txn (pair_structs (arrowParams cfg))
                    ''lance_dataset_create_index_uncommitted'' (\<lambda>xs.
                      [CHandle ptr, cColumns, cType, cParams, cOpts] @ pair_args (arrowParams cfg) xs @ [CNull]);
                  take_meta r
                }))))) [(''lance.column'', AStr column)])"

text \<open>The bytes of the segments; a nil segment panics.\<close>

definition segment_blobs :: "IndexMetadata option list \<Rightarrow> bytes list outcome" where
  "segment_blobs segments = (if None \<in> set segments then Panic ''invalid memory address or nil pointer dereference''
     else Ret (map (\<lambda>s. im_pb (the s)) segments))"

definition MergeIndexSegments ::
  "'n lance_ffi \<Rightarrow> ctx \<Rightarrow> dataset \<Rightarrow> IndexMetadata option list \<Rightarrow> ('n, 'p, goerr + IndexMetadata outcome) go" where
  "MergeIndexSegments F c d segments =
     datasetOp c d ''Dataset.MergeIndexSegments'' ''merge index segments'' (\<lambda>c ptr.
       if length segments = 0 then ret (Inl (Wrapf [Lit ''no segments: ''] (sentinel_err ErrInvalidArgument) []))
       else (case segment_blobs segments of
           Panic p \<Rightarrow> ret (Inr (Panic p))
         | Ret blobs \<Rightarrow> with_cByteArrays blobs (\<lambda>arrs. do {
             r \<leftarrow> export_call F c (None, 0, None) recv_txn 0 ''lance_dataset_merge_index_segments''
               (\<lambda>_. [CHandle ptr, arrs, CU64 (of_nat (length segments))]);
             m \<leftarrow> take_meta r;
             ret (map_sum id Ret m)
           }))) []"

definition CommitIndexSegments ::
  "'n lance_ffi \<Rightarrow> ctx \<Rightarrow> dataset \<Rightarrow> string \<Rightarrow> string \<Rightarrow> IndexMetadata option list \<Rightarrow> ('n, 'p, goerr + unit outcome) go" where
  "CommitIndexSegments F c d name column segments =
     datasetOp c d ''Dataset.CommitIndexSegments'' (''commit index segments '' @ go_quote name) (\<lambda>c ptr.
       if length segments = 0 then ret (Inl (Wrapf [Lit ''no segments: ''] (sentinel_err ErrInvalidArgument) []))
       else with_cString (Text name) (\<lambda>cName.
         with_cString (Text column) (\<lambda>cColumn.
           case segment_blobs segments of
             Panic p \<Rightarrow> ret (Inr (Panic p))
           | Ret blobs \<Rightarrow> with_cByteArrays blobs (\<lambda>arrs. do {
               (e, viewJSON) \<leftarrow> call_text F c ''lance_dataset_commit_index_segments''
                 [CHandle ptr, cName, cColumn, arrs, CU64 (of_nat (length segments))];
               case e of
                 Some err \<Rightarrow> ret (Inl err)
               | None \<Rightarrow> do { lance_string_free viewJSON; ret (Inr (Ret ())) }
             })))) [(''lance.index_name'', AStr name)]"

definition ReadIndexPartition ::
  "'n lance_ffi \<Rightarrow> 'b arrow_lib \<Rightarrow> ctx \<Rightarrow> dataset \<Rightarrow> string \<Rightarrow> u64 \<Rightarrow> bool \<Rightarrow> ('n, 'p, goerr + 'b reader) go" where
  "ReadIndexPartition F A c d name part withVector =
     observedStream (ds_obs d) ''Dataset.ReadIndexPartition'' c (\<lambda>cfg.
       dataset_locked c d (\<lambda>ptr.
         with_cString (Text name) (\<lambda>cName.
           stream_call F A c ''lance_dataset_read_index_partition'' [CHandle ptr, cName, CU64 part, CBool withVector]
             (\<lambda>err. Wrapf [Lit ''lance: read index partition '', Quo name, Lit '': ''] err []) ''index partition'' cfg)))"

section \<open>Compaction plans\<close>

text \<open>\<^verbatim>\<open>planJSON\<close>: the options of a compaction without the deferred remapping.\<close>

definition planJSON :: "CompactionOptions \<Rightarrow> goerr + json" where
  "planJSON o' = marshal_f32s [cj_MaterializeDeletionsThreshold (toJSON o')] (JObj (compaction_members (toJSON o')))"

record CompactionTask =
  ct_Payload :: "json option"

definition CompactionTask_UnmarshalJSON :: "CompactionTask decoder" where
  "CompactionTask_UnmarshalJSON j t = Inr (t\<lparr>ct_Payload := Some j\<rparr>)"

definition CompactionTask_MarshalJSON :: "CompactionTask \<Rightarrow> json" where
  "CompactionTask_MarshalJSON t = (case ct_Payload t of None \<Rightarrow> JNull | Some j \<Rightarrow> j)"

record CompactionPlan =
  pl_Tasks :: "CompactionTask list"
  pl_ReadVersion :: u64
  pl_Raw :: "json option"

definition CompactionPlan_UnmarshalJSON :: "CompactionPlan decoder" where
  "CompactionPlan_UnmarshalJSON j p = un_struct
     [fld ''tasks'' pl_Tasks pl_Tasks_update (un_slice CompactionTask_UnmarshalJSON \<lparr>ct_Payload = None\<rparr>),
      fld ''read_version'' pl_ReadVersion pl_ReadVersion_update un_word] j (p\<lparr>pl_Raw := Some j\<rparr>)"

definition PlanCompaction :: "'n lance_ffi \<Rightarrow> ctx \<Rightarrow> dataset \<Rightarrow> CompactionOptions \<Rightarrow> ('n, 'p, goerr + CompactionPlan) go" where
  "PlanCompaction F c d opts =
     with_options (planJSON opts) (\<lambda>cOpts.
       datasetOp c d ''Dataset.PlanCompaction'' ''plan compaction'' (\<lambda>c ptr.
         json_call F c ''lance_dataset_plan_compaction'' [CHandle ptr, cOpts] ''compaction plan''
           (\<lambda>j. CompactionPlan_UnmarshalJSON j \<lparr>pl_Tasks = [], pl_ReadVersion = 0, pl_Raw = None\<rparr>)) [])"

section \<open>Contracts\<close>

lemma raw_IndexInfo: "raw_decoder un_IndexInfo"
  unfolding un_IndexInfo_def by (auto intro!: decoder_rules)

lemma index_do_contracts:
  "do_contract (DropIndex F c d name)" "do_contract (OptimizeIndices F c d opts)" "do_contract (PrewarmIndex F c d name)"
  "do_contract (PrewarmIndexWithOptions F c d name opt)" "do_contract (RemapIndex F c d column name)"
  unfolding contract_defs DropIndex_def OptimizeIndices_def PrewarmIndex_def PrewarmIndexWithOptions_def RemapIndex_def Let_def
  by (auto intro!: contract_rules keeps_rules yields_rules)


lemma raw_params_text: "raw (params_text cfg)"
  unfolding params_text_def
  by (cases cfg) (auto simp: json_params_def split: option.split)

lemma hands_CreateIndex: "hands_do (pair_structs (arrowParams cfg)) (CreateIndex F c d column cfg opts)"
proof (cases "params_text cfg")
  case (Inl err)
  then have "lance_prefixes err = 0"
    using raw_params_text [of cfg] by simp
  with Inl show ?thesis
    unfolding hands_defs CreateIndex_def Let_def
    by (auto intro!: keeps_rules ends_datasetDo ends_return yields_rules)
next
  case (Inr params)
  then show ?thesis
    unfolding hands_defs CreateIndex_def Let_def
    by (auto intro!: keeps_rules ends_datasetDo ends_with_cStrings ends_with_cString handed_export_err yields_rules)
qed

lemma hands_CreateIndexUncommitted:
  "keeps c_mem (CreateIndexUncommitted F c d column cfg opts)" "keeps held (CreateIndexUncommitted F c d column cfg opts)"
  "ends exported (handed_over (pair_structs (arrowParams cfg))) (CreateIndexUncommitted F c d column cfg opts)"
proof -
  show "keeps c_mem (CreateIndexUncommitted F c d column cfg opts)" "keeps held (CreateIndexUncommitted F c d column cfg opts)"
    unfolding CreateIndexUncommitted_def take_meta_def Let_def by (auto intro!: keeps_rules split: sum.split option.split)
  show "ends exported (handed_over (pair_structs (arrowParams cfg))) (CreateIndexUncommitted F c d column cfg opts)"
    unfolding CreateIndexUncommitted_def take_meta_def Let_def
    by (auto intro!: keeps_rules ends_datasetOp ends_return ends_with_cStrings ends_with_cString handed_pb
        split: sum.split option.split)
qed

section \<open>Properties\<close>

text \<open>The configurations whose parameters have no JSON document.\<close>

fun unsendable :: "IndexConfig \<Rightarrow> bool" where
  "unsendable (JSONIndex path target targetParams) = (path = [] \<or> target = [])"
| "unsendable (BloomFilter n p) = (\<not> f64_finite p)"
| "unsendable _ = False"

lemma f64_zero_finite: "f64_zero p \<Longrightarrow> f64_finite p"
  unfolding f64_zero_def f64_finite_def by (elim disjE) (hypsubst, code_simp)+

lemma params_text_fails: "(\<exists>err. params_text cfg = Inl err) \<longleftrightarrow> unsendable cfg"
  by (cases cfg) (auto simp: params_text_def json_params_def params_any_def BloomFilter_indexParams_def f64_zero_finite
      split: option.split)

text \<open>C38: which configurations are refused. The parameters of an index cannot be sent exactly when a JSON index has no
  path or no target type, or a Bloom filter has a probability that is an infinity or not a number; \<^verbatim>\<open>CreateIndex\<close> then
  fails without reaching the native library, whatever arrays the configuration carries, and nothing
  is exported.\<close>

theorem create_index_refuses:
  assumes "run_state (CreateIndex F c d column cfg opts) w = (r, w')"
  shows "((\<exists>err. params_text cfg = Inl err) \<longleftrightarrow> unsendable cfg) \<and>
    (unsendable cfg \<longrightarrow> r \<noteq> None \<and> native w' = native w \<and> exported w' = exported w \<and> c_mem w' = c_mem w \<and> held w' = held w)"
proof -
  have "r \<noteq> None \<and> native w' = native w \<and> exported w' = exported w \<and> c_mem w' = c_mem w \<and> held w' = held w" if bad: "unsendable cfg"
  proof -
    obtain err where "params_text cfg = Inl err"
      using params_text_fails bad by blast
    then show ?thesis
      using assms by (auto simp: CreateIndex_def datasetDo_def run_datasetOp Let_def c_mem_def split: option.splits)
  qed
  with params_text_fails show ?thesis by blast
qed

theorem create_index_refuses_witness:
  "fst (run_state (CreateIndex ffi0 background \<lparr>ds_h = 4, ds_obs = None\<rparr> ''v'' (JSONIndex [] ''btree'' []) [])
      (world0\<lparr>handles := [4 \<mapsto> \<lparr>h_ptr = Some 9, h_cleanup = Some 9\<rparr>]\<rparr>)) \<noteq> None"
proof -
  let ?m = "CreateIndex ffi0 background \<lparr>ds_h = 4, ds_obs = None\<rparr> ''v'' (JSONIndex [] ''btree'' []) []"
  obtain r w' where run: "run_state ?m (world0\<lparr>handles := [4 \<mapsto> \<lparr>h_ptr = Some 9, h_cleanup = Some 9\<rparr>]\<rparr>) = (r, w')"
    by fastforce
  from create_index_refuses [OF run] run show ?thesis by simp
qed

text \<open>Loading an index from a closed dataset. \<^verbatim>\<open>LoadIndex\<close>, like \<^verbatim>\<open>LoadIndicesByName\<close>, answers with an error that is
  \<^verbatim>\<open>ErrInvalidArgument\<close> and never reaches the native library, but its text has the package prefix twice, where
  other operations such as \<^verbatim>\<open>DropIndex\<close> have it once.\<close>

theorem load_index_prefixed_twice:
  assumes "handle_ptr (ds_h d) w = None" and "ctx_err_at c (tick w) = None"
  shows "\<exists>e1 w1 e2 w2 e3 w3.
    run_state (LoadIndex F c d uuid) w = (Inl e1, w1) \<and> run_state (LoadIndicesByName F c d name) w = (Inl e2, w2) \<and>
    run_state (DropIndex F c d name) w = (Some e3, w3) \<and>
    (\<forall>e \<in> {e1, e2, e3}. errors_is e (SentinelErr ErrInvalidArgument)) \<and> (\<forall>v \<in> {w1, w2, w3}. native v = native w) \<and>
    lance_prefixes e1 = 2 \<and> lance_prefixes e2 = 2 \<and> lance_prefixes e3 = 1"
  using assms
  by (simp add: LoadIndex_def LoadIndicesByName_def DropIndex_def loadIndicesByCriteria_def dataset_locked_def Dataset_checkOpen_def
      check_handle_def run_observed datasetDo_def run_datasetOp locked_def lock_def unlock_def Let_def handle_ptr_def)

theorem load_index_prefixed_twice_witness:
  "\<exists>e w1. run_state (LoadIndex ffi0 background \<lparr>ds_h = 4, ds_obs = None\<rparr> ''u'') world0 = (Inl e, w1) \<and> lance_prefixes e = 2"
proof -
  have "handle_ptr (ds_h \<lparr>ds_h = 4, ds_obs = None\<rparr>) world0 = None" "ctx_err_at background (tick world0) = None"
    by (simp_all add: handle_ptr_def world0_def background_def)
  from load_index_prefixed_twice [OF this, of ffi0 "''u''" "''n''"] show ?thesis by blast
qed

end
