(* ===== verification/Lance_Blob.thy ===== *)
theory Lance_Blob
  imports Lance_Sends "HOL-Library.Signed_Division"
begin

text \<open>
  Blobs (\<^verbatim>\<open>lance/blob.go\<close>): blob lists and the blob files borrowed from them, and
  \<^verbatim>\<open>BlobReader\<close>, the chunked reader with \<^verbatim>\<open>io.Reader\<close>, \<^verbatim>\<open>io.ReaderAt\<close> and \<^verbatim>\<open>io.Seeker\<close>.
  Offsets are 64-bit words, read as signed where the code has \<^verbatim>\<open>int64\<close>.
\<close>

section \<open>Lists and files\<close>

record blob_list =
  bl_h :: nat
  bl_obs :: "obs option"

record blob_file =
  bf_list :: blob_list
  bf_ptr :: nat

definition newBlobList :: "nat option \<Rightarrow> obs option \<Rightarrow> ('n, 'p, blob_list) go" where
  "newBlobList ptr ob = do { h \<leftarrow> new_handle ptr; ret \<lparr>bl_h = h, bl_obs = ob\<rparr> }"

text \<open>The selector spec: a nil slice is JSON null.\<close>

record blobTakeSpecJSON =
  bs_Column :: string
  bs_RowIDs :: "u64 list option"
  bs_Indices :: "u64 list option"
  bs_Addresses :: "u64 list option"

definition blob_spec_json :: "blobTakeSpecJSON \<Rightarrow> json" where
  "blob_spec_json s = JObj [(''column'', JStr (bs_Column s)), (''row_ids'', json_slice json_u64 (bs_RowIDs s)),
     (''indices'', json_slice json_u64 (bs_Indices s)), (''addresses'', json_slice json_u64 (bs_Addresses s))]"

definition takeBlobs :: "'n lance_ffi \<Rightarrow> ctx \<Rightarrow> dataset \<Rightarrow> string \<Rightarrow> blobTakeSpecJSON \<Rightarrow> ('n, 'p, goerr + blob_list) go" where
  "takeBlobs F c d name spec =
     datasetOp c d name ''take blobs'' (\<lambda>c ptr.
       with_cString (Json (blob_spec_json spec)) (\<lambda>cSpec. do {
         (e, outs) \<leftarrow> call F c ''lance_dataset_take_blobs'' [CHandle ptr, cSpec];
         case e of
           Some err \<Rightarrow> ret (Inl err)
         | None \<Rightarrow> do { l \<leftarrow> newBlobList (as_handle (out_nth outs 0)) (ds_obs d); ret (Inr l) }
       })) []"

definition nonNil :: "u64 list option \<Rightarrow> u64 list option" where
  "nonNil s = (case s of None \<Rightarrow> Some [] | Some xs \<Rightarrow> Some xs)"

definition TakeBlobs :: "'n lance_ffi \<Rightarrow> ctx \<Rightarrow> dataset \<Rightarrow> string \<Rightarrow> u64 list option \<Rightarrow> ('n, 'p, goerr + blob_list) go" where
  "TakeBlobs F c d column rowIDs = takeBlobs F c d ''Dataset.TakeBlobs''
     \<lparr>bs_Column = column, bs_RowIDs = nonNil rowIDs, bs_Indices = None, bs_Addresses = None\<rparr>"

definition TakeBlobsByIndices :: "'n lance_ffi \<Rightarrow> ctx \<Rightarrow> dataset \<Rightarrow> string \<Rightarrow> u64 list option \<Rightarrow> ('n, 'p, goerr + blob_list) go" where
  "TakeBlobsByIndices F c d column indices = takeBlobs F c d ''Dataset.TakeBlobsByIndices''
     \<lparr>bs_Column = column, bs_RowIDs = None, bs_Indices = nonNil indices, bs_Addresses = None\<rparr>"

definition TakeBlobsByAddresses :: "'n lance_ffi \<Rightarrow> ctx \<Rightarrow> dataset \<Rightarrow> string \<Rightarrow> u64 list option \<Rightarrow> ('n, 'p, goerr + blob_list) go" where
  "TakeBlobsByAddresses F c d column addresses = takeBlobs F c d ''Dataset.TakeBlobsByAddresses''
     \<lparr>bs_Column = column, bs_RowIDs = None, bs_Indices = None, bs_Addresses = nonNil addresses\<rparr>"

text \<open>\<^verbatim>\<open>int(C.lance_blob_list_len(...))\<close>: a \<^verbatim>\<open>size_t\<close> converted to \<^verbatim>\<open>int\<close>.\<close>

definition BlobList_Len :: "'n lance_ffi \<Rightarrow> blob_list \<Rightarrow> ('n, 'p, int) go" where
  "BlobList_Len F l = locked (ReadLock (bl_h l)) (do {
     p \<leftarrow> reads (handle_ptr (bl_h l));
     case p of None \<Rightarrow> ret 0
     | Some q \<Rightarrow> reads (\<lambda>w. sint (as_u64 (cread F ''lance_blob_list_len'' [CHandle q] (native w)))) })"

definition BlobList_Get :: "'n lance_ffi \<Rightarrow> blob_list \<Rightarrow> int \<Rightarrow> ('n, 'p, blob_file option) go" where
  "BlobList_Get F l i = locked (ReadLock (bl_h l)) (do {
     p \<leftarrow> reads (handle_ptr (bl_h l));
     case p of None \<Rightarrow> ret None
     | Some q \<Rightarrow>
         (if i < 0 then ret None
          else reads (\<lambda>w. case as_handle (cread F ''lance_blob_list_get'' [CHandle q, CU64 (of_int i)] (native w)) of
                            None \<Rightarrow> None | Some bf \<Rightarrow> Some \<lparr>bf_list = l, bf_ptr = bf\<rparr>)) })"

definition BlobList_Close :: "blob_list \<Rightarrow> ('n, 'p, unit) go" where
  "BlobList_Close l = locked (WriteLock (bl_h l)) (handle_close (bl_h l))"

definition withLock :: "blob_file \<Rightarrow> ctx \<Rightarrow> (nat \<Rightarrow> ('n, 'p, goerr + 'a) go) \<Rightarrow> ('n, 'p, goerr + 'a) go" where
  "withLock b c fn = do {
     e \<leftarrow> ctx_Err c;
     case e of
       Some err \<Rightarrow> ret (Inl err)
     | None \<Rightarrow> locked (ReadLock (bl_h (bf_list b))) (do {
         p \<leftarrow> reads (handle_ptr (bl_h (bf_list b)));
         case p of
           None \<Rightarrow> ret (Inl (Wrapf [Lit ''lance: blob list is closed: ''] (sentinel_err ErrInvalidArgument) []))
         | Some _ \<Rightarrow> fn (bf_ptr b)
       })
   }"

text \<open>\<^verbatim>\<open>readBytes\<close>: the native buffer, its length and its release. The buffer that the native side
  hands out is freed on every path.\<close>

definition recv_bytes :: "int \<times> cval list \<Rightarrow> ('n, 'p, int \<times> bytes cptr \<times> u64) go" where
  "recv_bytes r =
     (let blen = as_u64 (out_nth (snd r) 1) in
      case out_nth (snd r) 0 of
        CBytes mem \<Rightarrow> do { p \<leftarrow> c_alloc mem; ret (fst r, p, blen) }
      | _ \<Rightarrow> ret (fst r, None, blen))"

definition readBytes :: "'n lance_ffi \<Rightarrow> ctx \<Rightarrow> string \<Rightarrow> string \<Rightarrow> cval list \<Rightarrow> ('n, 'p, goerr + bytes) go" where
  "readBytes F c what f args = do {
     (callErr, buf, blen) \<leftarrow> ffiCall F c (None, 0) (do { r \<leftarrow> native_call (ccall F f args); recv_bytes r });
     deferring (free_cptr buf) (ret (
       case callErr of
         Some err \<Rightarrow> Inl (Wrapf [Lit ''lance: '', Str what, Lit '': ''] err [])
       | None \<Rightarrow>
           (if blen = 0 then Inr []
            else (case copyCBytes (map_option snd buf) blen of
                    Inl err \<Rightarrow> Inl (Wrapf [Lit ''lance: '', Str what, Lit '': ''] err [])
                  | Inr data \<Rightarrow> Inr (nil_bytes data)))))
   }"

abbreviation bf_obs :: "blob_file \<Rightarrow> obs option" where
  "bf_obs b \<equiv> bl_obs (bf_list b)"

definition BlobFile_Read :: "'n lance_ffi \<Rightarrow> blob_file \<Rightarrow> ctx \<Rightarrow> ('n, 'p, goerr + bytes) go" where
  "BlobFile_Read F b c =
     observed (bf_obs b) ''BlobFile.Read'' [] (\<lambda>_. [])
       (withLock b c (\<lambda>ptr. readBytes F c ''blob read'' ''lance_blob_read'' [CHandle ptr]))"

definition BlobFile_ReadAll :: "'n lance_ffi \<Rightarrow> blob_file \<Rightarrow> ctx \<Rightarrow> ('n, 'p, goerr + bytes) go" where
  "BlobFile_ReadAll F b c = BlobFile_Read F b c"

definition BlobFile_ReadRange :: "'n lance_ffi \<Rightarrow> blob_file \<Rightarrow> ctx \<Rightarrow> u64 \<Rightarrow> u64 \<Rightarrow> ('n, 'p, goerr + bytes) go" where
  "BlobFile_ReadRange F b c start len =
     observed (bf_obs b) ''BlobFile.ReadRange'' [] (\<lambda>_. [])
       (withLock b c (\<lambda>ptr. readBytes F c ''blob read range'' ''lance_blob_read_range'' [CHandle ptr, CU64 start, CU64 len]))"

definition BlobFile_Size :: "'n lance_ffi \<Rightarrow> blob_file \<Rightarrow> ('n, 'p, u64) go" where
  "BlobFile_Size F b = locked (ReadLock (bl_h (bf_list b))) (do {
     p \<leftarrow> reads (handle_ptr (bl_h (bf_list b)));
     case p of None \<Rightarrow> ret 0
     | Some _ \<Rightarrow> reads (\<lambda>w. as_u64 (cread F ''lance_blob_size'' [CHandle (bf_ptr b)] (native w))) })"

definition BlobFile_size :: "'n lance_ffi \<Rightarrow> blob_file \<Rightarrow> ctx \<Rightarrow> ('n, 'p, goerr + u64) go" where
  "BlobFile_size F b c = withLock b c (\<lambda>ptr. do {
     n \<leftarrow> reads (\<lambda>w. as_u64 (cread F ''lance_blob_size'' [CHandle ptr] (native w)));
     ret (Inr n) })"

definition BlobFile_Seek :: "'n lance_ffi \<Rightarrow> blob_file \<Rightarrow> ctx \<Rightarrow> u64 \<Rightarrow> ('n, 'p, goerr + unit) go" where
  "BlobFile_Seek F b c off =
     observed (bf_obs b) ''BlobFile.Seek'' [] (\<lambda>_. []) (withLock b c (\<lambda>ptr. do {
       (e, outs) \<leftarrow> call F c ''lance_blob_seek'' [CHandle ptr, CU64 off];
       ret (case e of Some err \<Rightarrow> Inl (Wrapf [Lit ''lance: blob seek: ''] err []) | None \<Rightarrow> Inr ()) }))"

definition BlobFile_Tell :: "'n lance_ffi \<Rightarrow> blob_file \<Rightarrow> ctx \<Rightarrow> ('n, 'p, goerr + u64) go" where
  "BlobFile_Tell F b c =
     observed (bf_obs b) ''BlobFile.Tell'' [] (\<lambda>_. []) (withLock b c (\<lambda>ptr. do {
       (e, outs) \<leftarrow> call F c ''lance_blob_tell'' [CHandle ptr];
       ret (case e of Some err \<Rightarrow> Inl (Wrapf [Lit ''lance: blob tell: ''] err []) | None \<Rightarrow> Inr (as_u64 (out_nth outs 0))) }))"

definition BlobFile_URI :: "'n lance_ffi \<Rightarrow> blob_file \<Rightarrow> ctx \<Rightarrow> ('n, 'p, goerr + ctext) go" where
  "BlobFile_URI F b c =
     observed (bf_obs b) ''BlobFile.URI'' [] (\<lambda>_. []) (withLock b c (\<lambda>ptr. do {
       (e, cURI) \<leftarrow> call_text F c ''lance_blob_uri'' [CHandle ptr];
       case e of
         Some err \<Rightarrow> ret (Inl (Wrapf [Lit ''lance: blob uri: ''] err []))
       | None \<Rightarrow> (case cURI of
           None \<Rightarrow> ret (Inr (Text []))
         | Some (_, t) \<Rightarrow> deferring (lance_string_free cURI) (ret (Inr t)))
     }))"

definition BlobFile_Close :: "'n lance_ffi \<Rightarrow> blob_file \<Rightarrow> ('n, 'p, goerr + unit) go" where
  "BlobFile_Close F b = withLock b background (\<lambda>ptr. do {
     (e, outs) \<leftarrow> call F background ''lance_blob_close'' [CHandle ptr];
     ret (case e of Some err \<Rightarrow> Inl (Wrapf [Lit ''lance: blob close: ''] err []) | None \<Rightarrow> Inr ()) })"

section \<open>BlobReader\<close>

text \<open>The sequential cursor is an \<^verbatim>\<open>int64\<close>. A read into a buffer of \<^verbatim>\<open>len\<close> bytes returns the bytes
  copied to its front (their number is Go's \<^verbatim>\<open>n\<close>) and an error.\<close>

type_synonym s64 = "64 word"

record blob_reader =
  br_blob :: blob_file
  br_ctx :: ctx
  br_off :: s64

definition BlobFile_Reader :: "blob_file \<Rightarrow> ctx option \<Rightarrow> blob_reader" where
  "BlobFile_Reader b c = \<lparr>br_blob = b, br_ctx = (case c of None \<Rightarrow> background | Some x \<Rightarrow> x), br_off = 0\<rparr>"

abbreviation io_EOF :: goerr where
  "io_EOF \<equiv> Leaf IoEOF"

definition readAt :: "'n lance_ffi \<Rightarrow> blob_reader \<Rightarrow> nat \<Rightarrow> s64 \<Rightarrow> ('n, 'p, bytes \<times> goerr option) go" where
  "readAt F r len off =
     (if len = 0 then ret ([], None)
      else if sint off < 0 then
        ret ([], Some (Wrapf [Lit ''lance: blob read offset '', Dec (sint off), Lit '' is negative: ''] (sentinel_err ErrInvalidArgument) []))
      else do {
        e \<leftarrow> ctx_Err (br_ctx r);
        case e of
          Some err \<Rightarrow> ret ([], Some err)
        | None \<Rightarrow> do {
            sz \<leftarrow> BlobFile_size F (br_blob r) (br_ctx r);
            case sz of
              Inl err \<Rightarrow> ret ([], Some err)
            | Inr blob_size \<Rightarrow>
                (if off \<ge> blob_size then ret ([], Some io_EOF)
                 else
                   let remaining = blob_size - off;
                       want = (if of_nat len > remaining then remaining else of_nat len)
                   in do {
                     d \<leftarrow> BlobFile_ReadRange F (br_blob r) (br_ctx r) off want;
                     ret (case d of
                            Inl err \<Rightarrow> ([], Some err)
                          | Inr data \<Rightarrow>
                              let n = min len (length data) in
                              (take n data, if n < len then Some io_EOF else None))
                   })
          }
      })"

definition BlobReader_ReadAt :: "'n lance_ffi \<Rightarrow> blob_reader \<Rightarrow> nat \<Rightarrow> s64 \<Rightarrow> ('n, 'p, bytes \<times> goerr option) go" where
  "BlobReader_ReadAt F r len off = readAt F r len off"

definition BlobReader_Read :: "'n lance_ffi \<Rightarrow> blob_reader \<Rightarrow> nat \<Rightarrow> ('n, 'p, (bytes \<times> goerr option) \<times> blob_reader) go" where
  "BlobReader_Read F r len = do {
     (data, err) \<leftarrow> readAt F r len (br_off r);
     ret ((data, err), r\<lparr>br_off := br_off r + of_nat (length data)\<rparr>)
   }"

definition SeekStart :: int where "SeekStart = 0"
definition SeekCurrent :: int where "SeekCurrent = 1"
definition SeekEnd :: int where "SeekEnd = 2"
definition MaxInt64 :: s64 where "MaxInt64 = 9223372036854775807"
definition MinInt64 :: s64 where "MinInt64 = 9223372036854775808"

text \<open>The second half of \<^verbatim>\<open>Seek\<close>, from the overflow check on.\<close>

definition seek_to :: "blob_reader \<Rightarrow> s64 \<Rightarrow> s64 \<Rightarrow> (goerr + s64) \<times> blob_reader" where
  "seek_to r base offset =
     (if (0 < sint offset \<and> sint base > sint (MaxInt64 - offset)) \<or> (sint offset < 0 \<and> sint base < sint (MinInt64 - offset)) then
        (Inl (Wrapf [Lit ''lance: blob seek offset overflows int64: ''] (sentinel_err ErrInvalidArgument) []), r)
      else
        let next = base + offset in
        if sint next < 0 then
          (Inl (Wrapf [Lit ''lance: negative blob seek position '', Dec (sint next), Lit '': ''] (sentinel_err ErrInvalidArgument) []), r)
        else (Inr next, r\<lparr>br_off := next\<rparr>))"

definition BlobReader_Seek :: "'n lance_ffi \<Rightarrow> blob_reader \<Rightarrow> s64 \<Rightarrow> int \<Rightarrow> ('n, 'p, (goerr + s64) \<times> blob_reader) go" where
  "BlobReader_Seek F r offset whence =
     (if whence = SeekStart then ret (seek_to r 0 offset)
      else if whence = SeekCurrent then ret (seek_to r (br_off r) offset)
      else if whence = SeekEnd then do {
        sz \<leftarrow> BlobFile_size F (br_blob r) (br_ctx r);
        ret (case sz of
               Inl err \<Rightarrow> (Inl err, r)
             | Inr blob_size \<Rightarrow>
                 (if blob_size > MaxInt64 then
                    (Inl (Wrapf [Lit ''lance: blob is too large for io.Seeker: ''] (sentinel_err ErrInvalidArgument) []), r)
                  else seek_to r blob_size offset))
      }
      else ret (Inl (Wrapf [Lit ''lance: invalid blob seek whence '', Dec whence, Lit '': ''] (sentinel_err ErrInvalidArgument) []), r))"

section \<open>Signed offsets\<close>

lemma sint_bounds: "- 9223372036854775808 \<le> sint (x :: s64) \<and> sint x \<le> 9223372036854775807"
  using sint_greater_eq [of x] sint_less [of x] by simp

lemma sint_add_exact:
  "- 9223372036854775808 \<le> sint a + sint b \<Longrightarrow> sint a + sint b < 9223372036854775808 \<Longrightarrow>
     sint (a + b :: s64) = sint a + sint b"
  by (simp add: sint_word_ariths signed_take_bit_int_eq_self)

lemma sint_sub_exact:
  "- 9223372036854775808 \<le> sint a - sint b \<Longrightarrow> sint a - sint b < 9223372036854775808 \<Longrightarrow>
     sint (a - b :: s64) = sint a - sint b"
  by (simp add: sint_word_ariths signed_take_bit_int_eq_self)

lemma sint_word_of_nat_small: "n < 9223372036854775808 \<Longrightarrow> sint (of_nat n :: s64) = int n"
  by (simp add: signed_of_nat signed_take_bit_int_eq_self)

lemma sint_limits: "sint MaxInt64 = 9223372036854775807" "sint MinInt64 = - 9223372036854775808"
  by (simp_all add: MaxInt64_def MinInt64_def)

section \<open>Reading a blob\<close>

text \<open>What the native side documents of a blob with the given content: its size, and that reading
  \<^verbatim>\<open>len\<close> bytes at \<^verbatim>\<open>start\<close> gives those bytes when the range lies inside the blob. Nothing is assumed
  of an empty range, of a range that starts at or after the end or of one that reaches past it.\<close>

definition blob_backed :: "'n lance_ffi \<Rightarrow> nat \<Rightarrow> bytes \<Rightarrow> bool" where
  "blob_backed F bp content =
     ((\<forall>n. lance_in_tokio_runtime F n = 0) \<and>
      (\<forall>n. cread F ''lance_blob_size'' [CHandle bp] n = CU64 (of_nat (length content))) \<and>
      (\<forall>s l n. 0 < l \<and> unat s + unat l \<le> length content \<longrightarrow>
         fst (ccall F ''lance_blob_read_range'' [CHandle bp, CU64 s, CU64 l] n) =
         (ERROR_CODE_OK, [CBytes (take (unat l) (drop (unat s) content)), CU64 l])) \<and>
      length content < 9223372036854775808)"

lemma handles_ffi_entry [simp]: "handles (ffi_entry c w) = handles w" "native (ffi_entry c w) = native w"
  by (simp_all add: ffi_entry_def Let_def)

lemma copyCBytes_exact:
  assumes "length d < 9223372036854775808"
  shows "copyCBytes (Some d) (of_nat (length d)) = (if d = [] then Inr None else Inr (Some d))"
proof (cases "d = []")
  case False
  have un: "unat (of_nat (length d) :: u64) = length d"
    using assms by (simp add: unat_of_nat)
  with False have "0 < unat (of_nat (length d) :: u64)" by simp
  then have "(of_nat (length d) :: u64) \<noteq> 0" by (metis unat_0 less_irrefl)
  moreover have "\<not> maxInt < (of_nat (length d) :: u64)"
    using un assms by (simp add: word_less_nat_alt maxInt_def)
  ultimately show ?thesis using False un by (simp add: copyCBytes_def)
qed (simp add: copyCBytes_def)

lemma readBytes_range:
  assumes "blob_backed F bp content" and "never_done c" and "0 < l" and "unat s + unat l \<le> length content"
  shows "fst (run_state (readBytes F c what ''lance_blob_read_range'' [CHandle bp, CU64 s, CU64 l]) w) =
    Inr (take (unat l) (drop (unat s) content))"
proof -
  define d where "d = take (unat l) (drop (unat s) content)"
  have adm: "ffi_admits F c w"
    using assms by (simp add: ffi_admits_def blob_backed_def never_done_def)
  obtain n' where cc: "ccall F ''lance_blob_read_range'' [CHandle bp, CU64 s, CU64 l] (native w) =
      ((ERROR_CODE_OK, [CBytes d, CU64 l]), n')"
    using assms(1,3,4) unfolding blob_backed_def d_def by (metis prod.collapse)
  have len: "length d = unat l" using assms(4) by (simp add: d_def)
  then have "d \<noteq> []" using assms(3) by (auto simp: unat_eq_zero)
  moreover have "length d < 9223372036854775808"
    using assms(1) by (auto simp: blob_backed_def d_def)
  ultimately have "copyCBytes (Some d) l = Inr (Some d)"
    using copyCBytes_exact [of d] unfolding len by simp
  moreover have "l \<noteq> 0" using assms(3) by auto
  ultimately show ?thesis
    by (simp add: readBytes_def run_ffiCall_admitted [OF adm] run_ffi_result cc recv_bytes_def c_alloc_def
        split_beta Let_def d_def [symmetric])
qed

lemma keeps_handles_readBytes [keeps_rules]: "keeps handles (readBytes F c what f args)"
  unfolding readBytes_def recv_bytes_def
  by (auto intro!: keeps_rules keeps_free_cptr keeps_c_alloc split: cval.split simp: Let_def)

lemma keeps_handles_withLock [keeps_rules]: "(\<And>p. keeps handles (fn p)) \<Longrightarrow> keeps handles (withLock b c fn)"
  unfolding withLock_def by (auto intro!: keeps_rules)

lemma run_withLock:
  assumes "never_done c" and "handle_ptr (bl_h (bf_list b)) w = Some q"
  shows "fst (run_state (withLock b c fn) w) =
    fst (run_state (fn (bf_ptr b)) (w\<lparr>tick := Suc (tick w), held := ReadLock (bl_h (bf_list b)) # held w\<rparr>))"
  using assms by (simp add: withLock_def never_done_def run_locked handle_ptr_def split_beta)

lemma BlobFile_size_exact:
  assumes "blob_backed F (bf_ptr b) content" and "never_done c" and "handle_ptr (bl_h (bf_list b)) w = Some q"
  shows "fst (run_state (BlobFile_size F b c) w) = Inr (of_nat (length content))"
  using assms by (simp add: BlobFile_size_def run_withLock blob_backed_def)

lemma BlobFile_ReadRange_exact:
  assumes "blob_backed F (bf_ptr b) content" and "never_done c" and "handle_ptr (bl_h (bf_list b)) w = Some q"
    and "0 < l" and "unat s + unat l \<le> length content"
  shows "fst (run_state (BlobFile_ReadRange F b c s l) w) = Inr (take (unat l) (drop (unat s) content))"
  using assms by (simp add: BlobFile_ReadRange_def run_observed run_withLock readBytes_range handle_ptr_def split_beta)

lemma keeps_handles_blob_ops:
  "keeps handles (BlobFile_size F b c)" "keeps handles (BlobFile_ReadRange F b c s l)" "keeps handles (readAt F r len off)"
proof -
  show 1: "keeps handles (BlobFile_size F b c)" for b c
    unfolding BlobFile_size_def by (auto intro!: keeps_rules)
  show 2: "keeps handles (BlobFile_ReadRange F b c s l)" for b c s l
    unfolding BlobFile_ReadRange_def by (auto intro!: keeps_rules)
  show "keeps handles (readAt F r len off)"
    unfolding readAt_def Let_def by (auto intro!: keeps_rules 1 2)
qed

text \<open>The bytes of the blob that a read of \<^verbatim>\<open>len\<close> bytes at \<^verbatim>\<open>off\<close> covers.\<close>

lemma readAt_exact:
  assumes "blob_backed F (bf_ptr (br_blob r)) content" and "never_done (br_ctx r)"
    and "handle_ptr (bl_h (bf_list (br_blob r))) w = Some q" and "0 < len" and "len < 9223372036854775808" and "0 \<le> sint off"
  shows "fst (run_state (readAt F r len off) w) =
    (let got = take len (drop (unat off) content) in (got, if length got < len then Some io_EOF else None))"
proof -
  have cl: "length content < 9223372036854775808" using assms(1) by (simp add: blob_backed_def)
  then have un: "unat (of_nat (length content) :: u64) = length content"
    and ul: "unat (of_nat len :: u64) = len"
    using assms(5) by (simp_all add: unat_of_nat)
  define w1 where "w1 = w\<lparr>tick := Suc (tick w)\<rparr>"
  have h1: "handle_ptr (bl_h (bf_list (br_blob r))) w1 = Some q"
    using assms(3) by (simp add: w1_def handle_ptr_def)
  obtain w2 where sz: "run_state (BlobFile_size F (br_blob r) (br_ctx r)) w1 = (Inr (of_nat (length content)), w2)"
    using BlobFile_size_exact [OF assms(1,2) h1] by (metis prod.collapse)
  have h2: "handle_ptr (bl_h (bf_list (br_blob r))) w2 = Some q"
    using h1 keepsD [OF keeps_handles_blob_ops(1) sz] by (simp add: handle_ptr_def)
  note range = BlobFile_ReadRange_exact [OF assms(1,2) h2]
  have ctx: "ctx_err_at (br_ctx r) (tick w) = None" using assms(2) by (simp add: never_done_def)
  show ?thesis
  proof (cases "(of_nat (length content) :: u64) \<le> off")
    case True
    then have "length content \<le> unat off" using un by (simp add: word_le_nat_alt)
    then show ?thesis
      using True assms(4,6) ctx sz by (simp add: readAt_def w1_def [symmetric])
  next
    case False
    then have lt: "unat off < length content" using un by (simp add: word_le_nat_alt)
    have rem: "unat (of_nat (length content) - off) = length content - unat off"
      using lt un by (simp add: unat_sub word_le_nat_alt)
    define want where "want = (if of_nat len > of_nat (length content) - off then of_nat (length content) - off else of_nat len)"
    have want: "unat want = min len (length content - unat off)"
      using rem ul by (auto simp: want_def word_less_nat_alt)
    then have inside: "0 < want" "unat off + unat want \<le> length content"
      using lt assms(4) by (simp_all add: word_less_nat_alt)
    have "fst (run_state (readAt F r len off) w) =
      (case fst (run_state (BlobFile_ReadRange F (br_blob r) (br_ctx r) off want) w2) of
         Inl err \<Rightarrow> ([], Some err)
       | Inr data \<Rightarrow> let n = min len (length data) in (take n data, if n < len then Some io_EOF else None))"
      using False assms(4,6) ctx sz
      by (simp add: readAt_def w1_def [symmetric] want_def [symmetric] Let_def split_beta)
    then show ?thesis
      using range [OF inside] want by (auto simp: Let_def min_def)
  qed
qed

section \<open>Reading to the end\<close>

text \<open>A caller's loop over \<^verbatim>\<open>Read\<close> with buffers of \<^verbatim>\<open>k\<close> bytes, as \<^verbatim>\<open>io.ReadAll\<close> does it: it stops at the
  first error. \<^verbatim>\<open>fuel\<close> bounds the number of reads.\<close>

fun read_loop :: "'n lance_ffi \<Rightarrow> nat \<Rightarrow> nat \<Rightarrow> blob_reader \<Rightarrow> ('n, 'p, (bytes \<times> goerr) option) go" where
  "read_loop F k 0 r = ret None"
| "read_loop F k (Suc fuel) r = do {
     ((data, err), r1) \<leftarrow> BlobReader_Read F r k;
     case err of
       Some e \<Rightarrow> ret (Some (data, e))
     | None \<Rightarrow> do {
         rest \<leftarrow> read_loop F k fuel r1;
         ret (map_option (\<lambda>(ds, e). (data @ ds, e)) rest)
       }
   }"

lemma read_loop_reads:
  assumes "blob_backed F (bf_ptr b) content" and "never_done c" and "0 < k" and "k < 9223372036854775808"
    and "handle_ptr (bl_h (bf_list b)) w = Some q" and "pos \<le> length content" and "length content - pos < fuel"
  shows "fst (run_state (read_loop F k fuel \<lparr>br_blob = b, br_ctx = c, br_off = of_nat pos\<rparr>) w) = Some (drop pos content, io_EOF)"
  using assms(5-7)
proof (induction fuel arbitrary: pos w)
  case (Suc fuel)
  let ?r = "\<lparr>br_blob = b, br_ctx = c, br_off = of_nat pos :: s64\<rparr>"
  have cl: "length content < 9223372036854775808" using assms(1) by (simp add: blob_backed_def)
  then have up: "unat (of_nat pos :: u64) = pos" and sp: "0 \<le> sint (of_nat pos :: s64)"
    using Suc.prems(2) by (simp_all add: unat_of_nat sint_word_of_nat_small)
  define got where "got = take k (drop pos content)"
  define err where "err = (if length got < k then Some io_EOF else None)"
  obtain w1 where rd: "run_state (readAt F ?r k (of_nat pos)) w = ((got, err), w1)"
    using readAt_exact [of F ?r content w q k "of_nat pos"] assms(1-4) Suc.prems(1) up sp
    unfolding got_def err_def Let_def by (auto simp: prod_eq_iff)
  have h1: "handle_ptr (bl_h (bf_list b)) w1 = Some q"
    using Suc.prems(1) keepsD [OF keeps_handles_blob_ops(3) rd] by (simp add: handle_ptr_def)
  show ?case
  proof (cases "length got < k")
    case True
    then have "got = drop pos content" by (auto simp: got_def)
    with True rd show ?thesis by (simp add: BlobReader_Read_def err_def)
  next
    case False
    then have len: "length got = k" by (auto simp: got_def)
    then have pk: "pos + k \<le> length content" using assms(3) Suc.prems(2) by (simp add: got_def min_def split: if_splits)
    have "fst (run_state (read_loop F k fuel \<lparr>br_blob = b, br_ctx = c, br_off = of_nat (pos + k)\<rparr>) w1) =
        Some (drop (pos + k) content, io_EOF)"
      using Suc.IH [OF h1 pk] Suc.prems(3) pk assms(3) by simp
    moreover have "got @ drop (pos + k) content = drop pos content"
      by (simp add: got_def add.commute [of pos] drop_drop [symmetric] del: drop_drop)
    ultimately show ?thesis
      using False rd len by (simp add: BlobReader_Read_def err_def split_beta)
  qed
qed simp

section \<open>Seeking\<close>

text \<open>The outcomes of a seek: the request is rejected as an invalid argument with the reader
  unchanged, or the position is the mathematical sum of an origin and the offset when that is
  between 0 and the largest \<^verbatim>\<open>int64\<close>, and rejected otherwise.\<close>

definition seek_rejected :: "blob_reader \<Rightarrow> (goerr + s64) \<times> blob_reader \<Rightarrow> bool" where
  "seek_rejected r out = (\<exists>e. out = (Inl e, r) \<and> errors_is e (SentinelErr ErrInvalidArgument))"

definition seek_ok :: "int \<Rightarrow> s64 \<Rightarrow> blob_reader \<Rightarrow> (goerr + s64) \<times> blob_reader \<Rightarrow> bool" where
  "seek_ok base offset r out =
     (if 0 \<le> base + sint offset \<and> base + sint offset < 9223372036854775808
      then \<exists>p. out = (Inr p, r\<lparr>br_off := p\<rparr>) \<and> sint p = base + sint offset
      else seek_rejected r out)"

lemma seek_to_ok: "seek_ok (sint base) offset r (seek_to r base offset)"
proof -
  have b: "- 9223372036854775808 \<le> sint base \<and> sint base \<le> 9223372036854775807"
    "- 9223372036854775808 \<le> sint offset \<and> sint offset \<le> 9223372036854775807"
    using sint_bounds by blast+
  have hi: "0 < sint offset \<Longrightarrow> sint (MaxInt64 - offset) = 9223372036854775807 - sint offset"
    using b sint_limits by (subst sint_sub_exact) auto
  have lo: "sint offset < 0 \<Longrightarrow> sint (MinInt64 - offset) = - 9223372036854775808 - sint offset"
    using b sint_limits by (subst sint_sub_exact) auto
  consider "sint base + sint offset < - 9223372036854775808" | "9223372036854775808 \<le> sint base + sint offset"
    | "- 9223372036854775808 \<le> sint base + sint offset" "sint base + sint offset < 9223372036854775808"
    by linarith
  then show ?thesis
  proof cases
    case 1
    then have "sint offset < 0" using b by linarith
    with 1 lo show ?thesis by (simp add: seek_to_def seek_ok_def seek_rejected_def)
  next
    case 2
    then have "0 < sint offset" using b by linarith
    with 2 hi show ?thesis by (simp add: seek_to_def seek_ok_def seek_rejected_def)
  next
    case 3
    have "sint (base + offset) = sint base + sint offset"
      using 3 by (intro sint_add_exact) auto
    moreover have "\<not> (0 < sint offset \<and> sint base > sint (MaxInt64 - offset))"
      "\<not> (sint offset < 0 \<and> sint base < sint (MinInt64 - offset))"
      using 3 hi lo by auto
    ultimately show ?thesis
      using 3 by (auto simp: seek_to_def Let_def seek_ok_def seek_rejected_def)
  qed
qed

lemma sint_uint_small: "x \<le> MaxInt64 \<Longrightarrow> sint x = uint x"
proof -
  assume "x \<le> MaxInt64"
  then have "uint x \<le> 9223372036854775807" by (simp add: MaxInt64_def word_le_def)
  then have "signed_take_bit 63 (uint x) = uint x"
    using uint_ge_0 [of x] by (intro signed_take_bit_int_eq_self; simp; linarith)
  then show ?thesis by (simp add: sint_uint)
qed

section \<open>Properties\<close>

text \<open>C24: reading a blob in chunks reconstructs it. With any buffer size, reading an open blob
  through a fresh \<^verbatim>\<open>BlobReader\<close> until an error gives exactly the content of the blob and then
  \<^verbatim>\<open>io.EOF\<close>; the loop ends after at most one read more than the blob has bytes.\<close>

theorem blob_read_loop:
  assumes "blob_backed F (bf_ptr b) content" and "never_done c" and "handle_ptr (bl_h (bf_list b)) w = Some q"
    and "0 < k" and "k < 9223372036854775808" and "length content < fuel"
  shows "fst (run_state (read_loop F k fuel (BlobFile_Reader b (Some c))) w) = Some (content, io_EOF)"
  using read_loop_reads [OF assms(1,2,4,5,3), of 0 fuel] assms(6) by (simp add: BlobFile_Reader_def)

text \<open>A native library that fails on every range that is not inside the blob.\<close>

definition blob_ffi :: "bytes \<Rightarrow> nat lance_ffi" where
  "blob_ffi content = ffi0\<lparr>
     ccall := (\<lambda>f args n. case args of [_, CU64 s, CU64 l] \<Rightarrow>
        (if 0 < l \<and> unat s + unat l \<le> length content
         then ((ERROR_CODE_OK, [CBytes (take (unat l) (drop (unat s) content)), CU64 l]), n)
         else ((ERROR_CODE_INTERNAL, []), n))
      | _ \<Rightarrow> ((ERROR_CODE_OK, []), n)),
     cread := (\<lambda>_ _ _. CU64 (of_nat (length content)))\<rparr>"

theorem blob_read_loop_witness:
  "fst (run_state (read_loop (blob_ffi [1, 2, 3]) 2 9 (BlobFile_Reader \<lparr>bf_list = \<lparr>bl_h = 0, bl_obs = None\<rparr>, bf_ptr = 7\<rparr> (Some background)))
     (world0\<lparr>handles := [0 \<mapsto> \<lparr>h_ptr = Some 5, h_cleanup = Some 5\<rparr>]\<rparr>)) = Some ([1, 2, 3], io_EOF)"
  by (rule blob_read_loop)
    (simp_all add: blob_backed_def blob_ffi_def ffi0_def error_code_defs never_done_def background_def handle_ptr_def)

text \<open>C25: positioned reads are exact. \<^verbatim>\<open>ReadAt\<close> at a non-negative offset returns precisely the
  bytes of the blob from that offset, as many as the buffer holds and the blob has, with
  \<^verbatim>\<open>io.EOF\<close> exactly when the buffer was not filled; offsets past the end, up to the largest
  64-bit value, give no bytes.\<close>

theorem blob_readAt_exact:
  assumes "blob_backed F (bf_ptr (br_blob r)) content" and "never_done (br_ctx r)"
    and "handle_ptr (bl_h (bf_list (br_blob r))) w = Some q" and "0 < len" and "len < 9223372036854775808" and "0 \<le> sint off"
  shows "fst (run_state (BlobReader_ReadAt F r len off) w) =
    (take len (drop (unat off) content), if length (take len (drop (unat off) content)) < len then Some io_EOF else None)"
  using readAt_exact [OF assms] by (simp add: BlobReader_ReadAt_def Let_def)

theorem blob_readAt_exact_witness:
  "fst (run_state (BlobReader_ReadAt (blob_ffi [1, 2, 3]) (BlobFile_Reader \<lparr>bf_list = \<lparr>bl_h = 0, bl_obs = None\<rparr>, bf_ptr = 7\<rparr> None) 5 1)
     (world0\<lparr>handles := [0 \<mapsto> \<lparr>h_ptr = Some 5, h_cleanup = Some 5\<rparr>]\<rparr>)) = ([2, 3], Some io_EOF)"
  by (subst blob_readAt_exact [where q = 5 and content = "[1, 2, 3]"])
    (simp_all add: BlobFile_Reader_def blob_backed_def blob_ffi_def ffi0_def error_code_defs never_done_def background_def handle_ptr_def)

text \<open>C10: seeking is exact on 64-bit offsets. From the start \<^verbatim>\<open>Seek\<close> counts from 0, from the
  current position it counts from the cursor, and from the end it counts from the size that the
  native library reports; the new position is the mathematical sum when that lies between 0 and
  the largest \<^verbatim>\<open>int64\<close>, and otherwise the request is an \<^verbatim>\<open>ErrInvalidArgument\<close> and the cursor does
  not move. Nothing wraps around: a size over the largest \<^verbatim>\<open>int64\<close> is refused, as is an unknown
  origin, and a seek from the end reports the context's error or a closed list.\<close>

theorem blob_seek_exact:
  "let out = fst (run_state (BlobReader_Seek F r offset whence) w);
       blob_size = as_u64 (cread F ''lance_blob_size'' [CHandle (bf_ptr (br_blob r))] (native w))
   in if whence = 0 then seek_ok 0 offset r out
      else if whence = 1 then seek_ok (sint (br_off r)) offset r out
      else if whence = 2 then
        (case ctx_err_at (br_ctx r) (tick w) of
           Some e \<Rightarrow> out = (Inl (ctx_error e), r)
         | None \<Rightarrow>
             if handle_ptr (bl_h (bf_list (br_blob r))) w = None then seek_rejected r out
             else if uint blob_size < 9223372036854775808 then seek_ok (uint blob_size) offset r out
             else seek_rejected r out)
      else seek_rejected r out"
proof -
  define h where "h = bl_h (bf_list (br_blob r))"
  define n where "n = as_u64 (cread F ''lance_blob_size'' [CHandle (bf_ptr (br_blob r))] (native w))"
  have size: "fst (run_state (BlobFile_size F (br_blob r) (br_ctx r)) w) =
    (case ctx_err_at (br_ctx r) (tick w) of
       Some e \<Rightarrow> Inl (ctx_error e)
     | None \<Rightarrow> if handle_ptr h w = None
         then Inl (Wrapf [Lit ''lance: blob list is closed: ''] (sentinel_err ErrInvalidArgument) [])
         else Inr n)"
    by (auto simp: BlobFile_size_def withLock_def run_locked handle_ptr_def h_def n_def split_beta split: option.split)
  have "whence = SeekEnd \<Longrightarrow> fst (run_state (BlobReader_Seek F r offset whence) w) =
    (case fst (run_state (BlobFile_size F (br_blob r) (br_ctx r)) w) of
       Inl err \<Rightarrow> (Inl err, r)
     | Inr blob_size \<Rightarrow>
         if blob_size > MaxInt64
         then (Inl (Wrapf [Lit ''lance: blob is too large for io.Seeker: ''] (sentinel_err ErrInvalidArgument) []), r)
         else seek_to r blob_size offset)"
    by (simp add: BlobReader_Seek_def SeekStart_def SeekCurrent_def SeekEnd_def split_beta)
  moreover have "n \<le> MaxInt64 \<longleftrightarrow> uint n < 9223372036854775808"
    by (auto simp: MaxInt64_def word_le_def)
  moreover have "n \<le> MaxInt64 \<Longrightarrow> seek_ok (uint n) offset r (seek_to r n offset)"
    using seek_to_ok [of n] by (simp add: sint_uint_small)
  moreover have "seek_ok 0 offset r (seek_to r 0 offset)"
    using seek_to_ok [of 0] by simp
  ultimately show ?thesis
    using size seek_to_ok [of "br_off r" offset r]
    by (auto simp: BlobReader_Seek_def SeekStart_def SeekCurrent_def SeekEnd_def Let_def
        n_def [symmetric] h_def [symmetric] seek_rejected_def not_less split: option.split)
qed

end
