(* ===== verification/Lance_Lifecycle.thy ===== *)
theory Lance_Lifecycle
  imports Lance_Dataset Lance_Blob "HOL-Library.Multiset"
begin

text \<open>
  The life cycle that datasets (\<^verbatim>\<open>dataset.go\<close>), fragments (\<^verbatim>\<open>fragment.go\<close>), sessions (\<^verbatim>\<open>session.go\<close>) and
  blob lists (\<^verbatim>\<open>blob.go\<close>) share: each owns one native object, and \<^verbatim>\<open>Close\<close> releases it. The
  contract is an interface; that closing again is harmless and that a program of \<^verbatim>\<open>Close\<close> calls releases
  every object once is proved from it.
\<close>

fun close_all :: "('h \<Rightarrow> ('n, 'p, unit) go) \<Rightarrow> 'h list \<Rightarrow> ('n, 'p, unit) go" where
  "close_all close [] = ret ()"
| "close_all close (x # xs) = do { close x; close_all close xs }"

locale closable =
  fixes close :: "'h \<Rightarrow> ('n, 'p, unit) go"
    and cell :: "'h \<Rightarrow> nat"
  assumes close_open: "handle_ptr (cell x) w = Some q \<Longrightarrow>
      run_state (close x) w = ((), w\<lparr>closed := closed w @ [q], handles := (handles w)(cell x \<mapsto> \<lparr>h_ptr = None, h_cleanup = None\<rparr>)\<rparr>)"
    and close_closed: "handle_ptr (cell x) w = None \<Longrightarrow> run_state (close x) w = ((), w)"
begin

lemma closed_after: "run_state (close x) w = (u, w') \<Longrightarrow> handle_ptr (cell x) w' = None"
  by (cases "handle_ptr (cell x) w") (auto simp: close_open close_closed handle_ptr_def)

lemma close_others:
  assumes "run_state (close x) w = (u, w')" and "h \<noteq> cell x"
  shows "handle_ptr h w' = handle_ptr h w"
  using assms by (cases "handle_ptr (cell x) w") (auto simp: close_open close_closed handle_ptr_def)

lemma close_keeps:
  assumes "run_state (close x) w = (u, w')"
  shows "native w' = native w" "exported w' = exported w" "c_mem w' = c_mem w" "held w' = held w" "plugins w' = plugins w"
  using assms by (cases "handle_ptr (cell x) w"; auto simp: close_open close_closed c_mem_def)+

lemma close_twice: "run_state (do { close x; close x }) w = run_state (close x) w"
proof -
  obtain w' where w': "run_state (close x) w = ((), w')" by (metis old.unit.exhaust surj_pair)
  then show ?thesis using close_closed [OF closed_after [OF w']] by simp
qed

text \<open>A program of \<^verbatim>\<open>Close\<close> calls, with repetitions, in any order: the objects that were open are
  released once each, and no other object is.\<close>

lemma close_all_once:
  assumes "run_state (close_all close xs) w = (u, w')"
  shows "mset (closed w') = mset (closed w) +
      image_mset (\<lambda>h. the (handle_ptr h w)) (mset_set {h \<in> cell ` set xs. handle_ptr h w \<noteq> None})"
  using assms
proof (induction xs arbitrary: w)
  case (Cons x xs)
  obtain w1 where w1: "run_state (close x) w = ((), w1)" by (metis old.unit.exhaust surj_pair)
  then have rest: "run_state (close_all close xs) w1 = (u, w')" using Cons.prems by simp
  let ?S = "\<lambda>v ys. {h \<in> cell ` set ys. handle_ptr h v \<noteq> None}"
  have off: "handle_ptr (cell x) w1 = None" by (rule closed_after [OF w1])
  have same: "handle_ptr h w1 = handle_ptr h w" if "h \<noteq> cell x" for h
    using close_others [OF w1 that] .
  have S: "?S w1 xs = ?S w (x # xs) - {cell x}"
    using off same by (auto simp: image_iff) (metis option.distinct(1))+
  have vals: "image_mset (\<lambda>h. the (handle_ptr h w1)) (mset_set (?S w1 xs)) =
      image_mset (\<lambda>h. the (handle_ptr h w)) (mset_set (?S w (x # xs) - {cell x}))"
    unfolding S using same by (intro image_mset_cong) auto
  show ?case
  proof (cases "handle_ptr (cell x) w")
    case None
    then have "?S w (x # xs) - {cell x} = ?S w (x # xs)" by auto
    with Cons.IH [OF rest] vals None w1 show ?thesis by (simp add: close_closed)
  next
    case (Some q)
    then have mem: "cell x \<in> ?S w (x # xs)" by simp
    have "mset (closed w1) = mset (closed w) + {#q#}" using Some w1 by (auto simp: close_open)
    moreover have "image_mset (\<lambda>h. the (handle_ptr h w)) (mset_set (?S w (x # xs))) =
        {#q#} + image_mset (\<lambda>h. the (handle_ptr h w)) (mset_set (?S w (x # xs) - {cell x}))"
      using Some mset_set.remove [OF _ mem] by simp
    ultimately show ?thesis using Cons.IH [OF rest] vals by simp
  qed
qed simp

end

text \<open>All four kinds of handles satisfy the contract.\<close>

lemma run_locked_close:
  "run_state (locked l (handle_close h)) w = ((), case handle_ptr h w of
      None \<Rightarrow> w
    | Some q \<Rightarrow> w\<lparr>closed := closed w @ [q], handles := (handles w)(h \<mapsto> \<lparr>h_ptr = None, h_cleanup = None\<rparr>)\<rparr>)"
  by (auto simp: handle_close_def locked_def lock_def unlock_def close_native_def handle_ptr_def split: option.splits)

interpretation dataset_handle: closable Dataset_Close ds_h
  by unfold_locales (simp_all add: Dataset_Close_def run_locked_close)

interpretation fragment_handle: closable Fragment_Close fr_h
  by unfold_locales (simp_all add: Fragment_Close_def run_locked_close)

interpretation session_handle: closable Session_Close se_h
  by unfold_locales (simp_all add: Session_Close_def run_locked_close)

interpretation blob_list_handle: closable BlobList_Close bl_h
  by unfold_locales (simp_all add: BlobList_Close_def run_locked_close)

end
