(* ===== verification/Lance_Api.thy ===== *)
theory Lance_Api
  imports Lance_Index Lance_Lifecycle
begin

text \<open>
  Programs over the package: sequences of calls that change a dataset, each one the model of a
  public method of \<^verbatim>\<open>lance/mutation.go\<close>, \<^verbatim>\<open>lance/evolution.go\<close>, \<^verbatim>\<open>lance/hooks.go\<close>, \<^verbatim>\<open>lance/branch.go\<close>,
  \<^verbatim>\<open>lance/version.go\<close>, \<^verbatim>\<open>lance/config.go\<close>, \<^verbatim>\<open>lance/maintenance.go\<close>, \<^verbatim>\<open>lance/transaction.go\<close> or \<^verbatim>\<open>lance/index.go\<close>.
  What the calls promise is an interface (a locale), and what holds of whole programs is proved
  from it once.
\<close>

section \<open>Calls\<close>

datatype 'p api_call =
    DeleteCall dataset string
  | UpdateCall dataset UpdateSpec
  | MergeInsertCall MergeInsertBuilder
  | AppendCall dataset
  | AddColumnsCall dataset string addColumnsSpec bool bool
  | DropColumnsCall dataset "string list"
  | AlterColumnsCall dataset "ColumnAlteration list"
  | MergeCall dataset bool string string
  | AddColumnsUDFCall dataset "'p option" "'p UDFOption list"
  | CheckoutLatestCall dataset
  | RestoreCall dataset
  | TagCreateCall dataset string Ref
  | TagDeleteCall dataset string
  | DeleteBranchCall dataset string bool
  | UpdateConfigCall dataset gomap
  | DeleteConfigKeysCall dataset "string list"
  | TruncateTableCall dataset
  | CompactFilesCall dataset CompactionOptions
  | CommitCall CommitBuilder "Transaction option"
  | CreateIndexCall dataset string IndexConfig "IndexOption list"
  | DropIndexCall dataset string
  | OptimizeIndicesCall dataset "OptimizeOption list"

definition err_only :: "('n, 'p, goerr + 'a) go \<Rightarrow> ('n, 'p, goerr option) go" where
  "err_only m = do { r \<leftarrow> m; ret (err_of r) }"

primrec exec_call :: "ctx \<Rightarrow> 'n lance_ffi \<Rightarrow> 'p api_call \<Rightarrow> ('n, 'p, goerr option) go" where
  "exec_call c F (DeleteCall d predicate) = err_only (Dataset_Delete F c d predicate)"
| "exec_call c F (UpdateCall d spec) = err_only (Dataset_Update F c d spec)"
| "exec_call c F (MergeInsertCall b) = err_only (MergeInsertBuilder_Execute F c b)"
| "exec_call c F (AppendCall d) = Append F c d"
| "exec_call c F (AddColumnsCall d name spec rdr schema) = addColumns F c d name spec rdr schema"
| "exec_call c F (DropColumnsCall d cols) = DropColumns F c d cols"
| "exec_call c F (AlterColumnsCall d alts) = AlterColumns F c d alts"
| "exec_call c F (MergeCall d rdr leftOn rightOn) = Dataset_Merge F c d rdr leftOn rightOn"
| "exec_call c F (AddColumnsUDFCall d fn opts) = AddColumnsUDF F c d fn opts"
| "exec_call c F (CheckoutLatestCall d) = CheckoutLatest F c d"
| "exec_call c F (RestoreCall d) = Restore F c d"
| "exec_call c F (TagCreateCall d name ref) = Tags_Create F c d name ref"
| "exec_call c F (TagDeleteCall d name) = Tags_Delete F c d name"
| "exec_call c F (DeleteBranchCall d name force) = DeleteBranch F c d name force"
| "exec_call c F (UpdateConfigCall d kv) = err_only (UpdateConfig F c d kv)"
| "exec_call c F (DeleteConfigKeysCall d keys) = DeleteConfigKeys F c d keys"
| "exec_call c F (TruncateTableCall d) = TruncateTable F c d"
| "exec_call c F (CompactFilesCall d opts) = err_only (CompactFiles F c d opts)"
| "exec_call c F (CommitCall b txn) = err_only (CommitBuilder_Execute F c b txn)"
| "exec_call c F (CreateIndexCall d column cfg opts) = CreateIndex F c d column cfg opts"
| "exec_call c F (DropIndexCall d name) = DropIndex F c d name"
| "exec_call c F (OptimizeIndicesCall d opts) = OptimizeIndices F c d opts"

text \<open>The Arrow structures a call exports.\<close>

fun call_structs :: "'p api_call \<Rightarrow> nat" where
  "call_structs (MergeInsertCall b) = 1"
| "call_structs (AppendCall d) = 1"
| "call_structs (AddColumnsCall d name spec rdr schema) = of_bool rdr + of_bool schema"
| "call_structs (MergeCall d rdr leftOn rightOn) = 1"
| "call_structs (AddColumnsUDFCall d fn opts) = 1"
| "call_structs (CreateIndexCall d column cfg opts) = pair_structs (arrowParams cfg)"
| "call_structs _ = 0"

section \<open>Programs over an interface\<close>

fun exec_all :: "('f \<Rightarrow> 'x \<Rightarrow> ('n, 'p, goerr option) go) \<Rightarrow> 'f \<Rightarrow> 'x list \<Rightarrow> ('n, 'p, goerr option list) go" where
  "exec_all exec F [] = ret []"
| "exec_all exec F (x # xs) = do { e \<leftarrow> exec F x; es \<leftarrow> exec_all exec F xs; ret (e # es) }"

text \<open>The structures of the calls that \<^verbatim>\<open>ffiCall\<close> rejected.\<close>

definition rejected :: "goerr option \<Rightarrow> bool" where
  "rejected e = (case e of None \<Rightarrow> False | Some err \<Rightarrow> rejection err)"

fun lost_structs :: "('x \<Rightarrow> nat) \<Rightarrow> 'x list \<Rightarrow> goerr option list \<Rightarrow> nat" where
  "lost_structs structs (x # xs) (e # es) = (if rejected e then structs x else 0) + lost_structs structs xs es"
| "lost_structs structs _ _ = 0"

locale exporting_api =
  fixes lib_ok :: "'f \<Rightarrow> bool"
    and exec :: "'f \<Rightarrow> 'x \<Rightarrow> ('n, 'p, goerr option) go"
    and structs :: "'x \<Rightarrow> nat"
  assumes contract: "lib_ok F \<Longrightarrow> hands_do (structs x) (exec F x)"
begin

lemma call_step:
  assumes "lib_ok F" and "run_state (exec F x) w = (e, w')"
  shows "c_mem w' = c_mem w" "held w' = held w" "prefixed_opt e"
    "\<exists>zs. exported w' = zs @ exported w \<and> length zs \<le> (if rejected e then structs x else 0)"
proof -
  have h: "hands_do (structs x) (exec F x)"
    using assms(1) by (rule contract)
  show "c_mem w' = c_mem w" "held w' = held w"
    using h keepsD [OF _ assms(2)] unfolding hands_do_def by blast+
  show "prefixed_opt e"
    using h assms(2) unfolding hands_do_def yields_def by (metis fst_conv)
  have "handed (structs x) (exported w) e (exported w')"
    using h endsD [OF _ assms(2)] unfolding hands_do_def by blast
  then show "\<exists>zs. exported w' = zs @ exported w \<and> length zs \<le> (if rejected e then structs x else 0)"
    unfolding handed_def rejected_def by fastforce
qed

lemma program_accounted:
  assumes "lib_ok F" and "run_state (exec_all exec F xs) w = (es, w')"
  shows "length es = length xs \<and> c_mem w' = c_mem w \<and> held w' = held w \<and> list_all prefixed_opt es \<and>
    (\<exists>zs. exported w' = zs @ exported w \<and> length zs \<le> lost_structs structs xs es)"
  using assms(2)
proof (induction xs arbitrary: w es)
  case (Cons x xs)
  obtain e w1 where x: "run_state (exec F x) w = (e, w1)"
    by fastforce
  obtain es' where xs: "run_state (exec_all exec F xs) w1 = (es', w')" and es: "es = e # es'"
    using Cons.prems x by (auto simp: split_beta prod_eq_iff)
  obtain zs where zs: "exported w1 = zs @ exported w" "length zs \<le> (if rejected e then structs x else 0)"
    using call_step(4) [OF assms(1) x] by blast
  obtain ys where "exported w' = ys @ exported w1" "length ys \<le> lost_structs structs xs es'"
    using Cons.IH [OF xs] by blast
  with zs have "exported w' = (ys @ zs) @ exported w" "length (ys @ zs) \<le> lost_structs structs (x # xs) es"
    by (auto simp: es)
  with Cons.IH [OF xs] call_step(1-3) [OF assms(1) x] show ?case
    unfolding es by (metis length_Cons list.pred_inject(2))
qed simp

end

section \<open>The package provides the interface\<close>

lemma hands_of_keeps: "keeps exported m \<Longrightarrow> ends exported (handed n) m"
  by (simp add: ends_def keeps_def)

lemma keeps_err_only: "keeps f m \<Longrightarrow> keeps f (err_only m)"
  unfolding err_only_def by (intro keeps_rules)

lemma hands_of_contract:
  "op_contract m \<Longrightarrow> hands_do n (err_only m)" "do_contract m' \<Longrightarrow> hands_do n m'"
  unfolding contract_defs hands_defs
  by (auto intro!: keeps_err_only hands_of_keeps) (auto simp: err_only_def intro!: yields_err_of)

lemma hands_err_only: "hands_op n m \<Longrightarrow> hands_do n (err_only m)"
  unfolding hands_defs
  by (auto intro!: keeps_err_only) (auto simp: err_only_def intro!: yields_err_of handed_err_of)

lemmas call_contracts = version_do_contracts config_do_contracts mutation_do_contracts index_do_contracts
  config_map_contracts config_json_contracts mutation_json_contracts commit_contracts

lemmas call_hands = hands_Append hands_addColumns hands_Merge hands_AddColumnsUDF hands_CreateIndex

lemma exec_call_contract:
  assumes "quiet F"
  shows "hands_do (call_structs x) (exec_call c F x)"
  using assms hands_err_only [OF hands_MergeInsert [OF assms]]
  by (cases x) (simp_all add: hands_of_contract call_contracts call_hands)

interpretation api: exporting_api quiet "exec_call c" call_structs for c
  by unfold_locales (rule exec_call_contract)


section \<open>Closed datasets\<close>

text \<open>What a call on a closed dataset must not change.\<close>

definition idle :: "('n, 'p) world \<Rightarrow> 'n \<times> nat list \<times> (nat \<Rightarrow> handle option)" where
  "idle w = (native w, exported w, handles w)"

lemma keeps_idle: "keeps native m \<Longrightarrow> keeps exported m \<Longrightarrow> keeps handles m \<Longrightarrow> keeps idle m"
  by (simp add: keeps_def idle_def)

lemma keeps_idle_memory:
  "keeps idle c_malloc" "keeps idle (c_free a)" "keeps idle (c_mallocs n)" "keeps idle (c_frees as)"
  "keeps idle (c_alloc x)" "keeps idle (free_cptr p)"
  by (rule keeps_idle; auto intro!: keeps_native_memory keeps_c_malloc keeps_c_free keeps_c_mallocs keeps_c_frees keeps_c_alloc keeps_free_cptr)+

definition shut :: "nat \<Rightarrow> ('r \<Rightarrow> bool) \<Rightarrow> ('n, 'p, 'r) go \<Rightarrow> bool" where
  "shut h failed m = (\<forall>w. handle_ptr h w = None \<longrightarrow>
     failed (fst (run_state m w)) \<and> idle (snd (run_state m w)) = idle w)"

lemma handle_ptr_idle: "idle v = idle w \<Longrightarrow> handle_ptr h v = handle_ptr h w"
  by (simp add: idle_def handle_ptr_def)

text \<open>An error is returned.\<close>

definition is_err :: "goerr option \<Rightarrow> bool" where
  "is_err e = (case e of None \<Rightarrow> False | Some _ \<Rightarrow> True)"

lemma is_err_simps [simp]: "is_err (Some e)" "\<not> is_err None" "isl r \<Longrightarrow> is_err (err_of r)"
  by (auto simp: is_err_def isl_def)

lemma shut_return: "failed r \<Longrightarrow> shut h failed (ret r)"
  by (simp add: shut_def)

lemma shut_if: "(b \<Longrightarrow> shut h failed m) \<Longrightarrow> (\<not> b \<Longrightarrow> shut h failed n) \<Longrightarrow> shut h failed (if b then m else n)"
  by simp

lemma shut_bind:
  fixes p :: "('n, 'p, 'a) go"
  assumes "keeps idle p" and "\<And>x. shut h failed (g x)"
  shows "shut h failed (State_Monad.bind p g)"
  unfolding shut_def
proof (intro allI impI)
  fix w :: "('n, 'p) world" assume "handle_ptr h w = None"
  moreover obtain x v where p: "run_state p w = (x, v)" by fastforce
  moreover from this have "idle v = idle w" using assms(1) by (rule keepsD [rotated])
  ultimately show "failed (fst (run_state (State_Monad.bind p g) w)) \<and> idle (snd (run_state (State_Monad.bind p g) w)) = idle w"
    using assms(2) [of x] handle_ptr_idle [of v w h] by (simp add: shut_def)
qed

lemma shut_after:
  assumes "shut h failed m" and "\<And>r. failed r \<Longrightarrow> failed' (k r)" and "\<And>r. keeps idle (g r)"
  shows "shut h failed' (do { r \<leftarrow> m; g r; ret (k r) })"
  using assms unfolding shut_def keeps_def by (simp add: split_beta)

lemma shut_map:
  "shut h failed m \<Longrightarrow> (\<And>r. failed r \<Longrightarrow> failed' (k r)) \<Longrightarrow> shut h failed' (do { r \<leftarrow> m; ret (k r) })"
  unfolding shut_def by (simp add: split_beta)

lemma shut_deferring: "shut h failed m \<Longrightarrow> keeps idle d \<Longrightarrow> shut h failed (deferring d m)"
  unfolding deferring_def by (rule shut_after) auto

lemma shut_with_cString: "(\<And>x. shut h failed (body x)) \<Longrightarrow> shut h failed (with_cString t body)"
  unfolding with_cString_def cString_def
  by (intro shut_bind shut_deferring keeps_if keeps_return keeps_idle_memory)

lemma shut_with_cStrings: "(\<And>x. shut h failed (body x)) \<Longrightarrow> shut h failed (with_cStrings xs body)"
  unfolding with_cStrings_def freeKV_def
  by (auto intro!: shut_bind shut_deferring keeps_bind keeps_return keeps_idle_memory)

lemma shut_with_options: "(\<And>x. shut h isl (body x)) \<Longrightarrow> shut h isl (with_options v body)"
  unfolding with_options_def by (auto intro!: shut_with_cString shut_return split: sum.split)

lemma shut_with_options_do:
  "(\<And>x. shut h is_err (body x)) \<Longrightarrow> shut h is_err (with_options_do v body)"
  unfolding with_options_do_def by (auto intro!: shut_with_cString shut_return split: sum.split)

lemma shut_observed: "shut h failed m \<Longrightarrow> shut h failed (observed ob name attrs extra m)"
  unfolding shut_def run_observed by (simp add: idle_def handle_ptr_def split_beta)

lemma shut_datasetOp: "never_done c \<Longrightarrow> shut (ds_h d) isl (datasetOp c d name verb fn attrs)"
  by (simp add: shut_def run_datasetOp never_done_def idle_def Let_def)

lemma shut_datasetDo: "never_done c \<Longrightarrow> shut (ds_h d) is_err (datasetDo c d name verb fn attrs)"
  unfolding datasetDo_def by (rule shut_map [OF shut_datasetOp]) simp_all

lemma shut_dataset_locked: "never_done c \<Longrightarrow> shut (ds_h d) isl (dataset_locked c d body)"
  by (simp add: shut_def dataset_locked_def Dataset_checkOpen_def check_handle_def locked_def lock_def unlock_def never_done_def
      idle_def handle_ptr_def)

lemma shut_with_plugin: "(\<And>x. shut h failed (body x)) \<Longrightarrow> shut h failed (with_plugin p body)"
  unfolding with_plugin_def
  by (cases p) (auto intro!: shut_bind shut_deferring simp: keeps_def idle_def register_plugin_def release_plugin_def split_beta)

lemmas shut_rules = shut_if shut_return shut_with_cString shut_with_cStrings shut_with_options shut_with_options_do
  shut_observed shut_datasetOp shut_datasetDo shut_dataset_locked shut_with_plugin

text \<open>The dataset a call goes to.\<close>

primrec call_dataset :: "'p api_call \<Rightarrow> dataset option" where
  "call_dataset (DeleteCall d predicate) = Some d"
| "call_dataset (UpdateCall d spec) = Some d"
| "call_dataset (MergeInsertCall b) = Some (mb_ds b)"
| "call_dataset (AppendCall d) = Some d"
| "call_dataset (AddColumnsCall d name spec rdr schema) = Some d"
| "call_dataset (DropColumnsCall d cols) = Some d"
| "call_dataset (AlterColumnsCall d alts) = Some d"
| "call_dataset (MergeCall d rdr leftOn rightOn) = Some d"
| "call_dataset (AddColumnsUDFCall d fn opts) = Some d"
| "call_dataset (CheckoutLatestCall d) = Some d"
| "call_dataset (RestoreCall d) = Some d"
| "call_dataset (TagCreateCall d name ref) = Some d"
| "call_dataset (TagDeleteCall d name) = Some d"
| "call_dataset (DeleteBranchCall d name force) = Some d"
| "call_dataset (UpdateConfigCall d kv) = Some d"
| "call_dataset (DeleteConfigKeysCall d keys) = Some d"
| "call_dataset (TruncateTableCall d) = Some d"
| "call_dataset (CompactFilesCall d opts) = Some d"
| "call_dataset (CommitCall b txn) = None"
| "call_dataset (CreateIndexCall d column cfg opts) = Some d"
| "call_dataset (DropIndexCall d name) = Some d"
| "call_dataset (OptimizeIndicesCall d opts) = Some d"

lemma keeps_idle_record: "keeps idle (recordRows ob op kind n)" "keeps idle (merge_record ob op r)"
  by (intro keeps_rules; simp add: silent_def idle_def)+

lemma shut_call:
  assumes "never_done c" and "call_dataset x = Some d"
  shows "shut (ds_h d) is_err (exec_call c F x)"
  using assms
  by (cases x)
    (auto intro!: shut_rules shut_map [where failed = isl] shut_after [where failed = isl] keeps_idle_record
      simp: err_only_def Let_def
       Dataset_Delete_def Dataset_Update_def MergeInsertBuilder_Execute_def Append_def addColumns_def DropColumns_def
       AlterColumns_def Dataset_Merge_def AddColumnsUDF_def CheckoutLatest_def Restore_def Tags_Create_def Tags_Delete_def
       Tags_mutate_def DeleteBranch_def UpdateConfig_def updateMap_def DeleteConfigKeys_def TruncateTable_def CompactFiles_def
       CreateIndex_def DropIndex_def OptimizeIndices_def split: option.split)


lemma shut_program:
  assumes "never_done c" and "list_all (\<lambda>x. call_dataset x = Some d) xs" and "handle_ptr (ds_h d) w = None"
    and "run_state (exec_all (exec_call c) F xs) w = (es, w')"
  shows "length es = length xs \<and> list_all is_err es \<and> idle w' = idle w"
  using assms(2-4)
proof (induction xs arbitrary: w es)
  case (Cons x xs)
  obtain e w1 where x: "run_state (exec_call c F x) w = (e, w1)"
    by fastforce
  obtain es' where xs: "run_state (exec_all (exec_call c) F xs) w1 = (es', w')" and es: "es = e # es'"
    using Cons.prems(3) x by (auto simp: split_beta prod_eq_iff)
  have "is_err e" and w1: "idle w1 = idle w"
    using shut_call [OF assms(1), of x d F] Cons.prems(1,2) x unfolding shut_def by (auto dest!: spec [of _ w])
  moreover have "handle_ptr (ds_h d) w1 = None"
    using Cons.prems(2) handle_ptr_idle [OF w1] by simp
  ultimately show ?case
    using Cons.IH [OF _ _ xs] Cons.prems(1) by (simp add: es)
qed simp

end
