(* ===== verification/Lance_Shim.thy ===== *)
theory Lance_Shim
  imports Lance_Ops
begin

text \<open>
  The native side of the callback bridge and the code on both sides that sets it up:
  the thread-local error slot (\<^verbatim>\<open>rust/src/error.rs\<close>), the vtable and \<^verbatim>\<open>GoPlugin\<close>
  (\<^verbatim>\<open>rust/src/callbacks.rs\<close>), the cancellable test sleep (\<^verbatim>\<open>rust/src/runtime.rs\<close>), the package
  \<^verbatim>\<open>init\<close> (\<^verbatim>\<open>lance/callbacks_init.go\<close>), \<^verbatim>\<open>Version\<close> (\<^verbatim>\<open>lance/lance.go\<close>) and the Go drivers of the
  bridge (\<^verbatim>\<open>lance/callbacks.go\<close>, \<^verbatim>\<open>lance/errors.go\<close>). Here the native state is not a parameter
  but the state of the shim, so a call goes the whole way: from Go through \<^verbatim>\<open>ffiCall\<close> into
  the shim, through the vtable into the registered Go plugin, and back with its answer.
\<close>

section \<open>Text that crosses the boundary\<close>

text \<open>Rust's \<^verbatim>\<open>String::from_utf8_lossy\<close>: every maximal ill-formed part is replaced by U+FFFD.\<close>

text \<open>One character or one ill-formed part (\<^verbatim>\<open>utf8_second\<close> and \<^verbatim>\<open>utf8_tail\<close> read its bytes): what it is replaced by and what is left.\<close>

definition utf8_chunk :: "byte \<Rightarrow> bytes \<Rightarrow> bytes \<times> bytes" where
  "utf8_chunk b bs =
     (if unat b < 128 then ([b], bs)
      else case utf8_second (unat b) of
        None \<Rightarrow> (utf8_replacement, bs)
      | Some (lo, hi, n) \<Rightarrow>
          (case bs of
             [] \<Rightarrow> (utf8_replacement, [])
           | c # cs \<Rightarrow>
               if lo \<le> unat c \<and> unat c \<le> hi then
                 (case utf8_tail n cs of (xs, rest, ok) \<Rightarrow>
                    (if ok then b # c # xs else utf8_replacement, rest))
               else (utf8_replacement, bs)))"

lemma utf8_chunk_length: "length (snd (utf8_chunk b bs)) \<le> length bs"
  by (auto simp: utf8_chunk_def dest: utf8_tail_length split: option.split list.split prod.split)

function utf8_lossy :: "bytes \<Rightarrow> bytes" where
  "utf8_lossy [] = []"
| "utf8_lossy (b # bs) = fst (utf8_chunk b bs) @ utf8_lossy (snd (utf8_chunk b bs))"
  by pat_completeness auto
termination
  by (relation "measure length") (simp_all add: utf8_chunk_length le_imp_less_Suc)

lemma utf8_lossy_ascii: "(\<forall>b \<in> set bs. unat b < 128) \<Longrightarrow> utf8_lossy bs = bs"
  by (induction bs) (simp_all add: utf8_chunk_def)

text \<open>\<^verbatim>\<open>set_error\<close> replaces the NUL bytes of a message by spaces.\<close>

definition sanitize :: "string \<Rightarrow> string" where
  "sanitize msg = map (\<lambda>c. if c = CHR 0x00 then CHR '' '' else c) msg"

lemma sanitize_no_NUL: "CHR 0x00 \<notin> set (sanitize msg)"
  by (auto simp: sanitize_def split: if_splits)

lemma sanitize_id: "CHR 0x00 \<notin> set msg \<Longrightarrow> sanitize msg = msg"
  by (auto simp: sanitize_def intro!: map_idI)

section \<open>The state of the shim\<close>

text \<open>\<^verbatim>\<open>LanceGoVTable\<close>: the version and whether each function-pointer slot is set. The pointers
  are the two cgo exports.\<close>

record vtable =
  vt_abi_version :: u32
  vt_invoke :: bool
  vt_release :: bool

text \<open>The last error of the calling thread, the registered vtable, whether the thread is
  inside the Tokio runtime, the ABI versions the linked library was built with, what
  \<^verbatim>\<open>malloc\<close> answers, whether a cancellation token wins against a sleep of some milliseconds,
  the text with which the runtime panics on a nested \<^verbatim>\<open>block_on\<close>, and the state that the
  plugins act on.\<close>

record 's shim =
  last_error :: "(int \<times> string) option"
  VTABLE :: "vtable option"
  in_runtime :: bool
  lib_abi_version :: u32
  lib_vtable_abi_version :: u32
  malloc_ok :: "nat \<Rightarrow> bool"
  token_wins :: "nat \<Rightarrow> u64 \<Rightarrow> bool"
  block_on_panic :: string
  plugin_state :: 's

definition set_error :: "int \<Rightarrow> string \<Rightarrow> ('s shim, 'p, int) go" where
  "set_error code msg = do {
     modify (\<lambda>w. w\<lparr>native := (native w)\<lparr>last_error := Some (code, sanitize msg)\<rparr>\<rparr>);
     ret code
   }"

definition error_ok :: "('s shim, 'p, int) go" where
  "error_ok = do {
     modify (\<lambda>w. w\<lparr>native := (native w)\<lparr>last_error := None\<rparr>\<rparr>);
     ret ERROR_CODE_OK
   }"

text \<open>The three functions that \<^verbatim>\<open>ffiCall\<close> itself uses, as the shim implements them.\<close>

definition shim_ffi :: "'s shim lance_ffi \<Rightarrow> 's shim lance_ffi" where
  "shim_ffi F = F\<lparr>
     lance_in_tokio_runtime := (\<lambda>n. if in_runtime n then 1 else 0),
     lance_last_error_code := (\<lambda>n. case last_error n of Some (code, _) \<Rightarrow> code | None \<Rightarrow> ERROR_CODE_OK),
     lance_last_error_message := (\<lambda>n. map_option snd (last_error n))\<rparr>"

lemma shim_ffi_simps [simp]:
  "lance_in_tokio_runtime (shim_ffi F) n = (if in_runtime n then 1 else 0)"
  "lance_last_error_code (shim_ffi F) n = (case last_error n of Some (code, _) \<Rightarrow> code | None \<Rightarrow> ERROR_CODE_OK)"
  "lance_last_error_message (shim_ffi F) n = map_option snd (last_error n)"
  by (simp_all add: shim_ffi_def)

lemma run_set_error [simp]:
  "run_state (set_error code msg) w = (code, w\<lparr>native := (native w)\<lparr>last_error := Some (code, sanitize msg)\<rparr>\<rparr>)"
  by (simp add: set_error_def)

lemma run_error_ok [simp]:
  "run_state error_ok w = (ERROR_CODE_OK, w\<lparr>native := (native w)\<lparr>last_error := None\<rparr>\<rparr>)"
  by (simp add: error_ok_def)

text \<open>The error that Go makes of a message left in the slot.\<close>

definition native_error :: "int \<Rightarrow> string \<Rightarrow> goerr" where
  "native_error code msg = Wrapf [] (sentinel_err (codeToSentinel code)) [Lit '': '', Str (sanitize msg)]"

lemma lastError_slot:
  "last_error n = Some (code, sanitize msg) \<Longrightarrow> code \<noteq> ERROR_CODE_OK \<Longrightarrow>
     lastError (shim_ffi F) n = Some (native_error code msg)"
  by (simp add: lastError_def native_error_def)

section \<open>The vtable\<close>

definition LANCE_GO_ABI_VERSION :: u32 where "LANCE_GO_ABI_VERSION = 1"
definition LANCE_GO_VTABLE_ABI_VERSION :: u32 where "LANCE_GO_VTABLE_ABI_VERSION = 1"

definition lance_register_go_vtable :: "vtable option \<Rightarrow> ('s shim, 'p, int) go" where
  "lance_register_go_vtable vt0 = (case vt0 of
       None \<Rightarrow> set_error ERROR_CODE_INVALID_ARGUMENT ''vtable must not be NULL''
     | Some vt \<Rightarrow> do {
         want \<leftarrow> reads (\<lambda>w. lib_vtable_abi_version (native w));
         if vt_abi_version vt \<noteq> want then
           set_error ERROR_CODE_INVALID_ARGUMENT
             (''go vtable ABI version mismatch: got '' @ dec_int (uint (vt_abi_version vt)) @ '', expected '' @
              dec_int (uint want) @ '' (rebuild the native library and the Go package together)'')
         else if \<not> vt_invoke vt \<or> \<not> vt_release vt then
           set_error ERROR_CODE_INVALID_ARGUMENT ''go vtable has NULL function-pointer slots''
         else do {
           old \<leftarrow> reads (\<lambda>w. VTABLE (native w));
           case old of
             Some _ \<Rightarrow> set_error ERROR_CODE_ALREADY_EXISTS ''go callback vtable already registered''
           | None \<Rightarrow> do { modify (\<lambda>w. w\<lparr>native := (native w)\<lparr>VTABLE := Some vt\<rparr>\<rparr>); error_ok }
         }
       })"

text \<open>The C helper of \<^verbatim>\<open>callbacks_init.go\<close>.\<close>

definition lance_go_register_callback_vtable :: "('s shim, 'p, int) go" where
  "lance_go_register_callback_vtable =
     lance_register_go_vtable (Some \<lparr>vt_abi_version = LANCE_GO_VTABLE_ABI_VERSION, vt_invoke = True, vt_release = True\<rparr>)"

text \<open>The package \<^verbatim>\<open>init\<close>: it returns or the process panics.\<close>

definition init :: "'s shim lance_ffi \<Rightarrow> ('s shim, 'p, unit outcome) go" where
  "init F = do {
     got \<leftarrow> reads (\<lambda>w. lib_abi_version (native w));
     if got \<noteq> LANCE_GO_ABI_VERSION then
       ret (Panic (''lance: native ABI version mismatch: linked library has '' @ dec_int (uint got) @
                   '', Go bindings require '' @ dec_int (uint LANCE_GO_ABI_VERSION)))
     else do {
       (err, _) \<leftarrow> ffiCall F background () (do { rc \<leftarrow> lance_go_register_callback_vtable; ret (rc, ()) });
       case err of
         Some e \<Rightarrow> ret (Panic (''lance: registering the Go callback vtable failed: '' @ err_text e))
       | None \<Rightarrow> ret (Ret ())
     }
   }"

section \<open>Version\<close>

text \<open>\<^verbatim>\<open>lance_version\<close> returns a fresh C string that the caller owns.\<close>

definition LANCE_VERSION :: string where "LANCE_VERSION = ''8.0.0''"
definition CARGO_PKG_VERSION :: string where "CARGO_PKG_VERSION = ''0.1.0''"

definition lance_version :: "('s shim, 'p, ctext cptr) go" where
  "lance_version = c_alloc (Text (''lance-go-ffi '' @ CARGO_PKG_VERSION @ '' (lance '' @ LANCE_VERSION @ '')''))"

definition Version :: "('s shim, 'p, ctext) go" where
  "Version = do {
     cs \<leftarrow> lance_version;
     deferring (lance_string_free cs) (ret (case cs of None \<Rightarrow> Text [] | Some (_, t) \<Rightarrow> t))
   }"

section \<open>Calling a Go plugin\<close>

text \<open>The vtable's \<^verbatim>\<open>invoke\<close> slot is \<^verbatim>\<open>go_callback_invoke\<close> on the process's registry; a non-empty
  answer is a \<^verbatim>\<open>C.CBytes\<close> copy that the caller frees.\<close>

definition vtable_invoke ::
  "('p, 's) invoke \<Rightarrow> u64 \<Rightarrow> int \<Rightarrow> bytes \<Rightarrow> ('s shim, 'p, int \<times> bytes cptr \<times> u64) go" where
  "vtable_invoke invk handle method payload = do {
     (rc, out) \<leftarrow> State (\<lambda>w.
       case go_callback_invoke invk (plugins w) handle method (Some payload) (of_nat (length payload))
              \<lparr>outPtr_ok = True, outLen_ok = True, out_buf = None, out_len = 0\<rparr> (plugin_state (native w)) of
         (rc, out, s') \<Rightarrow> ((rc, out), w\<lparr>native := (native w)\<lparr>plugin_state := s'\<rparr>\<rparr>));
     p \<leftarrow> (case out_buf out of None \<Rightarrow> ret None | Some b \<Rightarrow> c_alloc b);
     ret (rc, p, out_len out)
   }"

definition GoPlugin_call ::
  "('p, 's) invoke \<Rightarrow> u64 \<Rightarrow> int \<Rightarrow> bytes \<Rightarrow> ('s shim, 'p, string + bytes option) go" where
  "GoPlugin_call invk handle method payload = do {
     vt \<leftarrow> reads (\<lambda>w. VTABLE (native w));
     case vt of
       None \<Rightarrow> ret (Inl ''go callback vtable not registered'')
     | Some v \<Rightarrow>
         if \<not> vt_invoke v then ret (Inl ''go callback vtable has no invoke slot'')
         else do {
           (rc, out_ptr, len) \<leftarrow> vtable_invoke invk handle method payload;
           let out_bytes = map_option (\<lambda>(_, b). take (unat len) b) out_ptr;
           free_cptr out_ptr;
           ret (if rc = LANCE_GO_CALL_OK then Inr (Some (nil_bytes out_bytes))
                else if rc = LANCE_GO_CALL_MISS then Inr None
                else Inl (case out_bytes of
                    Some bs \<Rightarrow> string_of_bytes (utf8_lossy bs)
                  | None \<Rightarrow> ''go plugin call failed with code '' @ dec_int rc @ '' and no message''))
         }
   }"

definition GoPlugin_release :: "u64 \<Rightarrow> ('s shim, 'p, unit) go" where
  "GoPlugin_release handle = do {
     vt \<leftarrow> reads (\<lambda>w. VTABLE (native w));
     case vt of
       None \<Rightarrow> ret ()
     | Some v \<Rightarrow> if vt_release v then modify (\<lambda>w. w\<lparr>plugins := go_handle_release handle (plugins w)\<rparr>) else ret ()
   }"

definition payload_slice :: "bytes option \<Rightarrow> u64 \<Rightarrow> bytes" where
  "payload_slice ptr n = (case ptr of None \<Rightarrow> [] | Some mem \<Rightarrow> if n = 0 then [] else take (unat n) mem)"

definition export_roundtrip_result ::
  "string + bytes option \<Rightarrow> ('s shim, 'p, int \<times> bytes cptr \<times> u64) go" where
  "export_roundtrip_result r = (case r of
       Inr (Some bs) \<Rightarrow>
         if bs = [] then do { rc \<leftarrow> error_ok; ret (rc, None, 0) }
         else do {
           fits \<leftarrow> reads (\<lambda>w. malloc_ok (native w) (length bs));
           if \<not> fits then do { rc \<leftarrow> set_error ERROR_CODE_INTERNAL ''malloc failed''; ret (rc, None, 0) }
           else do { p \<leftarrow> c_alloc bs; rc \<leftarrow> error_ok; ret (rc, p, of_nat (length bs)) }
         }
     | Inr None \<Rightarrow> do { rc \<leftarrow> set_error ERROR_CODE_NOT_FOUND ''go plugin returned a miss''; ret (rc, None, 0) }
     | Inl e \<Rightarrow> do { rc \<leftarrow> set_error ERROR_CODE_INTERNAL e; ret (rc, None, 0) })"

text \<open>The out parameters that the Go driver passes are never NULL, so the check for it is
  not reached; they are zeroed before the call. The asynchronous variant runs the same call
  on a blocking thread of the runtime; \<^verbatim>\<open>block_on\<close> panics when the calling thread is already
  inside it, and the guard around every export turns the panic into an error.\<close>

definition lance_test_callback_roundtrip ::
  "('p, 's) invoke \<Rightarrow> u64 \<Rightarrow> int \<Rightarrow> bytes option \<Rightarrow> u64 \<Rightarrow> ('s shim, 'p, int \<times> bytes cptr \<times> u64) go" where
  "lance_test_callback_roundtrip invk handle method payload len = do {
     r \<leftarrow> GoPlugin_call invk handle method (payload_slice payload len);
     export_roundtrip_result r
   }"

definition lance_test_callback_roundtrip_async ::
  "('p, 's) invoke \<Rightarrow> u64 \<Rightarrow> int \<Rightarrow> bytes option \<Rightarrow> u64 \<Rightarrow> ('s shim, 'p, int \<times> bytes cptr \<times> u64) go" where
  "lance_test_callback_roundtrip_async invk handle method payload len = do {
     n \<leftarrow> reads native;
     if in_runtime n then do {
       rc \<leftarrow> set_error ERROR_CODE_INTERNAL (''panic contained at lance-go FFI boundary: '' @ block_on_panic n);
       ret (rc, None, 0)
     }
     else do {
       r \<leftarrow> GoPlugin_call invk handle method (payload_slice payload len);
       export_roundtrip_result r
     }
   }"

section \<open>The Go drivers\<close>

definition roundtrip_closure ::
  "('p, 's) invoke \<Rightarrow> u64 \<Rightarrow> int \<Rightarrow> bytes \<Rightarrow> bool \<Rightarrow> ('s shim, 'p, int \<times> bytes cptr \<times> u64) go" where
  "roundtrip_closure invk handle method payload async =
     (let inPtr = (if length payload > 0 then Some payload else None) in
      if async then lance_test_callback_roundtrip_async invk handle method inPtr (of_nat (length payload))
      else lance_test_callback_roundtrip invk handle method inPtr (of_nat (length payload)))"

definition testCallbackRoundtrip ::
  "'s shim lance_ffi \<Rightarrow> ('p, 's) invoke \<Rightarrow> u64 \<Rightarrow> int \<Rightarrow> bytes \<Rightarrow> bool \<Rightarrow> ('s shim, 'p, goerr + bytes option) go" where
  "testCallbackRoundtrip F invk handle method payload async = do {
     (err, outPtr, outLen) \<leftarrow> ffiCall F background (None, 0) (roundtrip_closure invk handle method payload async);
     deferring (free_cptr outPtr) (ret (case err of
         Some e \<Rightarrow> Inl e
       | None \<Rightarrow> (case copyCBytes (map_option snd outPtr) outLen of
           Inl e \<Rightarrow> Inl (Wrapf [Lit ''lance: copy callback output: ''] e [])
         | Inr out_bytes \<Rightarrow> Inr out_bytes)))
   }"

definition testCallbackReleaseFromNative :: "u64 \<Rightarrow> ('s shim, 'p, unit) go" where
  "testCallbackReleaseFromNative handle = GoPlugin_release handle"

text \<open>\<^verbatim>\<open>block_on_cancellable\<close> races the sleep against the token in the thread's slot, if there is
  one.\<close>

definition lance_test_cancellable_sleep :: "u64 \<Rightarrow> ('s shim, 'p, int) go" where
  "lance_test_cancellable_sleep ms = do {
     token \<leftarrow> reads cancel_slot;
     n \<leftarrow> reads native;
     case token of
       None \<Rightarrow> error_ok
     | Some t \<Rightarrow> if token_wins n t ms then set_error ERROR_CODE_CANCELLED ''operation canceled by caller'' else error_ok
   }"

definition testCancellableSleep :: "'s shim lance_ffi \<Rightarrow> ctx \<Rightarrow> u64 \<Rightarrow> ('s shim, 'p, goerr option) go" where
  "testCancellableSleep F c ms = do {
     (err, _) \<leftarrow> ffiCall F c () (do { rc \<leftarrow> lance_test_cancellable_sleep ms; ret (rc, ()) });
     ret err
   }"

section \<open>The whole loop\<close>

text \<open>What the plugin behind a handle answers, when an unknown handle counts as an error
  answer; the bytes that cross back to the shim; and the result that the caller in Go is
  meant to see.\<close>

definition plugin_outcome ::
  "('p, 's) invoke \<Rightarrow> 'p registry \<Rightarrow> u64 \<Rightarrow> int \<Rightarrow> bytes \<Rightarrow> 's \<Rightarrow> (goerr + bytes option) outcome \<times> 's" where
  "plugin_outcome invk r handle method payload s = (case lookupPlugin handle r of
       None \<Rightarrow> (Ret (Inl (Errorf [Lit ''lance-go: no plugin registered for handle '', Dec (uint handle)])), s)
     | Some p \<Rightarrow> invk p method (if payload = [] then None else Some payload) s)"

fun reply_bytes :: "(goerr + bytes option) outcome \<Rightarrow> bytes" where
  "reply_bytes (Panic v) = bytes_of_string (''lance-go: plugin panic: '' @ v)"
| "reply_bytes (Ret (Inl e)) = (if errors_is e PluginMiss then [] else err_bytes e)"
| "reply_bytes (Ret (Inr res)) = nil_bytes res"

fun reply_code :: "(goerr + bytes option) outcome \<Rightarrow> int" where
  "reply_code (Panic v) = LANCE_GO_CALL_ERROR"
| "reply_code (Ret (Inl e)) = (if errors_is e PluginMiss then LANCE_GO_CALL_MISS else LANCE_GO_CALL_ERROR)"
| "reply_code (Ret (Inr res)) = LANCE_GO_CALL_OK"

definition crossed :: "bytes \<Rightarrow> string" where
  "crossed msg = (if msg = [] then ''go plugin call failed with code 1 and no message''
     else string_of_bytes (utf8_lossy msg))"

fun loop_result :: "(goerr + bytes option) outcome \<Rightarrow> goerr + bytes option" where
  "loop_result (Ret (Inr res)) = Inr (if nil_bytes res = [] then None else Some (nil_bytes res))"
| "loop_result (Ret (Inl e)) =
     Inl (if errors_is e PluginMiss then native_error ERROR_CODE_NOT_FOUND ''go plugin returned a miss''
          else native_error ERROR_CODE_INTERNAL (crossed (err_bytes e)))"
| "loop_result (Panic v) =
     Inl (native_error ERROR_CODE_INTERNAL (crossed (bytes_of_string (''lance-go: plugin panic: '' @ v))))"

lemma unat_length_u64 [simp]: "length xs < 9223372036854775808 \<Longrightarrow> unat (of_nat (length xs) :: u64) = length xs"
  by (simp add: unat_of_nat)

lemma of_nat_length_pos: "length xs < 9223372036854775808 \<Longrightarrow> (0 < (of_nat (length xs) :: u64)) = (xs \<noteq> [])"
  by (simp add: word_less_nat_alt)

lemma of_nat_length_0: "length xs < 9223372036854775808 \<Longrightarrow> ((of_nat (length xs) :: u64) = 0) = (xs = [])"
  using of_nat_length_pos [of xs] by (auto simp: word_greater_zero_iff)

lemma copyCBytes_0: "copyCBytes p 0 = Inr None"
  by (simp add: copyCBytes_def)

lemma copyCBytes_length:
  "length xs < 9223372036854775808 \<Longrightarrow>
     copyCBytes (Some xs) (of_nat (length xs)) = Inr (if xs = [] then None else Some xs)"
  by (auto simp: copyCBytes_def of_nat_length_0 maxInt_def word_less_nat_alt)

lemma bytes_of_string_empty [simp]: "(bytes_of_string s = []) = (s = [])"
  by (simp add: bytes_of_string_def)

lemma go_callback_invoke_reply:
  assumes "length payload < 9223372036854775808"
    and "plugin_outcome invk r h m payload s = (ans, s')"
  shows "go_callback_invoke invk r h m (Some payload) (of_nat (length payload))
      \<lparr>outPtr_ok = True, outLen_ok = True, out_buf = None, out_len = 0\<rparr> s =
    (reply_code ans, setCallbackOut \<lparr>outPtr_ok = True, outLen_ok = True, out_buf = None, out_len = 0\<rparr> (reply_bytes ans), s')"
  using assms
  by (auto simp: go_callback_invoke_def plugin_outcome_def of_nat_length_pos copyCBytes_length Let_def
      setCallbackOut_def err_bytes_def err_text_def dec_int_def
      split: option.splits if_splits outcome.splits sum.splits)

lemma run_vtable_invoke:
  assumes "length payload < 9223372036854775808"
    and "plugin_outcome invk (plugins w) h m payload (plugin_state (native w)) = (ans, s')"
  shows "run_state (vtable_invoke invk h m payload) w =
    (let w1 = w\<lparr>native := (native w)\<lparr>plugin_state := s'\<rparr>\<rparr>; b = reply_bytes ans in
     if b = [] then ((reply_code ans, None, 0), w1)
     else ((reply_code ans, Some (next_id w, b), of_nat (length b)),
           w1\<lparr>next_id := Suc (next_id w), c_live := next_id w # c_live w\<rparr>))"
  by (simp add: vtable_invoke_def go_callback_invoke_reply [OF assms] setCallbackOut_def c_alloc_def Let_def)

lemma run_GoPlugin_call:
  assumes "VTABLE (native w) = Some v" "vt_invoke v" and "length payload < 9223372036854775808"
    and "plugin_outcome invk (plugins w) h m payload (plugin_state (native w)) = (ans, s')"
    and "length (reply_bytes ans) < 9223372036854775808"
  shows "run_state (GoPlugin_call invk h m payload) w =
    (if reply_code ans = LANCE_GO_CALL_OK then Inr (Some (reply_bytes ans))
     else if reply_code ans = LANCE_GO_CALL_MISS then Inr None else Inl (crossed (reply_bytes ans)),
     w\<lparr>native := (native w)\<lparr>plugin_state := s'\<rparr>,
       next_id := (if reply_bytes ans = [] then next_id w else Suc (next_id w))\<rparr>)"
proof -
  have one: "dec_int 1 = ''1''"
    by code_simp
  have "reply_code ans \<in> {0, 1, 2}"
    by (cases ans rule: reply_code.cases) (simp_all add: call_code_defs)
  then consider "reply_code ans = 0" | "reply_code ans = 1" | "reply_code ans = 2"
    by blast
  then show ?thesis
    by cases (use assms(1,2,5) one in \<open>simp_all add: GoPlugin_call_def run_vtable_invoke [OF assms(3,4)] Let_def
        free_cptr_def c_free_def crossed_def call_code_defs\<close>)
qed

text \<open>One call of the shim's test function, sync or async, outside the runtime.\<close>

lemma run_export_roundtrip_result:
  assumes "\<forall>n. malloc_ok (native w) n"
  shows "run_state (export_roundtrip_result r) w = (case r of
      Inr (Some bs) \<Rightarrow>
        if bs = [] then ((ERROR_CODE_OK, None, 0), w\<lparr>native := (native w)\<lparr>last_error := None\<rparr>\<rparr>)
        else ((ERROR_CODE_OK, Some (next_id w, bs), of_nat (length bs)),
          w\<lparr>native := (native w)\<lparr>last_error := None\<rparr>, next_id := Suc (next_id w), c_live := next_id w # c_live w\<rparr>)
    | Inr None \<Rightarrow> ((ERROR_CODE_NOT_FOUND, None, 0),
        w\<lparr>native := (native w)\<lparr>last_error := Some (ERROR_CODE_NOT_FOUND, sanitize ''go plugin returned a miss'')\<rparr>\<rparr>)
    | Inl e \<Rightarrow> ((ERROR_CODE_INTERNAL, None, 0),
        w\<lparr>native := (native w)\<lparr>last_error := Some (ERROR_CODE_INTERNAL, sanitize e)\<rparr>\<rparr>))"
  using assms by (auto simp: export_roundtrip_result_def c_alloc_def split: sum.split option.split)

definition loop_ready :: "('s shim, 'p) world \<Rightarrow> bool" where
  "loop_ready w = (\<not> in_runtime (native w) \<and> (\<forall>n. malloc_ok (native w) n) \<and>
     (case VTABLE (native w) of None \<Rightarrow> False | Some v \<Rightarrow> vt_invoke v))"

lemma payload_slice_all:
  "length payload < 9223372036854775808 \<Longrightarrow> payload_slice (Some payload) (of_nat (length payload)) = payload"
  "payload_slice None n = []"
  by (auto simp: payload_slice_def of_nat_length_0)

lemma background_not_cancellable [simp]: "\<not> ctx_cancellable background" "ctx_err_at background t = None"
  by (simp_all add: background_def)

lemma ffi_entry_background: "ffi_entry background w = w\<lparr>pins := Suc (pins w), tick := Suc (tick w)\<rparr>"
  by (simp add: ffi_entry_def background_def)

lemma loop_run:
  assumes ready: "loop_ready w" and len: "length payload < 9223372036854775808"
    and ans: "plugin_outcome invk (plugins w) h m payload (plugin_state (native w)) = (ans, s')"
    and fits: "length (reply_bytes ans) < 9223372036854775808"
  shows "\<exists>w'. run_state (testCallbackRoundtrip (shim_ffi F) invk h m payload async) w = (loop_result ans, w') \<and>
    plugin_state (native w') = s' \<and> c_mem w' = c_mem w \<and> pins w' = pins w \<and> plugins w' = plugins w \<and> loop_ready w'"
proof -
  obtain v where v: "VTABLE (native w) = Some v" "vt_invoke v" and nr: "\<not> in_runtime (native w)"
    and mal: "\<forall>n. malloc_ok (native w) n"
    using ready by (auto simp: loop_ready_def split: option.splits)
  have adm: "ffi_admits (shim_ffi F) background w"
    using nr by (simp add: ffi_admits_def background_def)
  let ?e = "ffi_entry background w"
  have same: "run_state (roundtrip_closure invk h m payload async) ?e =
      run_state (do { r \<leftarrow> GoPlugin_call invk h m payload; export_roundtrip_result r }) ?e"
    using nr len
    by (simp add: roundtrip_closure_def lance_test_callback_roundtrip_def lance_test_callback_roundtrip_async_def
        ffi_entry_background payload_slice_all)
  have call: "run_state (GoPlugin_call invk h m payload) ?e =
      (if reply_code ans = LANCE_GO_CALL_OK then Inr (Some (reply_bytes ans))
       else if reply_code ans = LANCE_GO_CALL_MISS then Inr None else Inl (crossed (reply_bytes ans)),
       ?e\<lparr>native := (native ?e)\<lparr>plugin_state := s'\<rparr>,
         next_id := (if reply_bytes ans = [] then next_id ?e else Suc (next_id ?e))\<rparr>)"
    by (rule run_GoPlugin_call) (use v len ans fits in \<open>simp_all add: ffi_entry_background\<close>)
  show ?thesis
    using mal v nr fits
    by (cases ans rule: loop_result.cases)
      (auto simp: testCallbackRoundtrip_def run_ffiCall_admitted [OF adm] run_ffi_result same [unfolded ffi_entry_background]
        call [unfolded ffi_entry_background]
        run_export_roundtrip_result ffi_entry_background lastError_slot error_code_defs call_code_defs
        copyCBytes_length copyCBytes_0 free_cptr_def c_free_def c_mem_def loop_ready_def err_bytes_def)
qed

section \<open>Start-up\<close>

abbreviation go_vtable :: vtable where
  "go_vtable \<equiv> \<lparr>vt_abi_version = LANCE_GO_VTABLE_ABI_VERSION, vt_invoke = True, vt_release = True\<rparr>"

lemma run_register_go:
  "run_state lance_go_register_callback_vtable w =
     (if lib_vtable_abi_version (native w) \<noteq> LANCE_GO_VTABLE_ABI_VERSION then
        run_state (set_error ERROR_CODE_INVALID_ARGUMENT
          (''go vtable ABI version mismatch: got '' @ dec_int (uint LANCE_GO_VTABLE_ABI_VERSION) @ '', expected '' @
           dec_int (uint (lib_vtable_abi_version (native w))) @
           '' (rebuild the native library and the Go package together)'')) w
      else if VTABLE (native w) \<noteq> None then
        run_state (set_error ERROR_CODE_ALREADY_EXISTS ''go callback vtable already registered'') w
      else (ERROR_CODE_OK, w\<lparr>native := (native w)\<lparr>VTABLE := Some go_vtable, last_error := None\<rparr>\<rparr>))"
  by (auto simp: lance_go_register_callback_vtable_def lance_register_go_vtable_def split: option.split)

definition init_ready :: "('s shim, 'p) world \<Rightarrow> bool" where
  "init_ready w = (lib_abi_version (native w) = LANCE_GO_ABI_VERSION \<and> \<not> in_runtime (native w) \<and>
     lib_vtable_abi_version (native w) = LANCE_GO_VTABLE_ABI_VERSION \<and> VTABLE (native w) = None)"

lemma init_ready_run:
  assumes "init_ready w"
  shows "run_state (init (shim_ffi F)) w = (Ret (),
    w\<lparr>native := (native w)\<lparr>VTABLE := Some go_vtable, last_error := None\<rparr>, tick := Suc (tick w)\<rparr>)"
proof -
  have "ffi_admits (shim_ffi F) background w"
    using assms by (simp add: ffi_admits_def init_ready_def)
  with assms show ?thesis
    by (simp add: init_def init_ready_def run_ffiCall_admitted run_ffi_result run_register_go ffi_entry_background)
qed

lemma init_not_ready_run:
  assumes "\<not> init_ready w"
  shows "\<exists>msg w'. run_state (init (shim_ffi F)) w = (Panic msg, w') \<and>
    VTABLE (native w') = VTABLE (native w) \<and> pins w' = pins w \<and> c_mem w' = c_mem w \<and> \<not> init_ready w' \<and>
    (lib_abi_version (native w) \<noteq> LANCE_GO_ABI_VERSION \<longrightarrow> w' = w)"
proof (cases "ffi_admits (shim_ffi F) background w")
  case True
  with assms show ?thesis
    by (auto simp: init_def init_ready_def run_ffiCall_admitted run_ffi_result run_register_go
        ffi_entry_background error_code_defs c_mem_def ffi_admits_def split: if_splits)
next
  case False
  with assms show ?thesis
    by (auto simp: init_def init_ready_def run_ffiCall_rejected ffi_admits_def c_mem_def split: if_splits)
qed

section \<open>Releases from the native side\<close>

text \<open>\<^verbatim>\<open>OwnedGoPlugin\<close>: a counted lease of a registration. \<^verbatim>\<open>new\<close> starts with one holder, \<^verbatim>\<open>clone\<close>
  adds one, and dropping the last one releases the registration.\<close>

datatype lease_op = LClone | LDrop

fun lease_run :: "u64 \<Rightarrow> lease_op list \<Rightarrow> nat \<Rightarrow> ('s shim, 'p, nat) go" where
  "lease_run h [] n = ret n"
| "lease_run h (LClone # ops) n = lease_run h ops (Suc n)"
| "lease_run h (LDrop # ops) n =
     (if n = 1 then do { GoPlugin_release h; lease_run h ops 0 } else lease_run h ops (n - 1))"

text \<open>The borrow checker lets only a holder clone or drop: a run never goes on after the last
  drop.\<close>

fun lease_legal :: "nat \<Rightarrow> lease_op list \<Rightarrow> bool" where
  "lease_legal n [] = True"
| "lease_legal n (LClone # ops) = (0 < n \<and> lease_legal (Suc n) ops)"
| "lease_legal n (LDrop # ops) = (0 < n \<and> lease_legal (n - 1) ops)"

lemma run_GoPlugin_release:
  "VTABLE (native w) = Some v \<Longrightarrow> vt_release v \<Longrightarrow>
     run_state (GoPlugin_release h) w = ((), w\<lparr>plugins := releasePlugin h (plugins w)\<rparr>)"
  by (simp add: GoPlugin_release_def go_handle_release_def)

lemma lease_run_registry:
  assumes "VTABLE (native w) = Some v" "vt_release v" and "lease_legal n ops" and "0 < n"
  shows "case run_state (lease_run h ops n) w of (k, w') \<Rightarrow>
    w' = (if k = 0 then w\<lparr>plugins := releasePlugin h (plugins w)\<rparr> else w)"
  using assms
proof (induction h ops n arbitrary: w rule: lease_run.induct)
  case (3 h ops n)
  show ?case
  proof (cases "n = 1")
    case True
    with "3.prems" have "ops = []" by (cases "(0::nat, ops)" rule: lease_legal.cases) auto
    with True "3.prems" show ?thesis by (simp add: run_GoPlugin_release)
  next
    case False
    with "3.IH"(2) [of w] "3.prems" show ?thesis by auto
  qed
qed auto

section \<open>Classification of native errors\<close>

text \<open>The variants of \<^verbatim>\<open>lance::Error\<close> that \<^verbatim>\<open>map_lance_error\<close> lists.\<close>

datatype lance_Error =
    InvalidInput | SchemaMismatch | IncompatibleTransaction | InvalidTableLocation | InvalidRef | FieldNotFound
  | IO_Error | CorruptFile | Cleanup
  | NotFound | DatasetNotFound | IndexNotFound | RefNotFound | VersionNotFound
  | DatasetAlreadyExists | Index_Error | NotSupported
  | CommitConflict | RetryableCommitConflict | TooMuchWriteContention | RefConflict | VersionConflict
  | Timeout_Error
  | Internal | PrerequisiteFailed | Unprocessable | Arrow_Error | Schema_Error | Stop | Wrapped | Cloned | Execution
  | Namespace | External

fun map_lance_error :: "lance_Error \<Rightarrow> int" where
  "map_lance_error InvalidInput = ERROR_CODE_INVALID_ARGUMENT"
| "map_lance_error SchemaMismatch = ERROR_CODE_INVALID_ARGUMENT"
| "map_lance_error IncompatibleTransaction = ERROR_CODE_INVALID_ARGUMENT"
| "map_lance_error InvalidTableLocation = ERROR_CODE_INVALID_ARGUMENT"
| "map_lance_error InvalidRef = ERROR_CODE_INVALID_ARGUMENT"
| "map_lance_error FieldNotFound = ERROR_CODE_INVALID_ARGUMENT"
| "map_lance_error IO_Error = ERROR_CODE_IO"
| "map_lance_error CorruptFile = ERROR_CODE_IO"
| "map_lance_error Cleanup = ERROR_CODE_IO"
| "map_lance_error NotFound = ERROR_CODE_NOT_FOUND"
| "map_lance_error DatasetNotFound = ERROR_CODE_NOT_FOUND"
| "map_lance_error IndexNotFound = ERROR_CODE_NOT_FOUND"
| "map_lance_error RefNotFound = ERROR_CODE_NOT_FOUND"
| "map_lance_error VersionNotFound = ERROR_CODE_NOT_FOUND"
| "map_lance_error DatasetAlreadyExists = ERROR_CODE_ALREADY_EXISTS"
| "map_lance_error Index_Error = ERROR_CODE_INDEX"
| "map_lance_error NotSupported = ERROR_CODE_NOT_IMPLEMENTED"
| "map_lance_error CommitConflict = ERROR_CODE_CONFLICT"
| "map_lance_error RetryableCommitConflict = ERROR_CODE_CONFLICT"
| "map_lance_error TooMuchWriteContention = ERROR_CODE_CONFLICT"
| "map_lance_error RefConflict = ERROR_CODE_CONFLICT"
| "map_lance_error VersionConflict = ERROR_CODE_CONFLICT"
| "map_lance_error Timeout_Error = ERROR_CODE_TIMEOUT"
| "map_lance_error _ = ERROR_CODE_INTERNAL"

lemma map_lance_error_code:
  "map_lance_error e \<noteq> ERROR_CODE_OK \<and> map_lance_error e \<noteq> ERROR_CODE_CANCELLED"
  by (cases e) (simp_all add: error_code_defs)

lemma native_failure_surfaces:
  assumes "\<not> in_runtime (native w)" and "ctx_err_at c (tick w) = None" and "code \<noteq> ERROR_CODE_OK" and "code \<noteq> ERROR_CODE_CANCELLED"
  shows "fst (run_state (ffiCall (shim_ffi F) c () (do { rc \<leftarrow> set_error code msg; ret (rc, ()) })) w) =
    (Some (native_error code msg), ())"
proof -
  have "ffi_admits (shim_ffi F) c w"
    using assms(1,2) by (simp add: ffi_admits_def)
  then show ?thesis
    using assms(3,4) by (simp add: run_ffiCall_admitted run_ffi_result lastError_slot split_beta)
qed

section \<open>Properties\<close>

text \<open>C29: The callback loop is transparent. Once the vtable is registered, a call that goes from
  Go through \<^verbatim>\<open>ffiCall\<close> into the shim, through the vtable into the plugin behind a handle and
  back (on the calling thread or on a blocking thread of the runtime) returns what the plugin
  answered: its bytes exactly (nil for an empty answer), \<^verbatim>\<open>ErrNotFound\<close> for a miss, and
  \<^verbatim>\<open>ErrInternal\<close> with the plugin's text for an error, a panic or an unknown handle. The plugin
  sees the payload unchanged and once, both copies of the answer are freed, and the thread is
  unpinned.\<close>

theorem callback_loop:
  assumes "loop_ready w" and "length payload < 9223372036854775808"
    and "plugin_outcome invk (plugins w) h m payload (plugin_state (native w)) = (ans, s')"
    and "length (reply_bytes ans) < 9223372036854775808"
  shows "\<exists>w'. run_state (testCallbackRoundtrip (shim_ffi F) invk h m payload async) w = (loop_result ans, w') \<and>
    plugin_state (native w') = s' \<and> c_mem w' = c_mem w \<and> pins w' = pins w \<and> plugins w' = plugins w"
  using loop_run [OF assms, of F async] by blast

definition shim0 :: "nat shim" where
  "shim0 = \<lparr>last_error = None, VTABLE = None, in_runtime = False, lib_abi_version = 1, lib_vtable_abi_version = 1,
     malloc_ok = (\<lambda>_. True), token_wins = (\<lambda>_ _. True), block_on_panic = [], plugin_state = 0\<rparr>"

definition shim_world0 :: "(nat shim, bool) world" where
  "shim_world0 = \<lparr>native = shim0, tick = 0, pins = 0, cancel_slot = None, tokens = [], token_fault = False,
     next_id = 0, c_live = [], c_fault = False, exported = [], held = [], closed = [], handles = (\<lambda>_. None),
     plugins = snd (register_locked True pluginRegistry), telemetry = []\<rparr>"

definition shim_F0 :: "nat shim lance_ffi" where
  "shim_F0 = \<lparr>lance_in_tokio_runtime = (\<lambda>_. 0), lance_last_error_code = (\<lambda>_. 0), lance_last_error_message = (\<lambda>_. None),
     ccall = (\<lambda>_ _ n. ((0, []), n)), cread = (\<lambda>_ _ _. CNull)\<rparr>"

lemma shim_world0_ready: "init_ready shim_world0"
  by (simp add: init_ready_def shim_world0_def shim0_def LANCE_GO_ABI_VERSION_def LANCE_GO_VTABLE_ABI_VERSION_def)

lemmas shim_world0_started = init_ready_run [OF shim_world0_ready]

theorem callback_loop_witness:
  "\<exists>w'. run_state (testCallbackRoundtrip (shim_ffi shim_F0) echo_plugin 1 0 [7, 8] True)
      (snd (run_state (init (shim_ffi shim_F0)) shim_world0)) = (Inr (Some [7, 8]), w') \<and>
    plugin_state (native w') = 1"
proof -
  let ?w = "snd (run_state (init (shim_ffi shim_F0)) shim_world0)"
  have "loop_ready ?w"
    unfolding shim_world0_started by (simp add: loop_ready_def shim_world0_def shim0_def)
  moreover have "plugin_outcome echo_plugin (plugins ?w) 1 0 [7, 8] (plugin_state (native ?w)) = (Ret (Inr (Some [7, 8])), 1)"
    unfolding shim_world0_started by (simp add: shim_world0_def shim0_def plugin_outcome_def echo_plugin_def
        register_locked_def pluginRegistry_def lookupPlugin_def Let_def)
  ultimately show ?thesis
    using callback_loop [of ?w "[7, 8]" echo_plugin 1 0 "Ret (Inr (Some [7, 8]))" 1 shim_F0 True] by fastforce
qed

text \<open>C32: The package initialises exactly on a matching library, and once. \<^verbatim>\<open>init\<close> returns iff both ABI
  versions match, the thread is outside the runtime and no vtable was registered before; it
  then leaves the vtable with both Go entry points registered. In every other case it panics
  and registers nothing. After it, initialising again panics.\<close>

theorem init_registers_once:
  "(fst (run_state (init (shim_ffi F)) w) = Ret () \<longleftrightarrow> init_ready w) \<and>
   VTABLE (native (snd (run_state (init (shim_ffi F)) w))) = (if init_ready w then Some go_vtable else VTABLE (native w)) \<and>
   pins (snd (run_state (init (shim_ffi F)) w)) = pins w \<and> c_mem (snd (run_state (init (shim_ffi F)) w)) = c_mem w \<and>
   fst (run_state (init (shim_ffi F)) (snd (run_state (init (shim_ffi F)) w))) \<noteq> Ret ()"
proof -
  have again: "fst (run_state (init (shim_ffi F)) v) \<noteq> Ret ()" if "\<not> init_ready v" for v :: "('a shim, 'b) world"
    using init_not_ready_run [OF that, of F] by auto
  show ?thesis
  proof (cases "init_ready w")
    case True
    have "\<not> init_ready (snd (run_state (init (shim_ffi F)) w))"
      by (simp add: init_ready_run [OF True]) (simp add: init_ready_def)
    with True again show ?thesis
      by (simp add: init_ready_run c_mem_def)
  next
    case False
    with init_not_ready_run [OF False, of F] again show ?thesis by auto
  qed
qed

text \<open>Without the vtable no plugin runs: a call before \<^verbatim>\<open>init\<close> is an internal error that says so.\<close>

theorem loop_before_init:
  assumes "VTABLE (native w) = None" and "\<not> in_runtime (native w)"
  shows "fst (run_state (testCallbackRoundtrip (shim_ffi F) invk h m payload async) w) =
      Inl (native_error ERROR_CODE_INTERNAL ''go callback vtable not registered'') \<and>
    plugin_state (native (snd (run_state (testCallbackRoundtrip (shim_ffi F) invk h m payload async) w))) =
      plugin_state (native w)"
proof -
  have adm: "ffi_admits (shim_ffi F) background w"
    using assms(2) by (simp add: ffi_admits_def)
  show ?thesis
    using assms
    by (simp add: testCallbackRoundtrip_def run_ffiCall_admitted [OF adm] run_ffi_result roundtrip_closure_def
        lance_test_callback_roundtrip_def lance_test_callback_roundtrip_async_def GoPlugin_call_def
        export_roundtrip_result_def ffi_entry_background error_code_defs lastError_slot free_cptr_def Let_def)
qed

text \<open>A lease releases its registration when its last holder is dropped, and not before: over
  any legal run of clones and drops the registry is unchanged as long as a holder is left, and
  is the registry with the one handle released once none is.\<close>

theorem lease_released_once:
  assumes "VTABLE (native w) = Some v" and "vt_release v" and "lease_legal 1 ops"
    and "run_state (lease_run h ops 1) w = (k, w')"
  shows "plugins w' = (if k = 0 then releasePlugin h (plugins w) else plugins w)"
  using lease_run_registry [OF assms(1-3), of h] assms(4) by auto

theorem lease_released_once_witness:
  "lookupPlugin 1 (plugins (snd (run_state (lease_run 1 [LClone, LDrop, LDrop] 1)
     (snd (run_state (init (shim_ffi shim_F0)) shim_world0))))) = None"
proof -
  let ?w = "snd (run_state (init (shim_ffi shim_F0)) shim_world0)"
  have vt: "VTABLE (native ?w) = Some go_vtable"
    by (simp add: shim_world0_started)
  obtain k w' where run: "run_state (lease_run 1 [LClone, LDrop, LDrop] 1) ?w = (k, w')"
    by (metis surj_pair)
  then have "k = 0" using vt by (auto simp: run_GoPlugin_release)
  with lease_released_once [OF vt _ _ run] run show ?thesis
    by (simp add: releasePlugin_def lookupPlugin_def)
qed

text \<open>\<^verbatim>\<open>Version\<close> reads the native string and frees it.\<close>

theorem version_freed:
  "fst (run_state Version w) = Text ''lance-go-ffi 0.1.0 (lance 8.0.0)'' \<and> c_mem (snd (run_state Version w)) = c_mem w"
  by (simp add: Version_def lance_version_def c_alloc_def lance_string_free_def free_cptr_def c_free_def c_mem_def
      CARGO_PKG_VERSION_def LANCE_VERSION_def)

text \<open>The sleep is cut short by a done context and only by one: with a context that cannot be
  cancelled it returns nil, and when the token wins it returns the context's own error.\<close>

theorem sleep_cancelled:
  assumes "\<not> in_runtime (native w)" and "ctx_err_at c (tick w) = None" and "cancel_slot w = None"
  shows "fst (run_state (testCancellableSleep (shim_ffi F) c ms) w) =
    (if ctx_cancellable c \<and> token_wins (native w) (next_id w) ms
     then Some (case ctx_err_at c (Suc (tick w)) of Some e \<Rightarrow> ctx_error e | None \<Rightarrow> Wrapf [] (sentinel_err ErrCanceled) [])
     else None)"
proof -
  have adm: "ffi_admits (shim_ffi F) c w"
    using assms by (simp add: ffi_admits_def)
  show ?thesis
    using assms(3)
    by (auto simp: testCancellableSleep_def run_ffiCall_admitted [OF adm] run_ffi_result lance_test_cancellable_sleep_def
        ffi_entry_def Let_def error_code_defs split: option.split)
qed



end
