(* ===== verification/Lance_Loop.thy ===== *)
theory Lance_Loop
  imports Lance_Shim Lance_Cache
begin

text \<open>
  A cache backend behind the whole bridge: the requests of the native side travel through the
  shim, the vtable, \<^verbatim>\<open>go_callback_invoke\<close>, the plugin registry and the cache adapter to the
  backend, and the answers come back as results of the driver in Go. Whatever backend keeps
  the promises of \<^verbatim>\<open>cache_backend\<close> is seen through the bridge as a map.
\<close>

section \<open>Requests through the bridge\<close>

fun op_method :: "cache_op \<Rightarrow> int" where
  "op_method (OpGet k) = cacheGet"
| "op_method (OpPut k v) = cachePut"
| "op_method (OpInvalidate p) = cacheInvalidatePrefix"
| "op_method OpClear = cacheClear"

fun op_payload :: "cache_op \<Rightarrow> bytes" where
  "op_payload (OpGet k) = encode_cache_key k"
| "op_payload (OpPut k v) = encode_cache_key k @ v"
| "op_payload (OpInvalidate p) = bytes_of_string p"
| "op_payload OpClear = []"

text \<open>One request, sent synchronously or through the runtime's blocking pool.\<close>

definition loop_op ::
  "'b shim lance_ffi \<Rightarrow> 'b CacheBackend \<Rightarrow> u64 \<Rightarrow> bool \<times> cache_op \<Rightarrow> ('b shim, 'p, goerr + bytes option) go" where
  "loop_op F B h x = testCallbackRoundtrip F (cache_invoke B) h (op_method (snd x)) (op_payload (snd x)) (fst x)"

fun loop_ops ::
  "'b shim lance_ffi \<Rightarrow> 'b CacheBackend \<Rightarrow> u64 \<Rightarrow> (bool \<times> cache_op) list \<Rightarrow> ('b shim, 'p, (goerr + bytes option) list) go" where
  "loop_ops F B h [] = ret []"
| "loop_ops F B h (x # xs) = do { r \<leftarrow> loop_op F B h x; rs \<leftarrow> loop_ops F B h xs; ret (r # rs) }"

text \<open>The driver reports an empty answer as nil and an error as the native library words it.\<close>

definition seen_in_go :: "goerr + bytes option \<Rightarrow> goerr + bytes option" where
  "seen_in_go r = loop_result (Ret r)"

lemma adapter_nil: "cacheBackendAdapter_Invoke B m (if pl = [] then None else Some pl) = cacheBackendAdapter_Invoke B m (Some pl)"
  by (simp add: cacheBackendAdapter_Invoke_def)

lemma adapter_op_payload: "adapter_op B x = cacheBackendAdapter_Invoke B (op_method x) (Some (op_payload x))"
  by (cases x) (simp_all add: cacheBackendAdapter_Invoke_def)

text \<open>The lengths that fit: payloads below 4 GiB, so stored values too.\<close>

definition small_values :: "(cache_key \<Rightarrow> bytes option) \<Rightarrow> bool" where
  "small_values M = (\<forall>k v. M k = Some v \<longrightarrow> length v < 4294967296)"

lemma small_values_op: "op_ok kok pok x \<Longrightarrow> small_values M \<Longrightarrow> small_values (snd (spec_op x M))"
  by (cases x) (auto simp: small_values_def)

lemma small_reply:
  assumes "small_values M"
  shows "length (reply_bytes (Ret (fst (spec_op x M)))) < 9223372036854775808"
proof (cases x)
  case (OpGet k)
  with assms show ?thesis
    by (cases "M k") (auto simp: small_values_def dest!: spec [of _ k])
qed simp_all

definition op_small :: "cache_op \<Rightarrow> bool" where
  "op_small x = (length (op_payload x) < 9223372036854775808)"

context cache_backend
begin

lemma loop_op_refines:
  assumes "loop_ready w" and "lookupPlugin h (plugins w) = Some p" and "invar (plugin_state (native w))"
    and "op_ok key_ok prefix_ok (snd x)" and "op_small (snd x)" and "small_values M"
    and "\<forall>k. key_ok k \<longrightarrow> look (plugin_state (native w)) k = M k"
  shows "\<exists>w'. run_state (loop_op (shim_ffi F) B h x) w = (seen_in_go (fst (spec_op (snd x) M)), w') \<and>
    loop_ready w' \<and> plugins w' = plugins w \<and> invar (plugin_state (native w')) \<and> c_mem w' = c_mem w \<and> pins w' = pins w \<and>
    (\<forall>k. key_ok k \<longrightarrow> look (plugin_state (native w')) k = snd (spec_op (snd x) M) k)"
proof -
  obtain b' where b': "adapter_op B (snd x) (plugin_state (native w)) = (Ret (fst (spec_op (snd x) M)), b')" "invar b'"
      "\<forall>k. key_ok k \<longrightarrow> look b' k = snd (spec_op (snd x) M) k"
    using adapter_op_refines [OF assms(3,4,7)] by blast
  have "plugin_outcome (cache_invoke B) (plugins w) h (op_method (snd x)) (op_payload (snd x)) (plugin_state (native w)) =
      (Ret (fst (spec_op (snd x) M)), b')"
    using b'(1) assms(2) by (simp add: plugin_outcome_def cache_invoke_def adapter_nil adapter_op_payload)
  from loop_run [OF assms(1) _ this small_reply [OF assms(6)], of F "fst x"] assms(5) b'(2,3) show ?thesis
    unfolding loop_op_def op_small_def seen_in_go_def by auto
qed

lemma loop_ops_refine:
  assumes "loop_ready w" and "lookupPlugin h (plugins w) = Some p" and "invar (plugin_state (native w))"
    and "list_all (\<lambda>x. op_ok key_ok prefix_ok (snd x) \<and> op_small (snd x)) xs" and "small_values M"
    and "\<forall>k. key_ok k \<longrightarrow> look (plugin_state (native w)) k = M k"
  shows "\<exists>w'. run_state (loop_ops (shim_ffi F) B h xs) w = (map seen_in_go (fst (spec_run (map snd xs) M)), w') \<and>
    c_mem w' = c_mem w \<and> pins w' = pins w \<and> plugins w' = plugins w"
  using assms
proof (induction xs arbitrary: w M)
  case (Cons x xs)
  obtain w1 where w1: "run_state (loop_op (shim_ffi F) B h x) w = (seen_in_go (fst (spec_op (snd x) M)), w1)"
      "loop_ready w1" "plugins w1 = plugins w" "invar (plugin_state (native w1))" "c_mem w1 = c_mem w" "pins w1 = pins w"
      "\<forall>k. key_ok k \<longrightarrow> look (plugin_state (native w1)) k = snd (spec_op (snd x) M) k"
    using loop_op_refines [of w h p x M F] Cons.prems by auto
  have "lookupPlugin h (plugins w1) = Some p" "small_values (snd (spec_op (snd x) M))"
    using Cons.prems w1(3) small_values_op by auto
  with Cons.IH [OF w1(2) this(1) w1(4) _ this(2) w1(7)] Cons.prems w1 show ?case
    by (auto simp: split_beta)
qed simp

end

section \<open>Properties\<close>

text \<open>C28: A cache behind the bridge is a map. With the vtable registered and the in-memory backend
  registered under a handle, every sequence of requests sent through the native library, each
  on the calling thread or through the runtime, is answered as a map answers it: a hit with the
  stored bytes (nil when they are empty), a miss as \<^verbatim>\<open>ErrNotFound\<close>, stores, invalidations and clears
  without error. No C memory is left behind, the thread is unpinned and the registry is
  unchanged.\<close>

theorem cache_behind_bridge:
  assumes "loop_ready w" and "lookupPlugin h (plugins w) = Some p" and "plugin_state (native w) = newMemCacheBackend"
    and "list_all (\<lambda>x. op_ok nul_free (\<lambda>p. NUL \<notin> set p) (snd x) \<and> op_small (snd x)) xs"
  shows "\<exists>w'. run_state (loop_ops (shim_ffi F) memBackend h xs) w =
      (map seen_in_go (fst (spec_run (map snd xs) (\<lambda>_. None))), w') \<and>
    c_mem w' = c_mem w \<and> pins w' = pins w \<and> plugins w' = plugins w"
  by (rule mem.loop_ops_refine [OF assms(1,2) _ assms(4)])
    (simp_all add: assms(3) mem_inv_def mem_look_def newMemCacheBackend_def small_values_def)

definition loop_world0 :: "(memCacheBackend shim, bool) world" where
  "loop_world0 = \<lparr>native = \<lparr>last_error = None, VTABLE = Some go_vtable, in_runtime = False, lib_abi_version = 1,
       lib_vtable_abi_version = 1, malloc_ok = (\<lambda>_. True), token_wins = (\<lambda>_ _. False), block_on_panic = [],
       plugin_state = newMemCacheBackend\<rparr>,
     tick = 0, pins = 0, cancel_slot = None, tokens = [], token_fault = False,
     next_id = 0, c_live = [], c_fault = False, exported = [], held = [], closed = [], handles = (\<lambda>_. None),
     plugins = snd (register_locked True pluginRegistry), telemetry = []\<rparr>"

definition loop_F0 :: "memCacheBackend shim lance_ffi" where
  "loop_F0 = \<lparr>lance_in_tokio_runtime = (\<lambda>_. 0), lance_last_error_code = (\<lambda>_. 0), lance_last_error_message = (\<lambda>_. None),
     ccall = (\<lambda>_ _ n. ((0, []), n)), cread = (\<lambda>_ _ _. CNull)\<rparr>"

theorem cache_behind_bridge_witness:
  "fst (run_state (loop_ops (shim_ffi loop_F0) memBackend 1
      [(False, OpPut \<lparr>Prefix = ''p'', Key = ''k'', TypeName = ''t''\<rparr> [5, 6]), (True, OpGet \<lparr>Prefix = ''p'', Key = ''k'', TypeName = ''t''\<rparr>),
       (False, OpInvalidate ''p''), (True, OpGet \<lparr>Prefix = ''p'', Key = ''k'', TypeName = ''t''\<rparr>)]) loop_world0) =
    [Inr None, Inr (Some [5, 6]), Inr None, Inl (native_error ERROR_CODE_NOT_FOUND ''go plugin returned a miss'')]"
proof -
  let ?k = "\<lparr>Prefix = ''p'', Key = ''k'', TypeName = ''t''\<rparr>"
  let ?xs = "[(False, OpPut ?k [5, 6]), (True, OpGet ?k), (False, OpInvalidate ''p''), (True, OpGet ?k)]"
  have "loop_ready loop_world0" "lookupPlugin 1 (plugins loop_world0) = Some True"
      "plugin_state (native loop_world0) = newMemCacheBackend"
    by (simp_all add: loop_ready_def loop_world0_def register_locked_def pluginRegistry_def lookupPlugin_def Let_def)
  moreover have "list_all (\<lambda>x. op_ok nul_free (\<lambda>p. NUL \<notin> set p) (snd x) \<and> op_small (snd x)) ?xs"
    by (simp add: nul_free_def op_small_def encode_cache_key_def)
  ultimately show ?thesis
    using cache_behind_bridge [of loop_world0 1 True ?xs loop_F0] by (auto simp: seen_in_go_def)
qed

end
