(* ===== verification/Lance_Disk.thy ===== *)
theory Lance_Disk
  imports Lance_Cache
begin

unbundle bit_operations_syntax

text \<open>
  The disk template of \<^verbatim>\<open>examples/plugincache\<close>: \<^verbatim>\<open>diskObjectStoreCache\<close> keeps each cached byte
  range in a file named by the SHA-256 digest of its key. What a byte-range cache promises
  its native client is the locale \<^verbatim>\<open>range_cache\<close>; the adapter of \<^verbatim>\<open>lance/cache.go\<close> is proved
  coherent in it, and the disk cache provides it as long as no write stops half way.
  The standard library functions the code uses (\<^verbatim>\<open>crypto/sha256\<close>, \<^verbatim>\<open>encoding/hex\<close>,
  \<^verbatim>\<open>filepath.Join\<close>, \<^verbatim>\<open>os.ReadFile\<close>, \<^verbatim>\<open>os.WriteFile\<close>) are modelled first.
\<close>

section \<open>SHA-256 and hex\<close>

definition sha256_k :: "u32 list" where
  "sha256_k = [
     0x428A2F98, 0x71374491, 0xB5C0FBCF, 0xE9B5DBA5, 0x3956C25B, 0x59F111F1, 0x923F82A4, 0xAB1C5ED5,
     0xD807AA98, 0x12835B01, 0x243185BE, 0x550C7DC3, 0x72BE5D74, 0x80DEB1FE, 0x9BDC06A7, 0xC19BF174,
     0xE49B69C1, 0xEFBE4786, 0x0FC19DC6, 0x240CA1CC, 0x2DE92C6F, 0x4A7484AA, 0x5CB0A9DC, 0x76F988DA,
     0x983E5152, 0xA831C66D, 0xB00327C8, 0xBF597FC7, 0xC6E00BF3, 0xD5A79147, 0x06CA6351, 0x14292967,
     0x27B70A85, 0x2E1B2138, 0x4D2C6DFC, 0x53380D13, 0x650A7354, 0x766A0ABB, 0x81C2C92E, 0x92722C85,
     0xA2BFE8A1, 0xA81A664B, 0xC24B8B70, 0xC76C51A3, 0xD192E819, 0xD6990624, 0xF40E3585, 0x106AA070,
     0x19A4C116, 0x1E376C08, 0x2748774C, 0x34B0BCB5, 0x391C0CB3, 0x4ED8AA4A, 0x5B9CCA4F, 0x682E6FF3,
     0x748F82EE, 0x78A5636F, 0x84C87814, 0x8CC70208, 0x90BEFFFA, 0xA4506CEB, 0xBEF9A3F7, 0xC67178F2]"

definition sha256_iv :: "u32 list" where
  "sha256_iv = [0x6A09E667, 0xBB67AE85, 0x3C6EF372, 0xA54FF53A, 0x510E527F, 0x9B05688C, 0x1F83D9AB, 0x5BE0CD19]"

definition be_u32 :: "bytes \<Rightarrow> u32" where
  "be_u32 bs = of_nat (le_nat (rev bs))"

definition u32_be :: "u32 \<Rightarrow> bytes" where
  "u32_be v = rev (put_u32 v)"

text \<open>The padded message: a one bit, zeros, and the length in bits as 64 bits.\<close>

definition sha256_pad :: "bytes \<Rightarrow> bytes" where
  "sha256_pad msg = msg @ [0x80] @ replicate ((119 - length msg mod 64) mod 64) 0 @ rev (le_bytes 8 (8 * length msg))"

fun sha256_words :: "nat \<Rightarrow> bytes \<Rightarrow> u32 list" where
  "sha256_words 0 bs = []"
| "sha256_words (Suc n) bs = be_u32 (take 4 bs) # sha256_words n (drop 4 bs)"

definition sha256_schedule :: "bytes \<Rightarrow> u32 list" where
  "sha256_schedule block = fold (\<lambda>t ws.
     (let a = ws ! (t - 15); b = ws ! (t - 2);
          s0 = word_rotr 7 a XOR word_rotr 18 a XOR drop_bit 3 a;
          s1 = word_rotr 17 b XOR word_rotr 19 b XOR drop_bit 10 b
      in ws @ [ws ! (t - 16) + s0 + ws ! (t - 7) + s1])) [16..<64] (sha256_words 16 block)"

fun sha256_round :: "u32 \<times> u32 \<Rightarrow> u32 list \<Rightarrow> u32 list" where
  "sha256_round (k, w) [a, b, c, d, e, f, g, h] =
     (let s1 = word_rotr 6 e XOR word_rotr 11 e XOR word_rotr 25 e;
          ch = (e AND f) XOR (NOT e AND g);
          t1 = h + s1 + ch + k + w;
          s0 = word_rotr 2 a XOR word_rotr 13 a XOR word_rotr 22 a;
          maj = (a AND b) XOR (a AND c) XOR (b AND c)
      in [t1 + s0 + maj, a, b, c, d + t1, e, f, g])"
| "sha256_round _ xs = xs"

definition sha256_block :: "bytes \<Rightarrow> u32 list \<Rightarrow> u32 list" where
  "sha256_block block hs = map2 (+) hs (fold sha256_round (zip sha256_k (sha256_schedule block)) hs)"

fun sha256_blocks :: "nat \<Rightarrow> bytes \<Rightarrow> u32 list \<Rightarrow> u32 list" where
  "sha256_blocks 0 bs hs = hs"
| "sha256_blocks (Suc n) bs hs = sha256_blocks n (drop 64 bs) (sha256_block (take 64 bs) hs)"

definition Sum256 :: "bytes \<Rightarrow> bytes" where
  "Sum256 msg = (let p = sha256_pad msg in concat (map u32_be (sha256_blocks (length p div 64) p sha256_iv)))"

definition hex_byte :: "byte \<Rightarrow> string" where
  "hex_byte b = [hex_digit (unat b div 16), hex_digit (unat b mod 16)]"

definition EncodeToString :: "bytes \<Rightarrow> string" where
  "EncodeToString bs = concat (map hex_byte bs)"

section \<open>Paths\<close>

text \<open>\<^verbatim>\<open>filepath.Clean\<close> and \<^verbatim>\<open>filepath.Join\<close> on a slash-separated system: the path is split at its
  slashes, empty elements and dots go, and a double dot removes the element before it.\<close>

fun split_on :: "char \<Rightarrow> string \<Rightarrow> string list" where
  "split_on c [] = [[]]"
| "split_on c (x # xs) =
     (if x = c then [] # split_on c xs
      else (case split_on c xs of y # ys \<Rightarrow> (x # y) # ys | [] \<Rightarrow> [[x]]))"

fun join_with :: "string \<Rightarrow> string list \<Rightarrow> string" where
  "join_with s [] = []"
| "join_with s [x] = x"
| "join_with s (x # y # ys) = x @ s @ join_with s (y # ys)"

definition clean_elem :: "bool \<Rightarrow> string \<Rightarrow> string list \<Rightarrow> string list" where
  "clean_elem rooted e st =
     (if e = [] \<or> e = ''.'' then st
      else if e = ''..'' then
        (case rev st of
           [] \<Rightarrow> if rooted then st else st @ [e]
         | x # _ \<Rightarrow> if x \<noteq> ''..'' then butlast st else if rooted then st else st @ [e])
      else st @ [e])"

definition Clean :: "string \<Rightarrow> string" where
  "Clean path =
     (if path = [] then ''.''
      else let rooted = (hd path = CHR ''/'');
               st = fold (clean_elem rooted) (split_on (CHR ''/'') path) [];
               res = (if rooted then ''/'' else []) @ join_with ''/'' st
           in if res = [] then ''.'' else res)"

fun Join :: "string list \<Rightarrow> string" where
  "Join [] = []"
| "Join (e # es) = (if e \<noteq> [] then Clean (join_with ''/'' (e # es)) else Join es)"

section \<open>Files\<close>

text \<open>The readable files and what the next write to a file does: it succeeds, it cannot open
  the file, or it stops after some bytes, which leaves the file with those bytes.\<close>

datatype write_fate = WriteOk | OpenFails | ShortWrite nat

record filesystem =
  fs_files :: "string \<Rightarrow> bytes option"
  fs_fate :: "nat \<Rightarrow> string \<Rightarrow> bytes \<Rightarrow> write_fate"
  fs_writes :: nat

definition ReadFile :: "string \<Rightarrow> filesystem \<Rightarrow> bytes option" where
  "ReadFile name fs = fs_files fs name"

definition WriteFile :: "string \<Rightarrow> bytes \<Rightarrow> filesystem \<Rightarrow> filesystem" where
  "WriteFile name data fs =
     (let fs1 = fs\<lparr>fs_writes := Suc (fs_writes fs)\<rparr> in
      case fs_fate fs (fs_writes fs) name data of
        WriteOk \<Rightarrow> fs1\<lparr>fs_files := (fs_files fs1)(name \<mapsto> data)\<rparr>
      | OpenFails \<Rightarrow> fs1
      | ShortWrite n \<Rightarrow> fs1\<lparr>fs_files := (fs_files fs1)(name \<mapsto> take n data)\<rparr>)"

section \<open>The disk cache\<close>

record diskObjectStoreCache =
  dc_dir :: string
  dc_gets :: int
  dc_puts :: int
  dc_hits :: int

type_synonym disk = "diskObjectStoreCache \<times> filesystem"

definition range_name :: "string \<Rightarrow> u64 \<Rightarrow> u64 \<Rightarrow> string" where
  "range_name path start end = path @ ''|'' @ dec_int (uint start) @ ''|'' @ dec_int (uint end)"

definition disk_file :: "diskObjectStoreCache \<Rightarrow> string \<Rightarrow> u64 \<Rightarrow> u64 \<Rightarrow> string" where
  "disk_file c path start end =
     (let sum = Sum256 (bytes_of_string (range_name path start end))
      in Join [dc_dir c, EncodeToString sum @ ''.range''])"

definition disk_Get :: "string \<Rightarrow> u64 \<Rightarrow> u64 \<Rightarrow> (disk, bytes option \<times> bool) meth" where
  "disk_Get path start end = (\<lambda>(c, fs).
     let c1 = c\<lparr>dc_gets := dc_gets c + 1\<rparr> in
     case ReadFile (disk_file c1 path start end) fs of
       None \<Rightarrow> (Ret (None, False), (c1, fs))
     | Some data \<Rightarrow> (Ret (Some data, True), (c1\<lparr>dc_hits := dc_hits c1 + 1\<rparr>, fs)))"

definition disk_Put :: "string \<Rightarrow> u64 \<Rightarrow> u64 \<Rightarrow> bytes \<Rightarrow> (disk, unit) meth" where
  "disk_Put path start end data = (\<lambda>(c, fs).
     let c1 = c\<lparr>dc_puts := dc_puts c + 1\<rparr> in
     (Ret (), (c1, WriteFile (disk_file c1 path start end) data fs)))"

definition diskCache :: "disk ObjectStoreCache" where
  "diskCache = \<lparr>osc_Get = disk_Get, osc_Put = disk_Put\<rparr>"

section \<open>Names of ranges\<close>

lemma dec_nat_digits: "c \<in> set (dec_nat n) \<Longrightarrow> 48 \<le> (of_char c :: nat) \<and> (of_char c :: nat) < 58"
proof (induction n rule: dec_nat.induct)
  case (1 n)
  have d: "(of_char (char_of (48 + m) :: char) :: nat) = 48 + m" if "m < 10" for m :: nat
    using that by simp
  show ?case
    using 1 d [of n] d [of "n mod 10"] by (subst (asm) (2) dec_nat.simps) (auto split: if_splits)
qed

definition nat_of_dec :: "string \<Rightarrow> nat" where
  "nat_of_dec s = foldl (\<lambda>a c. 10 * a + (of_char c - 48)) 0 s"

lemma nat_of_dec_nat: "nat_of_dec (dec_nat n) = n"
proof (induction n rule: dec_nat.induct)
  case (1 n)
  then show ?case
    by (subst dec_nat.simps) (auto simp: nat_of_dec_def)
qed

lemma dec_uint_inj: "dec_int (uint a) = dec_int (uint b) \<longleftrightarrow> a = b" for a b :: u64
proof
  assume "dec_int (uint a) = dec_int (uint b)"
  then have "nat (uint a) = nat (uint b)"
    unfolding dec_int_def by (metis nat_of_dec_nat not_less unsigned_greater_eq)
  then show "a = b" by (simp add: unsigned_word_eqI)
qed simp

lemma bar_not_digit: "CHR ''|'' \<notin> set (dec_int (uint a))"
  using dec_nat_digits [of "CHR ''|''" "nat (uint a)"] by (auto simp: dec_int_def)

lemma split_at_last:
  assumes "c \<notin> set b" "c \<notin> set d" "a @ c # b = x @ c # d"
  shows "a = x \<and> b = d"
proof -
  have "rev b @ c # rev a = rev d @ c # rev x"
    using arg_cong [OF assms(3), of rev] by simp
  then have "takeWhile (\<lambda>z. z \<noteq> c) (rev b @ c # rev a) = takeWhile (\<lambda>z. z \<noteq> c) (rev d @ c # rev x)"
    by simp
  then have "b = d" using assms(1,2) by (auto simp: takeWhile_append split: if_splits)
  with assms(3) show ?thesis by simp
qed

lemma range_name_inj:
  "range_name p s e = range_name p' s' e' \<longleftrightarrow> p = p' \<and> s = s' \<and> e = e'"
proof
  assume eq: "range_name p s e = range_name p' s' e'"
  have "p @ CHR ''|'' # dec_int (uint s) = p' @ CHR ''|'' # dec_int (uint s') \<and> dec_int (uint e) = dec_int (uint e')"
    by (rule split_at_last) (use eq bar_not_digit in \<open>simp_all add: range_name_def\<close>)
  moreover from this have "p = p' \<and> dec_int (uint s) = dec_int (uint s')"
    by (intro split_at_last [of "CHR ''|''"]) (simp_all add: bar_not_digit)
  ultimately show "p = p' \<and> s = s' \<and> e = e'" by (simp add: dec_uint_inj)
qed simp

section \<open>Names of files\<close>

lemma hex_digit_inj: "m < 16 \<Longrightarrow> n < 16 \<Longrightarrow> hex_digit m = hex_digit n \<longleftrightarrow> m = n"
proof
  assume "m < 16" "n < 16" "hex_digit m = hex_digit n"
  then have "(of_char (hex_digit m) :: nat) = of_char (hex_digit n)" by simp
  with \<open>m < 16\<close> \<open>n < 16\<close> show "m = n"
    by (auto simp: hex_digit_def split: if_splits)
qed simp

lemma hex_digit_not_slash: "n < 16 \<Longrightarrow> hex_digit n \<noteq> CHR ''/''"
proof
  assume "n < 16" "hex_digit n = CHR ''/''"
  then have "(of_char (hex_digit n) :: nat) = 47" by simp
  with \<open>n < 16\<close> show False by (auto simp: hex_digit_def split: if_splits)
qed

lemma hex_byte_inj: "hex_byte a = hex_byte b \<longleftrightarrow> a = b"
proof
  have "unat c div 16 < 16" for c :: byte
    using unat_byte_less [of c] by linarith
  then show "hex_byte a = hex_byte b \<Longrightarrow> a = b"
    by (auto simp: hex_byte_def hex_digit_inj) (metis div_mult_mod_eq unsigned_word_eqI)
qed simp

lemma EncodeToString_inj: "EncodeToString xs = EncodeToString ys \<longleftrightarrow> xs = ys"
proof (induction xs arbitrary: ys)
  case Nil
  then show ?case by (cases ys) (simp_all add: EncodeToString_def hex_byte_def)
next
  case (Cons x xs)
  show ?case
  proof (cases ys)
    case (Cons y zs)
    have "length (hex_byte x) = length (hex_byte y)" by (simp add: hex_byte_def)
    then show ?thesis
      using Cons Cons.IH [of zs] by (simp add: EncodeToString_def hex_byte_inj)
  qed (simp add: EncodeToString_def hex_byte_def)
qed

lemma EncodeToString_not_slash: "CHR ''/'' \<notin> set (EncodeToString bs)"
proof -
  have "CHR ''/'' \<notin> set (hex_byte b)" for b
  proof -
    have "unat b div 16 < 16" using unat_byte_less [of b] by linarith
    with hex_digit_not_slash [of "unat b div 16"] hex_digit_not_slash [of "unat b mod 16"] show ?thesis
      by (auto simp: hex_byte_def)
  qed
  then show ?thesis by (simp add: EncodeToString_def)
qed

lemma split_on_nonempty [simp]: "split_on c xs \<noteq> []"
  by (induction xs) (auto split: list.split)

lemma split_on_none: "c \<notin> set xs \<Longrightarrow> split_on c xs = [xs]"
  by (induction xs) auto

lemma split_on_append: "split_on c (xs @ c # ys) = split_on c xs @ split_on c ys"
  by (induction xs) (auto split: list.split)

lemma join_with_snoc: "join_with s (xs @ [x]) = (if xs = [] then x else join_with s xs @ s @ x)"
  by (induction s xs rule: join_with.induct) auto

text \<open>A plain file name under a directory is the cleaned directory followed by the name.\<close>

definition dir_prefix :: "string \<Rightarrow> string" where
  "dir_prefix d =
     (if d = [] then []
      else let rooted = (hd d = CHR ''/''); st = fold (clean_elem rooted) (split_on (CHR ''/'') d) [] in
        (if rooted then ''/'' else []) @ (if st = [] then [] else join_with ''/'' st @ ''/''))"

lemma Join_name:
  assumes "CHR ''/'' \<notin> set name" and "name \<noteq> []" "name \<noteq> ''.''" "name \<noteq> ''..''"
  shows "Join [d, name] = dir_prefix d @ name"
proof -
  have last: "clean_elem r name st = st @ [name]" for r st
    using assms by (simp add: clean_elem_def)
  have hd: "hd name \<noteq> CHR ''/''"
    using assms(1,2) by (metis hd_in_set)
  show ?thesis
  proof (cases "d = []")
    case True
    with assms hd show ?thesis
      by (simp add: Clean_def split_on_none last dir_prefix_def Let_def)
  next
    case False
    with assms(2) show ?thesis
      by (simp add: Clean_def split_on_append split_on_none [OF assms(1)] last join_with_snoc dir_prefix_def Let_def)
  qed
qed

lemma disk_file_name:
  "disk_file c p s e = dir_prefix (dc_dir c) @ EncodeToString (Sum256 (bytes_of_string (range_name p s e))) @ ''.range''"
proof -
  have plain: "CHR ''/'' \<notin> set (x @ ''.range'')" "x @ ''.range'' \<noteq> []" "x @ ''.range'' \<noteq> ''.''" "x @ ''.range'' \<noteq> ''..''"
    if "CHR ''/'' \<notin> set x" for x
    using that by (auto simp: append_eq_Cons_conv)
  show ?thesis
    unfolding disk_file_def Let_def by (rule Join_name [OF plain]) (rule EncodeToString_not_slash)+
qed

lemma disk_file_eq:
  "disk_file c p s e = disk_file c p' s' e' \<longleftrightarrow>
     Sum256 (bytes_of_string (range_name p s e)) = Sum256 (bytes_of_string (range_name p' s' e'))"
  by (simp add: disk_file_name EncodeToString_inj)

section \<open>What a byte-range cache promises\<close>

type_synonym range_key = "string \<times> u64 \<times> u64"

text \<open>\<^verbatim>\<open>look\<close> is what a lookup would find and \<^verbatim>\<open>same\<close> relates the keys that the cache may confuse.
  A store leaves every key as it was or, for a key it may confuse with its own, with the new bytes;
  an ignored write error is thus allowed, a truncated value is not.\<close>

locale range_cache =
  fixes C :: "'b ObjectStoreCache"
    and look :: "'b \<Rightarrow> range_key \<Rightarrow> bytes option"
    and invar :: "'b \<Rightarrow> bool"
    and same :: "range_key \<Rightarrow> range_key \<Rightarrow> bool"
  assumes get: "invar b \<Longrightarrow> \<exists>b'. invar b' \<and> look b' = look b \<and>
      osc_Get C p s e b = (Ret (look b (p, s, e), look b (p, s, e) \<noteq> None), b')"
    and put: "invar b \<Longrightarrow> \<exists>b'. invar b' \<and> osc_Put C p s e v b = (Ret (), b') \<and>
      (\<forall>k. look b' k = look b k \<or> same (p, s, e) k \<and> look b' k = Some v)"

text \<open>The requests of the native side as it encodes them.\<close>

datatype range_op = RGet range_key | RPut range_key bytes

fun adapter_range_op :: "'b ObjectStoreCache \<Rightarrow> range_op \<Rightarrow> ('b, goerr + bytes option) meth" where
  "adapter_range_op C (RGet (p, s, e)) = objectStoreCacheAdapter_Invoke C oscGet (Some (encode_range_key p s e))"
| "adapter_range_op C (RPut (p, s, e) v) = objectStoreCacheAdapter_Invoke C oscPut (Some (encode_range_key p s e @ v))"

fun range_run :: "'b ObjectStoreCache \<Rightarrow> range_op list \<Rightarrow> 'b \<Rightarrow> (goerr + bytes option) outcome list \<times> 'b" where
  "range_run C [] b = ([], b)"
| "range_run C (x # xs) b = (let (r, b1) = adapter_range_op C x b; (rs, b2) = range_run C xs b1 in (r # rs, b2))"

text \<open>The files are immutable: \<^verbatim>\<open>truth\<close> gives the bytes of every range. A request is admissible if
  its payload is below 4 GiB and it stores only the bytes that are there.\<close>

fun range_op_ok :: "(range_key \<Rightarrow> bytes) \<Rightarrow> range_key set \<Rightarrow> range_op \<Rightarrow> bool" where
  "range_op_ok truth K (RGet (p, s, e)) = ((p, s, e) \<in> K \<and> length (encode_range_key p s e) < 4294967296)"
| "range_op_ok truth K (RPut (p, s, e) v) =
     ((p, s, e) \<in> K \<and> v = truth (p, s, e) \<and> length (encode_range_key p s e @ v) < 4294967296)"

fun range_answer_ok :: "(range_key \<Rightarrow> bytes) \<Rightarrow> range_op \<Rightarrow> (goerr + bytes option) outcome \<Rightarrow> bool" where
  "range_answer_ok truth (RGet k) r = (r = Ret (Inr (Some (truth k))) \<or> r = Ret (Inl errPluginMiss))"
| "range_answer_ok truth (RPut k v) r = (r = Ret (Inr None))"

definition coherent :: "('b \<Rightarrow> range_key \<Rightarrow> bytes option) \<Rightarrow> (range_key \<Rightarrow> bytes) \<Rightarrow> range_key set \<Rightarrow> 'b \<Rightarrow> bool" where
  "coherent look truth K b = (\<forall>k \<in> K. \<forall>v. look b k = Some v \<longrightarrow> v = truth k)"

context range_cache
begin

lemma adapter_range_get:
  assumes "invar b" and "length (encode_range_key p s e) < 4294967296"
  shows "\<exists>b'. invar b' \<and> look b' = look b \<and> adapter_range_op C (RGet (p, s, e)) b =
    (case look b (p, s, e) of Some v \<Rightarrow> (Ret (Inr (Some v)), b') | None \<Rightarrow> (Ret (Inl errPluginMiss), b'))"
proof -
  have d: "decodeRangeKey (encode_range_key p s e) = Ret (Inr (p, s, e, []))"
    using decodeRangeKey_encode [of p s e "[]"] assms(2) by simp
  show ?thesis
    using get [OF assms(1), of p s e]
    by (cases "look b (p, s, e)") (auto simp: objectStoreCacheAdapter_Invoke_def d oscGet_def)
qed

lemma adapter_range_put:
  assumes "invar b" and "length (encode_range_key p s e @ v) < 4294967296"
  shows "\<exists>b'. invar b' \<and> adapter_range_op C (RPut (p, s, e) v) b = (Ret (Inr None), b') \<and>
    (\<forall>k. look b' k = look b k \<or> same (p, s, e) k \<and> look b' k = Some v)"
proof -
  obtain b' where "invar b'" "osc_Put C p s e v b = (Ret (), b')"
    "\<forall>k. look b' k = look b k \<or> same (p, s, e) k \<and> look b' k = Some v"
    using put [OF assms(1)] by blast
  then show ?thesis
    by (auto simp: objectStoreCacheAdapter_Invoke_def decodeRangeKey_encode [OF assms(2)] oscGet_def oscPut_def)
qed

lemma range_op_coherent:
  assumes "invar b" and "coherent look truth K b" and "range_op_ok truth K x"
    and apart: "\<And>k k'. k \<in> K \<Longrightarrow> k' \<in> K \<Longrightarrow> same k k' \<Longrightarrow> truth k = truth k'"
  shows "\<exists>r b'. adapter_range_op C x b = (r, b') \<and> range_answer_ok truth x r \<and> invar b' \<and> coherent look truth K b'"
proof (cases "(truth, K, x)" rule: range_op_ok.cases)
  case (1 _ _ p s e)
  then obtain b' where b': "invar b'" "look b' = look b" "adapter_range_op C (RGet (p, s, e)) b =
    (case look b (p, s, e) of Some v \<Rightarrow> (Ret (Inr (Some v)), b') | None \<Rightarrow> (Ret (Inl errPluginMiss), b'))"
    using adapter_range_get [of b p s e] assms(1,3) by auto
  have "look b (p, s, e) = Some v \<Longrightarrow> v = truth (p, s, e)" for v
    using assms(2,3) 1 by (auto simp: coherent_def)
  with 1 b' assms(2) show ?thesis
    by (cases "look b (p, s, e)") (auto simp: coherent_def)
next
  case (2 _ _ p s e v)
  then obtain b' where "invar b'" "adapter_range_op C (RPut (p, s, e) v) b = (Ret (Inr None), b')"
    "\<forall>k. look b' k = look b k \<or> same (p, s, e) k \<and> look b' k = Some v"
    using adapter_range_put [of b p s e v] assms(1,3) by auto
  moreover from this(3) have "coherent look truth K b'"
    using assms(2,3) apart [of "(p, s, e)"] 2 unfolding coherent_def by (metis Pair_inject option.inject range_op_ok.simps(2))
  ultimately show ?thesis using 2 by auto
qed

lemma range_run_coherent:
  assumes "invar b" and "coherent look truth K b" and "list_all (range_op_ok truth K) xs"
    and apart: "\<And>k k'. k \<in> K \<Longrightarrow> k' \<in> K \<Longrightarrow> same k k' \<Longrightarrow> truth k = truth k'"
  shows "list_all2 (range_answer_ok truth) xs (fst (range_run C xs b))"
  using assms(1-3)
proof (induction xs arbitrary: b)
  case (Cons x xs)
  obtain r b' where r: "adapter_range_op C x b = (r, b')" "range_answer_ok truth x r" "invar b'" "coherent look truth K b'"
    using range_op_coherent [of b truth K x] Cons.prems apart by auto
  from Cons.IH [OF r(3,4)] Cons.prems r(1,2) show ?case
    by (simp add: split_beta)
qed simp

end

section \<open>The disk cache as a byte-range cache\<close>

definition range_digest :: "range_key \<Rightarrow> bytes" where
  "range_digest k = (case k of (p, s, e) \<Rightarrow> Sum256 (bytes_of_string (range_name p s e)))"

definition disk_look :: "disk \<Rightarrow> range_key \<Rightarrow> bytes option" where
  "disk_look b k = (case k of (p, s, e) \<Rightarrow> ReadFile (disk_file (fst b) p s e) (snd b))"

definition whole_writes :: "disk \<Rightarrow> bool" where
  "whole_writes b = (\<forall>i f d n. fs_fate (snd b) i f d \<noteq> ShortWrite n)"

lemma disk_file_counters [simp]:
  "disk_file (c\<lparr>dc_gets := n\<rparr>) = disk_file c" "disk_file (c\<lparr>dc_puts := n\<rparr>) = disk_file c"
  "disk_file (c\<lparr>dc_hits := n\<rparr>) = disk_file c"
  by (simp_all add: disk_file_def fun_eq_iff)

lemma ReadFile_WriteFile:
  "ReadFile f (WriteFile g d fs) =
     (if f = g then (case fs_fate fs (fs_writes fs) g d of
        WriteOk \<Rightarrow> Some d | OpenFails \<Rightarrow> ReadFile f fs | ShortWrite n \<Rightarrow> Some (take n d))
      else ReadFile f fs)"
  by (simp add: ReadFile_def WriteFile_def Let_def split: write_fate.split)

lemma fs_fate_WriteFile [simp]: "fs_fate (WriteFile g d fs) = fs_fate fs"
  by (simp add: WriteFile_def Let_def split: write_fate.split)

lemma run_disk_Get:
  "\<exists>c'. disk_Get p s e (c, fs) = (Ret (ReadFile (disk_file c p s e) fs, ReadFile (disk_file c p s e) fs \<noteq> None), (c', fs)) \<and>
     disk_file c' = disk_file c"
  by (auto simp: disk_Get_def Let_def split: option.split)

interpretation dc: range_cache diskCache disk_look whole_writes "\<lambda>k k'. range_digest k = range_digest k'"
proof unfold_locales
  fix b :: disk and p :: string and s e :: u64 and v :: bytes
  obtain c fs where b: "b = (c, fs)" by (cases b)
  assume inv: "whole_writes b"
  from run_disk_Get [of p s e c fs]
  show "\<exists>b'. whole_writes b' \<and> disk_look b' = disk_look b \<and>
      osc_Get diskCache p s e b = (Ret (disk_look b (p, s, e), disk_look b (p, s, e) \<noteq> None), b')"
    using inv by (auto simp: b diskCache_def disk_look_def whole_writes_def fun_eq_iff)
  show "\<exists>b'. whole_writes b' \<and> osc_Put diskCache p s e v b = (Ret (), b') \<and>
      (\<forall>k. disk_look b' k = disk_look b k \<or> range_digest (p, s, e) = range_digest k \<and> disk_look b' k = Some v)"
    using inv
    by (auto simp: b diskCache_def disk_Put_def disk_look_def whole_writes_def range_digest_def ReadFile_WriteFile
        disk_file_eq Let_def split: write_fate.split)
qed

section \<open>Properties\<close>

text \<open>C30: as long as its writes are whole, the disk cache never serves wrong bytes. Take the byte ranges
  of immutable files and any sequence of lookups and stores as the native side encodes them, where
  each store carries the bytes of its range. If every write of a file either completes or fails to
  start, and SHA-256 does not collide on the texts that are hashed for these ranges, each lookup
  through the adapter answers with exactly the bytes of the range it names or with a miss, every
  store succeeds, and nothing panics. Different ranges are hashed as different texts. (A write that
  stops half way is served as the range, see below.)\<close>

theorem disk_cache_coherent:
  assumes "whole_writes (c, fs)" and "inj_on Sum256 ((\<lambda>(p, s, e). bytes_of_string (range_name p s e)) ` K)"
    and "coherent disk_look truth K (c, fs)" and "list_all (range_op_ok truth K) xs"
  shows "list_all2 (range_answer_ok truth) xs (fst (range_run diskCache xs (c, fs)))"
proof (rule dc.range_run_coherent [OF assms(1,3,4)])
  have "bytes_of_string a = bytes_of_string b \<Longrightarrow> a = b" for a b
    by (metis string_of_bytes_of_string)
  then have "inj_on (\<lambda>(p, s, e). bytes_of_string (range_name p s e)) K"
    by (intro inj_onI) (auto simp: range_name_inj [symmetric] split: prod.splits)
  with assms(2) have "inj_on (Sum256 \<circ> (\<lambda>(p, s, e). bytes_of_string (range_name p s e))) K"
    by (intro comp_inj_on)
  moreover have "range_digest = Sum256 \<circ> (\<lambda>(p, s, e). bytes_of_string (range_name p s e))"
    by (auto simp: range_digest_def fun_eq_iff)
  ultimately show "truth k = truth k'" if "k \<in> K" "k' \<in> K" "range_digest k = range_digest k'" for k k'
    using that by (auto dest: inj_onD)
qed

definition disk0 :: disk where
  "disk0 = (\<lparr>dc_dir = ''/tmp/x'', dc_gets = 0, dc_puts = 0, dc_hits = 0\<rparr>,
     \<lparr>fs_files = (\<lambda>_. None), fs_fate = (\<lambda>_ _ _. WriteOk), fs_writes = 0\<rparr>)"

theorem disk_cache_coherent_witness:
  "list_all2 (range_answer_ok (\<lambda>_. [1, 2, 3]))
     [RGet (''a'', 0, 3), RPut (''a'', 0, 3) [1, 2, 3], RGet (''a'', 0, 3)]
     (fst (range_run diskCache [RGet (''a'', 0, 3), RPut (''a'', 0, 3) [1, 2, 3], RGet (''a'', 0, 3)] disk0))"
proof -
  have len: "length (encode_range_key ''a'' 0 3) = 21"
    by (simp add: encode_range_key_def put_str_length)
  obtain c fs where d: "disk0 = (c, fs)" by (cases disk0)
  have "whole_writes (c, fs)" "coherent disk_look (\<lambda>_. [1, 2, 3]) {(''a'', 0, 3)} (c, fs)"
    unfolding d [symmetric] by (simp_all add: disk0_def whole_writes_def coherent_def disk_look_def ReadFile_def)
  from disk_cache_coherent [OF this(1) _ this(2), of "[RGet (''a'', 0, 3), RPut (''a'', 0, 3) [1, 2, 3], RGet (''a'', 0, 3)]"]
  show ?thesis unfolding d by (simp add: len)
qed

lemma run_put_get:
  assumes "length (encode_range_key p s e @ v) < 4294967296"
  shows "fst (range_run diskCache [RPut (p, s, e) v, RGet (p, s, e)] (c, fs)) =
    [Ret (Inr None), Ret (case ReadFile (disk_file c p s e) (WriteFile (disk_file c p s e) v fs) of
       Some x \<Rightarrow> Inr (Some x) | None \<Rightarrow> Inl errPluginMiss)]"
proof -
  have d: "decodeRangeKey (encode_range_key p s e) = Ret (Inr (p, s, e, []))"
    using decodeRangeKey_encode [of p s e "[]"] assms by simp
  show ?thesis
    by (simp add: objectStoreCacheAdapter_Invoke_def decodeRangeKey_encode [OF assms] d oscGet_def oscPut_def
        diskCache_def disk_Put_def disk_Get_def Let_def split: option.split)
qed

text \<open>What was stored is served: a lookup of a range right after a store whose write succeeded
  is a hit with the stored bytes, whatever the cache held before.\<close>

theorem disk_put_get:
  assumes "length (encode_range_key p s e @ v) < 4294967296"
    and "fs_fate fs (fs_writes fs) (disk_file c p s e) v = WriteOk"
  shows "fst (range_run diskCache [RPut (p, s, e) v, RGet (p, s, e)] (c, fs)) = [Ret (Inr None), Ret (Inr (Some v))]"
  using assms(2) by (simp only: run_put_get [OF assms(1)] ReadFile_WriteFile) simp

text \<open>A write that stops half way is served as the range: \<^verbatim>\<open>Put\<close> drops the error of
  \<^verbatim>\<open>os.WriteFile\<close>, and \<^verbatim>\<open>Get\<close> takes whatever the file holds for a hit.\<close>

theorem disk_short_write_served:
  assumes "length (encode_range_key p s e @ v) < 4294967296"
    and "fs_fate fs (fs_writes fs) (disk_file c p s e) v = ShortWrite n"
  shows "fst (range_run diskCache [RPut (p, s, e) v, RGet (p, s, e)] (c, fs)) = [Ret (Inr None), Ret (Inr (Some (take n v)))]"
  using assms(2) by (simp only: run_put_get [OF assms(1)] ReadFile_WriteFile) simp

text \<open>Two different ranges share a file exactly when SHA-256 collides on their names: the text
  that is hashed determines the path and both bounds, and neither the hexadecimal digest nor
  the cleaning of the path loses anything.\<close>

theorem disk_file_collides_iff:
  "disk_file c p s e = disk_file c p' s' e' \<longleftrightarrow>
     (p, s, e) = (p', s', e') \<or>
     range_name p s e \<noteq> range_name p' s' e' \<and> range_digest (p, s, e) = range_digest (p', s', e')"
  by (auto simp: disk_file_eq range_name_inj range_digest_def)

end
