(* ===== verification/Lance_Support.thy ===== *)
theory Lance_Support
  imports Lance_Reader Lance_Blob Lance_Disk
begin

text \<open>
  Code around the package: the deterministic test data and reader helpers of
  \<^verbatim>\<open>internal/testutil/testutil.go\<close>, the object-store fixtures of
  \<^verbatim>\<open>internal/testutil/objectstore.go\<close>, and the option parser of \<^verbatim>\<open>examples/object_store\<close>.
  The chunking of test data runs on 64-bit integers and may not end, so its loop returns an
  option; \<^verbatim>\<open>Collect\<close> is a client of the record-reader interface.
\<close>

section \<open>Test data\<close>

text \<open>The floating-point arithmetic of a row (\<^verbatim>\<open>float64(g) / 2.0\<close> and \<^verbatim>\<open>float32(g) + float32(j)\<close>)
  is a parameter that gives the bit patterns.\<close>

record float_ops =
  half64 :: "s64 \<Rightarrow> u64"
  plus32 :: "s64 \<Rightarrow> nat \<Rightarrow> u32"

record row =
  row_id :: s64
  row_name :: string
  row_score :: u64
  row_vec :: "u32 list"

definition VecDim :: nat where "VecDim = 16"

definition test_row :: "float_ops \<Rightarrow> s64 \<Rightarrow> row" where
  "test_row fp g = \<lparr>row_id = g, row_name = ''row-'' @ dec_int (sint g), row_score = half64 fp g,
     row_vec = map (plus32 fp g) [0..<VecDim]\<rparr>"

definition NewRecord :: "float_ops \<Rightarrow> s64 \<Rightarrow> s64 \<Rightarrow> row list" where
  "NewRecord fp startID rows = map (\<lambda>i. test_row fp (startID + of_nat i)) [0..<nat (sint rows)]"

definition min64 :: "s64 \<Rightarrow> s64 \<Rightarrow> s64" where
  "min64 a b = (if sint b < sint a then b else a)"

text \<open>\<^verbatim>\<open>for off := 0; off < rows; off += batchRows\<close>, with the wrap-around of \<^verbatim>\<open>int64\<close>.\<close>

partial_function (option) newRecords_loop ::
  "float_ops \<Rightarrow> s64 \<Rightarrow> s64 \<Rightarrow> s64 \<Rightarrow> s64 \<Rightarrow> row list list \<Rightarrow> row list list option" where
  "newRecords_loop fp startID rows batchRows off records =
     (if sint off < sint rows then
        (let n = min64 batchRows (rows - off) in
         newRecords_loop fp startID rows batchRows (off + batchRows) (records @ [NewRecord fp (startID + off) n]))
      else Some records)"

definition NewRecords :: "float_ops \<Rightarrow> s64 \<Rightarrow> s64 \<Rightarrow> s64 \<Rightarrow> row list list option" where
  "NewRecords fp startID rows batchRows = newRecords_loop fp startID rows batchRows 0 []"

text \<open>\<^verbatim>\<open>NewReader\<close>: the reader that Arrow makes of the records (or its error) is a parameter; the
  references of the caller are given back when it returns. The second result lists the
  references that it still holds.\<close>

definition ReleaseAll :: "'b list \<Rightarrow> 'b list \<Rightarrow> 'b list" where
  "ReleaseAll recs refs = fold remove1 recs refs"

definition NewReader ::
  "float_ops \<Rightarrow> (row list list \<Rightarrow> goerr + 'r) \<Rightarrow> s64 \<Rightarrow> s64 \<Rightarrow> s64 \<Rightarrow> ('r outcome \<times> row list list) option" where
  "NewReader fp NewRecordReader startID rows batchRows = (case NewRecords fp startID rows batchRows of
       None \<Rightarrow> None
     | Some records \<Rightarrow> Some (case NewRecordReader records of
           Inl err \<Rightarrow> Panic (''testutil: NewRecordReader: '' @ err_text err)
         | Inr rdr \<Rightarrow> Ret rdr, ReleaseAll records records))"

definition TotalRows :: "('b \<Rightarrow> s64) \<Rightarrow> 'b list \<Rightarrow> s64" where
  "TotalRows NumRows recs = foldl (\<lambda>n rec. n + NumRows rec) 0 recs"

lemma sint_of_int_small: "0 \<le> x \<Longrightarrow> x < 9223372036854775808 \<Longrightarrow> sint (of_int x :: s64) = x"
  by (simp add: signed_of_int signed_take_bit_int_eq_self)

lemma NewRecord_split:
  assumes "0 \<le> a" and "0 \<le> b" and "a + b < 9223372036854775808"
  shows "NewRecord fp st (of_int (a + b)) = NewRecord fp st (of_int a) @ NewRecord fp (st + of_int a) (of_int b)"
proof -
  have n: "nat (sint (of_int (a + b) :: s64)) = nat a + nat b" "nat (sint (of_int a :: s64)) = nat a"
      "nat (sint (of_int b :: s64)) = nat b"
    using assms sint_of_int_small [of "a + b"] by (simp_all add: sint_of_int_small del: of_int_add)
  have shift: "map f [nat a..<nat a + nat b] = map (\<lambda>i. f (nat a + i)) [0..<nat b]" for f :: "nat \<Rightarrow> row"
    using arg_cong [OF map_add_upt [of "nat a" "nat b"], of "map f"] by (simp add: add.commute o_def)
  have "(of_int a :: s64) = of_nat (nat a)" using assms(1) by simp
  then show ?thesis
    unfolding NewRecord_def n by (simp add: upt_add_eq_append [of 0 "nat a"] shift add.assoc)
qed

lemma length_NewRecord: "0 \<le> n \<Longrightarrow> n < 9223372036854775808 \<Longrightarrow> length (NewRecord fp st (of_int n)) = nat n"
  by (simp add: NewRecord_def sint_of_int_small)

text \<open>The batches that the loop still adds from offset \<^verbatim>\<open>x\<close> on.\<close>

definition chunks_of :: "row list \<Rightarrow> int \<Rightarrow> row list list \<Rightarrow> bool" where
  "chunks_of xs b cs = (concat cs = xs \<and> (\<forall>c \<in> set cs. c \<noteq> [] \<and> int (length c) \<le> b) \<and>
     (\<forall>c \<in> set (butlast cs). int (length c) = b))"

lemma chunks_of_Cons:
  assumes "chunks_of ys b cs" and "int (length xs) = b \<or> int (length xs) \<le> b \<and> cs = []" and "xs \<noteq> []"
  shows "chunks_of (xs @ ys) b (xs # cs)"
  using assms by (auto simp: chunks_of_def)

lemma min64_of_int:
  "0 \<le> a \<Longrightarrow> 0 \<le> b \<Longrightarrow> a < 9223372036854775808 \<Longrightarrow> b < 9223372036854775808 \<Longrightarrow>
     min64 (of_int a) (of_int b) = of_int (min a b)"
  by (auto simp: min64_def sint_of_int_small min_def)

lemma newRecords_loop_chunks:
  assumes "0 < b" and "r + b \<le> 9223372036854775808" and "0 \<le> x" and "x < r + b" and "0 \<le> r"
  shows "\<exists>cs. newRecords_loop fp st (of_int r) (of_int b) (of_int x) acc = Some (acc @ cs) \<and>
    chunks_of (NewRecord fp (st + of_int x) (of_int (max 0 (r - x)))) b cs"
  using assms(3,4)
proof (induction "nat (r - x)" arbitrary: x acc rule: less_induct)
  case less
  note small = sint_of_int_small [of x] sint_of_int_small [of r]
  show ?case
  proof (cases "x < r")
    case False
    with less.prems assms show ?thesis
      by (subst newRecords_loop.simps) (simp add: small chunks_of_def NewRecord_def)
  next
    case True
    let ?n = "min b (r - x)"
    let ?c = "NewRecord fp (st + of_int x) (of_int ?n)"
    have "nat (r - (x + b)) < nat (r - x)" "0 \<le> x + b" "x + b < r + b"
      using True assms less.prems by auto
    from less.hyps [OF this, of "acc @ [?c]"] obtain cs where
      cs: "newRecords_loop fp st (of_int r) (of_int b) (of_int (x + b)) (acc @ [?c]) = Some ((acc @ [?c]) @ cs)"
        "chunks_of (NewRecord fp (st + of_int (x + b)) (of_int (max 0 (r - (x + b))))) b cs"
      by blast
    have len: "length ?c = nat ?n" using True assms less.prems by (intro length_NewRecord) (auto simp: min_def)
    have "0 < length ?c" using len True assms by (simp add: min_def)
    then have ne: "?c \<noteq> []" by blast
    have "newRecords_loop fp st (of_int r) (of_int b) (of_int x) acc = Some (acc @ ?c # cs)"
      using True assms less.prems cs(1) min64_of_int [of b "r - x"]
      by (subst newRecords_loop.simps) (simp add: small Let_def)
    moreover have "chunks_of (NewRecord fp (st + of_int x) (of_int (max 0 (r - x)))) b (?c # cs)"
    proof (cases "b \<le> r - x")
      case b: True
      have eq: "NewRecord fp (st + of_int x) (of_int (max 0 (r - x))) =
          ?c @ NewRecord fp (st + of_int (x + b)) (of_int (max 0 (r - (x + b))))"
        using b assms less.prems True NewRecord_split [of b "r - x - b" fp "st + of_int x"]
        by (simp add: min_def max_def add.assoc algebra_simps)
      have "int (length ?c) = b" using len b assms(1) by (simp add: min_def)
      then show ?thesis
        unfolding eq by (intro chunks_of_Cons [OF cs(2) _ ne] disjI1)
    next
      case b: False
      then have "cs = []"
        using cs(2) by (auto simp: chunks_of_def NewRecord_def)
      with b True len show ?thesis
        by (auto simp: chunks_of_def min_def)
    qed
    ultimately show ?thesis by blast
  qed
qed

lemma newRecords_loop_zero:
  assumes "newRecords_loop fp st rows 0 off acc = Some cs"
  shows "sint rows \<le> sint off"
proof -
  have "b = 0 \<longrightarrow> sint rows \<le> sint off" if "newRecords_loop fp st rows b off acc = Some cs" for b
    using that
  proof (rule newRecords_loop.raw_induct [rotated])
    fix loop fp st rows b off acc cs
    assume "\<And>fp st rows b off acc cs. loop fp st rows b off acc = Some cs \<Longrightarrow> b = 0 \<longrightarrow> sint rows \<le> sint off"
      and "(if sint off < sint rows then let n = min64 b (rows - off) in
          loop fp st rows b (off + b) (acc @ [NewRecord fp (st + off) n]) else Some acc) = Some cs"
    then show "b = 0 \<longrightarrow> sint rows \<le> sint off"
      by (fastforce split: if_splits simp: Let_def)
  qed
  with assms show ?thesis by simp
qed

section \<open>Draining a reader\<close>

text \<open>\<^verbatim>\<open>Collect\<close>: the records retained so far are in \<^verbatim>\<open>out\<close>; the references that are still held when
  it returns are its third result. A nil record panics in \<^verbatim>\<open>Retain\<close>, with the records before it
  still retained.\<close>

partial_function (option) collect_loop ::
  "('r \<Rightarrow> bool \<times> 'r) \<Rightarrow> ('r \<Rightarrow> 'b option) \<Rightarrow> 'r \<Rightarrow> 'b list \<Rightarrow> (unit outcome \<times> 'b list \<times> 'r) option" where
  "collect_loop nxt cur rdr out =
     (let (ok, rdr1) = nxt rdr in
      if ok then
        (case cur rdr1 of
           None \<Rightarrow> Some (Panic ''runtime error: invalid memory address or nil pointer dereference'', out, rdr1)
         | Some rec \<Rightarrow> collect_loop nxt cur rdr1 (out @ [rec]))
      else Some (Ret (), out, rdr1))"

definition Collect ::
  "('r \<Rightarrow> bool \<times> 'r) \<Rightarrow> ('r \<Rightarrow> 'b option) \<Rightarrow> ('r \<Rightarrow> goerr option) \<Rightarrow> 'r \<Rightarrow>
   ((goerr + 'b list) outcome \<times> 'r \<times> 'b list) option" where
  "Collect nxt cur er rdr = (case collect_loop nxt cur rdr [] of
       None \<Rightarrow> None
     | Some (Panic v, out, rdr1) \<Rightarrow> Some (Panic v, rdr1, out)
     | Some (Ret _, out, rdr1) \<Rightarrow> (case er rdr1 of
         Some err \<Rightarrow> Some (Ret (Inl err), rdr1, ReleaseAll out out)
       | None \<Rightarrow> Some (Ret (Inr out), rdr1, out)))"

lemma ReleaseAll_self [simp]: "ReleaseAll xs xs = []"
  unfolding ReleaseAll_def by (induction xs) simp_all

context record_reader
begin

lemma collect_loop_drains:
  assumes "invar r" and "pending r = map Inr bs @ (case e of None \<Rightarrow> [] | Some x \<Rightarrow> [Inl x])"
    and "pending r = [] \<Longrightarrow> er r = None"
  shows "\<exists>r'. collect_loop nxt cur r acc = Some (Ret (), acc @ bs, r') \<and> invar r' \<and> er r' = e"
  using assms
proof (induction bs arbitrary: r acc)
  case Nil
  then show ?case
    using next_end [of r] next_error [of r] by (subst collect_loop.simps) (auto split: option.splits)
next
  case (Cons b bs)
  then obtain r' where r': "nxt r = (True, r')" "invar r'" "cur r' = Some b"
      "pending r' = map Inr bs @ (case e of None \<Rightarrow> [] | Some x \<Rightarrow> [Inl x])"
    using next_batch [of r b] by auto
  have "er r' = None" using next_clean [OF Cons.prems(1) r'(1)] .
  with Cons.IH [OF r'(2,4), of "acc @ [b]"] r' show ?case
    by (subst collect_loop.simps) simp
qed

lemma Collect_drains:
  assumes "invar r" and "pending r = map Inr bs @ (case e of None \<Rightarrow> [] | Some x \<Rightarrow> [Inl x])"
    and "pending r = [] \<Longrightarrow> er r = None"
  shows "\<exists>r'. Collect nxt cur er r =
      Some (Ret (case e of None \<Rightarrow> Inr bs | Some x \<Rightarrow> Inl x), r', case e of None \<Rightarrow> bs | Some x \<Rightarrow> []) \<and> invar r'"
  using collect_loop_drains [OF assms, of "[]"] by (auto simp: Collect_def split: option.splits)

end

section \<open>Option strings\<close>

text \<open>The UTF-8 encodings of the white-space characters of Go's \<^verbatim>\<open>unicode.IsSpace\<close>.\<close>

definition spaces :: "string list" where
  "spaces = map (map char_of) ([[9], [10], [11], [12], [13], [32], [0xC2, 0x85], [0xC2, 0xA0], [0xE1, 0x9A, 0x80],
     [0xE2, 0x80, 0xA8], [0xE2, 0x80, 0xA9], [0xE2, 0x80, 0xAF], [0xE2, 0x81, 0x9F], [0xE3, 0x80, 0x80]] @
     map (\<lambda>i. [0xE2, 0x80, i]) [0x80..<0x8B] :: nat list list)"

lemma find_prefix_length: "find (\<lambda>p. p \<noteq> [] \<and> prefix p s) ps = Some q \<Longrightarrow> s \<noteq> [] \<and> length (drop (length q) s) < length s"
  by (auto simp: find_Some_iff prefix_def)

function trim_left :: "string list \<Rightarrow> string \<Rightarrow> string" where
  "trim_left ps s = (case find (\<lambda>p. p \<noteq> [] \<and> prefix p s) ps of
     None \<Rightarrow> s | Some q \<Rightarrow> trim_left ps (drop (length q) s))"
  by pat_completeness auto
termination
  by (relation "measure (\<lambda>(_, s). length s)") (auto dest: find_prefix_length)

declare trim_left.simps [simp del]

definition TrimSpace :: "string \<Rightarrow> string" where
  "TrimSpace s = rev (trim_left (map rev spaces) (rev (trim_left spaces s)))"

text \<open>\<^verbatim>\<open>strings.Cut(s, sep)\<close> for a one-byte separator.\<close>

definition Cut :: "string \<Rightarrow> char \<Rightarrow> string \<times> string \<times> bool" where
  "Cut s c = (let k = takeWhile (\<lambda>x. x \<noteq> c) s in
     if k = s then (s, [], False) else (k, drop (Suc (length k)) s, True))"

text \<open>\<^verbatim>\<open>log.Fatalf\<close> ends the process with its message: the left result.\<close>

fun parse_pairs :: "string list \<Rightarrow> gomap \<Rightarrow> string + gomap" where
  "parse_pairs [] options = Inr options"
| "parse_pairs (p # ps) options =
     (let pair = TrimSpace p in
      if pair = [] then parse_pairs ps options
      else (case Cut pair (CHR ''='') of (key, val, found) \<Rightarrow>
        if \<not> found then Inl (''invalid LANCE_STORAGE_OPTIONS entry '' @ go_quote pair @ '' (want key=value)'')
        else parse_pairs ps (AList.update (TrimSpace key) (TrimSpace val) options)))"

definition parseStorageOptions :: "string \<Rightarrow> string + gomap" where
  "parseStorageOptions s = parse_pairs (split_on (CHR '','') s) []"

text \<open>The form the documentation gives: \<^verbatim>\<open>k1=v1,k2=v2\<close>.\<close>

definition printStorageOptions :: "gomap \<Rightarrow> string" where
  "printStorageOptions m = join_with '','' (map (\<lambda>(k, v). k @ ''='' @ v) m)"

definition edge_clean :: "string \<Rightarrow> bool" where
  "edge_clean s = (\<forall>p \<in> set spaces. \<not> prefix p s \<and> \<not> suffix p s)"

definition option_ok :: "string \<times> string \<Rightarrow> bool" where
  "option_ok kv = (case kv of (k, v) \<Rightarrow> CHR '','' \<notin> set k \<and> CHR ''='' \<notin> set k \<and> CHR '','' \<notin> set v \<and>
     edge_clean k \<and> edge_clean v)"

lemma spaces_plain: "\<forall>p \<in> set spaces. p \<noteq> [] \<and> CHR ''='' \<notin> set p"
  by code_simp

definition graphic :: "char \<Rightarrow> bool" where
  "graphic c = (32 < (of_char c :: nat) \<and> (of_char c :: nat) < 127)"

lemma spaces_not_graphic: "\<forall>p \<in> set spaces. \<not> graphic (hd p) \<and> \<not> graphic (last p)"
  by code_simp

text \<open>A text that begins and ends with a visible ASCII character has no white space to strip.\<close>

lemma edge_clean_graphic: "s \<noteq> [] \<Longrightarrow> graphic (hd s) \<Longrightarrow> graphic (last s) \<Longrightarrow> edge_clean s"
  using spaces_plain spaces_not_graphic
  by (fastforce simp: edge_clean_def prefix_def suffix_def)

lemma trim_left_id: "(\<forall>p \<in> set ps. \<not> prefix p s) \<Longrightarrow> trim_left ps s = s"
  by (subst trim_left.simps) (auto simp: find_Some_iff split: option.split)

lemma TrimSpace_id: "edge_clean s \<Longrightarrow> TrimSpace s = s"
  by (simp add: TrimSpace_def edge_clean_def trim_left_id suffix_to_prefix)

lemma prefix_up_to:
  assumes "prefix p (k @ c # v)" and "c \<notin> set p"
  shows "prefix p k"
  using assms by (auto simp: prefix_append prefix_Cons)

lemma edge_clean_pair: "edge_clean k \<Longrightarrow> edge_clean v \<Longrightarrow> edge_clean (k @ CHR ''='' # v)"
proof -
  assume "edge_clean k" "edge_clean v"
  moreover have "prefix p k" if "p \<in> set spaces" "prefix p (k @ CHR ''='' # v)" for p
    using prefix_up_to [OF that(2)] spaces_plain that(1) by blast
  moreover have "suffix p v" if "p \<in> set spaces" "suffix p (k @ CHR ''='' # v)" for p
    using prefix_up_to [of "rev p" "rev v" "CHR ''=''" "rev k"] spaces_plain that by (simp add: suffix_to_prefix)
  ultimately show ?thesis by (auto simp: edge_clean_def)
qed

lemma Cut_pair: "c \<notin> set k \<Longrightarrow> Cut (k @ c # v) c = (k, v, True)"
proof -
  assume "c \<notin> set k"
  then have "takeWhile (\<lambda>x. x \<noteq> c) (k @ c # v) = k" by (auto simp: takeWhile_append split: if_splits)
  then show ?thesis by (simp add: Cut_def Let_def)
qed

lemma Cut_found: "snd (snd (Cut s c)) \<longleftrightarrow> c \<in> set s"
  by (auto simp: Cut_def Let_def takeWhile_eq_all_conv)

lemma split_on_join:
  "xs \<noteq> [] \<Longrightarrow> \<forall>x \<in> set xs. c \<notin> set x \<Longrightarrow> split_on c (join_with [c] xs) = xs"
  by (induction "[c]" xs rule: join_with.induct) (simp_all add: split_on_none split_on_append)

lemma update_fresh: "k \<notin> fst ` set m \<Longrightarrow> AList.update k v m = m @ [(k, v)]"
  by (induction m) auto

lemma parse_pairs_print:
  assumes "\<forall>kv \<in> set m. option_ok kv" and "distinct (map fst (acc @ m))"
  shows "parse_pairs (map (\<lambda>(k, v). k @ ''='' @ v) m) acc = Inr (acc @ m)"
  using assms
proof (induction m arbitrary: acc)
  case (Cons kv m)
  obtain k v where kv: "kv = (k, v)" by (cases kv)
  have ok: "CHR ''='' \<notin> set k" "edge_clean k" "edge_clean v"
    using Cons.prems(1) by (auto simp: kv option_ok_def)
  have "k \<notin> fst ` set acc" using Cons.prems(2) by (auto simp: kv)
  then have upd: "AList.update k v acc = acc @ [(k, v)]" by (rule update_fresh)
  show ?case
    using Cons.IH [of "acc @ [(k, v)]"] Cons.prems
    by (simp add: kv TrimSpace_id ok edge_clean_pair Cut_pair upd Let_def)
qed simp

lemma parse_pairs_rejects:
  "(\<exists>msg. parse_pairs ps acc = Inl msg) \<longleftrightarrow>
     (\<exists>p \<in> set ps. TrimSpace p \<noteq> [] \<and> CHR ''='' \<notin> set (TrimSpace p))"
proof (induction ps arbitrary: acc)
  case (Cons p ps)
  show ?case
    using Cons.IH Cut_found [of "TrimSpace p" "CHR ''=''"] by (auto simp: Let_def split: prod.split)
qed simp

lemma parse_pairs_distinct: "parse_pairs ps acc = Inr m \<Longrightarrow> distinct (map fst acc) \<Longrightarrow> distinct (map fst m)"
  by (induction ps acc rule: parse_pairs.induct) (auto simp: Let_def distinct_update split: if_splits prod.splits)

section \<open>Object-store fixtures\<close>

text \<open>The environment gives the empty string for a variable that is not set.\<close>

type_synonym env = "string \<Rightarrow> string"

record ObjectStoreFixture =
  Provider :: string
  fx_URI :: string
  StorageOptions :: gomap
  fx_Endpoint :: string

definition ObjectStoreEnabled :: "env \<Rightarrow> bool" where
  "ObjectStoreEnabled env = (let v = env ''LANCE_GO_OBJECT_STORE_TESTS'' in v \<noteq> [] \<and> v \<noteq> ''0'')"

definition envOr :: "env \<Rightarrow> string \<Rightarrow> string \<Rightarrow> string" where
  "envOr env key fallback = (let v = env key in if v \<noteq> [] then v else fallback)"

definition ObjectStoreBucket :: string where "ObjectStoreBucket = ''lance-test''"
definition SeaweedFSAccessKey :: string where "SeaweedFSAccessKey = ''lance-access-key''"
definition SeaweedFSSecretKey :: string where "SeaweedFSSecretKey = ''lance-secret-key''"
definition AzuriteAccount :: string where "AzuriteAccount = ''devstoreaccount1''"
definition AzuriteKey :: string where
  "AzuriteKey = ''Eby8vdM02xNOcqFlqUwJPLlmEtlCDXJ1OUzFT50uSRZ6IFsuFq2UVErCz4I6tq/K1SZFPTOtr/KBHBeksoGMGw==''"

definition S3Fixture :: "env \<Rightarrow> string \<Rightarrow> ObjectStoreFixture" where
  "S3Fixture env path =
     (let endpoint = envOr env ''LANCE_GO_S3_ENDPOINT'' ''http://127.0.0.1:8333'' in
      \<lparr>Provider = ''s3'', fx_URI = ''s3://'' @ ObjectStoreBucket @ ''/'' @ path,
       StorageOptions = [(''access_key_id'', SeaweedFSAccessKey), (''secret_access_key'', SeaweedFSSecretKey),
         (''region'', ''us-east-1''), (''endpoint'', endpoint), (''allow_http'', ''true''),
         (''virtual_hosted_style_request'', ''false'')],
       fx_Endpoint = endpoint\<rparr>)"

text \<open>\<^verbatim>\<open>AzureFixture\<close> also sets a variable of the process.\<close>

definition AzureFixture :: "env \<Rightarrow> string \<Rightarrow> ObjectStoreFixture \<times> env" where
  "AzureFixture env path =
     (let endpoint = envOr env ''LANCE_GO_AZURITE_ENDPOINT'' ''http://127.0.0.1:10000'' in
      (\<lparr>Provider = ''azure'', fx_URI = ''az://'' @ ObjectStoreBucket @ ''/'' @ path,
        StorageOptions = [(''account_name'', AzuriteAccount), (''account_key'', AzuriteKey), (''use_emulator'', ''true'')],
        fx_Endpoint = endpoint\<rparr>,
       env(''AZURITE_BLOB_STORAGE_URL'' := endpoint)))"

definition GCSFixture :: "env \<Rightarrow> string \<Rightarrow> ObjectStoreFixture" where
  "GCSFixture env path =
     (let endpoint = envOr env ''LANCE_GO_GCS_ENDPOINT'' ''http://localhost:4443'' in
      \<lparr>Provider = ''gcs'', fx_URI = ''gs://'' @ ObjectStoreBucket @ ''/'' @ path,
       StorageOptions = [(''google_base_url'', endpoint), (''google_storage_token'', ''lance-go-test-token''),
         (''allow_http'', ''true'')],
       fx_Endpoint = endpoint\<rparr>)"

text \<open>\<^verbatim>\<open>CheckReachable\<close>: parsing an endpoint, dialling a host and closing the connection are
  parameters; \<^verbatim>\<open>JoinHostPort\<close> puts a host with a colon in brackets.\<close>

record url =
  u_Host :: string
  u_Hostname :: string
  u_Port :: string

definition JoinHostPort :: "string \<Rightarrow> string \<Rightarrow> string" where
  "JoinHostPort host port =
     (if CHR '':'' \<in> set host then ''['' @ host @ '']:'' @ port else host @ '':'' @ port)"

definition CheckReachable ::
  "(string \<Rightarrow> goerr + url) \<Rightarrow> (string \<Rightarrow> goerr + 'c) \<Rightarrow> ('c \<Rightarrow> goerr option) \<Rightarrow> ObjectStoreFixture \<Rightarrow> goerr option" where
  "CheckReachable parse dial close f = (case parse (fx_Endpoint f) of
       Inl err \<Rightarrow> Some (Wrapf [Lit ''parse endpoint '', Quo (fx_Endpoint f), Lit '': ''] err [])
     | Inr u \<Rightarrow>
         (let host = (if u_Port u = [] then JoinHostPort (u_Hostname u) ''80'' else u_Host u) in
          case dial host of
            Inl err \<Rightarrow> Some (Wrapf [Lit ''dial '', Str host, Lit '': ''] err [])
          | Inr conn \<Rightarrow> close conn))"

section \<open>Properties\<close>

text \<open>Chunking loses nothing and ends. For a positive batch size that stays within \<^verbatim>\<open>int64\<close> together
  with the number of rows, \<^verbatim>\<open>NewRecords\<close> returns; its batches, one after the other, are exactly
  the rows that one \<^verbatim>\<open>NewRecord\<close> call would build, none is empty or larger than asked for, all but
  the last have the full size, and \<^verbatim>\<open>TotalRows\<close> adds up to the number of rows.\<close>

theorem newRecords_chunked:
  assumes "0 < sint batchRows" and "0 \<le> sint rows" and "sint rows + sint batchRows \<le> 9223372036854775808"
  shows "\<exists>cs. NewRecords fp startID rows batchRows = Some cs \<and>
    chunks_of (NewRecord fp startID rows) (sint batchRows) cs \<and>
    TotalRows (\<lambda>rec. of_nat (length rec)) cs = rows"
proof -
  obtain cs where cs: "NewRecords fp startID rows batchRows = Some cs"
      "chunks_of (NewRecord fp startID rows) (sint batchRows) cs"
    using newRecords_loop_chunks [of "sint batchRows" "sint rows" 0 fp startID "[]"] assms
    by (auto simp: NewRecords_def max_def)
  have sum: "foldl (\<lambda>n rec. n + of_nat (length rec)) a xs = a + (of_nat (length (concat xs)) :: s64)" for a and xs :: "row list list"
    by (induction xs arbitrary: a) simp_all
  have "length (concat cs) = nat (sint rows)"
    using cs(2) by (simp add: chunks_of_def NewRecord_def)
  then have "TotalRows (\<lambda>rec. of_nat (length rec)) cs = of_nat (nat (sint rows))"
    by (simp add: TotalRows_def sum)
  also have "\<dots> = rows" using assms(2) by simp
  finally show ?thesis using cs by blast
qed

theorem newRecords_chunked_witness:
  "\<exists>cs. NewRecords \<lparr>half64 = (\<lambda>_. 0), plus32 = (\<lambda>_ _. 0)\<rparr> 100 10 4 = Some cs \<and>
    concat cs = NewRecord \<lparr>half64 = (\<lambda>_. 0), plus32 = (\<lambda>_ _. 0)\<rparr> 100 10"
proof -
  have "sint (4 :: s64) = 4" "sint (10 :: s64) = 10" by simp_all
  with newRecords_chunked [of 4 10 "\<lparr>half64 = (\<lambda>_. 0), plus32 = (\<lambda>_ _. 0)\<rparr>" 100] show ?thesis
    by (auto simp: chunks_of_def)
qed

text \<open>With a batch size of zero the loop never ends unless there is nothing to build.\<close>

theorem newRecords_zero_batch: "0 < sint rows \<Longrightarrow> NewRecords fp startID rows 0 = None"
  using newRecords_loop_zero [of fp startID rows 0 "[]"] by (cases "NewRecords fp startID rows 0") (auto simp: NewRecords_def)

text \<open>Draining a reader is balanced. \<^verbatim>\<open>Collect\<close> on a reader of the package returns: if the stream
  ends cleanly, all its batches in order with one reference held for each; if it ends with an
  error, that error, and every reference that was taken is given back.\<close>

theorem collect_balanced:
  assumes "reader_inv r" and "reader_pending r = map Inr bs @ (case e of None \<Rightarrow> [] | Some x \<Rightarrow> [Inl x])"
    and "reader_pending r = [] \<Longrightarrow> Err r = None"
  shows "\<exists>r'. Collect (Next nr) RecordBatch Err r =
      Some (Ret (case e of None \<Rightarrow> Inr bs | Some x \<Rightarrow> Inl x), r', case e of None \<Rightarrow> bs | Some x \<Rightarrow> []) \<and> reader_inv r'"
  using assms by (rule owned.Collect_drains)

theorem collect_balanced_witness:
  "\<exists>r'. Collect (Next int) RecordBatch Err
      (case newOwnedRecordReader True SchemaOk [Batch (3 :: nat), Batch 4, Errno 5 None] ''scan'' None True of (Inr r, _) \<Rightarrow> r) =
    Some (Ret (Inl (streamCallError ''scan'' ''next'' 5 None)), r', [])"
proof -
  obtain r0 where r0: "newOwnedRecordReader True SchemaOk [Batch (3 :: nat), Batch 4, Errno 5 None] ''scan'' None True = (Inr r0, 0)"
    by (simp add: newOwnedRecordReader_def)
  have inv: "reader_inv r0" using reader_inv_new [OF r0] by simp
  have "reader_pending r0 = map Inr [3, 4] @ [Inl (streamCallError ''scan'' ''next'' 5 None)]"
    using r0 by (auto simp: newOwnedRecordReader_def reader_pending_def reader_open_def background_def)
  with collect_balanced [OF inv, of "[3, 4]" "Some (streamCallError ''scan'' ''next'' 5 None)" int] r0 show ?thesis
    by auto
qed

text \<open>C33: Option strings survive the environment. A map of storage options with distinct keys, where
  no key or value has a comma, no key an equals sign, and neither has white space at its ends,
  is read back by \<^verbatim>\<open>parseStorageOptions\<close> exactly as it was written in the form \<^verbatim>\<open>k1=v1,k2=v2\<close>;
  values may contain equals signs.\<close>

theorem storage_options_roundtrip:
  assumes "\<forall>kv \<in> set m. option_ok kv" and "distinct (map fst m)"
  shows "parseStorageOptions (printStorageOptions m) = Inr m"
proof (cases "m = []")
  case True
  have "TrimSpace [] = []" using TrimSpace_id [of "[]"] spaces_plain by (simp add: edge_clean_def)
  with True show ?thesis by (simp add: parseStorageOptions_def printStorageOptions_def)
next
  case False
  have "split_on (CHR '','') (printStorageOptions m) = map (\<lambda>(k, v). k @ ''='' @ v) m"
    unfolding printStorageOptions_def
    by (rule split_on_join) (use False assms(1) in \<open>auto simp: option_ok_def\<close>)
  then show ?thesis
    using parse_pairs_print [of m "[]"] assms by (simp add: parseStorageOptions_def)
qed

theorem storage_options_roundtrip_witness:
  "parseStorageOptions (printStorageOptions (StorageOptions (fst (AzureFixture (\<lambda>_. []) ''x'')))) =
     Inr [(''account_name'', AzuriteAccount), (''account_key'', AzuriteKey), (''use_emulator'', ''true'')]"
proof -
  have "\<forall>kv \<in> set [(''account_name'', AzuriteAccount), (''account_key'', AzuriteKey), (''use_emulator'', ''true'')].
      option_ok kv"
    by (simp add: option_ok_def edge_clean_graphic graphic_def AzuriteAccount_def AzuriteKey_def)
  from storage_options_roundtrip [OF this] show ?thesis
    by (simp add: AzureFixture_def Let_def)
qed

text \<open>Exactly the malformed strings are refused: parsing fails iff some entry between commas,
  stripped of white space, is not empty and has no equals sign.\<close>

theorem storage_options_rejected:
  "(\<exists>msg. parseStorageOptions s = Inl msg) \<longleftrightarrow>
     (\<exists>p \<in> set (split_on (CHR '','') s). TrimSpace p \<noteq> [] \<and> CHR ''='' \<notin> set (TrimSpace p))"
  by (simp add: parseStorageOptions_def parse_pairs_rejects)

end
