(* ===== verification/Spec2Isabelle.thy ===== *)
theory Spec2Isabelle
  imports Lance_Cancel Lance_Hooks Lance_Handle Lance_Encoding Lance_Api Lance_Loop Lance_Support
begin

text \<open>
  Verification of the Go bindings for the Lance columnar format (package \<^verbatim>\<open>lance\<close>, under \<^verbatim>\<open>src/lance\<close>).

  The package is a layer between Go programs and a native library written in Rust
  (\<^verbatim>\<open>src/rust\<close>), which is reached through C. Its own logic is what this development models: the gate that
  every native call passes (cancellation, thread slots, error classification), the ownership of native
  handles, C memory and Arrow structures, the bridge for callbacks from native code into Go, the wire
  and JSON formats on the boundary, the state of record and blob readers, and the operations of the public
  interface with their option documents, locks, telemetry and error texts.

  \<^bold>\<open>The world.\<close> An operation is a program in the state monad over a record \<^verbatim>\<open>world\<close> (theory
  \<^verbatim>\<open>Lance_World\<close>): the state of the native library, a clock for context expiry, pins and cancel tokens, C
  allocations (with a fault flag for double frees), exported Arrow structures, held locks, native handles and the
  closed ones, registered plugins, and the telemetry emitted so far. A \<^verbatim>\<open>defer\<close> is \<^verbatim>\<open>deferring\<close>, an
  \<^verbatim>\<open>error\<close> result is a sum or an option over the type \<^verbatim>\<open>goerr\<close> of error trees, and a panic is the constructor \<^verbatim>\<open>Panic\<close>
  of \<^verbatim>\<open>outcome\<close>. Unsigned machine integers are words; signed ones are integers whose conversions and
  overflows are written out.

  \<^bold>\<open>Theories and sources.\<close>
  \<^item> \<^verbatim>\<open>Lance_Prelude\<close>: byte strings, little-endian numbers, \<^verbatim>\<open>fmt\<close> and \<^verbatim>\<open>strconv\<close> formatting, \<^verbatim>\<open>outcome\<close>.
  \<^item> \<^verbatim>\<open>Lance_Errors\<close>: \<^verbatim>\<open>errors.go\<close>, the sentinels, wrapping, \<^verbatim>\<open>errors.Is\<close> and counting of package prefixes.
  \<^item> \<^verbatim>\<open>Lance_Ffi\<close>: \<^verbatim>\<open>ffiCall\<close> and \<^verbatim>\<open>lastError\<close> of \<^verbatim>\<open>errors.go\<close>, sequentially; \<^verbatim>\<open>Lance_Cancel\<close>: the same call with its
    watcher goroutine and many concurrent calls, as a step relation.
  \<^item> \<^verbatim>\<open>Lance_Callbacks\<close>: \<^verbatim>\<open>callbacks.go\<close> and \<^verbatim>\<open>cbytes.go\<close>, the plugin registry and the dispatch from C into Go.
  \<^item> \<^verbatim>\<open>Lance_Wire\<close> and \<^verbatim>\<open>Lance_Cache\<close>: \<^verbatim>\<open>cache.go\<close>, the decoders of cache keys and the adapters of cache
    backends, with the in-memory backend of \<^verbatim>\<open>examples/plugincache/main.go\<close>.
  \<^item> \<^verbatim>\<open>Lance_Hooks\<close>: \<^verbatim>\<open>hooks.go\<close>, the adapters for write progress, user-defined functions and checkpoints.
  \<^item> \<^verbatim>\<open>Lance_Obs\<close>: \<^verbatim>\<open>observability.go\<close>, spans, metrics, logs and the redaction of dataset URIs.
  \<^item> \<^verbatim>\<open>Lance_Native\<close> and \<^verbatim>\<open>Lance_Json\<close>: JSON documents, C values, \<^verbatim>\<open>json.Marshal\<close> and \<^verbatim>\<open>json.Unmarshal\<close>, UTF-8, times.
    A string that is not UTF-8 is changed by \<^verbatim>\<open>json.Marshal\<close>; what the other side reads from a document is \<^verbatim>\<open>json_wire\<close> of it.
  \<^item> \<^verbatim>\<open>Lance_Ops\<close>: \<^verbatim>\<open>ops.go\<close> and the handles of \<^verbatim>\<open>dataset.go\<close> and \<^verbatim>\<open>fragment.go\<close>; \<^verbatim>\<open>Lance_Handle\<close>: the same handles
    with operations, \<^verbatim>\<open>Close\<close> and the garbage collector's cleanup interleaved; \<^verbatim>\<open>Lance_Export\<close>: calls that export Arrow structures;
    \<^verbatim>\<open>Lance_Sends\<close>: how to say which native call an operation makes and what it does with the answer.
  \<^item> \<^verbatim>\<open>Lance_Reader\<close>: \<^verbatim>\<open>reader.go\<close>, \<^verbatim>\<open>batches\<close> of \<^verbatim>\<open>iter.go\<close>, single batches of \<^verbatim>\<open>take.go\<close>; \<^verbatim>\<open>Lance_Blob\<close>: \<^verbatim>\<open>blob.go\<close>.
  \<^item> \<^verbatim>\<open>Lance_Dataset\<close>: \<^verbatim>\<open>dataset.go\<close>, \<^verbatim>\<open>session.go\<close>, \<^verbatim>\<open>writeparams.go\<close>, opening with a cache.
  \<^item> \<^verbatim>\<open>Lance_Lifecycle\<close>: what the \<^verbatim>\<open>Close\<close> methods of datasets, fragments, sessions and blob lists share.
  \<^item> \<^verbatim>\<open>Lance_Streams\<close>: \<^verbatim>\<open>take.go\<close>, \<^verbatim>\<open>records.go\<close>, \<^verbatim>\<open>fragment.go\<close>, \<^verbatim>\<open>sql.go\<close>, \<^verbatim>\<open>delta.go\<close>, \<^verbatim>\<open>iter.go\<close>.
  \<^item> \<^verbatim>\<open>Lance_Versions\<close>: \<^verbatim>\<open>version.go\<close>, \<^verbatim>\<open>branch.go\<close>; \<^verbatim>\<open>Lance_Config\<close>: \<^verbatim>\<open>config.go\<close>, \<^verbatim>\<open>maintenance.go\<close>.
  \<^item> \<^verbatim>\<open>Lance_Mutation\<close>: \<^verbatim>\<open>mutation.go\<close>, \<^verbatim>\<open>evolution.go\<close>, \<^verbatim>\<open>AddColumnsUDF\<close>; \<^verbatim>\<open>Lance_Transaction\<close>: \<^verbatim>\<open>transaction.go\<close>.
  \<^item> \<^verbatim>\<open>Lance_Scanner\<close>: \<^verbatim>\<open>scanner.go\<close>; \<^verbatim>\<open>Lance_Index\<close>: \<^verbatim>\<open>index.go\<close>, \<^verbatim>\<open>distributed.go\<close>; \<^verbatim>\<open>Lance_Encoding\<close>: \<^verbatim>\<open>encoding.go\<close>.
  \<^item> \<^verbatim>\<open>Lance_Shim\<close>: \<^verbatim>\<open>callbacks_init.go\<close>, \<^verbatim>\<open>Version\<close> of \<^verbatim>\<open>lance.go\<close> and the drivers of the bridge in \<^verbatim>\<open>callbacks.go\<close> and \<^verbatim>\<open>errors.go\<close>,
    against the Rust code they call (\<^verbatim>\<open>rust/src/callbacks.rs\<close>, \<^verbatim>\<open>error.rs\<close>, \<^verbatim>\<open>runtime.rs\<close>, \<^verbatim>\<open>lib.rs\<close>); \<^verbatim>\<open>Lance_Loop\<close>: a cache backend
    behind the whole bridge.
  \<^item> \<^verbatim>\<open>Lance_Disk\<close>: the file-backed byte-range cache of \<^verbatim>\<open>examples/plugincache/main.go\<close>, with SHA-256, paths and a file system.
  \<^item> \<^verbatim>\<open>Lance_Support\<close>: \<^verbatim>\<open>internal/testutil\<close> (test data, draining of readers, object-store fixtures) and the option parser of
    \<^verbatim>\<open>examples/object_store/main.go\<close>.
  \<^item> \<^verbatim>\<open>Lance_Api\<close>: programs, that is sequences of calls of the package.

  \<^bold>\<open>Interfaces.\<close> A cache backend (\<^verbatim>\<open>cache_backend\<close>, interpreted by the in-memory backend), a byte-range cache
  (\<^verbatim>\<open>range_cache\<close>, by the disk cache), a plugin store
  (\<^verbatim>\<open>plugin_store\<close>, by the registry), a record reader (\<^verbatim>\<open>record_reader\<close>, by \<^verbatim>\<open>ownedRecordReader\<close>), an object
  that can be closed (\<^verbatim>\<open>closable\<close>, by datasets, fragments, sessions and blob lists) and the calls of the package
  (\<^verbatim>\<open>exporting_api\<close>, by the models of its methods) are locales; what their clients do is proved in them.

  \<^bold>\<open>What is shown.\<close> The lemma collections \<^verbatim>\<open>keeps_rules\<close>, \<^verbatim>\<open>ends_rules\<close> and \<^verbatim>\<open>yields_rules\<close> carry, for each operation, what it leaves
  unchanged (C memory, locks, exports, plugins), how it accounts for exports, and what its errors look like; \<^verbatim>\<open>op_contract\<close>,
  \<^verbatim>\<open>do_contract\<close>, \<^verbatim>\<open>hands_op\<close> and \<^verbatim>\<open>hands_do\<close> state these contracts and each component proves them for its operations. \<^verbatim>\<open>meets\<close> with its collection \<^verbatim>\<open>meets_rules\<close> states which native
  function an operation calls with which arguments, and with which result it ends. On top
  of them are the properties: no cancel token and no native handle is used after it was freed, under every interleaving;
  teardown and finalisation end and leak nothing; the wire decoders accept exactly the encodings; the cache bridge refines
  a map; readers deliver the stream in order and release it once; reads of a blob stay inside it and deliver its bytes, and a seek moves exactly where its arguments say or is
  rejected; full-text queries are accepted exactly when the checks of the code accept them and their boosts are finite, and index
  configurations exactly when they have a document; \<^verbatim>\<open>Open\<close> sends the one version selector it was given; metadata operations reach the native
  library as the map updates the caller asked for, and a retry timeout reaches it in whole milliseconds; the credentials in a dataset URI
  appear in no telemetry but the errors of a failed call; whole programs are balanced
  and a closed dataset is inert; the package initialises exactly on a matching library; each error variant of the
  Lance library reaches the caller with its message and with the sentinel listed for it; a plugin's answer crosses the shim and comes
  back unchanged, and a cache behind the whole bridge is a map; the disk cache never serves wrong bytes unless a write stops half way;
  option strings are read back as written.

  \<^bold>\<open>Parameters.\<close> The native library is a record of functions (\<^verbatim>\<open>lance_ffi\<close>): any function from its state, the name of the C function
  and the arguments to a code, out parameters and a new state. The only law some theorems need is \<^verbatim>\<open>quiet\<close>: a failing
  function sets no string result (the shims in \<^verbatim>\<open>src/rust\<close> write their results on success only). The theorems on blobs assume that the native range read returns the
  bytes of every range inside the blob, and nothing of other ranges. Arrow's importers and metadata, OpenTelemetry
  providers and \<^verbatim>\<open>net/url\<close> are parameters as well, with their laws as hypotheses where a theorem uses any. In \<^verbatim>\<open>Lance_Shim\<close> the native state
  is the modelled shim itself, with the runtime, \<^verbatim>\<open>malloc\<close> and the race of a token against a sleep as its parameters. In \<^verbatim>\<open>Lance_Disk\<close> the fate of
  each file write is a parameter, and SHA-256 is assumed not to collide on the texts that are hashed. Every recursion is structural or has its measure, but for
  the loop that reads a blob in pieces (\<^verbatim>\<open>read_loop\<close>), which has fuel, and every amount above the length of the blob is proved to be enough; loops over
  readers and the chunking loop of the test data, which may not end, are partial functions into an option whose results are proved to exist.

  \<^bold>\<open>Not modelled.\<close> The Rust exports that call the Lance library, which is third-party code; \<^verbatim>\<open>allocator.go\<close>, which returns
  Arrow's C allocator; the \<^verbatim>\<open>main\<close> functions of the example programs and the readers they build, which call the package in
  sequence and print; the contents of Arrow batches. Interleaving of goroutines is modelled where the code relies on it
  (cancellation, handles); other operations run one after the other, with their locks recorded. The garbage collector's
  cleanup of a handle is one step. A nil slice is told from an empty one only where the code does so.
\<close>

section \<open>Properties of whole programs\<close>

text \<open>C3: programs leave no resources behind. For every sequence of calls of the package that change a dataset
  (deletes, updates, merges, appends, schema changes, tags, configuration, compaction, commits,
  indices) and a native library that sets no result on failure, whatever else it answers: there is one result per
  call, all C memory allocated on the way is freed, every lock is released, every error is
  a context error or carries the package prefix exactly once, and of the Arrow structures that were exported
  only those of calls that the FFI gate rejected are still exported.\<close>

theorem program_balanced:
  assumes "quiet F" and "run_state (exec_all (exec_call c) F prog) w = (es, w')"
  shows "length es = length prog \<and> c_mem w' = c_mem w \<and> held w' = held w \<and> list_all prefixed_opt es \<and>
    (\<exists>zs. exported w' = zs @ exported w \<and> length zs \<le> lost_structs call_structs prog es)"
  using assms by (rule api.program_accounted)

theorem program_balanced_witness:
  "exported (snd (run_state (exec_all (exec_call background) ffi0
     [AppendCall \<lparr>ds_h = 4, ds_obs = None\<rparr>, DropIndexCall \<lparr>ds_h = 4, ds_obs = None\<rparr> ''i''])
     (world0\<lparr>handles := [4 \<mapsto> \<lparr>h_ptr = Some 9, h_cleanup = Some 9\<rparr>]\<rparr>))) = []"
proof -
  let ?d = "\<lparr>ds_h = 4, ds_obs = None\<rparr>"
  let ?m = "exec_all (exec_call background) ffi0 [AppendCall ?d, DropIndexCall ?d ''i'']"
  let ?w = "world0\<lparr>handles := [4 \<mapsto> \<lparr>h_ptr = Some 9, h_cleanup = Some 9\<rparr>]\<rparr>"
  obtain es w' where run: "run_state ?m ?w = (es, w')" by fastforce
  have "fst (run_state ?m ?w) = [None, None]"
    by code_simp
  with run have "es = [None, None]" by simp
  moreover have "quiet ffi0" by (simp add: quiet_def ffi0_def)
  note program_balanced [OF this run]
  ultimately show ?thesis
    using run by (simp add: rejected_def world0_def)
qed

text \<open>C4: after \<^verbatim>\<open>Close\<close>, every sequence of calls on the same dataset, with a context that is never
  done, is refused call by call: each returns an error, the native library is in the state in which \<^verbatim>\<open>Close\<close> left it, no
  Arrow structure is exported and no handle is touched; closing again changes nothing.\<close>

theorem use_after_close_refused:
  assumes "never_done c" and "\<forall>x \<in> set prog. call_dataset x = Some d"
    and "run_state (Dataset_Close d) w = ((), w1)" and "run_state (exec_all (exec_call c) F prog) w1 = (es, w')"
  shows "length es = length prog \<and> None \<notin> set es \<and> native w' = native w1 \<and> exported w' = exported w \<and>
    handles w' = handles w1 \<and> run_state (Dataset_Close d) w1 = ((), w1)"
proof -
  have closed: "handle_ptr (ds_h d) w1 = None"
    using assms(3) by (rule dataset_handle.closed_after)
  have "list_all (\<lambda>x. call_dataset x = Some d) prog"
    using assms(2) by (simp add: list_all_iff)
  from shut_program [OF assms(1) this closed assms(4)]
  have *: "length es = length prog" "list_all is_err es" "idle w' = idle w1"
    by blast+
  have "exported w1 = exported w"
    using assms(3) by (rule dataset_handle.close_keeps)
  moreover have "run_state (Dataset_Close d) w1 = ((), w1)"
    using closed by (rule dataset_handle.close_closed)
  moreover have "None \<notin> set es"
    using *(2) by (auto simp: list_all_iff)
  ultimately show ?thesis
    using * by (simp add: idle_def)
qed


theorem use_after_close_refused_witness:
  "\<exists>w1. run_state (Dataset_Close \<lparr>ds_h = 4, ds_obs = None\<rparr>) (world0\<lparr>handles := [4 \<mapsto> \<lparr>h_ptr = Some 9, h_cleanup = Some 9\<rparr>]\<rparr>) = ((), w1) \<and>
     None \<notin> set (fst (run_state (exec_all (exec_call background) ffi0
       [AppendCall \<lparr>ds_h = 4, ds_obs = None\<rparr>, DropIndexCall \<lparr>ds_h = 4, ds_obs = None\<rparr> ''i'']) w1))"
proof -
  let ?d = "\<lparr>ds_h = 4, ds_obs = None\<rparr>"
  obtain w1 where close: "run_state (Dataset_Close ?d) (world0\<lparr>handles := [4 \<mapsto> \<lparr>h_ptr = Some 9, h_cleanup = Some 9\<rparr>]\<rparr>) = ((), w1)"
    by (metis old.unit.exhaust surj_pair)
  obtain es w' where run: "run_state (exec_all (exec_call background) ffi0 [AppendCall ?d, DropIndexCall ?d ''i'']) w1 = (es, w')"
    by fastforce
  have "never_done background" by (simp add: never_done_def background_def)
  moreover have "\<forall>x \<in> set [AppendCall ?d, DropIndexCall ?d ''i'']. call_dataset x = Some ?d" by simp
  ultimately have "None \<notin> set es"
    using use_after_close_refused [OF _ _ close run] by blast
  with close run show ?thesis by (metis fst_conv)
qed

end
